(* ===== verification/Prelude.thy ===== *)
theory Prelude
  imports Main "HOL-Library.Word" "HOL-Library.Monad_Syntax"
begin

text \<open>
  Shared vocabulary of the development: the machine types of the Go code, Go slices
  with their bounds checks, and the generic facts on lists, options and words that
  the component theories use.

  A Go run-time panic (slice index out of range, nil dereference, explicit
  \<^verbatim>\<open>panic\<close>) is the value \<^term>\<open>None\<close> of an option; every operation that can panic
  has an option as its result and the component theories prove where it is \<^term>\<open>Some\<close>.
\<close>

section \<open>Machine types\<close>

type_synonym byte = "8 word"
type_synonym u64 = "64 word"
type_synonym u256 = "256 word"

text \<open>Fixed-size byte arrays (\<^verbatim>\<open>[20]byte\<close>, \<^verbatim>\<open>[32]byte\<close>) are byte lists; the functions that
  build them produce lists of exactly that length.\<close>

type_synonym bytes = "byte list"
type_synonym Address = "byte list"
type_synonym Hash = "byte list"

named_theorems gas_simps \<open>definitions unfolded by the gas accounting proofs\<close>
named_theorems slice_simps \<open>definitions and bounds of the Go slice operations\<close>

section \<open>Go slices\<close>

text \<open>\<open>go_slice xs lo hi\<close> is \<^verbatim>\<open>xs[lo:hi]\<close>. Go bounds \<open>hi\<close> by the capacity of the slice; the model
  bounds it by the length, so a proof that the result is \<^term>\<open>Some\<close> shows that the program
  never reads past the length.\<close>

definition go_slice :: "'a list \<Rightarrow> nat \<Rightarrow> nat \<Rightarrow> 'a list option" where
  "go_slice xs lo hi =
     (if lo \<le> hi \<and> hi \<le> length xs then Some (take (hi - lo) (drop lo xs)) else None)"

text \<open>\<open>go_index xs i\<close> is \<^verbatim>\<open>xs[i]\<close> for a signed index.\<close>

definition go_index :: "'a list \<Rightarrow> int \<Rightarrow> 'a option" where
  "go_index xs i = (if 0 \<le> i \<and> i < int (length xs) then Some (xs ! nat i) else None)"

text \<open>\<open>go_copy dst src\<close> is the contents of \<open>dst\<close> after the built-in \<^verbatim>\<open>copy(dst, src)\<close>: the shorter of
  the two lengths is copied.\<close>

definition go_copy :: "'a list \<Rightarrow> 'a list \<Rightarrow> 'a list" where
  "go_copy dst src = take (length dst) src @ drop (length src) dst"

text \<open>\<open>write_at xs off ys\<close> replaces the part of \<open>xs\<close> that starts at \<open>off\<close> and is as long as \<open>ys\<close>:
  the effect on a slice of writing \<open>ys\<close> through the subslice \<^verbatim>\<open>xs[off:]\<close>. A write past the
  end panics.\<close>

definition write_at :: "'a list \<Rightarrow> nat \<Rightarrow> 'a list \<Rightarrow> 'a list option" where
  "write_at xs off ys =
     (if off + length ys \<le> length xs
      then Some (take off xs @ ys @ drop (off + length ys) xs) else None)"

lemma go_slice_Some [simp]:
  "lo \<le> hi \<Longrightarrow> hi \<le> length xs \<Longrightarrow> go_slice xs lo hi = Some (take (hi - lo) (drop lo xs))"
  by (simp add: go_slice_def)

lemma go_slice_eq_Some:
  "go_slice xs lo hi = Some ys \<longleftrightarrow> lo \<le> hi \<and> hi \<le> length xs \<and> ys = take (hi - lo) (drop lo xs)"
  by (auto simp: go_slice_def)

lemma go_index_nat [simp]: "i < length xs \<Longrightarrow> go_index xs (int i) = Some (xs ! i)"
  by (simp add: go_index_def)

lemma length_go_copy [simp]: "length (go_copy dst src) = length dst"
  by (simp add: go_copy_def)

lemma go_copy_all: "length dst = length src \<Longrightarrow> go_copy dst src = src"
  by (simp add: go_copy_def)

lemma write_at_Some [simp]:
  "off + length ys \<le> length xs \<Longrightarrow>
     write_at xs off ys = Some (take off xs @ ys @ drop (off + length ys) xs)"
  by (simp add: write_at_def)

lemma write_at_length: "write_at xs off ys = Some zs \<Longrightarrow> length zs = length xs"
  by (auto simp: write_at_def split: if_splits)

lemma write_at_read_back:
  assumes "write_at xs off ys = Some zs"
  shows "go_slice zs off (off + length ys) = Some ys"
  using assms by (auto simp: write_at_def go_slice_def split: if_splits)

lemma write_at_frame:
  assumes "write_at xs off ys = Some zs" and "i < off \<or> off + length ys \<le> i" and "i < length xs"
  shows "zs ! i = xs ! i"
  using assms by (auto simp: write_at_def nth_append split: if_splits)

section \<open>Words\<close>

lemma unat_of_nat_le: "unat (of_nat n :: 'a::len word) \<le> n"
  by (simp add: unat_of_nat)

lemma unat_of_nat_small: "n < 2 ^ LENGTH('a) \<Longrightarrow> unat (of_nat n :: 'a::len word) = n"
  by (simp add: unat_of_nat take_bit_nat_eq_self)

lemma u64_bound: "unat (w :: u64) < 18446744073709551616"
  using unsigned_less [where w = w and 'a = nat] by simp

lemma unat_sub_le:
  fixes a b :: "'a::len word"
  shows "b \<le> a \<Longrightarrow> unat (a - b) = unat a - unat b"
  by (rule unat_sub)

lemma unat_add_le:
  fixes a b :: "'a::len word"
  shows "unat (a + b) \<le> unat a + unat b"
  by (simp add: unat_word_ariths)

lemma unat_add_small:
  fixes a b :: "'a::len word"
  shows "unat a + unat b < 2 ^ LENGTH('a) \<Longrightarrow> unat (a + b) = unat a + unat b"
  by (simp add: unat_word_ariths)

section \<open>Options\<close>

lemma bind_Some_iff: "Option.bind x f = Some y \<longleftrightarrow> (\<exists>z. x = Some z \<and> f z = Some y)"
  by (cases x) auto

end
