(* ===== verification/Evm_Opcodes.thy ===== *)
theory Evm_Opcodes
  imports Prelude
begin

text \<open>
  The operation codes of \<^verbatim>\<open>src/state/runtime/evm/opcodes.go\<close>: the constants, with the prefix
  \<open>op_\<close>, and the table of mnemonics that \<^verbatim>\<open>OpCode.String\<close> reads, after the package's
  \<^verbatim>\<open>init\<close> filled in the ranges.
\<close>

type_synonym OpCode = nat

abbreviation (input) op_STOP :: OpCode where "op_STOP \<equiv> 0x00"
abbreviation (input) op_ADD :: OpCode where "op_ADD \<equiv> 0x01"
abbreviation (input) op_MUL :: OpCode where "op_MUL \<equiv> 0x02"
abbreviation (input) op_SUB :: OpCode where "op_SUB \<equiv> 0x03"
abbreviation (input) op_DIV :: OpCode where "op_DIV \<equiv> 0x04"
abbreviation (input) op_SDIV :: OpCode where "op_SDIV \<equiv> 0x05"
abbreviation (input) op_MOD :: OpCode where "op_MOD \<equiv> 0x06"
abbreviation (input) op_SMOD :: OpCode where "op_SMOD \<equiv> 0x07"
abbreviation (input) op_ADDMOD :: OpCode where "op_ADDMOD \<equiv> 0x08"
abbreviation (input) op_MULMOD :: OpCode where "op_MULMOD \<equiv> 0x09"
abbreviation (input) op_EXP :: OpCode where "op_EXP \<equiv> 0x0A"
abbreviation (input) op_SIGNEXTEND :: OpCode where "op_SIGNEXTEND \<equiv> 0x0B"
abbreviation (input) op_LT :: OpCode where "op_LT \<equiv> 0x10"
abbreviation (input) op_GT :: OpCode where "op_GT \<equiv> 0x11"
abbreviation (input) op_SLT :: OpCode where "op_SLT \<equiv> 0x12"
abbreviation (input) op_SGT :: OpCode where "op_SGT \<equiv> 0x13"
abbreviation (input) op_EQ :: OpCode where "op_EQ \<equiv> 0x14"
abbreviation (input) op_ISZERO :: OpCode where "op_ISZERO \<equiv> 0x15"
abbreviation (input) op_AND :: OpCode where "op_AND \<equiv> 0x16"
abbreviation (input) op_OR :: OpCode where "op_OR \<equiv> 0x17"
abbreviation (input) op_XOR :: OpCode where "op_XOR \<equiv> 0x18"
abbreviation (input) op_NOT :: OpCode where "op_NOT \<equiv> 0x19"
abbreviation (input) op_BYTE :: OpCode where "op_BYTE \<equiv> 0x1A"
abbreviation (input) op_SHL :: OpCode where "op_SHL \<equiv> 0x1B"
abbreviation (input) op_SHR :: OpCode where "op_SHR \<equiv> 0x1C"
abbreviation (input) op_SAR :: OpCode where "op_SAR \<equiv> 0x1D"
abbreviation (input) op_SHA3 :: OpCode where "op_SHA3 \<equiv> 0x20"
abbreviation (input) op_ADDRESS :: OpCode where "op_ADDRESS \<equiv> 0x30"
abbreviation (input) op_BALANCE :: OpCode where "op_BALANCE \<equiv> 0x31"
abbreviation (input) op_ORIGIN :: OpCode where "op_ORIGIN \<equiv> 0x32"
abbreviation (input) op_CALLER :: OpCode where "op_CALLER \<equiv> 0x33"
abbreviation (input) op_CALLVALUE :: OpCode where "op_CALLVALUE \<equiv> 0x34"
abbreviation (input) op_CALLDATALOAD :: OpCode where "op_CALLDATALOAD \<equiv> 0x35"
abbreviation (input) op_CALLDATASIZE :: OpCode where "op_CALLDATASIZE \<equiv> 0x36"
abbreviation (input) op_CALLDATACOPY :: OpCode where "op_CALLDATACOPY \<equiv> 0x37"
abbreviation (input) op_CODESIZE :: OpCode where "op_CODESIZE \<equiv> 0x38"
abbreviation (input) op_CODECOPY :: OpCode where "op_CODECOPY \<equiv> 0x39"
abbreviation (input) op_GASPRICE :: OpCode where "op_GASPRICE \<equiv> 0x3A"
abbreviation (input) op_EXTCODESIZE :: OpCode where "op_EXTCODESIZE \<equiv> 0x3B"
abbreviation (input) op_EXTCODECOPY :: OpCode where "op_EXTCODECOPY \<equiv> 0x3C"
abbreviation (input) op_RETURNDATASIZE :: OpCode where "op_RETURNDATASIZE \<equiv> 0x3D"
abbreviation (input) op_RETURNDATACOPY :: OpCode where "op_RETURNDATACOPY \<equiv> 0x3E"
abbreviation (input) op_EXTCODEHASH :: OpCode where "op_EXTCODEHASH \<equiv> 0x3F"
abbreviation (input) op_BLOCKHASH :: OpCode where "op_BLOCKHASH \<equiv> 0x40"
abbreviation (input) op_COINBASE :: OpCode where "op_COINBASE \<equiv> 0x41"
abbreviation (input) op_TIMESTAMP :: OpCode where "op_TIMESTAMP \<equiv> 0x42"
abbreviation (input) op_NUMBER :: OpCode where "op_NUMBER \<equiv> 0x43"
abbreviation (input) op_DIFFICULTY :: OpCode where "op_DIFFICULTY \<equiv> 0x44"
abbreviation (input) op_GASLIMIT :: OpCode where "op_GASLIMIT \<equiv> 0x45"
abbreviation (input) op_CHAINID :: OpCode where "op_CHAINID \<equiv> 0x46"
abbreviation (input) op_SELFBALANCE :: OpCode where "op_SELFBALANCE \<equiv> 0x47"
abbreviation (input) op_BASEFEE :: OpCode where "op_BASEFEE \<equiv> 0x48"
abbreviation (input) op_POP :: OpCode where "op_POP \<equiv> 0x50"
abbreviation (input) op_MLOAD :: OpCode where "op_MLOAD \<equiv> 0x51"
abbreviation (input) op_MSTORE :: OpCode where "op_MSTORE \<equiv> 0x52"
abbreviation (input) op_MSTORE8 :: OpCode where "op_MSTORE8 \<equiv> 0x53"
abbreviation (input) op_SLOAD :: OpCode where "op_SLOAD \<equiv> 0x54"
abbreviation (input) op_SSTORE :: OpCode where "op_SSTORE \<equiv> 0x55"
abbreviation (input) op_JUMP :: OpCode where "op_JUMP \<equiv> 0x56"
abbreviation (input) op_JUMPI :: OpCode where "op_JUMPI \<equiv> 0x57"
abbreviation (input) op_PC :: OpCode where "op_PC \<equiv> 0x58"
abbreviation (input) op_MSIZE :: OpCode where "op_MSIZE \<equiv> 0x59"
abbreviation (input) op_GAS :: OpCode where "op_GAS \<equiv> 0x5A"
abbreviation (input) op_JUMPDEST :: OpCode where "op_JUMPDEST \<equiv> 0x5B"
abbreviation (input) op_PUSH0 :: OpCode where "op_PUSH0 \<equiv> 0x5F"
abbreviation (input) op_PUSH1 :: OpCode where "op_PUSH1 \<equiv> 0x60"
abbreviation (input) op_PUSH32 :: OpCode where "op_PUSH32 \<equiv> 0x7F"
abbreviation (input) op_DUP1 :: OpCode where "op_DUP1 \<equiv> 0x80"
abbreviation (input) op_DUP16 :: OpCode where "op_DUP16 \<equiv> 0x8F"
abbreviation (input) op_SWAP1 :: OpCode where "op_SWAP1 \<equiv> 0x90"
abbreviation (input) op_SWAP16 :: OpCode where "op_SWAP16 \<equiv> 0x9F"
abbreviation (input) op_LOG0 :: OpCode where "op_LOG0 \<equiv> 0xA0"
abbreviation (input) op_LOG1 :: OpCode where "op_LOG1 \<equiv> 0xA1"
abbreviation (input) op_LOG2 :: OpCode where "op_LOG2 \<equiv> 0xA2"
abbreviation (input) op_LOG3 :: OpCode where "op_LOG3 \<equiv> 0xA3"
abbreviation (input) op_LOG4 :: OpCode where "op_LOG4 \<equiv> 0xA4"
abbreviation (input) op_CREATE :: OpCode where "op_CREATE \<equiv> 0xF0"
abbreviation (input) op_CALL :: OpCode where "op_CALL \<equiv> 0xF1"
abbreviation (input) op_CALLCODE :: OpCode where "op_CALLCODE \<equiv> 0xF2"
abbreviation (input) op_RETURN :: OpCode where "op_RETURN \<equiv> 0xF3"
abbreviation (input) op_DELEGATECALL :: OpCode where "op_DELEGATECALL \<equiv> 0xF4"
abbreviation (input) op_CREATE2 :: OpCode where "op_CREATE2 \<equiv> 0xF5"
abbreviation (input) op_STATICCALL :: OpCode where "op_STATICCALL \<equiv> 0xFA"
abbreviation (input) op_REVERT :: OpCode where "op_REVERT \<equiv> 0xFD"
abbreviation (input) op_SELFDESTRUCT :: OpCode where "op_SELFDESTRUCT \<equiv> 0xFF"

definition opCodeToString0 :: "(OpCode \<times> string) list" where
  "opCodeToString0 = [
     (op_STOP, ''STOP''), (op_ADD, ''ADD''), (op_MUL, ''MUL''),
     (op_SUB, ''SUB''), (op_DIV, ''DIV''), (op_SDIV, ''SDIV''),
     (op_MOD, ''MOD''), (op_SMOD, ''SMOD''), (op_EXP, ''EXP''),
     (op_NOT, ''NOT''), (op_LT, ''LT''), (op_GT, ''GT''),
     (op_SLT, ''SLT''), (op_SGT, ''SGT''), (op_EQ, ''EQ''),
     (op_ISZERO, ''ISZERO''), (op_SIGNEXTEND, ''SIGNEXTEND''), (op_AND, ''AND''),
     (op_OR, ''OR''), (op_XOR, ''XOR''), (op_BYTE, ''BYTE''),
     (op_SHL, ''SHL''), (op_SHR, ''SHR''), (op_SAR, ''SAR''),
     (op_ADDMOD, ''ADDMOD''), (op_MULMOD, ''MULMOD''), (op_SHA3, ''SHA3''),
     (op_ADDRESS, ''ADDRESS''), (op_BALANCE, ''BALANCE''), (op_ORIGIN, ''ORIGIN''),
     (op_CALLER, ''CALLER''), (op_CALLVALUE, ''CALLVALUE''), (op_CALLDATALOAD, ''CALLDATALOAD''),
     (op_CALLDATASIZE, ''CALLDATASIZE''), (op_CALLDATACOPY, ''CALLDATACOPY''), (op_CODESIZE, ''CODESIZE''),
     (op_CODECOPY, ''CODECOPY''), (op_GASPRICE, ''GASPRICE''), (op_EXTCODESIZE, ''EXTCODESIZE''),
     (op_EXTCODECOPY, ''EXTCODECOPY''), (op_RETURNDATASIZE, ''RETURNDATASIZE''), (op_RETURNDATACOPY, ''RETURNDATACOPY''),
     (op_EXTCODEHASH, ''EXTCODEHASH''), (op_BLOCKHASH, ''BLOCKHASH''), (op_COINBASE, ''COINBASE''),
     (op_TIMESTAMP, ''TIMESTAMP''), (op_NUMBER, ''NUMBER''), (op_DIFFICULTY, ''DIFFICULTY''),
     (op_GASLIMIT, ''GASLIMIT''), (op_BASEFEE, ''BASEFEE''), (op_POP, ''POP''),
     (op_MLOAD, ''MLOAD''), (op_MSTORE, ''MSTORE''), (op_MSTORE8, ''MSTORE8''),
     (op_SLOAD, ''SLOAD''), (op_SSTORE, ''SSTORE''), (op_JUMP, ''JUMP''),
     (op_JUMPI, ''JUMPI''), (op_PC, ''PC''), (op_MSIZE, ''MSIZE''),
     (op_GAS, ''GAS''), (op_JUMPDEST, ''JUMPDEST''), (op_CREATE, ''CREATE''),
     (op_CALL, ''CALL''), (op_RETURN, ''RETURN''), (op_CALLCODE, ''CALLCODE''),
     (op_DELEGATECALL, ''DELEGATECALL''), (op_CREATE2, ''CREATE2''), (op_STATICCALL, ''STATICCALL''),
     (op_REVERT, ''REVERT''), (op_SELFDESTRUCT, ''SELFDESTRUCT''), (op_CHAINID, ''CHAINID''),
     (op_SELFBALANCE, ''SELFBALANCE'')]"

fun digits :: "nat \<Rightarrow> string" where
  "digits n = (if n < 10 then [char_of (48 + n)] else digits (n div 10) @ [char_of (48 + n mod 10)])"

declare digits.simps [simp del]

function opCodesToString_loop ::
  "OpCode \<Rightarrow> OpCode \<Rightarrow> string \<Rightarrow> nat \<Rightarrow> (OpCode \<rightharpoonup> string) \<Rightarrow> (OpCode \<rightharpoonup> string)" where
  "opCodesToString_loop i to str c m =
     (if i \<le> to then opCodesToString_loop (i + 1) to str (c + 1) (m(i \<mapsto> str @ digits c)) else m)"
  by pat_completeness auto
termination
  by (relation "measure (\<lambda>(i, to, str, c, m). Suc to - i)") auto

declare opCodesToString_loop.simps [simp del]

definition opCodesToString ::
  "OpCode \<Rightarrow> OpCode \<Rightarrow> string \<Rightarrow> (OpCode \<rightharpoonup> string) \<Rightarrow> (OpCode \<rightharpoonup> string)" where
  "opCodesToString from to str m =
     opCodesToString_loop from to str (if from = op_LOG0 then 0 else 1) m"

definition opCodeToString :: "OpCode \<rightharpoonup> string" where
  "opCodeToString =
     opCodesToString op_SWAP1 op_SWAP16 ''SWAP''
      (opCodesToString op_LOG0 op_LOG4 ''LOG''
       (opCodesToString op_DUP1 op_DUP16 ''DUP''
        (opCodesToString op_PUSH1 op_PUSH32 ''PUSH'' (map_of opCodeToString0))))"

text \<open>Reading a missing key of a Go map gives the zero value, the empty string.\<close>

definition OpCode_String :: "OpCode \<Rightarrow> string" where
  "OpCode_String op = (case opCodeToString op of None \<Rightarrow> [] | Some s \<Rightarrow> s)"

lemma opCodesToString_loop_other:
  "op < i \<or> to < op \<Longrightarrow> opCodesToString_loop i to str c m op = m op"
proof (induction i to str c m rule: opCodesToString_loop.induct)
  case (1 i to str c m)
  show ?case
  proof (cases "i \<le> to")
    case True
    have "opCodesToString_loop (i + 1) to str (c + 1) (m(i \<mapsto> str @ digits c)) op =
            (m(i \<mapsto> str @ digits c)) op"
      by (rule "1.IH" [OF True]) (use "1.prems" in linarith)
    then show ?thesis
      using True "1.prems" by (subst opCodesToString_loop.simps) auto
  next
    case False
    then show ?thesis by (subst opCodesToString_loop.simps) simp
  qed
qed

lemma opCodesToString_loop_in:
  "i \<le> op \<Longrightarrow> op \<le> to \<Longrightarrow>
     opCodesToString_loop i to str c m op = Some (str @ digits (c + (op - i)))"
proof (induction i to str c m rule: opCodesToString_loop.induct)
  case (1 i to str c m)
  show ?case
  proof (cases "op = i")
    case True
    with "1.prems" show ?thesis
      by (subst opCodesToString_loop.simps) (simp add: opCodesToString_loop_other)
  next
    case False
    with "1.prems" have le: "i \<le> to" "i + 1 \<le> op" "c + 1 + (op - (i + 1)) = c + (op - i)"
      by auto
    from "1.IH" [OF le(1,2) "1.prems"(2)] le show ?thesis
      by (subst opCodesToString_loop.simps) (simp only: if_True)
  qed
qed

lemmas opCodesToString_ranges =
  opCodesToString_def opCodesToString_loop_in opCodesToString_loop_other

end
