(* ===== verification/Helpers.thy ===== *)
theory Helpers
  imports Prelude
begin

text \<open>
  The helper packages that the modelled components call:
  \<^verbatim>\<open>src/helper/common/common.go\<close> (integer helpers, byte-slice helpers, the object pool)
  and the fixed-size byte arrays of \<^verbatim>\<open>src/types/types.go\<close>.
  Go's \<^verbatim>\<open>encoding/binary\<close> big-endian conversions are \<open>be_bytes\<close> and \<open>of_be_bytes\<close>.
\<close>

section \<open>Big-endian byte strings\<close>

definition be_bytes :: "nat \<Rightarrow> 'a::len word \<Rightarrow> bytes" where
  "be_bytes n w = map (\<lambda>i. ucast (drop_bit (8 * i) w)) (rev [0..<n])"

definition of_be_bytes :: "bytes \<Rightarrow> 'a::len word" where
  "of_be_bytes bs = foldl (\<lambda>acc b. or (push_bit 8 acc) (ucast b)) 0 bs"

lemma length_be_bytes [simp]: "length (be_bytes n w) = n"
  by (simp add: be_bytes_def)

lemma of_be_bytes_Nil [simp]: "of_be_bytes [] = 0"
  by (simp add: of_be_bytes_def)

lemma of_be_bytes_snoc: "of_be_bytes (bs @ [b]) = or (push_bit 8 (of_be_bytes bs)) (ucast b)"
  by (simp add: of_be_bytes_def)

lemma bit_of_be_bytes:
  "bit (of_be_bytes bs :: 'a::len word) n \<longleftrightarrow>
     n < LENGTH('a) \<and> n div 8 < length bs \<and> bit (rev bs ! (n div 8)) (n mod 8)"
proof (induction bs arbitrary: n rule: rev_induct)
  case Nil
  then show ?case by simp
next
  case (snoc b bs)
  show ?case
  proof (cases "n < 8")
    case True
    then show ?thesis
      by (auto simp: of_be_bytes_snoc bit_or_iff bit_push_bit_iff bit_ucast_iff)
  next
    case False
    then have d: "n div 8 = Suc ((n - 8) div 8)" and m: "n mod 8 = (n - 8) mod 8"
      by (simp_all add: le_div_geq le_mod_geq)
    have "\<not> bit b n"
      using False bit_imp_le_length [of b n] by auto
    then show ?thesis
      using False snoc.IH [of "n - 8"] d m
      by (auto simp: of_be_bytes_snoc bit_or_iff bit_push_bit_iff bit_ucast_iff)
  qed
qed

lemma bit_be_bytes_nth:
  assumes "i < n" and "j < 8"
  shows "bit (rev (be_bytes n w) ! i) j \<longleftrightarrow> bit w (8 * i + j)"
  using assms
  by (simp add: be_bytes_def rev_map bit_ucast_iff bit_drop_bit_eq ac_simps)

lemma of_be_bytes_be_bytes:
  fixes w :: "'a::len word"
  assumes "LENGTH('a) \<le> 8 * n"
  shows "of_be_bytes (be_bytes n w) = w"
proof (rule bit_word_eqI)
  fix m assume m: "m < LENGTH('a)"
  then have "m div 8 < n" using assms by linarith
  moreover have "8 * (m div 8) + m mod 8 = m" by simp
  ultimately show "bit (of_be_bytes (be_bytes n w) :: 'a word) m \<longleftrightarrow> bit w m"
    using m bit_be_bytes_nth [of "m div 8" n "m mod 8" w] by (simp add: bit_of_be_bytes)
qed

lemma be_bytes_of_be_bytes:
  assumes "length bs = n" and "8 * n \<le> LENGTH('a::len)"
  shows "be_bytes n (of_be_bytes bs :: 'a word) = bs"
proof -
  have "rev (be_bytes n (of_be_bytes bs :: 'a word)) ! i = rev bs ! i" if i: "i < n" for i
  proof (rule bit_word_eqI)
    fix j assume "j < LENGTH(8)"
    then have j: "j < 8" by simp
    then have "(8 * i + j) div 8 = i" "(8 * i + j) mod 8 = j" by simp_all
    then show "bit (rev (be_bytes n (of_be_bytes bs :: 'a word)) ! i) j \<longleftrightarrow> bit (rev bs ! i) j"
      using i j assms by (simp add: bit_be_bytes_nth bit_of_be_bytes)
  qed
  then have "rev (be_bytes n (of_be_bytes bs :: 'a word)) = rev bs"
    using assms by (intro nth_equalityI) simp_all
  then show ?thesis by simp
qed

section \<open>helper/common\<close>

definition Min :: "u64 \<Rightarrow> u64 \<Rightarrow> u64" where
  "Min a b = (if a < b then a else b)"

definition Max :: "u64 \<Rightarrow> u64 \<Rightarrow> u64" where
  "Max a b = (if a > b then a else b)"

definition BigMin :: "int \<Rightarrow> int \<Rightarrow> int" where
  "BigMin x y = (if x > y then y else x)"

definition BigMax :: "int \<Rightarrow> int \<Rightarrow> int" where
  "BigMax x y = (if x > y then x else y)"

definition PadLeftOrTrim :: "bytes \<Rightarrow> nat \<Rightarrow> bytes" where
  "PadLeftOrTrim bb sz =
     (let l = length bb in
      if l = sz then bb
      else if l > sz then drop (l - sz) bb
      else replicate (sz - l) 0 @ bb)"

definition ExtendByteSlice :: "bytes \<Rightarrow> nat \<Rightarrow> bytes" where
  "ExtendByteSlice b needLength =
     (let b' = (if needLength > length b then b @ replicate (needLength - length b) 0 else b)
      in take needLength b')"

text \<open>Go's \<^verbatim>\<open>big.Int.Div\<close> is Euclidean division and panics on a zero divisor.\<close>

definition big_Div :: "int \<Rightarrow> int \<Rightarrow> int option" where
  "big_Div a b = (if b = 0 then None else Some (sgn b * (a div \<bar>b\<bar>)))"

definition BigIntDivCeil :: "int \<Rightarrow> int \<Rightarrow> int option" where
  "BigIntDivCeil a b = big_Div (a + b - 1) b"

definition SafeAddUint64 :: "u64 \<Rightarrow> u64 \<Rightarrow> u64 \<times> bool" where
  "SafeAddUint64 a b =
     (let sum = a + b in if sum < a \<or> sum < b then (0, True) else (sum, False))"

definition EncodeUint64ToBytes :: "u64 \<Rightarrow> bytes" where
  "EncodeUint64ToBytes value = be_bytes 8 value"

definition EncodeBytesToUint64 :: "bytes \<Rightarrow> u64 option" where
  "EncodeBytesToUint64 b = (if length b < 8 then None else Some (of_be_bytes (take 8 b)))"

text \<open>The generic object pool: a stack of objects of type \<^typ>\<open>'a\<close>.\<close>

record 'a UnsafePool =
  pool_stack :: "'a list"

definition UnsafePool_Get :: "'a UnsafePool \<Rightarrow> (unit \<Rightarrow> 'a) \<Rightarrow> 'a \<times> 'a UnsafePool" where
  "UnsafePool_Get f newFunc =
     (let n = length (pool_stack f) in
      if n = 0 then (newFunc (), f)
      else (pool_stack f ! (n - 1), f\<lparr>pool_stack := take (n - 1) (pool_stack f)\<rparr>))"

definition UnsafePool_Put :: "'a UnsafePool \<Rightarrow> ('a \<Rightarrow> 'a) option \<Rightarrow> 'a \<Rightarrow> 'a UnsafePool" where
  "UnsafePool_Put f resetFunc obj =
     (let obj = (case resetFunc of None \<Rightarrow> obj | Some r \<Rightarrow> r obj)
      in f\<lparr>pool_stack := pool_stack f @ [obj]\<rparr>)"

section \<open>types: hashes and addresses\<close>

definition HashLength :: nat where "HashLength = 32"
definition AddressLength :: nat where "AddressLength = 20"

definition Less :: "nat \<Rightarrow> nat \<Rightarrow> nat" where
  "Less i j = (if i < j then i else j)"

definition BytesToHash :: "bytes \<Rightarrow> Hash" where
  "BytesToHash b =
     (let capped = Less (length b) HashLength
      in replicate (HashLength - capped) 0 @ drop (length b - capped) b)"

definition BytesToAddress :: "bytes \<Rightarrow> Address" where
  "BytesToAddress b =
     (let capped = Less (length b) AddressLength
      in replicate (AddressLength - capped) 0 @ drop (length b - capped) b)"

definition ZeroHash :: Hash where "ZeroHash = replicate HashLength 0"
definition ZeroAddress :: Address where "ZeroAddress = replicate AddressLength 0"

section \<open>Facts\<close>

lemma length_ExtendByteSlice [simp]: "length (ExtendByteSlice b n) = n"
  by (simp add: ExtendByteSlice_def Let_def)

lemma ExtendByteSlice_nth:
  "i < n \<Longrightarrow> ExtendByteSlice b n ! i = (if i < length b then b ! i else 0)"
  by (simp add: ExtendByteSlice_def Let_def nth_append)

lemma SafeAddUint64_ok:
  "SafeAddUint64 a b = (s, False) \<Longrightarrow> unat s = unat a + unat b"
  by (auto simp: SafeAddUint64_def Let_def not_less split: if_splits
           dest: unat_plus_simple [THEN iffD1])

lemma SafeAddUint64_overflow:
  "snd (SafeAddUint64 a b) \<longleftrightarrow> 2 ^ 64 \<le> unat a + unat b"
proof -
  have lt: "unat a < 2 ^ 64" "unat b < 2 ^ 64"
    using unsigned_less [of a] unsigned_less [of b] by simp_all
  have "a + b < a \<longleftrightarrow> 2 ^ 64 \<le> unat a + unat b"
    using lt by (auto simp: word_less_nat_alt unat_plus_if_size word_size)
  moreover have "a + b < b \<longleftrightarrow> 2 ^ 64 \<le> unat a + unat b"
    using lt by (auto simp: word_less_nat_alt unat_plus_if_size word_size)
  ultimately show ?thesis by (auto simp: SafeAddUint64_def Let_def)
qed

lemma length_BytesToHash [simp]: "length (BytesToHash b) = 32"
  by (simp add: BytesToHash_def Less_def HashLength_def Let_def)

lemma length_BytesToAddress [simp]: "length (BytesToAddress b) = 20"
  by (simp add: BytesToAddress_def Less_def AddressLength_def Let_def)

lemma BytesToHash_id: "length h = 32 \<Longrightarrow> BytesToHash h = h"
  by (simp add: BytesToHash_def Less_def HashLength_def)

lemma BytesToAddress_id: "length a = 20 \<Longrightarrow> BytesToAddress a = a"
  by (simp add: BytesToAddress_def Less_def AddressLength_def)

lemma PadLeftOrTrim_length [simp]: "length (PadLeftOrTrim b n) = n"
  by (auto simp: PadLeftOrTrim_def Let_def)

lemma EncodeUint64_roundtrip:
  "EncodeBytesToUint64 (EncodeUint64ToBytes v) = Some v"
  by (simp add: EncodeBytesToUint64_def EncodeUint64ToBytes_def of_be_bytes_be_bytes)

text \<open>The pool returns what was put last, after the reset function ran on it.\<close>

lemma UnsafePool_Get_Put:
  "UnsafePool_Get (UnsafePool_Put f (Some r) x) new = (r x, f)"
  by (simp add: UnsafePool_Get_def UnsafePool_Put_def nth_append)

end
