(* ===== verification/Uint256.thy ===== *)
theory Uint256
  imports Helpers
begin

text \<open>
  The 256-bit integer library \<^verbatim>\<open>github.com/holiman/uint256\<close> is not part of the repository.
  Its value type (four 64-bit limbs) is a \<^typ>\<open>256 word\<close>; its methods are a parameter of the
  interpreter, the record \<open>uint256\<close>, with one field per method the instructions call.
  \<open>uint256_doc\<close> states the documented behaviour of the methods, and \<open>uint256_std\<close> is an
  instance that has it, used to evaluate examples.
\<close>

record uint256 =
  u_Add :: "u256 \<Rightarrow> u256 \<Rightarrow> u256"
  u_Mul :: "u256 \<Rightarrow> u256 \<Rightarrow> u256"
  u_Sub :: "u256 \<Rightarrow> u256 \<Rightarrow> u256"
  u_Div :: "u256 \<Rightarrow> u256 \<Rightarrow> u256"
  u_SDiv :: "u256 \<Rightarrow> u256 \<Rightarrow> u256"
  u_Mod :: "u256 \<Rightarrow> u256 \<Rightarrow> u256"
  u_SMod :: "u256 \<Rightarrow> u256 \<Rightarrow> u256"
  u_Exp :: "u256 \<Rightarrow> u256 \<Rightarrow> u256"
  u_AddMod :: "u256 \<Rightarrow> u256 \<Rightarrow> u256 \<Rightarrow> u256"
  u_MulMod :: "u256 \<Rightarrow> u256 \<Rightarrow> u256 \<Rightarrow> u256"
  u_And :: "u256 \<Rightarrow> u256 \<Rightarrow> u256"
  u_Or :: "u256 \<Rightarrow> u256 \<Rightarrow> u256"
  u_Xor :: "u256 \<Rightarrow> u256 \<Rightarrow> u256"
  u_Not :: "u256 \<Rightarrow> u256"
  u_Byte :: "u256 \<Rightarrow> u256 \<Rightarrow> u256"
  u_ExtendSign :: "u256 \<Rightarrow> u256 \<Rightarrow> u256"
  u_Lsh :: "u256 \<Rightarrow> nat \<Rightarrow> u256"
  u_Rsh :: "u256 \<Rightarrow> nat \<Rightarrow> u256"
  u_SRsh :: "u256 \<Rightarrow> nat \<Rightarrow> u256"
  u_IsZero :: "u256 \<Rightarrow> bool"
  u_Eq :: "u256 \<Rightarrow> u256 \<Rightarrow> bool"
  u_Lt :: "u256 \<Rightarrow> u256 \<Rightarrow> bool"
  u_Gt :: "u256 \<Rightarrow> u256 \<Rightarrow> bool"
  u_Slt :: "u256 \<Rightarrow> u256 \<Rightarrow> bool"
  u_Sgt :: "u256 \<Rightarrow> u256 \<Rightarrow> bool"
  u_LtUint64 :: "u256 \<Rightarrow> u64 \<Rightarrow> bool"
  u_Sign :: "u256 \<Rightarrow> int"
  u_BitLen :: "u256 \<Rightarrow> nat"
  u_IsUint64 :: "u256 \<Rightarrow> bool"
  u_Uint64 :: "u256 \<Rightarrow> u64"
  u_SetUint64 :: "u64 \<Rightarrow> u256"
  u_SetBytes :: "bytes \<Rightarrow> u256"
  u_Bytes :: "u256 \<Rightarrow> bytes"
  u_WriteToSlice :: "u256 \<Rightarrow> nat \<Rightarrow> bytes"
  u_FromBig :: "int \<Rightarrow> u256 \<times> bool"
  u_ToBig :: "u256 \<Rightarrow> int"

section \<open>Documented behaviour\<close>

text \<open>Minimal big-endian representation: leading zero bytes are dropped.\<close>

definition min_bytes :: "u256 \<Rightarrow> bytes" where
  "min_bytes w = dropWhile (\<lambda>b. b = 0) (be_bytes 32 w)"

definition bit_len :: "u256 \<Rightarrow> nat" where
  "bit_len w = length (dropWhile Not (map (bit w) (rev [0..<256])))"

definition trunc_div :: "int \<Rightarrow> int \<Rightarrow> int" where
  "trunc_div a b = sgn a * sgn b * (\<bar>a\<bar> div \<bar>b\<bar>)"

definition trunc_mod :: "int \<Rightarrow> int \<Rightarrow> int" where
  "trunc_mod a b = sgn a * (\<bar>a\<bar> mod \<bar>b\<bar>)"

definition sign_extend :: "u256 \<Rightarrow> u256 \<Rightarrow> u256" where
  "sign_extend x k =
     (if 31 \<le> k then x
      else word_of_int (signed_take_bit (8 * unat k + 7) (uint x)))"

definition uint256_doc :: "uint256 \<Rightarrow> bool" where
  "uint256_doc U \<longleftrightarrow>
     (\<forall>x y. u_Add U x y = x + y) \<and>
     (\<forall>x y. u_Mul U x y = x * y) \<and>
     (\<forall>x y. u_Sub U x y = x - y) \<and>
     (\<forall>x y. u_Div U x y = x div y) \<and>
     (\<forall>x y. u_SDiv U x y = word_of_int (trunc_div (sint x) (sint y))) \<and>
     (\<forall>x y. u_Mod U x y = (if y = 0 then 0 else x mod y)) \<and>
     (\<forall>x y. u_SMod U x y = (if y = 0 then 0 else word_of_int (trunc_mod (sint x) (sint y)))) \<and>
     (\<forall>x y. u_Exp U x y = x ^ unat y) \<and>
     (\<forall>x y m. u_AddMod U x y m = (if m = 0 then 0 else word_of_int ((uint x + uint y) mod uint m))) \<and>
     (\<forall>x y m. u_MulMod U x y m = (if m = 0 then 0 else word_of_int ((uint x * uint y) mod uint m))) \<and>
     (\<forall>x y. u_And U x y = and x y) \<and>
     (\<forall>x y. u_Or U x y = or x y) \<and>
     (\<forall>x y. u_Xor U x y = xor x y) \<and>
     (\<forall>x. u_Not U x = not x) \<and>
     (\<forall>x n. u_Byte U x n = (if n < 32 then ucast (be_bytes 32 x ! unat n) else 0)) \<and>
     (\<forall>x k. u_ExtendSign U x k = sign_extend x k) \<and>
     (\<forall>x n. u_Lsh U x n = push_bit n x) \<and>
     (\<forall>x n. u_Rsh U x n = drop_bit n x) \<and>
     (\<forall>x n. u_SRsh U x n = signed_drop_bit n x) \<and>
     (\<forall>x. u_IsZero U x \<longleftrightarrow> x = 0) \<and>
     (\<forall>x y. u_Eq U x y \<longleftrightarrow> x = y) \<and>
     (\<forall>x y. u_Lt U x y \<longleftrightarrow> x < y) \<and>
     (\<forall>x y. u_Gt U x y \<longleftrightarrow> y < x) \<and>
     (\<forall>x y. u_Slt U x y \<longleftrightarrow> sint x < sint y) \<and>
     (\<forall>x y. u_Sgt U x y \<longleftrightarrow> sint y < sint x) \<and>
     (\<forall>x n. u_LtUint64 U x n \<longleftrightarrow> unat x < unat n) \<and>
     (\<forall>x. u_Sign U x = sgn (sint x)) \<and>
     (\<forall>x. u_BitLen U x = bit_len x) \<and>
     (\<forall>x. u_IsUint64 U x \<longleftrightarrow> unat x < 2 ^ 64) \<and>
     (\<forall>x. u_Uint64 U x = ucast x) \<and>
     (\<forall>n. u_SetUint64 U n = ucast n) \<and>
     (\<forall>b. u_SetBytes U b = of_be_bytes b) \<and>
     (\<forall>x. u_Bytes U x = min_bytes x) \<and>
     (\<forall>x n. u_WriteToSlice U x n = be_bytes n x) \<and>
     (\<forall>i. u_FromBig U i = (word_of_int i, \<bar>i\<bar> \<ge> 2 ^ 256)) \<and>
     (\<forall>x. u_ToBig U x = uint x)"

definition uint256_std :: uint256 where
  "uint256_std = \<lparr>
     u_Add = (+), u_Mul = (*), u_Sub = (-), u_Div = (div),
     u_SDiv = (\<lambda>x y. word_of_int (trunc_div (sint x) (sint y))),
     u_Mod = (\<lambda>x y. if y = 0 then 0 else x mod y),
     u_SMod = (\<lambda>x y. if y = 0 then 0 else word_of_int (trunc_mod (sint x) (sint y))),
     u_Exp = (\<lambda>x y. x ^ unat y),
     u_AddMod = (\<lambda>x y m. if m = 0 then 0 else word_of_int ((uint x + uint y) mod uint m)),
     u_MulMod = (\<lambda>x y m. if m = 0 then 0 else word_of_int ((uint x * uint y) mod uint m)),
     u_And = and, u_Or = or, u_Xor = xor, u_Not = not,
     u_Byte = (\<lambda>x n. if n < 32 then ucast (be_bytes 32 x ! unat n) else 0),
     u_ExtendSign = sign_extend,
     u_Lsh = (\<lambda>x n. push_bit n x), u_Rsh = (\<lambda>x n. drop_bit n x),
     u_SRsh = (\<lambda>x n. signed_drop_bit n x),
     u_IsZero = (\<lambda>x. x = 0), u_Eq = (=), u_Lt = (<), u_Gt = (>),
     u_Slt = (\<lambda>x y. sint x < sint y), u_Sgt = (\<lambda>x y. sint y < sint x),
     u_LtUint64 = (\<lambda>x n. unat x < unat n),
     u_Sign = (\<lambda>x. sgn (sint x)), u_BitLen = bit_len,
     u_IsUint64 = (\<lambda>x. unat x < 2 ^ 64), u_Uint64 = ucast, u_SetUint64 = ucast,
     u_SetBytes = of_be_bytes, u_Bytes = min_bytes, u_WriteToSlice = (\<lambda>x n. be_bytes n x),
     u_FromBig = (\<lambda>i. (word_of_int i, \<bar>i\<bar> \<ge> 2 ^ 256)), u_ToBig = uint \<rparr>"

lemma uint256_doc_std [simp]: "uint256_doc uint256_std"
  unfolding uint256_doc_def by (simp add: uint256_std_def)

text \<open>The documented behaviour as rewrite rules, for a library \<open>U\<close> that has it.\<close>

lemma uint256_docD:
  assumes "uint256_doc U"
  shows "u_Add U x y = x + y" "u_Mul U x y = x * y" "u_Sub U x y = x - y" "u_Div U x y = x div y"
    "u_Mod U x y = (if y = 0 then 0 else x mod y)" "u_Exp U x y = x ^ unat y"
    "u_And U x y = and x y" "u_Or U x y = or x y" "u_Xor U x y = xor x y" "u_Not U x = not x"
    "u_Lsh U x n = push_bit n x" "u_Rsh U x n = drop_bit n x" "u_SRsh U x n = signed_drop_bit n x"
    "u_IsZero U x \<longleftrightarrow> x = 0" "u_Eq U x y \<longleftrightarrow> x = y" "u_Lt U x y \<longleftrightarrow> x < y" "u_Gt U x y \<longleftrightarrow> y < x"
    "u_Slt U x y \<longleftrightarrow> sint x < sint y" "u_Sgt U x y \<longleftrightarrow> sint y < sint x"
    "u_LtUint64 U x w \<longleftrightarrow> unat x < unat w" "u_Sign U x = sgn (sint x)" "u_BitLen U x = bit_len x"
    "u_IsUint64 U x \<longleftrightarrow> unat x < 2 ^ 64" "u_Uint64 U x = ucast x" "u_SetUint64 U w = ucast w"
    "u_SetBytes U b = of_be_bytes b" "u_Bytes U x = min_bytes x" "u_WriteToSlice U x n = be_bytes n x"
    "u_FromBig U i = (word_of_int i, \<bar>i\<bar> \<ge> 2 ^ 256)" "u_ToBig U x = uint x"
    "u_ExtendSign U x k = sign_extend x k"
  using assms unfolding uint256_doc_def by simp_all

lemma uint256_Sign_zero: "uint256_doc U \<Longrightarrow> u_Sign U x = 0 \<longleftrightarrow> x = 0"
  by (simp add: uint256_docD sgn_0_0 signed_eq_0_iff)

lemma uint256_Uint64_small:
  "uint256_doc U \<Longrightarrow> u_IsUint64 U x \<Longrightarrow> unat (u_Uint64 U x) = unat x"
  by (simp add: uint256_docD unsigned_ucast_eq take_bit_nat_eq_self)

end
