(* ===== verification/Chain_Params.thy ===== *)
theory Chain_Params
  imports Helpers
begin

text \<open>
  Chain parameters (\<^verbatim>\<open>src/chain/params.go\<close>): the table of hard forks and the set of forks that
  is active at a block, and the schedule of burn contracts. A Go map is a map; the loop over
  the keys of the burn-contract map collects them in some order and sorts them, so the
  map is given as an association list with distinct keys.
\<close>

record Fork =
  f_Block :: u64

type_synonym Forks = "string \<rightharpoonup> Fork"

definition Fork_Active :: "Fork \<Rightarrow> u64 \<Rightarrow> bool" where
  "Fork_Active f block = (block \<ge> f_Block f)"

definition IsActive :: "Forks \<Rightarrow> string \<Rightarrow> u64 \<Rightarrow> bool" where
  "IsActive f name block = (case f name of None \<Rightarrow> False | Some ff \<Rightarrow> Fork_Active ff block)"

definition SetFork :: "Forks \<Rightarrow> string \<Rightarrow> Fork \<Rightarrow> Forks" where
  "SetFork f name value = f(name \<mapsto> value)"

definition RemoveFork :: "Forks \<Rightarrow> string \<Rightarrow> Forks" where
  "RemoveFork f name = f(name := None)"

record ForksInTime =
  Homestead :: bool
  Byzantium :: bool
  Constantinople :: bool
  Petersburg :: bool
  Istanbul :: bool
  London :: bool
  EIP150 :: bool
  EIP158 :: bool
  EIP155 :: bool
  Governance :: bool
  EIP3855 :: bool
  Berlin :: bool
  EIP3607 :: bool

definition Forks_At :: "Forks \<Rightarrow> u64 \<Rightarrow> ForksInTime" where
  "Forks_At f block = \<lparr>
     Homestead = IsActive f ''homestead'' block,
     Byzantium = IsActive f ''byzantium'' block,
     Constantinople = IsActive f ''constantinople'' block,
     Petersburg = IsActive f ''petersburg'' block,
     Istanbul = IsActive f ''istanbul'' block,
     London = IsActive f ''london'' block,
     EIP150 = IsActive f ''EIP150'' block,
     EIP158 = IsActive f ''EIP158'' block,
     EIP155 = IsActive f ''EIP155'' block,
     Governance = IsActive f ''governance'' block,
     EIP3855 = IsActive f ''EIP3855'' block,
     Berlin = IsActive f ''Berlin'' block,
     EIP3607 = IsActive f ''EIP3607'' block \<rparr>"

definition AllForksEnabled :: Forks where
  "AllForksEnabled = map_of (map (\<lambda>n. (n, \<lparr>f_Block = 0\<rparr>))
     [''homestead'', ''EIP150'', ''EIP155'', ''EIP158'', ''byzantium'', ''constantinople'',
      ''petersburg'', ''istanbul'', ''london'', ''governance'', ''EIP3855'', ''Berlin'', ''EIP3607''])"

section \<open>Burn contract schedule\<close>

datatype params_error = ErrBurnContractAddressMissing

text \<open>The scan of \<^verbatim>\<open>CalculateBurnContract\<close> over the sorted start blocks, from index \<open>i\<close> on.\<close>

fun burn_scan :: "u64 list \<Rightarrow> u64 \<Rightarrow> u64 option" where
  "burn_scan [] block = None"
| "burn_scan [b] block = Some b"
| "burn_scan (b # b' # bs) block =
     (if block \<ge> b \<and> block < b' then Some b else burn_scan (b' # bs) block)"

definition CalculateBurnContract ::
  "(u64 \<times> Address) list \<Rightarrow> u64 \<Rightarrow> params_error + Address" where
  "CalculateBurnContract burnContract block =
     (case burn_scan (sort (map fst burnContract)) block of
        None \<Rightarrow> Inl ErrBurnContractAddressMissing
      | Some b \<Rightarrow> Inr (case map_of burnContract b of None \<Rightarrow> ZeroAddress | Some a \<Rightarrow> a))"

lemma Forks_At_mono:
  "b \<le> b' \<Longrightarrow> IsActive f n b \<Longrightarrow> IsActive f n b'"
  by (auto simp: IsActive_def Fork_Active_def split: option.splits)

lemma burn_scan_spec:
  assumes "sorted bs" and "bs \<noteq> []" and "hd bs \<le> block"
  shows "\<exists>b. burn_scan bs block = Some b \<and> b \<in> set bs \<and> b \<le> block \<and>
             (\<forall>x \<in> set bs. x \<le> block \<longrightarrow> x \<le> b)"
  using assms
proof (induction bs block rule: burn_scan.induct)
  case (3 b b' bs block)
  show ?case
  proof (cases "block < b'")
    case True
    then have "\<forall>x \<in> set (b' # bs). \<not> x \<le> block"
      using "3.prems"(1) by (auto dest: le_less_trans)
    then show ?thesis using True "3.prems" by auto
  next
    case False
    then obtain c where c: "burn_scan (b' # bs) block = Some c" "c \<in> set (b' # bs)" "c \<le> block"
        "\<forall>x \<in> set (b' # bs). x \<le> block \<longrightarrow> x \<le> c"
      using "3.IH" "3.prems" by (auto simp: not_less)
    then have "b \<le> c" using "3.prems"(1) by auto
    with c False show ?thesis by auto
  qed
qed auto

text \<open>From the first start block on, the burn contract is the one with the latest start block
  that is not after the given block.\<close>

lemma CalculateBurnContract_latest:
  assumes "distinct (map fst bc)" and "(s, a0) \<in> set bc" and "s \<le> block"
  shows "\<exists>b a. CalculateBurnContract bc block = Inr a \<and> (b, a) \<in> set bc \<and> b \<le> block \<and>
               (\<forall>(x, y) \<in> set bc. x \<le> block \<longrightarrow> x \<le> b)"
proof -
  let ?bs = "sort (map fst bc)"
  have mem: "s \<in> set ?bs" using assms(2) by force
  then have ne: "?bs \<noteq> []" by (metis empty_iff list.set(1))
  have "hd ?bs \<le> s"
    using mem ne by (metis list.exhaust_sel list.set_intros(1) order_refl set_ConsD sorted_sort sorted_wrt.simps(2))
  then have "hd ?bs \<le> block" using assms(3) by (rule order_trans)
  then obtain b where b: "burn_scan ?bs block = Some b" "b \<in> set ?bs" "b \<le> block"
      "\<forall>x \<in> set ?bs. x \<le> block \<longrightarrow> x \<le> b"
    using burn_scan_spec [of ?bs block] ne by auto
  then obtain a where a: "(b, a) \<in> set bc" by force
  then have "map_of bc b = Some a" using assms(1) by simp
  with a b show ?thesis
    by (intro exI [of _ b] exI [of _ a]) (force simp: CalculateBurnContract_def)
qed

end
