(* ===== verification/Runtime.thy ===== *)
theory Runtime
  imports Uint256 Chain_Params
begin

text \<open>
  The interface between the interpreter and its host, \<^verbatim>\<open>src/state/runtime/runtime.go\<close>: the
  transaction context, the storage status, the contract frame, the execution result and its
  errors, and the \<^verbatim>\<open>Host\<close> interface. A Go interface value is a method table and a data
  pointer: the method table is the record \<open>Host\<close>, its data is a value of type \<^typ>\<open>'h\<close> that
  the interpreter threads through every call.

  The access list of \<^verbatim>\<open>access_list.go\<close> is declared here because results carry it.
\<close>

type_synonym AccessList = "Address \<rightharpoonup> Hash set"

record TxContext =
  ctx_GasPrice :: Hash
  ctx_Origin :: Address
  ctx_Coinbase :: Address
  ctx_Number :: u64
  ctx_Timestamp :: u64
  ctx_GasLimit :: u64
  ctx_ChainID :: u64
  ctx_Difficulty :: Hash
  ctx_NonPayable :: bool
  ctx_BaseFee :: int
  ctx_BurnContract :: Address

datatype StorageStatus =
  StorageUnchanged | StorageModified | StorageModifiedAgain | StorageAdded | StorageDeleted

text \<open>Errors of the runtime, of the interpreter and of the balance and nonce operations of the
  state that surface through execution results.\<close>

datatype Error =
  ErrOutOfGas | ErrNotEnoughFunds | ErrInsufficientBalance | ErrMaxCodeSizeExceeded
| ErrContractAddressCollision | ErrDepth | ErrExecutionReverted | ErrCodeStoreOutOfGas
| ErrUnauthorizedCaller | ErrInvalidInputData | ErrNotAuth | ErrInvalidCode
| StackUnderflowError nat nat | StackOverflowError nat nat | StackOutOfBoundsError nat int
| errGasUintOverflow | errWriteProtection | errInvalidJump | errOpCodeNotFound
| errReturnDataOutOfBounds | errInvalidBalanceValue | errInvalidMessageValue
| ErrNonceUintOverflow | ErrSnapshotRange nat | ErrJournalRevision nat | ErrRuntimeNotFound
| ErrPrecompile string | TypesErrInsufficientFunds | errNoFunctionSignature | errInputTooShort
| errFunctionNotFound | errListWriteProtection | errAdminSelfRemove

datatype CallType = Call | CallCode | DelegateCall | StaticCall | Create | Create2

record Contract =
  c_Code :: bytes
  c_Type :: CallType
  c_CodeAddress :: Address
  c_Address :: Address
  c_Origin :: Address
  c_Caller :: Address
  c_Depth :: nat
  c_Value :: "int option"
  c_Input :: bytes
  c_Gas :: u64
  c_Static :: bool

definition NewContract ::
  "nat \<Rightarrow> Address \<Rightarrow> Address \<Rightarrow> Address \<Rightarrow> int option \<Rightarrow> u64 \<Rightarrow> bytes \<Rightarrow> Contract" where
  "NewContract depth origin from to value gas code = \<lparr>
     c_Code = code, c_Type = Call, c_CodeAddress = to, c_Address = to, c_Origin = origin,
     c_Caller = from, c_Depth = depth, c_Value = value, c_Input = [], c_Gas = gas,
     c_Static = False \<rparr>"

definition NewContractCreation ::
  "nat \<Rightarrow> Address \<Rightarrow> Address \<Rightarrow> Address \<Rightarrow> int option \<Rightarrow> u64 \<Rightarrow> bytes \<Rightarrow> Contract" where
  "NewContractCreation depth origin from to value gas code =
     NewContract depth origin from to value gas code"

definition NewContractCall ::
  "nat \<Rightarrow> Address \<Rightarrow> Address \<Rightarrow> Address \<Rightarrow> int option \<Rightarrow> u64 \<Rightarrow> bytes \<Rightarrow> bytes \<Rightarrow> Contract" where
  "NewContractCall depth origin from to value gas code input =
     (NewContract depth origin from to value gas code)\<lparr>c_Input := input\<rparr>"

record ExecutionResult =
  r_ReturnValue :: bytes
  r_GasLeft :: u64
  r_GasUsed :: u64
  r_Err :: "Error option"
  r_Address :: Address
  r_AccessList :: "AccessList option"

text \<open>A composite literal \<^verbatim>\<open>&ExecutionResult{GasLeft: g, Err: e}\<close>: every other field is zero.\<close>

definition ErrResult :: "u64 \<Rightarrow> Error \<Rightarrow> ExecutionResult" where
  "ErrResult g e = \<lparr>r_ReturnValue = [], r_GasLeft = g, r_GasUsed = 0, r_Err = Some e,
     r_Address = ZeroAddress, r_AccessList = None\<rparr>"

definition Succeeded :: "ExecutionResult \<Rightarrow> bool" where
  "Succeeded r = (r_Err r = None)"

definition Failed :: "ExecutionResult \<Rightarrow> bool" where
  "Failed r = (r_Err r \<noteq> None)"

definition Reverted :: "ExecutionResult \<Rightarrow> bool" where
  "Reverted r = (r_Err r = Some ErrExecutionReverted)"

text \<open>Unsigned division in Go panics on a zero divisor; the quotient is 2 or 5 at the only
  call site.\<close>

definition UpdateGasUsed :: "ExecutionResult \<Rightarrow> u64 \<Rightarrow> u64 \<Rightarrow> u64 \<Rightarrow> ExecutionResult" where
  "UpdateGasUsed r gasLimit refund refundQuotient =
     (let used = gasLimit - r_GasLeft r;
          maxRefund = used div refundQuotient;
          refund = (if refund > maxRefund then maxRefund else refund)
      in r\<lparr>r_GasLeft := r_GasLeft r + refund, r_GasUsed := used - refund\<rparr>)"

record 'h Host =
  AccountExists :: "'h \<Rightarrow> Address \<Rightarrow> bool"
  GetStorage :: "'h \<Rightarrow> Address \<Rightarrow> Hash \<Rightarrow> Hash"
  SetStorage :: "'h \<Rightarrow> Address \<Rightarrow> Hash \<Rightarrow> Hash \<Rightarrow> ForksInTime \<Rightarrow> StorageStatus \<times> 'h"
  GetBalance :: "'h \<Rightarrow> Address \<Rightarrow> int"
  GetCodeSize :: "'h \<Rightarrow> Address \<Rightarrow> nat \<times> 'h"
  GetCodeHash :: "'h \<Rightarrow> Address \<Rightarrow> Hash"
  GetCode :: "'h \<Rightarrow> Address \<Rightarrow> bytes \<times> 'h"
  Selfdestruct :: "'h \<Rightarrow> Address \<Rightarrow> Address \<Rightarrow> 'h"
  GetTxContext :: "'h \<Rightarrow> TxContext"
  GetBlockHash :: "'h \<Rightarrow> u64 \<Rightarrow> Hash"
  EmitLog :: "'h \<Rightarrow> Address \<Rightarrow> Hash list \<Rightarrow> bytes \<Rightarrow> 'h"
  Callx :: "'h \<Rightarrow> Contract \<Rightarrow> (ExecutionResult \<times> 'h) option"
  Empty :: "'h \<Rightarrow> Address \<Rightarrow> bool"
  GetNonce :: "'h \<Rightarrow> Address \<Rightarrow> u64"
  Transfer :: "'h \<Rightarrow> Address \<Rightarrow> Address \<Rightarrow> int option \<Rightarrow> Error option \<times> 'h"
  AddSlotToAccessList :: "'h \<Rightarrow> Address \<Rightarrow> Hash \<Rightarrow> 'h"
  AddAddressToAccessList :: "'h \<Rightarrow> Address \<Rightarrow> 'h"
  ContainsAccessListAddress :: "'h \<Rightarrow> Address \<Rightarrow> bool"
  ContainsAccessListSlot :: "'h \<Rightarrow> Address \<Rightarrow> Hash \<Rightarrow> bool \<times> bool"

text \<open>A gas limit and a gas-left value below it: the refund is capped by the quotient, and used
  and left gas still add up to the limit.\<close>

lemma UpdateGasUsed_balance:
  assumes "r_GasLeft r \<le> gl" and "0 < q"
  shows "unat (r_GasUsed (UpdateGasUsed r gl rf q)) + unat (r_GasLeft (UpdateGasUsed r gl rf q))
           = unat gl"
    and "unat (r_GasUsed (UpdateGasUsed r gl rf q)) \<ge>
           unat (gl - r_GasLeft r) - unat (gl - r_GasLeft r) div unat q"
proof -
  define used where "used = gl - r_GasLeft r"
  define f where "f = (if rf > used div q then used div q else rf)"
  have u: "unat used = unat gl - unat (r_GasLeft r)"
    unfolding used_def using assms(1) by (rule unat_sub)
  have gl: "unat (r_GasLeft r) \<le> unat gl" using assms(1) by (simp add: word_le_nat_alt)
  have fb: "unat f \<le> unat used div unat q"
    by (auto simp: f_def unat_div word_less_nat_alt not_less)
  have fu: "unat f \<le> unat used"
    using fb div_le_dividend [of "unat used" "unat q"] by linarith
  have s1: "unat (used - f) = unat used - unat f"
    using fu by (intro unat_sub) (simp add: word_le_nat_alt)
  have "unat (r_GasLeft r) + unat f < 2 ^ LENGTH(64)"
    using fu u gl u64_bound [of gl] by simp
  then have s2: "unat (r_GasLeft r + f) = unat (r_GasLeft r) + unat f"
    by (rule unat_add_small)
  have used_eq: "r_GasUsed (UpdateGasUsed r gl rf q) = used - f"
    and left_eq: "r_GasLeft (UpdateGasUsed r gl rf q) = r_GasLeft r + f"
    by (simp_all add: UpdateGasUsed_def Let_def used_def f_def)
  show "unat (r_GasUsed (UpdateGasUsed r gl rf q)) + unat (r_GasLeft (UpdateGasUsed r gl rf q))
           = unat gl"
    using s1 s2 u fu gl unfolding used_eq left_eq by simp
  show "unat (r_GasUsed (UpdateGasUsed r gl rf q)) \<ge>
           unat (gl - r_GasLeft r) - unat (gl - r_GasLeft r) div unat q"
    using s1 fb unfolding used_eq used_def [symmetric] by simp
qed

end
