(* ===== verification/Evm_State.thy ===== *)
theory Evm_State
  imports Runtime
begin

text \<open>
  The machine state of the interpreter and the operations of
  \<^verbatim>\<open>src/state/runtime/evm/state.go\<close>, \<^verbatim>\<open>optimized_stack.go\<close> and \<^verbatim>\<open>bitmap.go\<close>: operand stack,
  jump-destination bitmap, gas counter and byte memory.

  The interpreter runs without a tracer (\<^verbatim>\<open>GetTracer()\<close> is nil), so the capture calls do
  nothing. \<open>env\<close> collects what the instructions take from outside the package: the 256-bit
  integer library, the host's method table, the Keccak-256 hash and the RLP encoding of
  the pair (address, nonce).
\<close>

section \<open>Operand stack\<close>

text \<open>The stack is a slice whose last element is the top.\<close>

type_synonym OptimizedStack = "u256 list"

definition stack_push :: "OptimizedStack \<Rightarrow> u256 \<Rightarrow> OptimizedStack" where
  "stack_push s val = s @ [val]"

definition stack_pop :: "OptimizedStack \<Rightarrow> (u256 \<times> Error option) \<times> OptimizedStack" where
  "stack_pop s =
     (let sp = length s in
      if sp = 0 then ((0, Some (StackUnderflowError 0 0)), s)
      else ((s ! (sp - 1), None), take (sp - 1) s))"

text \<open>\<open>stack_top\<close> is the element the returned pointer designates; \<^term>\<open>None\<close> is the nil pointer.\<close>

definition stack_top :: "OptimizedStack \<Rightarrow> u256 option" where
  "stack_top s = (let sp = length s in if sp = 0 then None else Some (s ! (sp - 1)))"

definition stack_peekAt :: "OptimizedStack \<Rightarrow> int \<Rightarrow> (Error + u256) option" where
  "stack_peekAt s n =
     (if n < 0 \<or> n > int (length s) then Some (Inl (StackOutOfBoundsError (length s) n))
      else map_option Inr (go_index s (int (length s) - n)))"

definition stack_swap :: "OptimizedStack \<Rightarrow> int \<Rightarrow> Error option \<times> OptimizedStack" where
  "stack_swap s n =
     (let sz = length s in
      if sz = 0 then (Some (StackOutOfBoundsError sz n), s)
      else if n < 0 \<or> n \<ge> int sz then (Some (StackOutOfBoundsError sz n), s)
      else let sp = sz - 1; k = sp - nat n
           in (None, s[sp := s ! k, k := s ! sp]))"

section \<open>Jump-destination bitmap\<close>

definition bitmap_isSet :: "bytes \<Rightarrow> nat \<Rightarrow> bool option" where
  "bitmap_isSet buf i =
     (if i div 8 < length buf then Some (bit (buf ! (i div 8)) (i mod 8)) else None)"

definition bitmap_set :: "bytes \<Rightarrow> nat \<Rightarrow> bytes option" where
  "bitmap_set buf i =
     (if i div 8 < length buf
      then Some (buf[i div 8 := or (buf ! (i div 8)) (push_bit (i mod 8) 1)]) else None)"

definition bitmap_reset :: "bytes \<Rightarrow> bytes" where
  "bitmap_reset buf = take 0 (map (\<lambda>_. 0) buf)"

definition isPushOp :: "byte \<Rightarrow> bool" where
  "isPushOp i = (drop_bit 5 i = 3)"

abbreviation (input) JUMPDEST :: nat where "JUMPDEST \<equiv> 0x5B"

function setCode_loop :: "bytes \<Rightarrow> nat \<Rightarrow> bytes \<Rightarrow> bytes option" where
  "setCode_loop code i buf =
     (if i < length code then
        let c = code ! i in
        if isPushOp c then setCode_loop code (i + (unat c - 0x60 + 2)) buf
        else if unat c = JUMPDEST
             then Option.bind (bitmap_set buf i) (setCode_loop code (i + 1))
             else setCode_loop code (i + 1) buf
      else Some buf)"
  by pat_completeness auto
termination
  by (relation "measure (\<lambda>(code, i, buf). length code - i)") auto

definition bitmap_setCode :: "bytes \<Rightarrow> bytes \<Rightarrow> bytes option" where
  "bitmap_setCode buf code =
     setCode_loop code 0 (ExtendByteSlice buf (length code div 8 + 1))"

section \<open>Machine state\<close>

record 'h state =
  st_ip :: int
  st_code :: bytes
  st_tmp :: bytes
  st_host :: 'h
  st_msg :: Contract
  st_config :: ForksInTime
  st_memory :: bytes
  st_lastGasCost :: u64
  st_stack :: OptimizedStack
  st_err :: "Error option"
  st_stop :: bool
  st_gas :: u64
  st_currentConsumedGas :: u64
  st_bitmap :: bytes
  st_returnData :: bytes
  st_ret :: bytes

record 'h env =
  env_U :: uint256
  env_H :: "'h Host"
  env_keccak :: "bytes \<Rightarrow> bytes"
  env_rlpAddrNonce :: "Address \<Rightarrow> u64 \<Rightarrow> bytes"

definition stackSize :: nat where "stackSize = 1024"

definition state_reset :: "'h state \<Rightarrow> 'h state" where
  "state_reset c = c\<lparr>st_ip := 0, st_gas := 0, st_currentConsumedGas := 0, st_lastGasCost := 0,
     st_stop := False, st_err := None, st_bitmap := bitmap_reset (st_bitmap c),
     st_stack := take 0 (st_stack c), st_tmp := take 0 (st_tmp c), st_ret := take 0 (st_ret c),
     st_code := take 0 (st_code c), st_memory := take 0 (map (\<lambda>_. 0) (st_memory c))\<rparr>"

definition validJumpdest :: "'h env \<Rightarrow> 'h state \<Rightarrow> u256 \<Rightarrow> bool option" where
  "validJumpdest E c dest =
     (let udest = u_Uint64 (env_U E) dest; overflow = \<not> u_IsUint64 (env_U E) dest in
      if overflow \<or> udest \<ge> of_nat (length (st_code c)) then Some False
      else bitmap_isSet (st_bitmap c) (unat udest))"

definition Halt :: "'h state \<Rightarrow> 'h state" where
  "Halt c = c\<lparr>st_stop := True\<rparr>"

definition exit :: "'h state \<Rightarrow> Error option \<Rightarrow> 'h state" where
  "exit c e = (case e of None \<Rightarrow> c | Some x \<Rightarrow> c\<lparr>st_stop := True, st_err := Some x\<rparr>)"

definition push :: "'h state \<Rightarrow> u256 \<Rightarrow> 'h state" where
  "push c val = c\<lparr>st_stack := stack_push (st_stack c) val\<rparr>"

definition stackAtLeast :: "'h state \<Rightarrow> nat \<Rightarrow> bool" where
  "stackAtLeast c n = (length (st_stack c) \<ge> n)"

definition pop :: "'h state \<Rightarrow> u256 \<times> 'h state" where
  "pop c = (case stack_pop (st_stack c) of ((v, _), s) \<Rightarrow> (v, c\<lparr>st_stack := s\<rparr>))"

definition top :: "'h state \<Rightarrow> u256 option" where
  "top c = stack_top (st_stack c)"

text \<open>A write through the pointer that \<^verbatim>\<open>top()\<close> returned.\<close>

definition set_top :: "'h state \<Rightarrow> u256 \<Rightarrow> 'h state" where
  "set_top c v = c\<lparr>st_stack := (st_stack c)[length (st_stack c) - 1 := v]\<rparr>"

definition uint256ToHash :: "'h env \<Rightarrow> u256 \<Rightarrow> Hash" where
  "uint256ToHash E b = BytesToHash (u_Bytes (env_U E) b)"

definition popHash :: "'h env \<Rightarrow> 'h state \<Rightarrow> Hash \<times> 'h state" where
  "popHash E c = (let (v, c) = pop c in (BytesToHash (u_Bytes (env_U E) v), c))"

definition popAddr :: "'h env \<Rightarrow> 'h state \<Rightarrow> (Address \<times> bool) \<times> 'h state" where
  "popAddr E c =
     (case stack_pop (st_stack c) of
        ((b, Some _), s) \<Rightarrow> ((ZeroAddress, False), c\<lparr>st_stack := s\<rparr>)
      | ((b, None), s) \<Rightarrow> ((BytesToAddress (u_Bytes (env_U E) b), True), c\<lparr>st_stack := s\<rparr>))"

definition peekAt :: "'h state \<Rightarrow> int \<Rightarrow> (Error + u256) option" where
  "peekAt c n = stack_peekAt (st_stack c) n"

definition swap :: "'h state \<Rightarrow> int \<Rightarrow> Error option \<times> 'h state" where
  "swap c n = (case stack_swap (st_stack c) n of (e, s) \<Rightarrow> (e, c\<lparr>st_stack := s\<rparr>))"

definition consumeGas :: "'h state \<Rightarrow> u64 \<Rightarrow> bool \<times> 'h state" where
  "consumeGas c g =
     (let c = c\<lparr>st_currentConsumedGas := st_currentConsumedGas c + g\<rparr> in
      if st_gas c < g then (False, exit c (Some ErrOutOfGas))
      else (True, c\<lparr>st_gas := st_gas c - g\<rparr>))"

definition resetReturnData :: "'h state \<Rightarrow> 'h state" where
  "resetReturnData c = c\<lparr>st_returnData := take 0 (st_returnData c)\<rparr>"

definition inStaticCall :: "'h state \<Rightarrow> bool" where
  "inStaticCall c = c_Static (st_msg c)"

text \<open>The cost of a memory of \<open>w\<close> words, in 64-bit arithmetic as the code computes it.\<close>

definition memCost :: "u64 \<Rightarrow> u64" where
  "memCost w = 3 * w + w * w div 512"

definition allocateMemory :: "'h env \<Rightarrow> 'h state \<Rightarrow> u256 \<Rightarrow> u256 \<Rightarrow> bool \<times> 'h state" where
  "allocateMemory E c offset sz =
     (let U = env_U E in
      if \<not> u_IsUint64 U offset \<or> \<not> u_IsUint64 U sz
      then (False, exit c (Some errReturnDataOutOfBounds))
      else if u_Sign U sz = 0 then (True, c)
      else let o' = u_Uint64 U offset; s = u_Uint64 U sz in
        if o' > 0xffffffffe0 \<or> s > 0xffffffffe0
        then (False, exit c (Some errReturnDataOutOfBounds))
        else let newSize = o' + s; currentSize = of_nat (length (st_memory c)) in
          if currentSize < newSize then
            let w = (newSize + 31) div 32;
                newCost = memCost w;
                cost = newCost - st_lastGasCost c;
                c = c\<lparr>st_lastGasCost := newCost\<rparr>;
                (ok, c) = consumeGas c cost
            in if \<not> ok then (False, c)
               else (True, c\<lparr>st_memory := ExtendByteSlice (st_memory c) (unat (w * 32))\<rparr>)
          else (True, c))"

definition get2 ::
  "'h env \<Rightarrow> 'h state \<Rightarrow> bytes \<Rightarrow> u256 \<Rightarrow> u256 \<Rightarrow> ((bytes \<times> bool) \<times> 'h state) option" where
  "get2 E c dst offset len =
     (if u_Sign (env_U E) len = 0 then Some (([], True), c)
      else let (ok, c) = allocateMemory E c offset len in
        if \<not> ok then Some (([], False), c)
        else let o' = u_Uint64 (env_U E) offset; l = u_Uint64 (env_U E) len in
          Option.bind (go_slice (st_memory c) (unat o') (unat (o' + l)))
            (\<lambda>m. Some ((dst @ m, True), c)))"

definition CurrentOpCode :: "'h state \<Rightarrow> (nat \<times> bool) option" where
  "CurrentOpCode c =
     (if st_ip c \<ge> int (length (st_code c)) then Some (0, False)
      else map_option (\<lambda>b. (unat b, True)) (go_index (st_code c) (st_ip c)))"

end
