(* ===== verification/Evm_Instructions.thy ===== *)
theory Evm_Instructions
  imports Evm_State
begin

text \<open>
  The instructions of the interpreter, \<^verbatim>\<open>src/state/runtime/evm/instructions.go\<close>, one definition
  per Go function in the order of the file. An instruction maps a machine state to a
  machine state; \<^term>\<open>None\<close> is a run-time panic. The early returns of the code after a failed
  \<^verbatim>\<open>consumeGas\<close> or \<^verbatim>\<open>allocateMemory\<close> are the \<open>if \<not> ok\<close> branches.
\<close>

section \<open>Helpers of the instructions\<close>

type_synonym 'h instruction = "'h env \<Rightarrow> 'h state \<Rightarrow> 'h state option"

definition ColdAccountAccessCostEIP2929 :: u64 where "ColdAccountAccessCostEIP2929 = 2600"
definition ColdStorageReadCostEIP2929 :: u64 where "ColdStorageReadCostEIP2929 = 2100"
definition WarmStorageReadCostEIP2929 :: u64 where "WarmStorageReadCostEIP2929 = 100"

definition wordSize256 :: u256 where "wordSize256 = 32"

definition equalOrOverflows8bits :: "'h env \<Rightarrow> u256 \<Rightarrow> bool" where
  "equalOrOverflows8bits E b = (u_BitLen (env_U E) b > 8)"

definition less :: "u64 \<Rightarrow> u64 \<Rightarrow> u64" where
  "less i j = (if i < j then i else j)"

definition calculateGasForEIP2929 :: "'h env \<Rightarrow> 'h state \<Rightarrow> Address \<Rightarrow> u64 \<times> 'h state" where
  "calculateGasForEIP2929 E c addr =
     (if ContainsAccessListAddress (env_H E) (st_host c) addr then (WarmStorageReadCostEIP2929, c)
      else (ColdAccountAccessCostEIP2929,
            c\<lparr>st_host := AddAddressToAccessList (env_H E) (st_host c) addr\<rparr>))"

text \<open>The limb \<^verbatim>\<open>z[i]\<close> of a 256-bit integer and the byte \<^verbatim>\<open>byte(z[i] >> 8*k)\<close> of a limb.\<close>

definition limb :: "u256 \<Rightarrow> nat \<Rightarrow> u64" where
  "limb z i = ucast (drop_bit (64 * i) z)"

definition limb_byte :: "u256 \<Rightarrow> nat \<Rightarrow> nat \<Rightarrow> byte" where
  "limb_byte z i k = ucast (drop_bit (8 * k) (limb z i))"

definition WriteToSlice32 :: "u256 \<Rightarrow> bytes" where
  "WriteToSlice32 z =
    [limb_byte z 3 7, limb_byte z 3 6, limb_byte z 3 5, limb_byte z 3 4,
     limb_byte z 3 3, limb_byte z 3 2, limb_byte z 3 1, limb_byte z 3 0,
     limb_byte z 2 7, limb_byte z 2 6, limb_byte z 2 5, limb_byte z 2 4,
     limb_byte z 2 3, limb_byte z 2 2, limb_byte z 2 1, limb_byte z 2 0,
     limb_byte z 1 7, limb_byte z 1 6, limb_byte z 1 5, limb_byte z 1 4,
     limb_byte z 1 3, limb_byte z 1 2, limb_byte z 1 1, limb_byte z 1 0,
     limb_byte z 0 7, limb_byte z 0 6, limb_byte z 0 5, limb_byte z 0 4,
     limb_byte z 0 3, limb_byte z 0 2, limb_byte z 0 1, limb_byte z 0 0]"

definition WriteToSlice :: "'h env \<Rightarrow> u256 \<Rightarrow> nat \<Rightarrow> bytes" where
  "WriteToSlice E z n = (if n = 32 then WriteToSlice32 z else u_WriteToSlice (env_U E) z n)"

text \<open>\<^verbatim>\<open>SetOne\<close> and \<^verbatim>\<open>SetUint64(0)\<close> on the result of a comparison.\<close>

definition bool_word :: "bool \<Rightarrow> u256" where
  "bool_word b = (if b then 1 else 0)"

section \<open>Arithmetic and bitwise operations\<close>

definition opAdd :: "'h instruction" where
  "opAdd E c = do {
     let (a, c) = pop c;
     b \<leftarrow> top c;
     Some (set_top c (u_Add (env_U E) a b))
   }"

definition opMul :: "'h instruction" where
  "opMul E c = do {
     let (a, c) = pop c;
     b \<leftarrow> top c;
     Some (set_top c (u_Mul (env_U E) a b))
   }"

definition opSub :: "'h instruction" where
  "opSub E c = do {
     let (a, c) = pop c;
     b \<leftarrow> top c;
     Some (set_top c (u_Sub (env_U E) a b))
   }"

definition opDiv :: "'h instruction" where
  "opDiv E c = do {
     let (a, c) = pop c;
     b \<leftarrow> top c;
     Some (set_top c (u_Div (env_U E) a b))
   }"

definition opSDiv :: "'h instruction" where
  "opSDiv E c = do {
     let (a, c) = pop c;
     b \<leftarrow> top c;
     Some (set_top c (u_SDiv (env_U E) a b))
   }"

definition opMod :: "'h instruction" where
  "opMod E c = do {
     let (a, c) = pop c;
     b \<leftarrow> top c;
     Some (set_top c (u_Mod (env_U E) a b))
   }"

definition opSMod :: "'h instruction" where
  "opSMod E c = do {
     let (a, c) = pop c;
     b \<leftarrow> top c;
     Some (set_top c (u_SMod (env_U E) a b))
   }"

definition opExp :: "'h instruction" where
  "opExp E c = do {
     let (x, c) = pop c;
     y \<leftarrow> top c;
     let gas = (if EIP158 (st_config c) then 50 else 10);
     let gasCost = of_nat ((u_BitLen (env_U E) y + 7) div 8) * gas;
     let (ok, c) = consumeGas c gasCost;
     if \<not> ok then Some c
     else Some (set_top c (u_Exp (env_U E) x y))
   }"

definition opAddMod :: "'h instruction" where
  "opAddMod E c = do {
     let (a, c) = pop c;
     let (b, c) = pop c;
     z \<leftarrow> top c;
     Some (set_top c (u_AddMod (env_U E) a b z))
   }"

definition opMulMod :: "'h instruction" where
  "opMulMod E c = do {
     let (a, c) = pop c;
     let (b, c) = pop c;
     z \<leftarrow> top c;
     Some (set_top c (u_MulMod (env_U E) a b z))
   }"

definition opAnd :: "'h instruction" where
  "opAnd E c = do {
     let (a, c) = pop c;
     b \<leftarrow> top c;
     Some (set_top c (u_And (env_U E) a b))
   }"

definition opOr :: "'h instruction" where
  "opOr E c = do {
     let (a, c) = pop c;
     b \<leftarrow> top c;
     Some (set_top c (u_Or (env_U E) a b))
   }"

definition opXor :: "'h instruction" where
  "opXor E c = do {
     let (a, c) = pop c;
     b \<leftarrow> top c;
     Some (set_top c (u_Xor (env_U E) a b))
   }"

definition opByte :: "'h instruction" where
  "opByte E c = do {
     let (x, c) = pop c;
     y \<leftarrow> top c;
     Some (set_top c (u_Byte (env_U E) y x))
   }"

definition opNot :: "'h instruction" where
  "opNot E c = do {
     a \<leftarrow> top c;
     Some (set_top c (u_Not (env_U E) a))
   }"

definition opIsZero :: "'h instruction" where
  "opIsZero E c = do {
     a \<leftarrow> top c;
     Some (set_top c (bool_word (u_IsZero (env_U E) a)))
   }"

definition opEq :: "'h instruction" where
  "opEq E c = do {
     let (a, c) = pop c;
     b \<leftarrow> top c;
     Some (set_top c (bool_word (u_Eq (env_U E) a b)))
   }"

definition opLt :: "'h instruction" where
  "opLt E c = do {
     let (a, c) = pop c;
     b \<leftarrow> top c;
     Some (set_top c (bool_word (u_Lt (env_U E) a b)))
   }"

definition opGt :: "'h instruction" where
  "opGt E c = do {
     let (a, c) = pop c;
     b \<leftarrow> top c;
     Some (set_top c (bool_word (u_Gt (env_U E) a b)))
   }"

definition opSlt :: "'h instruction" where
  "opSlt E c = do {
     let (a, c) = pop c;
     b \<leftarrow> top c;
     Some (set_top c (bool_word (u_Slt (env_U E) a b)))
   }"

definition opSgt :: "'h instruction" where
  "opSgt E c = do {
     let (a, c) = pop c;
     b \<leftarrow> top c;
     Some (set_top c (bool_word (u_Sgt (env_U E) a b)))
   }"

definition opSignExtension :: "'h instruction" where
  "opSignExtension E c = do {
     let (ext, c) = pop c;
     x \<leftarrow> top c;
     Some (set_top c (u_ExtendSign (env_U E) x ext))
   }"

definition opShl :: "'h instruction" where
  "opShl E c =
     (if \<not> Constantinople (st_config c) then Some (exit c (Some errOpCodeNotFound))
      else do {
        let (shift, c) = pop c;
        value \<leftarrow> top c;
        Some (set_top c
          (if u_LtUint64 (env_U E) shift 256
           then u_Lsh (env_U E) value (unat (u_Uint64 (env_U E) shift)) else 0))
      })"

definition opShr :: "'h instruction" where
  "opShr E c =
     (if \<not> Constantinople (st_config c) then Some (exit c (Some errOpCodeNotFound))
      else do {
        let (shift, c) = pop c;
        value \<leftarrow> top c;
        Some (set_top c
          (if u_LtUint64 (env_U E) shift 256
           then u_Rsh (env_U E) value (unat (u_Uint64 (env_U E) shift)) else 0))
      })"

definition opSar :: "'h instruction" where
  "opSar E c =
     (if \<not> Constantinople (st_config c) then Some (exit c (Some errOpCodeNotFound))
      else do {
        let (shift, c) = pop c;
        value \<leftarrow> top c;
        Some (set_top c
          (if equalOrOverflows8bits E shift
           then if u_Sign (env_U E) value \<ge> 0 then 0 else - 1
           else u_SRsh (env_U E) value (unat (u_Uint64 (env_U E) shift))))
      })"

section \<open>Memory operations\<close>

definition opMLoad :: "'h instruction" where
  "opMLoad E c = do {
     v \<leftarrow> top c;
     let (ok, c) = allocateMemory E c v wordSize256;
     if \<not> ok then Some c
     else do {
       let offset = u_Uint64 (env_U E) v;
       let size = u_Uint64 (env_U E) wordSize256;
       m \<leftarrow> go_slice (st_memory c) (unat offset) (unat (offset + size));
       Some (set_top c (u_SetBytes (env_U E) m))
     }
   }"

definition opMStore :: "'h instruction" where
  "opMStore E c = do {
     let (offset, c) = pop c;
     let (val, c) = pop c;
     let (ok, c) = allocateMemory E c offset wordSize256;
     if \<not> ok then Some c
     else do {
       let o' = u_Uint64 (env_U E) offset;
       s \<leftarrow> go_slice (st_memory c) (unat o') (unat (o' + 32));
       m \<leftarrow> write_at (st_memory c) (unat o') (WriteToSlice E val (length s));
       Some (c\<lparr>st_memory := m\<rparr>)
     }
   }"

definition opMStore8 :: "'h instruction" where
  "opMStore8 E c = do {
     let (offset, c) = pop c;
     let (val, c) = pop c;
     let (ok, c) = allocateMemory E c offset 1;
     if \<not> ok then Some c
     else do {
       m \<leftarrow> write_at (st_memory c) (unat (u_Uint64 (env_U E) offset))
              [ucast (and (u_Uint64 (env_U E) val) 0xff)];
       Some (c\<lparr>st_memory := m\<rparr>)
     }
   }"

section \<open>Storage\<close>

definition opSload :: "'h instruction" where
  "opSload E c = do {
     loc \<leftarrow> top c;
     let storageKey = uint256ToHash E loc;
     let (gas, c) =
       (if Berlin (st_config c) then
          (if \<not> snd (ContainsAccessListSlot (env_H E) (st_host c) (c_Address (st_msg c)) storageKey)
           then (ColdStorageReadCostEIP2929,
                 c\<lparr>st_host := AddSlotToAccessList (env_H E) (st_host c) (c_Address (st_msg c)) storageKey\<rparr>)
           else (WarmStorageReadCostEIP2929, c))
        else if Istanbul (st_config c) then (800, c)
        else if EIP150 (st_config c) then (200, c)
        else (50, c));
     let (ok, c) = consumeGas c gas;
     if \<not> ok then Some c
     else do {
       let val = GetStorage (env_H E) (st_host c) (c_Address (st_msg c)) (uint256ToHash E loc);
       Some (set_top c (u_SetBytes (env_U E) val))
     }
   }"

text \<open>The cost that a storage status adds, with the legacy metering flag of the forks.\<close>

definition sstoreStatusCost :: "ForksInTime \<Rightarrow> StorageStatus \<Rightarrow> u64 \<Rightarrow> u64" where
  "sstoreStatusCost cfg status cost =
     (let legacyGasMetering = (\<not> Istanbul cfg \<and> (Petersburg cfg \<or> \<not> Constantinople cfg));
          unchanged = (if Berlin cfg then cost + WarmStorageReadCostEIP2929
                       else if Istanbul cfg then cost + 800
                       else if legacyGasMetering then cost + 5000
                       else cost + 200);
          modified = (if Berlin cfg then cost + 5000 - ColdStorageReadCostEIP2929 else cost + 5000)
      in case status of
           StorageUnchanged \<Rightarrow> unchanged
         | StorageModified \<Rightarrow> modified
         | StorageModifiedAgain \<Rightarrow> unchanged
         | StorageAdded \<Rightarrow> cost + 20000
         | StorageDeleted \<Rightarrow> modified)"

definition opSStore :: "'h instruction" where
  "opSStore E c =
     (if inStaticCall c then Some (exit c (Some errWriteProtection))
      else if Istanbul (st_config c) \<and> st_gas c \<le> 2300 then Some (exit c (Some ErrOutOfGas))
      else
        let (key, c) = popHash E c;
            (val, c) = popHash E c;
            addr = c_Address (st_msg c);
            (status, h) = SetStorage (env_H E) (st_host c) addr key val (st_config c);
            c = c\<lparr>st_host := h\<rparr>;
            (cost, c) =
              (if Berlin (st_config c) \<and>
                  \<not> snd (ContainsAccessListSlot (env_H E) (st_host c) addr key)
               then (ColdStorageReadCostEIP2929,
                     c\<lparr>st_host := AddSlotToAccessList (env_H E) (st_host c) addr key\<rparr>)
               else (0, c));
            (ok, c) = consumeGas c (sstoreStatusCost (st_config c) status cost)
        in Some c)"

definition sha3WordGas :: u64 where "sha3WordGas = 6"

definition opSha3 :: "'h instruction" where
  "opSha3 E c = do {
     let (offset, c) = pop c;
     let (length, c) = pop c;
     ((tmp, ok), c) \<leftarrow> get2 E c [] offset length;
     let c = c\<lparr>st_tmp := tmp\<rparr>;
     if \<not> ok then Some c
     else do {
       let size = u_Uint64 (env_U E) length;
       let (ok, c) = consumeGas c (((size + 31) div 32) * sha3WordGas);
       if \<not> ok then Some c
       else do {
         let c = c\<lparr>st_tmp := env_keccak E (st_tmp c)\<rparr>;
         Some (push c (u_SetBytes (env_U E) (st_tmp c)))
       }
     }
   }"

definition opPop :: "'h instruction" where
  "opPop E c = Some (snd (pop c))"

section \<open>Context operations\<close>

definition opAddress :: "'h instruction" where
  "opAddress E c = Some (push c (u_SetBytes (env_U E) (c_Address (st_msg c))))"

text \<open>The push of a balance: \<^verbatim>\<open>FromBig\<close> reports a value of more than 256 bits, which stops the
  machine with an error after the truncated value was pushed.\<close>

definition pushBig :: "'h env \<Rightarrow> 'h state \<Rightarrow> int \<Rightarrow> Error \<Rightarrow> 'h state" where
  "pushBig E c v e =
     (let (w, invalid) = u_FromBig (env_U E) v;
          c = (if invalid then exit c (Some e) else c)
      in push c w)"

definition opBalance :: "'h instruction" where
  "opBalance E c =
     (let ((addr, _), c) = popAddr E c;
          (gas, c) =
            (if Berlin (st_config c) then calculateGasForEIP2929 E c addr
             else if Istanbul (st_config c) then (700, c)
             else if EIP150 (st_config c) then (400, c)
             else (20, c));
          (ok, c) = consumeGas c gas
      in if \<not> ok then Some c
         else Some (pushBig E c (GetBalance (env_H E) (st_host c) addr) errInvalidBalanceValue))"

definition opSelfBalance :: "'h instruction" where
  "opSelfBalance E c =
     (if \<not> Istanbul (st_config c) then Some (exit c (Some errOpCodeNotFound))
      else Some (pushBig E c (GetBalance (env_H E) (st_host c) (c_Address (st_msg c)))
                   errInvalidBalanceValue))"

definition opChainID :: "'h instruction" where
  "opChainID E c =
     (if \<not> Istanbul (st_config c) then Some (exit c (Some errOpCodeNotFound))
      else Some (push c (u_SetUint64 (env_U E) (ctx_ChainID (GetTxContext (env_H E) (st_host c))))))"

definition opOrigin :: "'h instruction" where
  "opOrigin E c =
     Some (push c (u_SetBytes (env_U E) (ctx_Origin (GetTxContext (env_H E) (st_host c)))))"

definition opCaller :: "'h instruction" where
  "opCaller E c = Some (push c (u_SetBytes (env_U E) (c_Caller (st_msg c))))"

definition opCallValue :: "'h instruction" where
  "opCallValue E c =
     (case c_Value (st_msg c) of
        Some value \<Rightarrow> Some (pushBig E c value errInvalidMessageValue)
      | None \<Rightarrow> Some (push c 0))"

text \<open>\<open>setBytes E dst input sz off\<close> is the contents of the slice \<open>dst\<close> after the call: the part
  of the input that starts at the offset, padded with zeros to \<open>sz\<close> bytes.\<close>

definition setBytes :: "'h env \<Rightarrow> bytes \<Rightarrow> bytes \<Rightarrow> u64 \<Rightarrow> u256 \<Rightarrow> bytes option" where
  "setBytes E dst input sz dataOffset =
     (if \<not> u_IsUint64 (env_U E) dataOffset
      then write_at dst 0 (replicate (unat sz) 0)
      else do {
        let inputSize = of_nat (length input);
        let begin = less (u_Uint64 (env_U E) dataOffset) inputSize;
        let copySize = less sz (inputSize - begin);
        dst \<leftarrow> (if copySize > 0
                then Option.bind (go_slice input (unat begin) (unat (begin + copySize)))
                       (\<lambda>src. Some (go_copy dst src))
                else Some dst);
        if sz - copySize > 0
        then write_at dst (unat copySize) (replicate (unat (sz - copySize)) 0)
        else Some dst
      })"

text \<open>The call \<^verbatim>\<open>c.setBytes(c.memory[off:], ...)\<close> writes through a subslice of the memory.\<close>

definition setMemory ::
  "'h env \<Rightarrow> 'h state \<Rightarrow> u256 \<Rightarrow> bytes \<Rightarrow> u64 \<Rightarrow> u256 \<Rightarrow> 'h state option" where
  "setMemory E c memOffset input sz dataOffset = do {
     let off = unat (u_Uint64 (env_U E) memOffset);
     dst \<leftarrow> go_slice (st_memory c) off (length (st_memory c));
     dst \<leftarrow> setBytes E dst input sz dataOffset;
     Some (c\<lparr>st_memory := take off (st_memory c) @ dst\<rparr>)
   }"

definition opCallDataLoad :: "'h instruction" where
  "opCallDataLoad E c = do {
     offset \<leftarrow> top c;
     buf \<leftarrow> setBytes E (replicate 32 0) (c_Input (st_msg c)) 32 offset;
     Some (set_top c (u_SetBytes (env_U E) buf))
   }"

definition opCallDataSize :: "'h instruction" where
  "opCallDataSize E c =
     Some (push c (u_SetUint64 (env_U E) (of_nat (length (c_Input (st_msg c))))))"

definition opCodeSize :: "'h instruction" where
  "opCodeSize E c = Some (push c (u_SetUint64 (env_U E) (of_nat (length (st_code c)))))"

definition opExtCodeSize :: "'h instruction" where
  "opExtCodeSize E c =
     (let ((addr, _), c) = popAddr E c;
          (gas, c) =
            (if Berlin (st_config c) then calculateGasForEIP2929 E c addr
             else if EIP150 (st_config c) then (700, c)
             else (20, c));
          (ok, c) = consumeGas c gas
      in if \<not> ok then Some c
         else let (n, h) = GetCodeSize (env_H E) (st_host c) addr
              in Some (push (c\<lparr>st_host := h\<rparr>) (u_SetUint64 (env_U E) (of_nat n))))"

definition opGasPrice :: "'h instruction" where
  "opGasPrice E c =
     Some (push c (u_SetBytes (env_U E) (ctx_GasPrice (GetTxContext (env_H E) (st_host c)))))"

definition opReturnDataSize :: "'h instruction" where
  "opReturnDataSize E c =
     (if \<not> Byzantium (st_config c) then Some (exit c (Some errOpCodeNotFound))
      else Some (push c (u_SetUint64 (env_U E) (of_nat (length (st_returnData c))))))"

definition opExtCodeHash :: "'h instruction" where
  "opExtCodeHash E c =
     (if \<not> Constantinople (st_config c) then Some (exit c (Some errOpCodeNotFound))
      else
        let ((address, _), c) = popAddr E c;
            (gas, c) =
              (if Berlin (st_config c) then calculateGasForEIP2929 E c address
               else if Istanbul (st_config c) then (700, c)
               else (400, c));
            (ok, c) = consumeGas c gas
        in if \<not> ok then Some c
           else Some (push c
             (if \<not> Empty (env_H E) (st_host c) address
              then u_SetBytes (env_U E) (GetCodeHash (env_H E) (st_host c) address) else 0)))"

definition opPC :: "'h instruction" where
  "opPC E c = Some (push c (u_SetUint64 (env_U E) (word_of_int (st_ip c))))"

definition opMSize :: "'h instruction" where
  "opMSize E c = Some (push c (u_SetUint64 (env_U E) (of_nat (length (st_memory c)))))"

definition opGas :: "'h instruction" where
  "opGas E c = Some (push c (u_SetUint64 (env_U E) (st_gas c)))"

definition copyGas :: u64 where "copyGas = 3"

definition opExtCodeCopy :: "'h instruction" where
  "opExtCodeCopy E c =
     (let ((address, _), c) = popAddr E c;
          (memOffset, c) = pop c;
          (codeOffset, c) = pop c;
          (length, c) = pop c;
          (ok, c) = allocateMemory E c memOffset length
      in if \<not> ok then Some c
      else let size = u_Uint64 (env_U E) length;
               (ok, c) = consumeGas c (((size + 31) div 32) * copyGas)
      in if \<not> ok then Some c
      else let (gas, c) =
                 (if Berlin (st_config c) then calculateGasForEIP2929 E c address
                  else if EIP150 (st_config c) then (700, c)
                  else (20, c));
               (ok, c) = consumeGas c gas
      in if \<not> ok then Some c
      else let (code, h) = GetCode (env_H E) (st_host c) address;
               c = c\<lparr>st_host := h\<rparr>
      in if size \<noteq> 0 then setMemory E c memOffset code size codeOffset else Some c)"

definition opCallDataCopy :: "'h instruction" where
  "opCallDataCopy E c =
     (let (memOffset, c) = pop c;
          (dataOffset, c) = pop c;
          (length, c) = pop c;
          (ok, c) = allocateMemory E c memOffset length
      in if \<not> ok then Some c
      else let size = u_Uint64 (env_U E) length;
               (ok, c) = consumeGas c (((size + 31) div 32) * copyGas)
      in if \<not> ok then Some c
      else if size \<noteq> 0 then setMemory E c memOffset (c_Input (st_msg c)) size dataOffset
      else Some c)"

definition opReturnDataCopy :: "'h instruction" where
  "opReturnDataCopy E c =
     (if \<not> Byzantium (st_config c) then Some (exit c (Some errOpCodeNotFound))
      else
        let U = env_U E;
            (memOffset, c) = pop c;
            (dataOffset, c) = pop c;
            (len, c) = pop c;
            end = u_Add U dataOffset len;
            endAddress = u_Uint64 U end
        in if \<not> u_IsUint64 U dataOffset \<or> \<not> u_IsUint64 U end \<or>
              of_nat (length (st_returnData c)) < endAddress
           then Some (exit c (Some errReturnDataOutOfBounds))
        else if u_Sign U len = 0 then Some c
        else let (ok, c) = allocateMemory E c memOffset len
        in if \<not> ok then Some c
        else let ulength = u_Uint64 U len;
                 (ok, c) = consumeGas c (((ulength + 31) div 32) * copyGas)
        in if \<not> ok then Some c
        else do {
          data \<leftarrow> go_slice (st_returnData c) (unat (u_Uint64 U dataOffset)) (unat endAddress);
          let off = u_Uint64 U memOffset;
          dst \<leftarrow> go_slice (st_memory c) (unat off) (unat (off + ulength));
          m \<leftarrow> write_at (st_memory c) (unat off) (go_copy dst data);
          Some (c\<lparr>st_memory := m\<rparr>)
        })"

definition opCodeCopy :: "'h instruction" where
  "opCodeCopy E c =
     (let (memOffset, c) = pop c;
          (dataOffset, c) = pop c;
          (length, c) = pop c
      in if u_Uint64 (env_U E) length \<le> 0 then Some c
      else let (ok, c) = allocateMemory E c memOffset length
      in if \<not> ok then Some c
      else let size = u_Uint64 (env_U E) length;
               (ok, c) = consumeGas c (((size + 31) div 32) * copyGas)
      in if \<not> ok then Some c
      else if size \<noteq> 0 then setMemory E c memOffset (st_code c) size dataOffset
      else Some c)"

section \<open>Block information\<close>

definition opBlockHash :: "'h instruction" where
  "opBlockHash E c = do {
     num \<leftarrow> top c;
     let num64 = u_Uint64 (env_U E) num;
     let overflow = (\<not> u_IsUint64 (env_U E) num);
     if overflow then Some (set_top c 0)
     else do {
       let upper = ctx_Number (GetTxContext (env_H E) (st_host c));
       let lower = (if upper < 257 then 0 else upper - 256);
       if num64 \<ge> lower \<and> num64 < upper
       then Some (set_top c (u_SetBytes (env_U E) (GetBlockHash (env_H E) (st_host c) num64)))
       else Some (set_top c 0)
     }
   }"

definition opCoinbase :: "'h instruction" where
  "opCoinbase E c =
     Some (push c (u_SetBytes (env_U E) (ctx_Coinbase (GetTxContext (env_H E) (st_host c)))))"

definition opTimestamp :: "'h instruction" where
  "opTimestamp E c =
     Some (push c (u_SetUint64 (env_U E) (ctx_Timestamp (GetTxContext (env_H E) (st_host c)))))"

definition opNumber :: "'h instruction" where
  "opNumber E c =
     Some (push c (u_SetUint64 (env_U E) (ctx_Number (GetTxContext (env_H E) (st_host c)))))"

definition opDifficulty :: "'h instruction" where
  "opDifficulty E c =
     Some (push c (u_SetBytes (env_U E) (ctx_Difficulty (GetTxContext (env_H E) (st_host c)))))"

definition opGasLimit :: "'h instruction" where
  "opGasLimit E c =
     Some (push c (u_SetUint64 (env_U E) (ctx_GasLimit (GetTxContext (env_H E) (st_host c)))))"

text \<open>\<^verbatim>\<open>MustFromBig\<close> panics when the base fee does not fit.\<close>

definition opBaseFee :: "'h instruction" where
  "opBaseFee E c =
     (if \<not> London (st_config c) then Some (exit c (Some errOpCodeNotFound))
      else let (v, overflow) = u_FromBig (env_U E) (ctx_BaseFee (GetTxContext (env_H E) (st_host c)))
           in if overflow then None else Some (push c v))"

definition opSelfDestruct :: "'h instruction" where
  "opSelfDestruct E c =
     (if inStaticCall c then Some (exit c (Some errWriteProtection))
      else
        let H = env_H E;
            ((address, _), c) = popAddr E c;
            gas = (if EIP150 (st_config c) then
                     (if EIP158 (st_config c) then
                        (if Empty H (st_host c) address \<and>
                            GetBalance H (st_host c) (c_Address (st_msg c)) \<noteq> 0
                         then 5000 + 25000 else 5000)
                      else if \<not> AccountExists H (st_host c) address then 5000 + 25000 else 5000)
                   else 0);
            (gas, c) =
              (if Berlin (st_config c) \<and> \<not> ContainsAccessListAddress H (st_host c) address
               then (gas + ColdAccountAccessCostEIP2929,
                     c\<lparr>st_host := AddAddressToAccessList H (st_host c) address\<rparr>)
               else (gas, c));
            (ok, c) = consumeGas c gas
        in if \<not> ok then Some c
           else Some (Halt (c\<lparr>st_host := Selfdestruct H (st_host c) (c_Address (st_msg c)) address\<rparr>)))"

section \<open>Control flow and stack operations\<close>

definition opJump :: "'h instruction" where
  "opJump E c = do {
     let (dest, c) = pop c;
     v \<leftarrow> validJumpdest E c dest;
     if v then Some (c\<lparr>st_ip := sint (u_Uint64 (env_U E) dest - 1)\<rparr>)
     else Some (exit c (Some errInvalidJump))
   }"

definition opJumpi :: "'h instruction" where
  "opJumpi E c = do {
     let (dest, c) = pop c;
     let (cond, c) = pop c;
     if u_Sign (env_U E) cond \<noteq> 0 then do {
       v \<leftarrow> validJumpdest E c dest;
       if v then Some (c\<lparr>st_ip := sint (u_Uint64 (env_U E) dest - 1)\<rparr>)
       else Some (exit c (Some errInvalidJump))
     }
     else Some c
   }"

definition opJumpDest :: "'h instruction" where
  "opJumpDest E c = Some c"

definition opPush0 :: "'h instruction" where
  "opPush0 E c =
     (if \<not> EIP3855 (st_config c) then Some (exit c (Some errOpCodeNotFound))
      else Some (push c 0))"

definition opPush :: "nat \<Rightarrow> 'h instruction" where
  "opPush n E c =
     (if st_ip c + 1 < 0 then None
      else do {
        let ins = st_code c;
        let ip = nat (st_ip c + 1);
        d \<leftarrow> (if ip + n > length ins
              then Option.bind (go_slice ins ip (length ins)) (\<lambda>s. Some (s @ replicate n 0))
              else go_slice ins ip (ip + n));
        let c = push c (u_SetBytes (env_U E) d);
        Some (c\<lparr>st_ip := st_ip c + int n\<rparr>)
      })"

definition opDup :: "nat \<Rightarrow> 'h instruction" where
  "opDup n E c = do {
     r \<leftarrow> peekAt c (int n);
     case r of Inl e \<Rightarrow> Some (exit c (Some e)) | Inr val \<Rightarrow> Some (push c val)
   }"

definition opSwap :: "nat \<Rightarrow> 'h instruction" where
  "opSwap n E c =
     (let (e, c) = swap c (int n) in
      case e of None \<Rightarrow> Some c | Some _ \<Rightarrow> Some (exit c e))"

text \<open>The loop that pops the topics of a log.\<close>

fun popTopics :: "'h env \<Rightarrow> nat \<Rightarrow> 'h state \<Rightarrow> Hash list \<times> 'h state" where
  "popTopics E 0 c = ([], c)"
| "popTopics E (Suc n) c =
     (let (v, c) = pop c; (ts, c) = popTopics E n c in (uint256ToHash E v # ts, c))"

definition opLog :: "nat \<Rightarrow> 'h instruction" where
  "opLog size0 E c =
     (let size = size0 - 1 in
      if inStaticCall c then Some (exit c (Some errWriteProtection))
      else if \<not> stackAtLeast c (2 + size)
      then Some (exit c (Some (StackUnderflowError (length (st_stack c)) (2 + size))))
      else do {
        let (mStart, c) = pop c;
        let (mSize, c) = pop c;
        let (topics, c) = popTopics E size c;
        ((tmp, ok), c) \<leftarrow> get2 E c [] mStart mSize;
        let c = c\<lparr>st_tmp := tmp\<rparr>;
        if \<not> ok then Some c
        else do {
          let c = c\<lparr>st_host := EmitLog (env_H E) (st_host c) (c_Address (st_msg c)) topics (st_tmp c)\<rparr>;
          let (ok, c) = consumeGas c (of_nat size * 375);
          if \<not> ok then Some c
          else do {
            let (ok, c) = consumeGas c (u_Uint64 (env_U E) mSize * 8);
            Some c
          }
        }
      })"

definition opStop :: "'h instruction" where
  "opStop E c = Some (Halt c)"

section \<open>Calls and contract creation\<close>

text \<open>The opcodes the call and create factories distinguish.\<close>

datatype CallOp = CALL | CALLCODE | DELEGATECALL | STATICCALL
datatype CreateOp = CREATE | CREATE2
datatype HaltOp = REVERT | RETURN

definition CreateAddress :: "'h env \<Rightarrow> Address \<Rightarrow> u64 \<Rightarrow> Address" where
  "CreateAddress E addr nonce =
     BytesToAddress (drop 12 (env_keccak E (env_rlpAddrNonce E addr nonce)))"

definition CreateAddress2 :: "'h env \<Rightarrow> Address \<Rightarrow> Hash \<Rightarrow> bytes \<Rightarrow> Address" where
  "CreateAddress2 E addr salt inithash =
     BytesToAddress (drop 12 (env_keccak E ([0xff] @ addr @ salt @ env_keccak E inithash)))"

text \<open>The steps of \<^verbatim>\<open>buildCallContract\<close>: the cost of the call itself, the gas that is passed
  on, and the frame of the callee.\<close>

definition callCost :: "CallOp \<Rightarrow> 'h env \<Rightarrow> 'h state \<Rightarrow> Address \<Rightarrow> bool \<Rightarrow> u64 \<times> 'h state" where
  "callCost op E c addr transfersValue =
     (let H = env_H E;
          (gasCost, c) =
            (if Berlin (st_config c) then calculateGasForEIP2929 E c addr
             else if EIP150 (st_config c) then (700, c)
             else (40, c));
          gasCost =
            (if op = CALL then
               (if EIP158 (st_config c) then
                  (if transfersValue \<and> Empty H (st_host c) addr then gasCost + 25000 else gasCost)
                else if \<not> AccountExists H (st_host c) addr then gasCost + 25000 else gasCost)
             else gasCost);
          gasCost = (if transfersValue then gasCost + 9000 else gasCost)
      in (gasCost, c))"

definition callGas :: "'h env \<Rightarrow> 'h state \<Rightarrow> u64 \<Rightarrow> u256 \<Rightarrow> u64 option" where
  "callGas E c gasCost initialGas =
     (let U = env_U E; ok = u_IsUint64 U initialGas in
      if EIP150 (st_config c) then
        (let availableGas = st_gas c - gasCost;
             availableGas = availableGas - availableGas div 64
         in if \<not> ok \<or> availableGas < u_Uint64 U initialGas then Some availableGas
            else Some (u_Uint64 U initialGas))
      else if \<not> ok then None
      else Some (u_Uint64 U initialGas))"

definition callFrame ::
  "CallOp \<Rightarrow> 'h env \<Rightarrow> 'h state \<Rightarrow> Address \<Rightarrow> u256 \<Rightarrow> u64 \<Rightarrow> bytes \<Rightarrow> Contract \<times> 'h state" where
  "callFrame op E c addr value gas args =
     (let parent = st_msg c;
          (code, h) = GetCode (env_H E) (st_host c) addr;
          contract = NewContractCall (c_Depth parent + 1) (c_Origin parent)
            (c_Address parent) addr (Some (u_ToBig (env_U E) value)) gas code args;
          contract = (if op = STATICCALL \<or> c_Static parent
                      then contract\<lparr>c_Static := True\<rparr> else contract);
          contract =
            (if op = CALLCODE \<or> op = DELEGATECALL then
               (let contract = contract\<lparr>c_Address := c_Address parent\<rparr> in
                if op = DELEGATECALL
                then contract\<lparr>c_Value := c_Value parent, c_Caller := c_Caller parent\<rparr>
                else contract)
             else contract)
      in (contract, c\<lparr>st_host := h\<rparr>))"

text \<open>The result is the frame (\<^term>\<open>None\<close> for a nil pointer), the output range and whether an
  error is returned.\<close>

definition buildCallContract ::
  "CallOp \<Rightarrow> 'h env \<Rightarrow> 'h state \<Rightarrow> ((Contract option \<times> u64 \<times> u64 \<times> Error option) \<times> 'h state) option" where
  "buildCallContract op E c =
     (let U = env_U E; H = env_H E;
          (initialGas, c) = pop c;
          ((addr, _), c) = popAddr E c;
          (value, c) = (if op = CALL \<or> op = CALLCODE then pop c else (0, c));
          (inOffset, c) = pop c;
          (inSize, c) = pop c;
          (retOffset, c) = pop c;
          (retSize, c) = pop c
      in do {
        ((args, ok), c) \<leftarrow> get2 E c [] inOffset inSize;
        if \<not> ok then Some ((None, 0, 0, None), c)
        else
          let (ok, c) = allocateMemory E c retOffset retSize in
          if \<not> ok then Some ((None, 0, 0, None), c)
          else
            let transfersValue = ((op = CALL \<or> op = CALLCODE) \<and> u_Sign U value \<noteq> 0);
                (gasCost, c) = callCost op E c addr transfersValue
            in case callGas E c gasCost initialGas of
              None \<Rightarrow> Some ((None, 0, 0, None), exit c (Some ErrOutOfGas))
            | Some gas \<Rightarrow>
              let (gasCostTmp, isOverflow) = SafeAddUint64 gasCost gas
              in if isOverflow then Some ((None, 0, 0, None), exit c (Some errGasUintOverflow))
              else
                let (ok, c) = consumeGas c gasCostTmp in
                if \<not> ok then Some ((None, 0, 0, None), c)
                else
                  let gas = (if transfersValue then gas + 2300 else gas);
                      (contract, c) = callFrame op E c addr value gas args
                  in if transfersValue \<and>
                        GetBalance H (st_host c) (c_Address (st_msg c)) < u_ToBig U value
                     then Some ((Some contract, 0, 0, Some TypesErrInsufficientFunds), c)
                     else Some ((Some contract, u_Uint64 U retOffset, u_Uint64 U retSize, None), c)
      })"

definition buildCreateContract ::
  "CreateOp \<Rightarrow> 'h env \<Rightarrow> 'h state \<Rightarrow> ((Contract option \<times> Error option) \<times> 'h state) option" where
  "buildCreateContract op E c =
     (let U = env_U E; H = env_H E;
          (value, c) = pop c;
          (offset, c) = pop c;
          (length, c) = pop c;
          (salt, c) = (if op = CREATE2 then pop c else (0, c));
          hasTransfer = (u_Sign U value \<noteq> 0)
      in do {
        ((input, ok), c) \<leftarrow> get2 E c [] offset length;
        if \<not> ok then Some ((None, None), c)
        else
          let size = u_Uint64 U length;
              (ok, c) = (if op = CREATE2 then consumeGas c (((size + 31) div 32) * sha3WordGas)
                         else (True, c))
          in if \<not> ok then Some ((None, None), c)
          else if hasTransfer \<and>
                  GetBalance H (st_host c) (c_Address (st_msg c)) < u_ToBig U value
          then Some ((None, Some TypesErrInsufficientFunds), c)
          else
            let gas = st_gas c;
                gas = (if EIP150 (st_config c) \<or> op = CREATE2 then gas - gas div 64 else gas);
                (ok, c) = consumeGas c gas
            in if \<not> ok then Some ((None, None), c)
            else
              let m = st_msg c;
                  address = (if op = CREATE
                             then CreateAddress E (c_Address m) (GetNonce H (st_host c) (c_Address m))
                             else CreateAddress2 E (c_Address m) (uint256ToHash E salt) input);
                  contract = NewContractCreation (c_Depth m + 1) (c_Origin m) (c_Address m) address
                               (Some (u_ToBig U value)) gas input
              in Some ((Some contract, None), c)
      })"

definition opCreate :: "CreateOp \<Rightarrow> 'h instruction" where
  "opCreate op E c =
     (if inStaticCall c then Some (exit c (Some errWriteProtection))
      else if op = CREATE2 \<and> \<not> Constantinople (st_config c)
      then Some (exit c (Some errOpCodeNotFound))
      else do {
        let c = resetReturnData c;
        ((contract, err), c) \<leftarrow> buildCreateContract op E c;
        case err of
          Some _ \<Rightarrow>
            (let c = push c 0 in
             case contract of None \<Rightarrow> Some c
             | Some k \<Rightarrow> Some (c\<lparr>st_gas := st_gas c + c_Gas k\<rparr>))
        | None \<Rightarrow>
            (case contract of None \<Rightarrow> Some c
             | Some contract \<Rightarrow> do {
                 let contract = contract\<lparr>c_Type := Create\<rparr>;
                 (result, h) \<leftarrow> Callx (env_H E) (st_host c) contract;
                 let c = c\<lparr>st_host := h\<rparr>;
                 let v = (if op = CREATE \<and> Homestead (st_config c) \<and>
                             r_Err result = Some ErrCodeStoreOutOfGas then 0
                          else if op = CREATE \<and> Failed result \<and>
                                  r_Err result \<noteq> Some ErrCodeStoreOutOfGas then 0
                          else if op = CREATE2 \<and> Failed result then 0
                          else u_SetBytes (env_U E) (c_Address contract));
                 let c = push c v;
                 let c = c\<lparr>st_gas := st_gas c + r_GasLeft result\<rparr>;
                 if Reverted result then Some (c\<lparr>st_returnData := r_ReturnValue result\<rparr>)
                 else Some c
               })
      })"

definition callTypeOf :: "CallOp \<Rightarrow> CallType" where
  "callTypeOf op = (case op of CALL \<Rightarrow> Call | CALLCODE \<Rightarrow> CallCode
     | DELEGATECALL \<Rightarrow> DelegateCall | STATICCALL \<Rightarrow> StaticCall)"

text \<open>What the instruction does with the result of the call: push the success flag, copy the
  return value to the output range, take back the gas that is left.\<close>

definition finishCall :: "'h state \<Rightarrow> ExecutionResult \<Rightarrow> u64 \<Rightarrow> u64 \<Rightarrow> 'h env \<Rightarrow> 'h state option" where
  "finishCall c result offset sz E = do {
     let c = push c (if Succeeded result then u_SetUint64 (env_U E) 1 else 0);
     c \<leftarrow> (if (Succeeded result \<or> Reverted result) \<and> r_ReturnValue result \<noteq> [] \<and> sz > 0
           then do {
             dst \<leftarrow> go_slice (st_memory c) (unat offset) (unat (offset + sz));
             m \<leftarrow> write_at (st_memory c) (unat offset) (go_copy dst (r_ReturnValue result));
             Some (c\<lparr>st_memory := m\<rparr>)
           }
           else Some c);
     Some (c\<lparr>st_gas := st_gas c + r_GasLeft result, st_returnData := r_ReturnValue result\<rparr>)
   }"

definition opCall :: "CallOp \<Rightarrow> 'h instruction" where
  "opCall op E c = do {
     let c = resetReturnData c;
     guard \<leftarrow> (if op = CALL \<and> inStaticCall c then
                  map_option (\<lambda>r. case r of
                      Inl e \<Rightarrow> Some e
                    | Inr val \<Rightarrow> if u_BitLen (env_U E) val > 0 then Some errWriteProtection else None)
                    (peekAt c 3)
                else Some None);
     case guard of
       Some e \<Rightarrow> Some (exit c (Some e))
     | None \<Rightarrow>
         if op = DELEGATECALL \<and> \<not> Homestead (st_config c) then Some (exit c (Some errOpCodeNotFound))
         else if op = STATICCALL \<and> \<not> Byzantium (st_config c) then Some (exit c (Some errOpCodeNotFound))
         else do {
           ((contract, offset, size, err), c) \<leftarrow> buildCallContract op E c;
           case err of
             Some _ \<Rightarrow>
               (let c = push c 0 in
                case contract of None \<Rightarrow> Some c
                | Some k \<Rightarrow> Some (c\<lparr>st_gas := st_gas c + c_Gas k\<rparr>))
           | None \<Rightarrow>
               (case contract of None \<Rightarrow> Some c
                | Some contract \<Rightarrow> do {
                    let contract = contract\<lparr>c_Type := callTypeOf op\<rparr>;
                    (result, h) \<leftarrow> Callx (env_H E) (st_host c) contract;
                    finishCall (c\<lparr>st_host := h\<rparr>) result offset size E
                  })
         }
   }"

definition opHalt :: "HaltOp \<Rightarrow> 'h instruction" where
  "opHalt op E c =
     (if op = REVERT \<and> \<not> Byzantium (st_config c) then Some (exit c (Some errOpCodeNotFound))
      else do {
        let (offset, c) = pop c;
        let (size, c) = pop c;
        ((ret, ok), c) \<leftarrow> get2 E c [] offset size;
        let c = c\<lparr>st_ret := ret\<rparr>;
        if \<not> ok then Some c
        else if op = REVERT then Some (exit c (Some ErrExecutionReverted))
        else Some (Halt c)
      })"

end
