(* ===== verification/Evm_Run.thy ===== *)
theory Evm_Run
  imports Evm_Instructions Evm_Opcodes
begin

text \<open>
  The dispatch table (\<^verbatim>\<open>src/state/runtime/evm/dispatch_table.go\<close>), the interpreter loop
  (\<^verbatim>\<open>Run\<close> of \<^verbatim>\<open>state.go\<close>) and the entry point \<^verbatim>\<open>EVM.Run\<close> (\<^verbatim>\<open>evm.go\<close>).

  The loop takes a bound on its iterations; \<^term>\<open>None\<close> is a panic or an exhausted bound. The entry
  point runs the loop with two iterations more than the frame has gas, and theory
  \<^verbatim>\<open>Evm_Safety\<close> proves that this is always enough.
\<close>

section \<open>Dispatch table\<close>

record 'h handler =
  hd_inst :: "'h instruction"
  hd_stack :: nat
  hd_gas :: u64

type_synonym 'h dispatch = "OpCode \<rightharpoonup> 'h handler"

definition mkHandler :: "'h instruction \<Rightarrow> nat \<Rightarrow> u64 \<Rightarrow> 'h handler" where
  "mkHandler i s g = \<lparr>hd_inst = i, hd_stack = s, hd_gas = g\<rparr>"

definition register :: "OpCode \<Rightarrow> 'h handler \<Rightarrow> 'h dispatch \<Rightarrow> 'h dispatch option" where
  "register op h t = (if t op \<noteq> None then None else Some (t(op \<mapsto> h)))"

function registerRange_loop ::
  "OpCode \<Rightarrow> OpCode \<Rightarrow> nat \<Rightarrow> (nat \<Rightarrow> 'h instruction) \<Rightarrow> u64 \<Rightarrow> 'h dispatch \<Rightarrow> 'h dispatch option" where
  "registerRange_loop i to c factory gas t =
     (if i \<le> to
      then Option.bind (register i (mkHandler (factory c) 0 gas) t)
             (registerRange_loop (i + 1) to (c + 1) factory gas)
      else Some t)"
  by pat_completeness auto
termination
  by (relation "measure (\<lambda>(i, to, c, factory, gas, t). Suc to - i)") auto

declare registerRange_loop.simps [simp del]

definition registerRange ::
  "OpCode \<Rightarrow> OpCode \<Rightarrow> (nat \<Rightarrow> 'h instruction) \<Rightarrow> u64 \<Rightarrow> 'h dispatch \<Rightarrow> 'h dispatch option" where
  "registerRange from to factory gas t = registerRange_loop from to 1 factory gas t"

text \<open>A sequence of \<^verbatim>\<open>register\<close> statements.\<close>

fun registerAll :: "(OpCode \<times> 'h handler) list \<Rightarrow> 'h dispatch \<Rightarrow> 'h dispatch option" where
  "registerAll [] t = Some t"
| "registerAll ((op, h) # xs) t = Option.bind (register op h t) (registerAll xs)"

definition handlersA :: "(OpCode \<times> 'h handler) list" where
  "handlersA = [
     (op_STOP, mkHandler opStop 0 0),
     (op_ADD, mkHandler opAdd 2 3),
     (op_SUB, mkHandler opSub 2 3),
     (op_MUL, mkHandler opMul 2 5),
     (op_DIV, mkHandler opDiv 2 5),
     (op_SDIV, mkHandler opSDiv 2 5),
     (op_MOD, mkHandler opMod 2 5),
     (op_SMOD, mkHandler opSMod 2 5),
     (op_EXP, mkHandler opExp 2 10),
     (op_PUSH0, mkHandler opPush0 0 2)]"

definition handlersB :: "(OpCode \<times> 'h handler) list" where
  "handlersB = [
     (op_ADDMOD, mkHandler opAddMod 3 8),
     (op_MULMOD, mkHandler opMulMod 3 8),
     (op_AND, mkHandler opAnd 2 3),
     (op_OR, mkHandler opOr 2 3),
     (op_XOR, mkHandler opXor 2 3),
     (op_BYTE, mkHandler opByte 2 3),
     (op_NOT, mkHandler opNot 1 3),
     (op_ISZERO, mkHandler opIsZero 1 3),
     (op_EQ, mkHandler opEq 2 3),
     (op_LT, mkHandler opLt 2 3),
     (op_GT, mkHandler opGt 2 3),
     (op_SLT, mkHandler opSlt 2 3),
     (op_SGT, mkHandler opSgt 2 3),
     (op_SIGNEXTEND, mkHandler opSignExtension 2 5),
     (op_SHL, mkHandler opShl 2 3),
     (op_SHR, mkHandler opShr 2 3),
     (op_SAR, mkHandler opSar 2 3),
     (op_CREATE, mkHandler (opCreate CREATE) 3 32000),
     (op_CREATE2, mkHandler (opCreate CREATE2) 4 32000),
     (op_CALL, mkHandler (opCall CALL) 7 0),
     (op_CALLCODE, mkHandler (opCall CALLCODE) 7 0),
     (op_DELEGATECALL, mkHandler (opCall DELEGATECALL) 6 0),
     (op_STATICCALL, mkHandler (opCall STATICCALL) 6 0),
     (op_REVERT, mkHandler (opHalt REVERT) 2 0),
     (op_RETURN, mkHandler (opHalt RETURN) 2 0),
     (op_MLOAD, mkHandler opMLoad 1 3),
     (op_MSTORE, mkHandler opMStore 2 3),
     (op_MSTORE8, mkHandler opMStore8 2 3),
     (op_SLOAD, mkHandler opSload 1 0),
     (op_SSTORE, mkHandler opSStore 2 0),
     (op_SHA3, mkHandler opSha3 2 30),
     (op_POP, mkHandler opPop 1 2),
     (op_EXTCODEHASH, mkHandler opExtCodeHash 1 0),
     (op_ADDRESS, mkHandler opAddress 0 2),
     (op_BALANCE, mkHandler opBalance 1 0),
     (op_SELFBALANCE, mkHandler opSelfBalance 0 5),
     (op_ORIGIN, mkHandler opOrigin 0 2),
     (op_CALLER, mkHandler opCaller 0 2),
     (op_CALLVALUE, mkHandler opCallValue 0 2),
     (op_CALLDATALOAD, mkHandler opCallDataLoad 1 3),
     (op_CALLDATASIZE, mkHandler opCallDataSize 0 2),
     (op_CODESIZE, mkHandler opCodeSize 0 2),
     (op_EXTCODESIZE, mkHandler opExtCodeSize 1 0),
     (op_GASPRICE, mkHandler opGasPrice 0 2),
     (op_RETURNDATASIZE, mkHandler opReturnDataSize 0 2),
     (op_CHAINID, mkHandler opChainID 0 2),
     (op_PC, mkHandler opPC 0 2),
     (op_MSIZE, mkHandler opMSize 0 2),
     (op_GAS, mkHandler opGas 0 2),
     (op_EXTCODECOPY, mkHandler opExtCodeCopy 4 0),
     (op_CALLDATACOPY, mkHandler opCallDataCopy 3 3),
     (op_RETURNDATACOPY, mkHandler opReturnDataCopy 3 3),
     (op_CODECOPY, mkHandler opCodeCopy 3 3),
     (op_BLOCKHASH, mkHandler opBlockHash 1 20),
     (op_COINBASE, mkHandler opCoinbase 0 2),
     (op_TIMESTAMP, mkHandler opTimestamp 0 2),
     (op_NUMBER, mkHandler opNumber 0 2),
     (op_DIFFICULTY, mkHandler opDifficulty 0 2),
     (op_GASLIMIT, mkHandler opGasLimit 0 2),
     (op_BASEFEE, mkHandler opBaseFee 0 2),
     (op_SELFDESTRUCT, mkHandler opSelfDestruct 1 0),
     (op_JUMP, mkHandler opJump 1 8),
     (op_JUMPI, mkHandler opJumpi 2 10),
     (op_JUMPDEST, mkHandler opJumpDest 0 1)]"

definition dispatch_init :: "'h dispatch option" where
  "dispatch_init = do {
     t \<leftarrow> registerAll handlersA Map.empty;
     t \<leftarrow> registerRange op_PUSH1 op_PUSH32 opPush 3 t;
     t \<leftarrow> registerRange op_DUP1 op_DUP16 opDup 3 t;
     t \<leftarrow> registerRange op_SWAP1 op_SWAP16 opSwap 3 t;
     t \<leftarrow> registerRange op_LOG0 op_LOG4 opLog 375 t;
     registerAll handlersB t
   }"

text \<open>The package variable after initialisation.\<close>

definition dispatchTable :: "'h dispatch" where
  "dispatchTable = (case dispatch_init of None \<Rightarrow> Map.empty | Some t \<Rightarrow> t)"

section \<open>Interpreter loop\<close>

datatype ctl = Break | Next

definition run_step :: "'h env \<Rightarrow> 'h state \<Rightarrow> (ctl \<times> 'h state) option" where
  "run_step E c = do {
     (op, ok) \<leftarrow> CurrentOpCode c;
     if \<not> ok then Some (Break, Halt c)
     else case dispatchTable op of
       None \<Rightarrow> Some (Break, exit c (Some errOpCodeNotFound))
     | Some inst \<Rightarrow>
         if length (st_stack c) < hd_stack inst
         then Some (Break, exit c (Some (StackUnderflowError (length (st_stack c)) (hd_stack inst))))
         else let (ok, c) = consumeGas c (hd_gas inst) in
           if \<not> ok then Some (Break, c)
           else do {
             c \<leftarrow> hd_inst inst E c;
             if st_err c \<noteq> None then Some (Break, c)
             else if length (st_stack c) > stackSize
             then Some (Break, exit c (Some (StackOverflowError (length (st_stack c)) stackSize)))
             else Some (Next, c\<lparr>st_ip := st_ip c + 1\<rparr>)
           }
   }"

fun run_loop :: "'h env \<Rightarrow> nat \<Rightarrow> 'h state \<Rightarrow> 'h state option" where
  "run_loop E 0 c = None"
| "run_loop E (Suc n) c =
     (if st_stop c then Some c
      else Option.bind (run_step E c)
             (\<lambda>(k, c'). case k of Break \<Rightarrow> Some c' | Next \<Rightarrow> run_loop E n c'))"

definition state_Run :: "'h env \<Rightarrow> nat \<Rightarrow> 'h state \<Rightarrow> ((bytes \<times> Error option) \<times> 'h state) option" where
  "state_Run E fuel c = map_option (\<lambda>c'. ((st_ret c', st_err c'), c')) (run_loop E fuel c)"

section \<open>Entry point\<close>

text \<open>\<open>initState\<close> is the object the pool handed out, after \<^verbatim>\<open>EVM.Run\<close> set its fields.\<close>

definition initState ::
  "'h state \<Rightarrow> Contract \<Rightarrow> 'h \<Rightarrow> ForksInTime \<Rightarrow> 'h state option" where
  "initState s c h config =
     (let s = resetReturnData s;
          s = s\<lparr>st_msg := c, st_code := c_Code c, st_gas := c_Gas c, st_host := h,
                st_config := config\<rparr>
      in map_option (\<lambda>b. s\<lparr>st_bitmap := b\<rparr>) (bitmap_setCode (st_bitmap s) (c_Code c)))"

definition EVM_Run ::
  "'h env \<Rightarrow> 'h state \<Rightarrow> Contract \<Rightarrow> 'h \<Rightarrow> ForksInTime \<Rightarrow> (ExecutionResult \<times> 'h) option" where
  "EVM_Run E pooled c h config = do {
     s \<leftarrow> initState pooled c h config;
     ((ret, err), s) \<leftarrow> state_Run E (unat (c_Gas c) + 2) s;
     let gasLeft = (if err \<noteq> None \<and> err \<noteq> Some ErrExecutionReverted then 0 else st_gas s);
     Some (\<lparr>r_ReturnValue = ret, r_GasLeft = gasLeft, r_GasUsed = c_Gas c - gasLeft, r_Err = err,
            r_Address = ZeroAddress, r_AccessList = None\<rparr>, st_host s)
   }"

text \<open>A state object that the pool allocates: every field is zero.\<close>

definition zeroState :: "Contract \<Rightarrow> 'h \<Rightarrow> ForksInTime \<Rightarrow> 'h state" where
  "zeroState c h config = \<lparr>st_ip = 0, st_code = [], st_tmp = [], st_host = h, st_msg = c,
     st_config = config, st_memory = [], st_lastGasCost = 0, st_stack = [], st_err = None,
     st_stop = False, st_gas = 0, st_currentConsumedGas = 0, st_bitmap = [],
     st_returnData = [], st_ret = []\<rparr>"

end
