(* ===== verification/Evm_Frame.thy ===== *)
theory Evm_Frame
  imports Evm_Run
begin

text \<open>
  Frame and effect lemmas of the state operations: which fields of the machine state an
  operation leaves alone, and what it does to the others. They are simplification rules, so
  that the instruction proofs compute with them.
\<close>

section \<open>Fields that an operation does not change\<close>

lemma pop_frame [simp]:
  shows "st_ip (snd (pop c)) = st_ip c"
    and "st_code (snd (pop c)) = st_code c"
    and "st_tmp (snd (pop c)) = st_tmp c"
    and "st_host (snd (pop c)) = st_host c"
    and "st_msg (snd (pop c)) = st_msg c"
    and "st_config (snd (pop c)) = st_config c"
    and "st_memory (snd (pop c)) = st_memory c"
    and "st_lastGasCost (snd (pop c)) = st_lastGasCost c"
    and "st_err (snd (pop c)) = st_err c"
    and "st_stop (snd (pop c)) = st_stop c"
    and "st_gas (snd (pop c)) = st_gas c"
    and "st_currentConsumedGas (snd (pop c)) = st_currentConsumedGas c"
    and "st_bitmap (snd (pop c)) = st_bitmap c"
    and "st_returnData (snd (pop c)) = st_returnData c"
    and "st_ret (snd (pop c)) = st_ret c"
  by (simp_all add: pop_def stack_pop_def Let_def split: prod.splits)

lemma push_frame [simp]:
  shows "st_ip (push c v) = st_ip c"
    and "st_code (push c v) = st_code c"
    and "st_tmp (push c v) = st_tmp c"
    and "st_host (push c v) = st_host c"
    and "st_msg (push c v) = st_msg c"
    and "st_config (push c v) = st_config c"
    and "st_memory (push c v) = st_memory c"
    and "st_lastGasCost (push c v) = st_lastGasCost c"
    and "st_err (push c v) = st_err c"
    and "st_stop (push c v) = st_stop c"
    and "st_gas (push c v) = st_gas c"
    and "st_currentConsumedGas (push c v) = st_currentConsumedGas c"
    and "st_bitmap (push c v) = st_bitmap c"
    and "st_returnData (push c v) = st_returnData c"
    and "st_ret (push c v) = st_ret c"
  by (simp_all add: push_def)

lemma set_top_frame [simp]:
  shows "st_ip (set_top c v) = st_ip c"
    and "st_code (set_top c v) = st_code c"
    and "st_tmp (set_top c v) = st_tmp c"
    and "st_host (set_top c v) = st_host c"
    and "st_msg (set_top c v) = st_msg c"
    and "st_config (set_top c v) = st_config c"
    and "st_memory (set_top c v) = st_memory c"
    and "st_lastGasCost (set_top c v) = st_lastGasCost c"
    and "st_err (set_top c v) = st_err c"
    and "st_stop (set_top c v) = st_stop c"
    and "st_gas (set_top c v) = st_gas c"
    and "st_currentConsumedGas (set_top c v) = st_currentConsumedGas c"
    and "st_bitmap (set_top c v) = st_bitmap c"
    and "st_returnData (set_top c v) = st_returnData c"
    and "st_ret (set_top c v) = st_ret c"
  by (simp_all add: set_top_def)

lemma swap_frame [simp]:
  shows "st_ip (snd (swap c n)) = st_ip c"
    and "st_code (snd (swap c n)) = st_code c"
    and "st_tmp (snd (swap c n)) = st_tmp c"
    and "st_host (snd (swap c n)) = st_host c"
    and "st_msg (snd (swap c n)) = st_msg c"
    and "st_config (snd (swap c n)) = st_config c"
    and "st_memory (snd (swap c n)) = st_memory c"
    and "st_lastGasCost (snd (swap c n)) = st_lastGasCost c"
    and "st_err (snd (swap c n)) = st_err c"
    and "st_stop (snd (swap c n)) = st_stop c"
    and "st_gas (snd (swap c n)) = st_gas c"
    and "st_currentConsumedGas (snd (swap c n)) = st_currentConsumedGas c"
    and "st_bitmap (snd (swap c n)) = st_bitmap c"
    and "st_returnData (snd (swap c n)) = st_returnData c"
    and "st_ret (snd (swap c n)) = st_ret c"
  by (simp_all add: swap_def split: prod.splits)

lemma exit_frame [simp]:
  shows "st_ip (exit c e) = st_ip c"
    and "st_code (exit c e) = st_code c"
    and "st_tmp (exit c e) = st_tmp c"
    and "st_host (exit c e) = st_host c"
    and "st_msg (exit c e) = st_msg c"
    and "st_config (exit c e) = st_config c"
    and "st_memory (exit c e) = st_memory c"
    and "st_lastGasCost (exit c e) = st_lastGasCost c"
    and "st_stack (exit c e) = st_stack c"
    and "st_gas (exit c e) = st_gas c"
    and "st_currentConsumedGas (exit c e) = st_currentConsumedGas c"
    and "st_bitmap (exit c e) = st_bitmap c"
    and "st_returnData (exit c e) = st_returnData c"
    and "st_ret (exit c e) = st_ret c"
  by (simp_all add: exit_def split: option.splits)

lemma Halt_frame [simp]:
  shows "st_ip (Halt c) = st_ip c"
    and "st_code (Halt c) = st_code c"
    and "st_tmp (Halt c) = st_tmp c"
    and "st_host (Halt c) = st_host c"
    and "st_msg (Halt c) = st_msg c"
    and "st_config (Halt c) = st_config c"
    and "st_memory (Halt c) = st_memory c"
    and "st_lastGasCost (Halt c) = st_lastGasCost c"
    and "st_stack (Halt c) = st_stack c"
    and "st_err (Halt c) = st_err c"
    and "st_gas (Halt c) = st_gas c"
    and "st_currentConsumedGas (Halt c) = st_currentConsumedGas c"
    and "st_bitmap (Halt c) = st_bitmap c"
    and "st_returnData (Halt c) = st_returnData c"
    and "st_ret (Halt c) = st_ret c"
  by (simp_all add: Halt_def)

lemma resetReturnData_frame [simp]:
  shows "st_ip (resetReturnData c) = st_ip c"
    and "st_code (resetReturnData c) = st_code c"
    and "st_tmp (resetReturnData c) = st_tmp c"
    and "st_host (resetReturnData c) = st_host c"
    and "st_msg (resetReturnData c) = st_msg c"
    and "st_config (resetReturnData c) = st_config c"
    and "st_memory (resetReturnData c) = st_memory c"
    and "st_lastGasCost (resetReturnData c) = st_lastGasCost c"
    and "st_stack (resetReturnData c) = st_stack c"
    and "st_err (resetReturnData c) = st_err c"
    and "st_stop (resetReturnData c) = st_stop c"
    and "st_gas (resetReturnData c) = st_gas c"
    and "st_currentConsumedGas (resetReturnData c) = st_currentConsumedGas c"
    and "st_bitmap (resetReturnData c) = st_bitmap c"
    and "st_ret (resetReturnData c) = st_ret c"
  by (simp_all add: resetReturnData_def)

lemma consumeGas_frame [simp]:
  shows "st_ip (snd (consumeGas c g)) = st_ip c"
    and "st_code (snd (consumeGas c g)) = st_code c"
    and "st_tmp (snd (consumeGas c g)) = st_tmp c"
    and "st_host (snd (consumeGas c g)) = st_host c"
    and "st_msg (snd (consumeGas c g)) = st_msg c"
    and "st_config (snd (consumeGas c g)) = st_config c"
    and "st_memory (snd (consumeGas c g)) = st_memory c"
    and "st_lastGasCost (snd (consumeGas c g)) = st_lastGasCost c"
    and "st_stack (snd (consumeGas c g)) = st_stack c"
    and "st_bitmap (snd (consumeGas c g)) = st_bitmap c"
    and "st_returnData (snd (consumeGas c g)) = st_returnData c"
    and "st_ret (snd (consumeGas c g)) = st_ret c"
  by (simp_all add: consumeGas_def Let_def exit_def)

lemma allocateMemory_frame [simp]:
  shows "st_ip (snd (allocateMemory E c off sz)) = st_ip c"
    and "st_code (snd (allocateMemory E c off sz)) = st_code c"
    and "st_tmp (snd (allocateMemory E c off sz)) = st_tmp c"
    and "st_host (snd (allocateMemory E c off sz)) = st_host c"
    and "st_msg (snd (allocateMemory E c off sz)) = st_msg c"
    and "st_config (snd (allocateMemory E c off sz)) = st_config c"
    and "st_stack (snd (allocateMemory E c off sz)) = st_stack c"
    and "st_bitmap (snd (allocateMemory E c off sz)) = st_bitmap c"
    and "st_returnData (snd (allocateMemory E c off sz)) = st_returnData c"
    and "st_ret (snd (allocateMemory E c off sz)) = st_ret c"
  by (simp_all add: allocateMemory_def Let_def exit_def consumeGas_def)

lemma calculateGas_frame [simp]:
  shows "st_ip (snd (calculateGasForEIP2929 E c a)) = st_ip c"
    and "st_code (snd (calculateGasForEIP2929 E c a)) = st_code c"
    and "st_tmp (snd (calculateGasForEIP2929 E c a)) = st_tmp c"
    and "st_msg (snd (calculateGasForEIP2929 E c a)) = st_msg c"
    and "st_config (snd (calculateGasForEIP2929 E c a)) = st_config c"
    and "st_memory (snd (calculateGasForEIP2929 E c a)) = st_memory c"
    and "st_lastGasCost (snd (calculateGasForEIP2929 E c a)) = st_lastGasCost c"
    and "st_stack (snd (calculateGasForEIP2929 E c a)) = st_stack c"
    and "st_err (snd (calculateGasForEIP2929 E c a)) = st_err c"
    and "st_stop (snd (calculateGasForEIP2929 E c a)) = st_stop c"
    and "st_gas (snd (calculateGasForEIP2929 E c a)) = st_gas c"
    and "st_currentConsumedGas (snd (calculateGasForEIP2929 E c a)) = st_currentConsumedGas c"
    and "st_bitmap (snd (calculateGasForEIP2929 E c a)) = st_bitmap c"
    and "st_returnData (snd (calculateGasForEIP2929 E c a)) = st_returnData c"
    and "st_ret (snd (calculateGasForEIP2929 E c a)) = st_ret c"
  by (simp_all add: calculateGasForEIP2929_def)
section \<open>Effects\<close>

lemma snd_popAddr [simp]: "snd (popAddr E c) = snd (pop c)"
  by (simp add: popAddr_def pop_def stack_pop_def Let_def)

lemma snd_popHash [simp]: "snd (popHash E c) = snd (pop c)"
  by (simp add: popHash_def split: prod.splits)

lemma length_stack_pop [simp]: "length (st_stack (snd (pop c))) = length (st_stack c) - 1"
  by (simp add: pop_def stack_pop_def Let_def)

lemma stack_snd_pop: "st_stack (snd (pop c)) = take (length (st_stack c) - 1) (st_stack c)"
  by (simp add: pop_def stack_pop_def Let_def)

lemma fst_pop: "st_stack c \<noteq> [] \<Longrightarrow> fst (pop c) = last (st_stack c)"
  by (simp add: pop_def stack_pop_def Let_def last_conv_nth)

lemma top_Some [simp]: "st_stack c \<noteq> [] \<Longrightarrow> top c = Some (last (st_stack c))"
  by (simp add: top_def stack_top_def Let_def last_conv_nth)

lemma length_stack_push [simp]: "length (st_stack (push c v)) = Suc (length (st_stack c))"
  by (simp add: push_def stack_push_def)

lemma stack_push_eq [simp]: "st_stack (push c v) = st_stack c @ [v]"
  by (simp add: push_def stack_push_def)

lemma length_stack_set_top [simp]: "length (st_stack (set_top c v)) = length (st_stack c)"
  by (simp add: set_top_def)

lemma exit_Some [simp]: "st_err (exit c (Some e)) = Some e" "st_stop (exit c (Some e))"
  by (simp_all add: exit_def)

lemma Halt_stop [simp]: "st_stop (Halt c)"
  by (simp add: Halt_def)

lemma consumeGas_fst [simp]: "fst (consumeGas c g) \<longleftrightarrow> g \<le> st_gas c"
  by (auto simp: consumeGas_def Let_def)

lemma consumeGas_gas [simp]:
  "st_gas (snd (consumeGas c g)) = (if g \<le> st_gas c then st_gas c - g else st_gas c)"
  by (auto simp: consumeGas_def Let_def exit_def)

lemma consumeGas_err [simp]:
  "st_err (snd (consumeGas c g)) = (if g \<le> st_gas c then st_err c else Some ErrOutOfGas)"
  by (auto simp: consumeGas_def Let_def exit_def)

lemma consumeGas_stop [simp]:
  "st_stop (snd (consumeGas c g)) \<longleftrightarrow> (st_gas c < g \<or> st_stop c)"
  by (auto simp: consumeGas_def Let_def exit_def)

lemma unat_sub_mono: "(g :: u64) \<le> x \<Longrightarrow> unat (x - g) \<le> unat x"
  by (simp add: unat_sub)

lemma unat_sub_strict: "(g :: u64) \<le> x \<Longrightarrow> 0 < g \<Longrightarrow> unat (x - g) < unat x"
  by (simp add: unat_sub word_le_nat_alt word_less_nat_alt)

lemma calculateGas_cost:
  "fst (calculateGasForEIP2929 E c a) = 100 \<or> fst (calculateGasForEIP2929 E c a) = 2600"
  by (simp add: calculateGasForEIP2929_def WarmStorageReadCostEIP2929_def
      ColdAccountAccessCostEIP2929_def)

lemma calculateGas_pos: "0 < fst (calculateGasForEIP2929 E c a)"
  using calculateGas_cost [of E c a] by auto

lemma calculateGas_host:
  "st_host (snd (calculateGasForEIP2929 E c a)) \<in>
     {st_host c, AddAddressToAccessList (env_H E) (st_host c) a}"
  by (simp add: calculateGasForEIP2929_def)

section \<open>Memory\<close>

text \<open>The size of the memory is a whole number of words, and the gas counter of the memory is
  the cost of that size.\<close>

definition mem_ok :: "'h state \<Rightarrow> bool" where
  "mem_ok c \<longleftrightarrow> 32 dvd length (st_memory c) \<and> length (st_memory c) < 2 ^ 42 \<and>
     st_lastGasCost c = memCost (of_nat (length (st_memory c) div 32))"

lemma mem_ok_frame [simp]:
  "mem_ok (snd (pop c)) = mem_ok c" "mem_ok (push c v) = mem_ok c" "mem_ok (set_top c v) = mem_ok c"
  "mem_ok (snd (swap c n)) = mem_ok c" "mem_ok (exit c e) = mem_ok c" "mem_ok (Halt c) = mem_ok c"
  "mem_ok (resetReturnData c) = mem_ok c" "mem_ok (snd (consumeGas c g)) = mem_ok c"
  "mem_ok (snd (calculateGasForEIP2929 E c a)) = mem_ok c"
  "mem_ok (c\<lparr>st_host := h\<rparr>) = mem_ok c" "mem_ok (c\<lparr>st_tmp := t\<rparr>) = mem_ok c"
  "mem_ok (c\<lparr>st_ret := t\<rparr>) = mem_ok c" "mem_ok (c\<lparr>st_gas := g\<rparr>) = mem_ok c"
  "mem_ok (c\<lparr>st_ip := i\<rparr>) = mem_ok c" "mem_ok (c\<lparr>st_returnData := t\<rparr>) = mem_ok c"
  "mem_ok (c\<lparr>st_gas := g, st_returnData := t\<rparr>) = mem_ok c"
  by (simp_all add: mem_ok_def)

lemma mem_ok_write:
  "length m = length (st_memory c) \<Longrightarrow> mem_ok (c\<lparr>st_memory := m\<rparr>) = mem_ok c"
  by (simp add: mem_ok_def)

lemma mem_size_word:
  fixes a b :: u64
  assumes "a \<le> 0xffffffffe0" and "b \<le> 0xffffffffe0"
  shows "unat (a + b) = unat a + unat b"
    and "unat ((a + b + 31) div 32) = (unat a + unat b + 31) div 32"
    and "unat ((a + b + 31) div 32 * 32) = (unat a + unat b + 31) div 32 * 32"
proof -
  have ab: "unat a \<le> 1099511627744" "unat b \<le> 1099511627744"
    using assms by (simp_all add: word_le_nat_alt)
  show s: "unat (a + b) = unat a + unat b"
    using ab by (intro unat_add_small) simp
  have s31: "unat (a + b + 31) = unat a + unat b + 31"
    using ab s by (subst unat_add_small) simp_all
  then show w: "unat ((a + b + 31) div 32) = (unat a + unat b + 31) div 32"
    by (simp add: unat_div)
  have "(unat a + unat b + 31) div 32 * 32 < 2 ^ 64" using ab by simp
  then show "unat ((a + b + 31) div 32 * 32) = (unat a + unat b + 31) div 32 * 32"
    using w by (simp add: unat_word_ariths(2) take_bit_nat_def)
qed

text \<open>A successful allocation covers the requested range, keeps the memory well-formed and does
  not touch the error flag; a failed one sets it.\<close>

lemma allocateMemory_ok:
  assumes U: "uint256_doc (env_U E)" and ok: "fst (allocateMemory E c off sz)"
  defines "c' \<equiv> snd (allocateMemory E c off sz)"
  shows "st_err c' = st_err c" and "st_stop c' = st_stop c"
    and "unat off < 2 ^ 64" and "unat sz < 2 ^ 64"
    and "mem_ok c \<Longrightarrow> mem_ok c'"
    and "mem_ok c \<Longrightarrow> sz \<noteq> 0 \<Longrightarrow> unat off + unat sz \<le> length (st_memory c')"
proof -
  let ?o = "u_Uint64 (env_U E) off" and ?s = "u_Uint64 (env_U E) sz"
  have u: "u_IsUint64 (env_U E) off" "u_IsUint64 (env_U E) sz"
    using ok by (auto simp: allocateMemory_def Let_def split: if_splits)
  then have lo: "unat off < 2 ^ 64" and ls: "unat sz < 2 ^ 64"
    using U by (simp_all add: uint256_docD)
  have uo: "unat ?o = unat off" and us: "unat ?s = unat sz"
    using u U by (simp_all add: uint256_Uint64_small)
  show "unat off < 2 ^ 64" "unat sz < 2 ^ 64" by (fact lo, fact ls)
  show "st_err c' = st_err c" "st_stop c' = st_stop c"
    using ok unfolding c'_def
    by (auto simp: allocateMemory_def Let_def split_def split: if_splits)
  have main: "mem_ok c \<Longrightarrow> mem_ok c' \<and> (sz \<noteq> 0 \<longrightarrow> unat off + unat sz \<le> length (st_memory c'))"
  proof (cases "sz = 0")
    case True
    then have "c' = c"
      using u U by (simp add: c'_def allocateMemory_def Let_def uint256_Sign_zero)
    then show "mem_ok c \<Longrightarrow> mem_ok c' \<and> (sz \<noteq> 0 \<longrightarrow> unat off + unat sz \<le> length (st_memory c'))"
      using True by simp
  next
    case False
    assume m: "mem_ok c"
    have b: "?o \<le> 0xffffffffe0" "?s \<le> 0xffffffffe0"
      using ok u U False
      by (auto simp: allocateMemory_def Let_def uint256_Sign_zero not_less split: if_splits)
    note sz = mem_size_word [OF b]
    have len: "unat (of_nat (length (st_memory c)) :: u64) = length (st_memory c)"
      using m by (intro unat_of_nat_small) (simp add: mem_ok_def)
    show "mem_ok c' \<and> (sz \<noteq> 0 \<longrightarrow> unat off + unat sz \<le> length (st_memory c'))"
    proof (cases "(of_nat (length (st_memory c)) :: u64) < ?o + ?s")
      case True
      let ?w = "(?o + ?s + 31) div 32"
      have c': "st_memory c' = ExtendByteSlice (st_memory c) (unat (?w * 32))"
        "st_lastGasCost c' = memCost ?w"
        using ok u U False b True
        by (auto simp: c'_def allocateMemory_def Let_def uint256_Sign_zero split_def not_less
            split: if_splits)
      have l: "length (st_memory c') = (unat off + unat sz + 31) div 32 * 32"
        using c' sz(3) uo us by simp
      have "unat off \<le> 1099511627744" "unat sz \<le> 1099511627744"
        using b uo us by (simp_all add: word_le_nat_alt)
      then have "length (st_memory c') < 2 ^ 42" using l by simp
      moreover have "length (st_memory c') div 32 = unat ?w" using l sz(2) uo us by simp
      then have "of_nat (length (st_memory c') div 32) = ?w" by simp
      ultimately have "mem_ok c'" using c' l by (simp add: mem_ok_def)
      moreover have "unat off + unat sz \<le> length (st_memory c')" using l by simp
      ultimately show ?thesis by simp
    next
      case False
      then have "c' = c"
        using u U \<open>sz \<noteq> 0\<close> b by (simp add: c'_def allocateMemory_def Let_def uint256_Sign_zero not_less)
      moreover have "unat off + unat sz \<le> length (st_memory c)"
        using False sz(1) len uo us by (simp add: word_less_nat_alt)
      ultimately show ?thesis using m by simp
    qed
  qed
  show "mem_ok c \<Longrightarrow> mem_ok c'"
    and "mem_ok c \<Longrightarrow> sz \<noteq> 0 \<Longrightarrow> unat off + unat sz \<le> length (st_memory c')"
    using main by blast+
qed

lemma allocateMemory_fail:
  assumes "\<not> fst (allocateMemory E c off sz)"
  shows "st_err (snd (allocateMemory E c off sz)) \<noteq> None"
    and "st_stop (snd (allocateMemory E c off sz))"
  using assms by (auto simp: allocateMemory_def Let_def split_def split: if_splits)

lemma allocateMemory_gas:
  "unat (st_gas (snd (allocateMemory E c off sz))) \<le> unat (st_gas c)"
  by (auto simp: allocateMemory_def Let_def split_def unat_sub_mono)

end
