(* ===== verification/Evm_Data.thy ===== *)
theory Evm_Data
  imports Evm_Frame
begin

text \<open>
  Words and memory, and the protection of static frames. The unrolled byte writes of \<^verbatim>\<open>WriteToSlice32\<close> are the
  big-endian bytes of the word; a word written by \<^verbatim>\<open>MSTORE\<close> is read back by \<^verbatim>\<open>MLOAD\<close>; the state-changing
  instructions stop in a static frame, and the frames opened from a static frame are static.
\<close>

lemma Uint64_small: "uint256_doc U \<Longrightarrow> unat x < 2 ^ 64 \<Longrightarrow> unat (u_Uint64 U x) = unat x"
  by (rule uint256_Uint64_small) (simp_all add: uint256_docD)

lemma limb_byte_eq:
  assumes "k < 8"
  shows "limb_byte z i k = ucast (drop_bit (64 * i + 8 * k) z)"
  using assms by (auto intro!: bit_word_eqI simp: limb_byte_def limb_def bit_simps algebra_simps)

lemma WriteToSlice32_eq: "WriteToSlice32 z = be_bytes 32 z"
  by (simp add: WriteToSlice32_def limb_byte_eq be_bytes_def upt_rec)

lemma WriteToSlice_eq: "uint256_doc (env_U E) \<Longrightarrow> WriteToSlice E z n = be_bytes n z"
  by (simp add: WriteToSlice_def WriteToSlice32_eq uint256_doc_def)


lemma static_protection:
  assumes "inStaticCall c"
  shows "opSStore E c = Some (exit c (Some errWriteProtection))"
    "opLog n E c = Some (exit c (Some errWriteProtection))"
    "opSelfDestruct E c = Some (exit c (Some errWriteProtection))"
    "opCreate cop E c = Some (exit c (Some errWriteProtection))"
  using assms by (simp_all add: opSStore_def opLog_def opSelfDestruct_def opCreate_def)

lemma bit_len_pos: "x \<noteq> 0 \<Longrightarrow> 0 < bit_len x"
proof -
  assume "x \<noteq> 0"
  then obtain n where "bit x n" using bit_eqI [of x 0] by auto
  moreover from this have "n < 256" using bit_imp_le_length [of x n] by simp
  ultimately show ?thesis by (auto simp: bit_len_def dropWhile_eq_Nil_conv)
qed

lemma static_call_value:
  assumes "inStaticCall c" "uint256_doc (env_U E)" "st_stack c = s @ [v, addr, gas]" "v \<noteq> 0"
  shows "opCall CALL E c = Some (exit (resetReturnData c) (Some errWriteProtection))"
proof -
  have "peekAt (resetReturnData c) 3 = Some (Inr v)" using assms(3) by (simp add: peekAt_def stack_peekAt_def Let_def nth_append)
  then show ?thesis using assms bit_len_pos [of v] by (simp add: opCall_def Let_def inStaticCall_def uint256_doc_def)
qed

lemma MStore_eq:
  assumes U: "uint256_doc (env_U E)" and m: "mem_ok c" and e: "st_stack c = s @ [v, off]"
  defines "a \<equiv> allocateMemory E (snd (pop (snd (pop c)))) off 32"
  defines "mem \<equiv> take (unat off) (st_memory (snd a)) @ be_bytes 32 v @ drop (unat off + 32) (st_memory (snd a))"
  shows "opMStore E c = Some (if fst a then (snd a)\<lparr>st_memory := mem\<rparr> else snd a)"
    and "fst a \<Longrightarrow> unat off + 32 \<le> length (st_memory (snd a)) \<and> length (st_memory (snd a)) < 2 ^ 42 \<and>
      unat (u_Uint64 (env_U E) off) = unat off \<and> unat (u_Uint64 (env_U E) off + 32) = unat off + 32"
proof -
  let ?c = "snd (pop (snd (pop c)))" and ?o = "u_Uint64 (env_U E) off"
  have p: "fst (pop c) = off" "fst (pop (snd (pop c))) = v" "mem_ok ?c"
    using e m by (simp_all add: pop_def stack_pop_def Let_def nth_append mem_ok_def)
  show r: "unat off + 32 \<le> length (st_memory (snd a)) \<and> length (st_memory (snd a)) < 2 ^ 42 \<and>
      unat ?o = unat off \<and> unat (?o + 32) = unat off + 32" if ok: "fst a"
  proof -
    note A = allocateMemory_ok [OF U ok [unfolded a_def], folded a_def]
    have o64: "unat ?o = unat off" by (rule Uint64_small [OF U A(3)])
    have "unat off + 32 \<le> length (st_memory (snd a))" "length (st_memory (snd a)) < 2 ^ 42"
      using A(5,6) p(3) by (simp_all add: mem_ok_def)
    then show ?thesis using o64 by (simp add: unat_word_ariths)
  qed
  show "opMStore E c = Some (if fst a then (snd a)\<lparr>st_memory := mem\<rparr> else snd a)"
    using p r by (auto simp: opMStore_def split_def Let_def wordSize256_def WriteToSlice_eq [OF U] write_at_def a_def mem_def)
qed

lemma MStore_MLoad:
  assumes U: "uint256_doc (env_U E)" and m: "mem_ok c" and e: "st_stack c = s @ [v, off]"
    and st: "opMStore E c = Some c1" "st_err c1 = None"
  shows "\<exists>c2. opMLoad E (push c1 off) = Some c2 \<and> st_stack c2 = s @ [v] \<and> st_gas c2 = st_gas c1 \<and> st_memory c2 = st_memory c1"
proof -
  let ?a = "allocateMemory E (snd (pop (snd (pop c)))) off 32" and ?o = "u_Uint64 (env_U E) off"
  have ok: "fst ?a"
  proof (rule ccontr)
    assume "\<not> fst ?a"
    then show False using st MStore_eq(1) [OF U m e] allocateMemory_fail(1) [of E "snd (pop (snd (pop c)))" off 32] by simp
  qed
  note r = MStore_eq(2) [OF U m e ok]
  have c1: "c1 = (snd ?a)\<lparr>st_memory := take (unat off) (st_memory (snd ?a)) @ be_bytes 32 v @ drop (unat off + 32) (st_memory (snd ?a))\<rparr>"
    using st(1) MStore_eq(1) [OF U m e] ok by simp
  have b: "\<not> 0xffffffffe0 < ?o"
    using ok uint256_Sign_zero [OF U, of 32] unfolding allocateMemory_def Let_def by (auto split: if_splits)
  have u: "u_IsUint64 (env_U E) off" "u_IsUint64 (env_U E) 32" "u_Uint64 (env_U E) 32 = 32" "u_Sign (env_U E) 32 \<noteq> 0"
    using allocateMemory_ok(3) [OF U ok] uint256_Sign_zero [OF U, of 32] by (simp_all add: uint256_docD [OF U])
  have l: "unat off + 32 \<le> length (st_memory c1)" "length (st_memory c1) < 2 ^ 64" using r by (simp_all add: c1)
  have al: "allocateMemory E (push c1 off) off 32 = (True, push c1 off)"
    using b u r l by (simp add: allocateMemory_def Let_def word_less_nat_alt unat_of_nat_small)
  have "of_be_bytes (be_bytes 32 v) = v" using of_be_bytes_be_bytes [where w = v and n = 32] by simp
  moreover have "st_stack (snd (pop (snd (pop c)))) = s" using e by (simp add: pop_def stack_pop_def Let_def)
  ultimately show ?thesis using al r U
    by (simp add: opMLoad_def Let_def wordSize256_def u c1 set_top_def list_update_append uint256_docD)
qed

lemma callFrame_static:
  "c_Static (fst (callFrame op E c addr v gas args)) = (op = STATICCALL \<or> c_Static (st_msg c))"
  by (simp add: callFrame_def split_def Let_def NewContractCall_def NewContract_def)

end
