(* ===== verification/AccessList.thy ===== *)
theory AccessList
  imports Runtime
begin

text \<open>
  The access list of EIP-2929 and EIP-2930, \<^verbatim>\<open>src/state/runtime/access_list.go\<close>, and the journal
  that undoes its changes, \<^verbatim>\<open>src/state/runtime/journal.go\<close>. The map of maps is a partial function
  from addresses to sets of slots; a journal entry is reverted through the \<^verbatim>\<open>Delete\<close> methods of the
  host, which act on its access list only.
\<close>

section \<open>Access list\<close>

definition NewAccessList :: AccessList where
  "NewAccessList = Map.empty"

definition ContainsAddress :: "AccessList \<Rightarrow> Address \<Rightarrow> bool" where
  "ContainsAddress al address = (al address \<noteq> None)"

definition Contains :: "AccessList \<Rightarrow> Address \<Rightarrow> Hash \<Rightarrow> bool \<times> bool" where
  "Contains al address slot =
     (case al address of None \<Rightarrow> (False, False) | Some slots \<Rightarrow> (True, slot \<in> slots))"

definition AccessList_Copy :: "AccessList \<Rightarrow> AccessList" where
  "AccessList_Copy al = (\<lambda>addr. case al addr of None \<Rightarrow> None | Some slotMap \<Rightarrow> Some {s. s \<in> slotMap})"

fun AddAddress :: "AccessList \<Rightarrow> Address list \<Rightarrow> AccessList" where
  "AddAddress al [] = al"
| "AddAddress al (addr # address) =
     (if al addr \<noteq> None then AddAddress al address else AddAddress (al(addr \<mapsto> {})) address)"

fun addSlots :: "Hash set \<Rightarrow> Hash list \<Rightarrow> Hash set" where
  "addSlots slotMap [] = slotMap"
| "addSlots slotMap (s # slot) =
     (if s \<in> slotMap then addSlots slotMap slot else addSlots (insert s slotMap) slot)"

definition AddSlot :: "AccessList \<Rightarrow> Address \<Rightarrow> Hash list \<Rightarrow> AccessList" where
  "AddSlot al address slot =
     (let slotMap = (case al address of None \<Rightarrow> {} | Some m \<Rightarrow> m)
      in al(address \<mapsto> addSlots slotMap slot))"

record AccessTuple =
  at_Address :: Address
  at_StorageKeys :: "Hash list"

type_synonym TxAccessList = "AccessTuple list"

fun addTuples :: "AccessList \<Rightarrow> TxAccessList \<Rightarrow> AccessList" where
  "addTuples al [] = al"
| "addTuples al (t # ts) =
     addTuples (AddSlot (AddAddress al [at_Address t]) (at_Address t) (at_StorageKeys t)) ts"

definition PrepareAccessList ::
  "AccessList \<Rightarrow> Address \<Rightarrow> Address option \<Rightarrow> Address list \<Rightarrow> TxAccessList \<Rightarrow> AccessList" where
  "PrepareAccessList al from to precompiles txAccessList =
     (let al = AddAddress al [from];
          al = (case to of None \<Rightarrow> al | Some a \<Rightarrow> AddAddress al [a]);
          al = AddAddress al precompiles
      in addTuples al txAccessList)"

definition DeleteAddress :: "AccessList \<Rightarrow> Address \<Rightarrow> AccessList" where
  "DeleteAddress al address = al(address := None)"

definition DeleteSlot :: "AccessList \<Rightarrow> Address \<Rightarrow> Hash \<Rightarrow> AccessList" where
  "DeleteSlot al address slot =
     (case al address of None \<Rightarrow> al | Some slotMap \<Rightarrow> al(address \<mapsto> slotMap - {slot}))"

section \<open>Journal\<close>

datatype JournalEntry =
  AccessListAddAccountChange Address | AccessListAddSlotChange Address Hash

record JournalRevision =
  jr_ID :: nat
  jr_Index :: nat

type_synonym Journal = "JournalEntry list"

definition Journal_Append :: "Journal \<Rightarrow> JournalEntry \<Rightarrow> Journal" where
  "Journal_Append j entry = j @ [entry]"

definition Journal_Len :: "Journal \<Rightarrow> nat" where
  "Journal_Len j = length j"

fun JournalEntry_Revert :: "JournalEntry \<Rightarrow> AccessList \<Rightarrow> AccessList" where
  "JournalEntry_Revert (AccessListAddAccountChange a) al = DeleteAddress al a"
| "JournalEntry_Revert (AccessListAddSlotChange a s) al = DeleteSlot al a s"

text \<open>The loop runs from the last entry down to the entry at the snapshot index.\<close>

function Journal_Revert_loop :: "Journal \<Rightarrow> nat \<Rightarrow> nat \<Rightarrow> AccessList \<Rightarrow> AccessList" where
  "Journal_Revert_loop j snapshot i al =
     (if snapshot < i \<and> i \<le> length j
      then Journal_Revert_loop j snapshot (i - 1) (JournalEntry_Revert (j ! (i - 1)) al)
      else al)"
  by pat_completeness auto
termination by (relation "measure (\<lambda>(j, snapshot, i, al). i)") auto

definition Journal_Revert :: "Journal \<Rightarrow> nat \<Rightarrow> AccessList \<Rightarrow> (Journal \<times> AccessList) option" where
  "Journal_Revert j snapshot al =
     (let al = Journal_Revert_loop j snapshot (length j) al
      in map_option (\<lambda>j. (j, al)) (go_slice j 0 snapshot))"

declare Journal_Revert_loop.simps [simp del]

section \<open>What the operations do\<close>

lemma AddAddress_apply:
  "AddAddress al as a = (if a \<in> set as \<and> al a = None then Some {} else al a)"
  by (induction as arbitrary: al) auto

lemma addSlots_eq: "addSlots m ss = m \<union> set ss"
  by (induction m ss rule: addSlots.induct) auto

lemma AddSlot_apply:
  "AddSlot al a ss b = (if b = a then Some ((case al a of None \<Rightarrow> {} | Some m \<Rightarrow> m) \<union> set ss) else al b)"
  by (simp add: AddSlot_def addSlots_eq Let_def)

lemma AccessList_Copy_id [simp]: "AccessList_Copy al = al"
  by (rule ext) (simp add: AccessList_Copy_def split: option.split)

lemma addTuples_apply:
  "addTuples al ts a =
     (if a \<in> at_Address ` set ts
      then Some ((case al a of None \<Rightarrow> {} | Some m \<Rightarrow> m) \<union>
                 (\<Union>t \<in> {t \<in> set ts. at_Address t = a}. set (at_StorageKeys t)))
      else al a)"
proof (induction ts arbitrary: al)
  case (Cons t ts)
  have s: "{u \<in> set (t # ts). at_Address u = a} =
    (if at_Address t = a then insert t {u \<in> set ts. at_Address u = a} else {u \<in> set ts. at_Address u = a})"
    by auto
  show ?case
    unfolding s by (auto simp: Cons.IH AddSlot_apply AddAddress_apply image_iff
        simp del: AddAddress.simps split: option.split)
qed simp

text \<open>The warm addresses and slots of a transaction.\<close>

lemma PrepareAccessList_address:
  "ContainsAddress (PrepareAccessList al from to pre ts) a \<longleftrightarrow>
     ContainsAddress al a \<or> a = from \<or> to = Some a \<or> a \<in> set pre \<or> a \<in> at_Address ` set ts"
  by (auto simp: PrepareAccessList_def ContainsAddress_def addTuples_apply AddAddress_apply Let_def
      split: option.split)

lemma PrepareAccessList_slot:
  "snd (Contains (PrepareAccessList al from to pre ts) a s) \<longleftrightarrow>
     snd (Contains al a s) \<or> (\<exists>t \<in> set ts. at_Address t = a \<and> s \<in> set (at_StorageKeys t))"
  by (auto simp: PrepareAccessList_def Contains_def addTuples_apply AddAddress_apply Let_def
      split: option.split)

section \<open>Undoing journaled changes\<close>

text \<open>One journaled operation of the transition: the entry is appended, then the change is made.\<close>

fun applyEntry :: "JournalEntry \<Rightarrow> AccessList \<Rightarrow> AccessList" where
  "applyEntry (AccessListAddAccountChange a) al = AddAddress al [a]"
| "applyEntry (AccessListAddSlotChange a s) al = AddSlot al a [s]"

text \<open>The change is new: the address was cold; the slot was cold and its address was warm.\<close>

fun fresh_entry :: "JournalEntry \<Rightarrow> AccessList \<Rightarrow> bool" where
  "fresh_entry (AccessListAddAccountChange a) al = (al a = None)"
| "fresh_entry (AccessListAddSlotChange a s) al = (\<exists>m. al a = Some m \<and> s \<notin> m)"

fun fresh_entries :: "JournalEntry list \<Rightarrow> AccessList \<Rightarrow> bool" where
  "fresh_entries [] al = True"
| "fresh_entries (e # es) al = (fresh_entry e al \<and> fresh_entries es (applyEntry e al))"

lemma JournalEntry_Revert_apply:
  "fresh_entry e al \<Longrightarrow> JournalEntry_Revert e (applyEntry e al) = al"
  by (cases e) (auto simp: DeleteAddress_def DeleteSlot_def AddAddress_apply AddSlot_apply fun_eq_iff)

lemma Journal_Revert_loop_fold:
  assumes "snapshot \<le> i" "i \<le> length j"
  shows "Journal_Revert_loop j snapshot i al =
    fold JournalEntry_Revert (rev (drop snapshot (take i j))) al"
  using assms
proof (induction j snapshot i al rule: Journal_Revert_loop.induct)
  case (1 j snapshot i al)
  show ?case
  proof (cases "snapshot < i")
    case False
    then show ?thesis using 1(2) by (subst Journal_Revert_loop.simps) simp
  next
    case True
    with 1(3) have t: "take i j = take (i - 1) j @ [j ! (i - 1)]"
      by (cases i) (auto simp: take_Suc_conv_app_nth)
    show ?thesis
      using True 1 by (subst Journal_Revert_loop.simps) (simp add: t)
  qed
qed

lemma Journal_Revert_eq:
  "snapshot \<le> length j \<Longrightarrow>
     Journal_Revert j snapshot al = Some (take snapshot j, fold JournalEntry_Revert (rev (drop snapshot j)) al)"
  by (simp add: Journal_Revert_def Journal_Revert_loop_fold go_slice_def Let_def)

lemma revert_fresh:
  "fresh_entries es al \<Longrightarrow> fold JournalEntry_Revert (rev es) (fold applyEntry es al) = al"
  by (induction es arbitrary: al) (auto simp: JournalEntry_Revert_apply)

lemma Journal_Revert_restores:
  assumes "fresh_entries es al"
  shows "Journal_Revert (j @ es) (length j) (fold applyEntry es al) = Some (j, al)"
  using assms by (simp add: Journal_Revert_eq revert_fresh)

end
