(* ===== verification/Transaction.thy ===== *)
theory Transaction
  imports AccessList "HOL-Library.Monad_Syntax"
begin

text \<open>
  Transactions, \<^verbatim>\<open>src/types/transaction.go\<close> and the four implementations of its \<^verbatim>\<open>TxData\<close>
  interface: \<^verbatim>\<open>base_tx.go\<close>, \<^verbatim>\<open>legacy_tx.go\<close>, \<^verbatim>\<open>access_list_tx.go\<close>, \<^verbatim>\<open>dynamic_fee_tx.go\<close> and
  \<^verbatim>\<open>state_tx.go\<close>. A \<^verbatim>\<open>*big.Int\<close> or \<^verbatim>\<open>*Address\<close> field that may be nil is an option; a result
  \<^term>\<open>None\<close> of an operation on amounts is a nil pointer, or a panic on one. A nil access list has
  no entries. The encodings (RLP, JSON) are not modelled.
\<close>

section \<open>Data\<close>

abbreviation (input) StateTransactionGasLimit :: u64 where "StateTransactionGasLimit \<equiv> 1000000"

datatype TxType = LegacyTxType | AccessListTxType | DynamicFeeTxType | StateTxType

definition TxType_byte :: "TxType \<Rightarrow> byte" where
  "TxType_byte t = (case t of LegacyTxType \<Rightarrow> 0 | AccessListTxType \<Rightarrow> 1 | DynamicFeeTxType \<Rightarrow> 2
     | StateTxType \<Rightarrow> 0x7f)"

definition txTypeFromByte :: "byte \<Rightarrow> TxType option" where
  "txTypeFromByte b =
     (if b = 0 then Some LegacyTxType else if b = 0x7f then Some StateTxType
      else if b = 2 then Some DynamicFeeTxType else if b = 1 then Some AccessListTxType else None)"

definition TxType_String :: "TxType \<Rightarrow> string" where
  "TxType_String t = (case t of LegacyTxType \<Rightarrow> ''LegacyTx'' | StateTxType \<Rightarrow> ''StateTx''
     | DynamicFeeTxType \<Rightarrow> ''DynamicFeeTx'' | AccessListTxType \<Rightarrow> ''AccessListTx'')"

record BaseTx =
  tx_Nonce :: u64
  tx_Gas :: u64
  tx_To :: "Address option"
  tx_Value :: "int option"
  tx_Input :: bytes
  tx_V :: "int option"
  tx_R :: "int option"
  tx_S :: "int option"
  tx_Hash :: Hash
  tx_From :: Address

text \<open>The fields of the variants: gas price; gas price, chain id and access list; tip cap, fee cap,
  chain id and access list; gas price.\<close>

datatype Transaction =
  LegacyTx BaseTx "int option"
| AccessListTxn BaseTx "int option" "int option" TxAccessList
| DynamicFeeTx BaseTx "int option" "int option" "int option" TxAccessList
| StateTx BaseTx "int option"

section \<open>Getters and setters\<close>

definition Tx_Type :: "Transaction \<Rightarrow> TxType" where
  "Tx_Type t = (case t of LegacyTx _ _ \<Rightarrow> LegacyTxType | AccessListTxn _ _ _ _ \<Rightarrow> AccessListTxType
     | DynamicFeeTx _ _ _ _ _ \<Rightarrow> DynamicFeeTxType | StateTx _ _ \<Rightarrow> StateTxType)"

definition Tx_Base :: "Transaction \<Rightarrow> BaseTx" where
  "Tx_Base t = (case t of LegacyTx b _ \<Rightarrow> b | AccessListTxn b _ _ _ \<Rightarrow> b
     | DynamicFeeTx b _ _ _ _ \<Rightarrow> b | StateTx b _ \<Rightarrow> b)"

definition deriveChainID :: "int option \<Rightarrow> int option" where
  "deriveChainID v =
     (case v of None \<Rightarrow> None
      | Some v \<Rightarrow>
          if \<bar>v\<bar> < 2 ^ 64 then
            (let v = (of_int \<bar>v\<bar> :: u64) in
             if v = 27 \<or> v = 28 then Some 0 else Some (uint ((v - 35) div 2)))
          else Some ((v - 35) div 2))"

definition Tx_ChainID :: "Transaction \<Rightarrow> int option" where
  "Tx_ChainID t = (case t of LegacyTx b _ \<Rightarrow> deriveChainID (tx_V b) | AccessListTxn _ _ c _ \<Rightarrow> c
     | DynamicFeeTx _ _ _ c _ \<Rightarrow> c | StateTx b _ \<Rightarrow> deriveChainID (tx_V b))"

definition Tx_GasPrice :: "Transaction \<Rightarrow> int option" where
  "Tx_GasPrice t = (case t of LegacyTx _ p \<Rightarrow> p | AccessListTxn _ p _ _ \<Rightarrow> p
     | DynamicFeeTx _ _ _ _ _ \<Rightarrow> None | StateTx _ p \<Rightarrow> p)"

definition Tx_GasTipCap :: "Transaction \<Rightarrow> int option" where
  "Tx_GasTipCap t = (case t of LegacyTx _ p \<Rightarrow> p | AccessListTxn _ p _ _ \<Rightarrow> p
     | DynamicFeeTx _ tip _ _ _ \<Rightarrow> tip | StateTx _ p \<Rightarrow> p)"

definition Tx_GasFeeCap :: "Transaction \<Rightarrow> int option" where
  "Tx_GasFeeCap t = (case t of LegacyTx _ p \<Rightarrow> p | AccessListTxn _ p _ _ \<Rightarrow> p
     | DynamicFeeTx _ _ cap _ _ \<Rightarrow> cap | StateTx _ p \<Rightarrow> p)"

definition Tx_AccessList :: "Transaction \<Rightarrow> TxAccessList" where
  "Tx_AccessList t = (case t of LegacyTx _ _ \<Rightarrow> [] | AccessListTxn _ _ _ l \<Rightarrow> l
     | DynamicFeeTx _ _ _ _ l \<Rightarrow> l | StateTx _ _ \<Rightarrow> [])"

definition Tx_Nonce :: "Transaction \<Rightarrow> u64" where "Tx_Nonce t = tx_Nonce (Tx_Base t)"

definition Tx_Gas :: "Transaction \<Rightarrow> u64" where "Tx_Gas t = tx_Gas (Tx_Base t)"

definition Tx_To :: "Transaction \<Rightarrow> Address option" where "Tx_To t = tx_To (Tx_Base t)"

definition Tx_Value :: "Transaction \<Rightarrow> int option" where "Tx_Value t = tx_Value (Tx_Base t)"

definition Tx_Input :: "Transaction \<Rightarrow> bytes" where "Tx_Input t = tx_Input (Tx_Base t)"

definition Tx_From :: "Transaction \<Rightarrow> Address" where "Tx_From t = tx_From (Tx_Base t)"

definition Tx_Hash :: "Transaction \<Rightarrow> Hash" where "Tx_Hash t = tx_Hash (Tx_Base t)"

fun StorageKeys_loop :: "nat \<Rightarrow> TxAccessList \<Rightarrow> nat" where
  "StorageKeys_loop s [] = s"
| "StorageKeys_loop s (tuple # t) = StorageKeys_loop (s + length (at_StorageKeys tuple)) t"

definition StorageKeys :: "TxAccessList \<Rightarrow> nat" where
  "StorageKeys t = StorageKeys_loop 0 t"

definition TxAccessList_Copy :: "TxAccessList \<Rightarrow> TxAccessList" where
  "TxAccessList_Copy t = map (\<lambda>item. \<lparr>at_Address = go_copy (replicate AddressLength 0) (at_Address item),
     at_StorageKeys = [] @ at_StorageKeys item\<rparr>) t"

definition map_Base :: "(BaseTx \<Rightarrow> BaseTx) \<Rightarrow> Transaction \<Rightarrow> Transaction" where
  "map_Base f t = (case t of LegacyTx b p \<Rightarrow> LegacyTx (f b) p
     | AccessListTxn b p c l \<Rightarrow> AccessListTxn (f b) p c l
     | DynamicFeeTx b tip cap c l \<Rightarrow> DynamicFeeTx (f b) tip cap c l
     | StateTx b p \<Rightarrow> StateTx (f b) p)"

definition Tx_SetFrom :: "Transaction \<Rightarrow> Address \<Rightarrow> Transaction" where
  "Tx_SetFrom t a = map_Base (\<lambda>b. b\<lparr>tx_From := a\<rparr>) t"

definition BaseTx_copy :: "BaseTx \<Rightarrow> BaseTx" where
  "BaseTx_copy tx = \<lparr>tx_Nonce = tx_Nonce tx, tx_Gas = tx_Gas tx, tx_To = tx_To tx,
     tx_Value = map_option (\<lambda>v. v) (tx_Value tx),
     tx_Input = go_copy (replicate (length (tx_Input tx)) 0) (tx_Input tx),
     tx_V = map_option (\<lambda>v. v) (tx_V tx), tx_R = map_option (\<lambda>v. v) (tx_R tx),
     tx_S = map_option (\<lambda>v. v) (tx_S tx), tx_Hash = tx_Hash tx, tx_From = tx_From tx\<rparr>"

definition Tx_Copy :: "Transaction \<Rightarrow> Transaction" where
  "Tx_Copy t = (case t of LegacyTx b p \<Rightarrow> LegacyTx (BaseTx_copy b) p
     | AccessListTxn b p c l \<Rightarrow> AccessListTxn (BaseTx_copy b) p c (TxAccessList_Copy l)
     | DynamicFeeTx b tip cap c l \<Rightarrow> DynamicFeeTx (BaseTx_copy b) tip cap c (TxAccessList_Copy l)
     | StateTx b p \<Rightarrow> StateTx (BaseTx_copy b) p)"

section \<open>Prices\<close>

definition IsContractCreation :: "Transaction \<Rightarrow> bool" where
  "IsContractCreation t = (Tx_To t = None)"

definition IsValueTransfer :: "Transaction \<Rightarrow> bool" where
  "IsValueTransfer t =
     (case Tx_Value t of None \<Rightarrow> False
      | Some v \<Rightarrow> v > 0 \<and> length (Tx_Input t) = 0 \<and> \<not> IsContractCreation t)"

definition Cost :: "Transaction \<Rightarrow> int option" where
  "Cost t = do {
     factor \<leftarrow> (case Tx_GasFeeCap t of
                 None \<Rightarrow> Tx_GasPrice t | Some c \<Rightarrow> if c \<noteq> 0 then Some c else Tx_GasPrice t);
     v \<leftarrow> Tx_Value t;
     Some (factor * uint (Tx_Gas t) + v)
   }"

definition GetGasTipCap :: "Transaction \<Rightarrow> int option" where
  "GetGasTipCap t = (case Tx_Type t of DynamicFeeTxType \<Rightarrow> Tx_GasTipCap t | _ \<Rightarrow> Tx_GasPrice t)"

definition GetGasFeeCap :: "Transaction \<Rightarrow> int option" where
  "GetGasFeeCap t = (case Tx_Type t of DynamicFeeTxType \<Rightarrow> Tx_GasFeeCap t | _ \<Rightarrow> Tx_GasPrice t)"

text \<open>The part of \<^verbatim>\<open>GetGasPrice\<close> after the test for a gas price.\<close>

definition feeMarketPrice :: "Transaction \<Rightarrow> u64 \<Rightarrow> int" where
  "feeMarketPrice t baseFee =
     (if baseFee = 0 then 0
      else let gasFeeCap = (case Tx_GasFeeCap t of None \<Rightarrow> 0 | Some c \<Rightarrow> c);
               gasTipCap = (case Tx_GasTipCap t of None \<Rightarrow> 0 | Some c \<Rightarrow> c)
           in if gasFeeCap \<noteq> 0 \<or> gasTipCap \<noteq> 0
              then BigMin (gasTipCap + uint baseFee) gasFeeCap else 0)"

definition GetGasPrice :: "Transaction \<Rightarrow> u64 \<Rightarrow> int" where
  "GetGasPrice t baseFee =
     (case Tx_GasPrice t of Some p \<Rightarrow> if p \<noteq> 0 then p else feeMarketPrice t baseFee
      | None \<Rightarrow> feeMarketPrice t baseFee)"

definition EffectiveGasTip :: "Transaction \<Rightarrow> int option \<Rightarrow> int option" where
  "EffectiveGasTip t baseFee =
     (case baseFee of None \<Rightarrow> GetGasTipCap t
      | Some b \<Rightarrow>
          if b = 0 then GetGasTipCap t
          else do { tip \<leftarrow> GetGasTipCap t; cap \<leftarrow> GetGasFeeCap t; Some (BigMin tip (cap - b)) })"

definition effectiveGasPrice :: "Transaction \<Rightarrow> int option \<Rightarrow> int option" where
  "effectiveGasPrice t baseFee =
     (case t of
        DynamicFeeTx _ tip cap _ _ \<Rightarrow>
          (case baseFee of None \<Rightarrow> cap
           | Some b \<Rightarrow> do {
               cap \<leftarrow> cap; tip \<leftarrow> tip;
               let tmp = cap - b;
               let tmp = (if tmp > tip then tip else tmp);
               Some (tmp + b)
             })
      | _ \<Rightarrow> Tx_GasPrice t)"

fun FindTxByHash_loop :: "nat \<Rightarrow> Transaction list \<Rightarrow> Hash \<Rightarrow> Transaction option \<times> int" where
  "FindTxByHash_loop idx [] h = (None, - 1)"
| "FindTxByHash_loop idx (txn # txs) h =
     (if Tx_Hash txn = h then (Some txn, int idx) else FindTxByHash_loop (idx + 1) txs h)"

definition FindTxByHash :: "Transaction list \<Rightarrow> Hash \<Rightarrow> Transaction option \<times> int" where
  "FindTxByHash txs h = FindTxByHash_loop 0 txs h"

section \<open>Properties\<close>

lemma txType_roundtrip: "txTypeFromByte (TxType_byte t) = Some t"
  by (cases t) (simp_all add: txTypeFromByte_def TxType_byte_def)

lemma txTypeFromByte_inv: "txTypeFromByte b = Some t \<Longrightarrow> TxType_byte t = b"
  by (auto simp: txTypeFromByte_def TxType_byte_def split: if_splits)

lemma StorageKeys_sum: "StorageKeys t = sum_list (map (\<lambda>u. length (at_StorageKeys u)) t)"
proof -
  have "StorageKeys_loop n t = n + sum_list (map (\<lambda>u. length (at_StorageKeys u)) t)" for n
    by (induction t arbitrary: n) simp_all
  then show ?thesis by (simp add: StorageKeys_def)
qed

lemma BaseTx_copy_id [simp]: "BaseTx_copy b = b"
  by (simp add: BaseTx_copy_def go_copy_all option.map_ident)

lemma TxAccessList_Copy_id:
  "(\<And>u. u \<in> set l \<Longrightarrow> length (at_Address u) = AddressLength) \<Longrightarrow> TxAccessList_Copy l = l"
  by (simp add: TxAccessList_Copy_def go_copy_all map_idI)

text \<open>A copy is the transaction itself: what is applied is what was received.\<close>

lemma Tx_Copy_id:
  assumes "\<And>u. u \<in> set (Tx_AccessList t) \<Longrightarrow> length (at_Address u) = AddressLength"
  shows "Tx_Copy t = t"
  using assms by (cases t) (simp_all add: Tx_Copy_def Tx_AccessList_def TxAccessList_Copy_id)

lemma uint_pos: "(b :: u64) \<noteq> 0 \<Longrightarrow> 0 < uint b"
  by (metis uint_0_iff uint_ge_0 order_less_le)

text \<open>With a non-zero base fee the price that is charged splits into the tip and the base fee.\<close>

lemma EffectiveGasTip_split:
  assumes "b \<noteq> 0" "GetGasTipCap t = Some tip" "GetGasFeeCap t = Some cap"
  shows "\<exists>e. EffectiveGasTip t (Some (uint b)) = Some e \<and> e + uint b = GetGasPrice t b"
proof -
  have pos: "0 < uint b" using assms(1) by (rule uint_pos)
  show ?thesis
    using assms pos
    by (cases t) (auto simp: EffectiveGasTip_def GetGasPrice_def feeMarketPrice_def Tx_GasPrice_def
        Tx_GasTipCap_def Tx_GasFeeCap_def GetGasTipCap_def GetGasFeeCap_def Tx_Type_def BigMin_def)
qed

text \<open>The two computations of the price of a dynamic-fee transaction agree.\<close>

lemma GetGasPrice_effective:
  assumes "b \<noteq> 0" "t = DynamicFeeTx bs (Some tip) (Some cap) c l"
  shows "effectiveGasPrice t (Some (uint b)) = Some (GetGasPrice t b)"
proof -
  have pos: "0 < uint b" using assms(1) by (rule uint_pos)
  then show ?thesis
    using assms by (auto simp: effectiveGasPrice_def GetGasPrice_def feeMarketPrice_def Tx_GasPrice_def
        Tx_GasTipCap_def Tx_GasFeeCap_def BigMin_def Let_def)
qed

lemma FindTxByHash_spec:
  "FindTxByHash txs h = (case find (\<lambda>t. Tx_Hash t = h) txs of
     None \<Rightarrow> (None, - 1)
   | Some t \<Rightarrow> (Some t, int (length (takeWhile (\<lambda>t. Tx_Hash t \<noteq> h) txs))))"
proof -
  have "FindTxByHash_loop n txs h = (case find (\<lambda>t. Tx_Hash t = h) txs of
     None \<Rightarrow> (None, - 1)
   | Some t \<Rightarrow> (Some t, int n + int (length (takeWhile (\<lambda>t. Tx_Hash t \<noteq> h) txs))))" for n
    by (induction txs arbitrary: n) (auto split: option.split)
  then show ?thesis by (simp add: FindTxByHash_def split: option.split)
qed

end
