(* ===== verification/AddressList.thy ===== *)
theory AddressList
  imports Runtime
begin

text \<open>
  The address lists of \<^verbatim>\<open>src/state/runtime/addresslist/addresslist.go\<close> and \<^verbatim>\<open>genesis.go\<close>: contracts that
  keep a role for each account in their own storage and through which an administrator changes the
  roles. The interface \<^verbatim>\<open>stateRef\<close> is the record \<open>stateRef\<close> over a state \<^typ>\<open>'h\<close>; its implementations are
  the transition and, for the genesis, \<open>genesisState\<close>. The four function selectors come from the ABI
  library and are the parameter \<open>selectors\<close>.
\<close>

record 'h stateRef =
  sr_SetState :: "'h \<Rightarrow> Address \<Rightarrow> Hash \<Rightarrow> Hash \<Rightarrow> 'h"
  sr_GetStorage :: "'h \<Rightarrow> Address \<Rightarrow> Hash \<Rightarrow> Hash"

record selectors =
  SetAdminFunc :: bytes
  SetEnabledFunc :: bytes
  SetNoneFunc :: bytes
  ReadAddressListFunc :: bytes

definition writeAddressListCost :: u64 where "writeAddressListCost = 20000"
definition readAddressListCost :: u64 where "readAddressListCost = 5000"
definition SignatureSize :: nat where "SignatureSize = 4"

type_synonym Role = Hash

definition NoRole :: Role where "NoRole = replicate 31 0 @ [0]"
definition EnabledRole :: Role where "EnabledRole = replicate 31 0 @ [1]"
definition AdminRole :: Role where "AdminRole = replicate 31 0 @ [2]"

definition Role_Uint64 :: "Role \<Rightarrow> u64" where
  "Role_Uint64 r = (if r = EnabledRole then 1 else if r = AdminRole then 2 else 0)"

definition Role_Enabled :: "Role \<Rightarrow> bool" where
  "Role_Enabled r = (r = AdminRole \<or> r = EnabledRole)"

record AddressList =
  al_addr :: Address

definition SetRole :: "'h stateRef \<Rightarrow> AddressList \<Rightarrow> 'h \<Rightarrow> Address \<Rightarrow> Role \<Rightarrow> 'h" where
  "SetRole S a h addr role = sr_SetState S h (al_addr a) (BytesToHash addr) role"

definition GetRole :: "'h stateRef \<Rightarrow> AddressList \<Rightarrow> 'h \<Rightarrow> Address \<Rightarrow> Role" where
  "GetRole S a h addr = sr_GetStorage S h (al_addr a) (BytesToHash addr)"

definition runInputCall ::
  "selectors \<Rightarrow> 'h stateRef \<Rightarrow> AddressList \<Rightarrow> 'h \<Rightarrow> Address \<Rightarrow> bytes \<Rightarrow> u64 \<Rightarrow> bool \<Rightarrow>
   (bytes \<times> u64 \<times> Error option) \<times> 'h" where
  "runInputCall F S a h caller input gas isStatic =
     (if length input < SignatureSize then (([], 0, Some errNoFunctionSignature), h)
      else
        let sig = take 4 input; inputBytes = drop 4 input in
        if length inputBytes \<noteq> 32 then (([], 0, Some errInputTooShort), h)
        else
          let inputAddr = BytesToAddress inputBytes in
          if sig = ReadAddressListFunc F then
            (if gas < readAddressListCost then (([], 0, Some ErrOutOfGas), h)
             else ((GetRole S a h inputAddr, readAddressListCost, None), h))
          else
            case (if sig = SetAdminFunc F then Some AdminRole
                  else if sig = SetEnabledFunc F then Some EnabledRole
                  else if sig = SetNoneFunc F then Some NoRole
                  else None) of
              None \<Rightarrow> (([], 0, Some errFunctionNotFound), h)
            | Some updateRole \<Rightarrow>
                if gas < writeAddressListCost then (([], 0, Some ErrOutOfGas), h)
                else
                  let gasUsed = writeAddressListCost in
                  if isStatic then (([], gasUsed, Some errListWriteProtection), h)
                  else
                    let addrRole = GetRole S a h caller in
                    if addrRole \<noteq> AdminRole then (([], gasUsed, Some ErrNotAuth), h)
                    else if addrRole = AdminRole \<and> caller = inputAddr
                      then (([], gasUsed, Some errAdminSelfRemove), h)
                    else (([], gasUsed, None), SetRole S a h inputAddr updateRole))"

definition AddressList_Run ::
  "selectors \<Rightarrow> 'h stateRef \<Rightarrow> AddressList \<Rightarrow> Contract \<Rightarrow> 'h \<Rightarrow> ExecutionResult \<times> 'h" where
  "AddressList_Run F S a c h =
     (let ((ret, gasUsed, err), h) = runInputCall F S a h (c_Caller c) (c_Input c) (c_Gas c) (c_Static c)
      in (\<lparr>r_ReturnValue = ret, r_GasLeft = c_Gas c - gasUsed, r_GasUsed = gasUsed, r_Err = err,
           r_Address = ZeroAddress, r_AccessList = None\<rparr>, h))"

section \<open>Genesis\<close>

record GenesisAccount =
  ga_Code :: bytes
  ga_Storage :: "Hash \<rightharpoonup> Hash"
  ga_Balance :: "int option"
  ga_Nonce :: u64

type_synonym genesisState = "Address \<rightharpoonup> GenesisAccount"

definition genesis_SetState :: "genesisState \<Rightarrow> Address \<Rightarrow> Hash \<Rightarrow> Hash \<Rightarrow> genesisState" where
  "genesis_SetState g addr key value =
     (let alloc = (case g addr of
                     None \<Rightarrow> \<lparr>ga_Code = [], ga_Storage = Map.empty, ga_Balance = None, ga_Nonce = 0\<rparr>
                   | Some alloc \<Rightarrow> alloc);
          alloc = alloc\<lparr>ga_Balance := Some 1\<rparr>
      in g(addr \<mapsto> alloc\<lparr>ga_Storage := (ga_Storage alloc)(key \<mapsto> value)\<rparr>))"

definition genesis_GetStorage :: "genesisState \<Rightarrow> Address \<Rightarrow> Hash \<Rightarrow> Hash" where
  "genesis_GetStorage g addr key = ZeroHash"

definition genesisRef :: "genesisState stateRef" where
  "genesisRef = \<lparr>sr_SetState = genesis_SetState, sr_GetStorage = genesis_GetStorage\<rparr>"

definition ApplyGenesisAllocs :: "genesisState \<Rightarrow> Address \<Rightarrow> Address list \<Rightarrow> Address list \<Rightarrow> genesisState" where
  "ApplyGenesisAllocs g addressListAddr enabled admins =
     (let allocList = \<lparr>al_addr = addressListAddr\<rparr>;
          g = fold (\<lambda>addr g. SetRole genesisRef allocList g addr EnabledRole) enabled g
      in fold (\<lambda>addr g. SetRole genesisRef allocList g addr AdminRole) admins g)"

section \<open>The contract of the state and its consequences\<close>

lemma length_roles [simp]: "length NoRole = 32" "length EnabledRole = 32" "length AdminRole = 32"
  by (simp_all add: NoRole_def EnabledRole_def AdminRole_def)

lemma role_distinct [simp]:
  "NoRole \<noteq> EnabledRole" "NoRole \<noteq> AdminRole" "EnabledRole \<noteq> AdminRole"
  "EnabledRole \<noteq> NoRole" "AdminRole \<noteq> NoRole" "AdminRole \<noteq> EnabledRole"
  by (simp_all add: NoRole_def EnabledRole_def AdminRole_def)

lemma BytesToHash_inj:
  assumes "length a = 20" "length b = 20" "BytesToHash a = BytesToHash b"
  shows "a = b"
  using assms by (simp add: BytesToHash_def Less_def HashLength_def Let_def)

locale state_ref =
  fixes S :: "'h stateRef" and J :: "'h \<Rightarrow> bool"
  assumes get_set: "J h \<Longrightarrow> length v = 32 \<Longrightarrow>
      sr_GetStorage S (sr_SetState S h a k v) b j = (if b = a \<and> j = k then v else sr_GetStorage S h b j)"
    and J_set: "J h \<Longrightarrow> J (sr_SetState S h a k v)"
begin

lemma GetRole_SetRole:
  assumes "J h" "length r = 32" "length x = 20" "length y = 20"
  shows "GetRole S l (SetRole S l h x r) y = (if y = x then r else GetRole S l h y)"
  using get_set [OF assms(1,2)] BytesToHash_inj [OF assms(3,4)] by (auto simp: GetRole_def SetRole_def)

lemma GetRole_other:
  assumes "J h" "length r = 32" "al_addr l \<noteq> al_addr l'"
  shows "GetRole S l' (SetRole S l h x r) y = GetRole S l' h y"
  using get_set [OF assms(1,2)] assms(3) by (auto simp: GetRole_def SetRole_def)

text \<open>Only an administrator changes a role, the caller's own role never changes, nothing changes in a
  static call, and a call changes at most the role of the account it names.\<close>

lemma run_roles:
  assumes "J h" "length (c_Caller c) = 20" "length y = 20"
    and "AddressList_Run F S l c h = (r, h')"
    and "GetRole S l h' y \<noteq> GetRole S l h y"
  shows "GetRole S l h (c_Caller c) = AdminRole \<and> \<not> c_Static c \<and> r_Err r = None \<and>
    y \<noteq> c_Caller c \<and> y = BytesToAddress (drop 4 (c_Input c)) \<and>
    writeAddressListCost \<le> c_Gas c \<and> r_GasUsed r = writeAddressListCost"
proof -
  let ?x = "BytesToAddress (drop 4 (c_Input c))"
  have "length ?x = 20" by simp
  note g = GetRole_SetRole [OF assms(1) _ this assms(3)] GetRole_SetRole [OF assms(1) _ this assms(2)]
  from assms(4,5) show ?thesis
    by (auto simp: AddressList_Run_def runInputCall_def Let_def g not_less
        split: if_splits option.splits)
qed

lemma J_run: "J h \<Longrightarrow> AddressList_Run F S l c h = (r, h') \<Longrightarrow> J h'"
  by (auto simp: AddressList_Run_def runInputCall_def Let_def SetRole_def J_set
        split: if_splits option.splits)

end

text \<open>The gas an address list takes is at most the gas of the call.\<close>

lemma AddressList_Run_gas:
  "r_GasLeft (fst (AddressList_Run F S l c h)) \<le> c_Gas c \<and>
   r_GasUsed (fst (AddressList_Run F S l c h)) = c_Gas c - r_GasLeft (fst (AddressList_Run F S l c h))"
  by (auto simp: AddressList_Run_def runInputCall_def Let_def not_less word_le_nat_alt unat_sub_le
        split: option.split if_split)

lemma AddressList_Run_static:
  "c_Static c \<Longrightarrow> snd (AddressList_Run F S l c h) = h"
  by (auto simp: AddressList_Run_def runInputCall_def Let_def split: option.split if_split)

text \<open>After the genesis allocations, an address has the administrator's role if it is among the
  administrators, else the enabled role if it is among the enabled addresses.\<close>

lemma fold_SetRole_genesis:
  "length a = 20 \<Longrightarrow> (\<forall>x \<in> set xs. length x = 20) \<Longrightarrow>
   (case fold (\<lambda>addr g. SetRole genesisRef \<lparr>al_addr = l\<rparr> g addr r) xs g l of
      None \<Rightarrow> None | Some acc \<Rightarrow> ga_Storage acc (BytesToHash a)) =
   (if a \<in> set xs then Some r else case g l of None \<Rightarrow> None | Some acc \<Rightarrow> ga_Storage acc (BytesToHash a))"
proof (induction xs arbitrary: g)
  case (Cons x xs)
  then have "BytesToHash a = BytesToHash x \<longleftrightarrow> a = x" using BytesToHash_inj [of a x] by auto
  with Cons show ?case
    by (auto simp: SetRole_def genesisRef_def genesis_SetState_def Let_def split: option.split)
qed simp

lemma ApplyGenesisAllocs_roles:
  assumes "length a = 20" "\<forall>x \<in> set enabled. length x = 20" "\<forall>x \<in> set admins. length x = 20"
    and "g l = None"
  shows "(case ApplyGenesisAllocs g l enabled admins l of
      None \<Rightarrow> None | Some acc \<Rightarrow> ga_Storage acc (BytesToHash a)) =
    (if a \<in> set admins then Some AdminRole else if a \<in> set enabled then Some EnabledRole else None)"
  using assms by (simp add: ApplyGenesisAllocs_def Let_def fold_SetRole_genesis)

end
