(* ===== verification/BigInt.thy ===== *)
theory BigInt
  imports Helpers
begin

text \<open>
  The operations of Go's \<^verbatim>\<open>math/big\<close> that the components use on byte strings and machine words. A
  \<^verbatim>\<open>*big.Int\<close> is an \<^typ>\<open>int\<close>; \<^verbatim>\<open>Bytes\<close> and \<^verbatim>\<open>BitLen\<close> read the magnitude, \<^verbatim>\<open>Uint64\<close> its low 64 bits.
\<close>

definition big_SetBytes :: "bytes \<Rightarrow> int" where
  "big_SetBytes bs = foldl (\<lambda>acc b. 256 * acc + uint b) 0 bs"

fun nat_bytes :: "nat \<Rightarrow> bytes" where
  "nat_bytes n = (if n = 0 then [] else nat_bytes (n div 256) @ [of_nat (n mod 256)])"

declare nat_bytes.simps [simp del]

definition big_Bytes :: "int \<Rightarrow> bytes" where
  "big_Bytes i = nat_bytes (nat \<bar>i\<bar>)"

fun nat_bitlen :: "nat \<Rightarrow> nat" where
  "nat_bitlen n = (if n = 0 then 0 else Suc (nat_bitlen (n div 2)))"

declare nat_bitlen.simps [simp del]

definition big_BitLen :: "int \<Rightarrow> nat" where
  "big_BitLen i = nat_bitlen (nat \<bar>i\<bar>)"

definition big_IsUint64 :: "int \<Rightarrow> bool" where
  "big_IsUint64 i \<longleftrightarrow> 0 \<le> i \<and> i < 2 ^ 64"

definition big_Uint64 :: "int \<Rightarrow> u64" where
  "big_Uint64 i = of_int \<bar>i\<bar>"

lemma nat_bytes_0 [simp]: "nat_bytes 0 = []"
  by (simp add: nat_bytes.simps)

lemma nat_bytes_Suc: "0 < n \<Longrightarrow> nat_bytes n = nat_bytes (n div 256) @ [of_nat (n mod 256)]"
  by (simp add: nat_bytes.simps [of n])

lemma nat_bitlen_0 [simp]: "nat_bitlen 0 = 0"
  by (simp add: nat_bitlen.simps)

lemma nat_bitlen_Suc: "0 < n \<Longrightarrow> nat_bitlen n = Suc (nat_bitlen (n div 2))"
  by (simp add: nat_bitlen.simps [of n])

lemma big_SetBytes_Nil [simp]: "big_SetBytes [] = 0"
  by (simp add: big_SetBytes_def)

lemma big_SetBytes_snoc [simp]: "big_SetBytes (bs @ [b]) = 256 * big_SetBytes bs + uint b"
  by (simp add: big_SetBytes_def)

lemma big_SetBytes_bounds: "0 \<le> big_SetBytes bs \<and> big_SetBytes bs < 256 ^ length bs"
proof (induction bs rule: rev_induct)
  case (snoc b bs)
  moreover have "0 \<le> uint b" "uint b < 256" using uint_lt2p [of b] by simp_all
  ultimately show ?case by simp
qed simp

lemmas big_SetBytes_nonneg [simp] = big_SetBytes_bounds [THEN conjunct1]

lemma big_SetBytes_less: "length bs = n \<Longrightarrow> big_SetBytes bs < 256 ^ n"
  using big_SetBytes_bounds [of bs] by simp

lemma big_SetBytes_zeros [simp]: "big_SetBytes (replicate n 0 @ bs) = big_SetBytes bs"
proof (induction bs rule: rev_induct)
  case Nil
  show ?case
  proof (induction n)
    case (Suc n)
    then show ?case
      by (simp only: replicate_Suc replicate_append_same [symmetric] append_Nil2 big_SetBytes_snoc) simp
  qed simp
next
  case (snoc b bs)
  then show ?case by (simp flip: append_assoc)
qed

lemma big_SetBytes_nat_bytes: "big_SetBytes (nat_bytes n) = int n"
proof (induction n rule: nat_bytes.induct)
  case (1 n)
  show ?case
  proof (cases "n = 0")
    case False
    have "uint (of_nat (n mod 256) :: byte) = int (n mod 256)"
      by (simp add: unsigned_of_nat take_bit_nat_eq_self)
    moreover have "256 * int (n div 256) + int (n mod 256) = int n"
      by (simp add: zdiv_int zmod_int)
    ultimately show ?thesis using 1 False by (simp add: nat_bytes_Suc)
  qed simp
qed

lemma big_SetBytes_Bytes: "big_SetBytes (big_Bytes i) = \<bar>i\<bar>"
  by (simp add: big_Bytes_def big_SetBytes_nat_bytes)

text \<open>\<^verbatim>\<open>Bytes\<close> after \<^verbatim>\<open>SetBytes\<close> drops the leading zero bytes, and nothing else.\<close>

lemma nat_bytes_SetBytes: "nat_bytes (nat (big_SetBytes bs)) = dropWhile (\<lambda>b. b = 0) bs"
proof (induction bs rule: rev_induct)
  case (snoc b bs)
  let ?n = "nat (256 * big_SetBytes bs + uint b)"
  have b: "0 \<le> uint b" "uint b < 256" using uint_lt2p [of b] by simp_all
  have n: "?n = 256 * nat (big_SetBytes bs) + unat b"
    using b by (simp add: nat_add_distrib nat_mult_distrib)
  have "unat b < 256" using unsigned_less [where w = b and 'a = nat] by simp
  then have d: "?n div 256 = nat (big_SetBytes bs)" "?n mod 256 = unat b"
    unfolding n by simp_all
  show ?case
  proof (cases "?n = 0")
    case True
    then have "big_SetBytes bs = 0" "uint b = 0"
      using b big_SetBytes_nonneg [of bs] by linarith+
    then have "b = 0" "dropWhile (\<lambda>b. b = 0) bs = []" using snoc by (simp_all add: uint_0_iff)
    with True show ?thesis by (simp add: dropWhile_append)
  next
    case False
    then have *: "nat_bytes ?n = dropWhile (\<lambda>b. b = 0) bs @ [b]"
      by (simp add: nat_bytes_Suc d snoc)
    show ?thesis
    proof (cases "\<exists>x \<in> set bs. x \<noteq> 0")
      case True
      then show ?thesis using * by (auto simp: dropWhile_append1)
    next
      case F: False
      then have "dropWhile (\<lambda>b. b = 0) bs = []" by (simp add: dropWhile_eq_Nil_conv)
      moreover have "b \<noteq> 0"
      proof
        assume "b = 0"
        have "nat (big_SetBytes bs) = 0"
          using snoc calculation nat_bytes_Suc [of "nat (big_SetBytes bs)"] by (cases "nat (big_SetBytes bs) = 0") auto
        then show False using False \<open>b = 0\<close> big_SetBytes_nonneg [of bs] by simp
      qed
      ultimately show ?thesis using * F by (auto simp: dropWhile_append2)
    qed
  qed
qed simp

lemma big_Bytes_SetBytes: "big_Bytes (big_SetBytes bs) = dropWhile (\<lambda>b. b = 0) bs"
  by (simp add: big_Bytes_def nat_bytes_SetBytes)

lemma nat_bitlen_bounds: "n < 2 ^ nat_bitlen n \<and> (0 < n \<longrightarrow> 2 ^ (nat_bitlen n - 1) \<le> n)"
proof (induction n rule: nat_bitlen.induct)
  case (1 n)
  show ?case
  proof (cases "n = 0")
    case False
    with 1 have IH: "n div 2 < 2 ^ nat_bitlen (n div 2)" "0 < n div 2 \<longrightarrow> 2 ^ (nat_bitlen (n div 2) - 1) \<le> n div 2"
      by auto
    have "n < 2 ^ Suc (nat_bitlen (n div 2))" using IH(1) by simp
    moreover have "2 ^ nat_bitlen (n div 2) \<le> n"
    proof (cases "n div 2 = 0")
      case True
      then show ?thesis using False by simp
    next
      case F: False
      then have "(2::nat) ^ nat_bitlen (n div 2) = 2 * 2 ^ (nat_bitlen (n div 2) - 1)"
        by (simp add: nat_bitlen_Suc [of "n div 2"])
      then show ?thesis using F IH(2) by simp
    qed
    ultimately show ?thesis using False by (simp add: nat_bitlen_Suc)
  qed simp
qed

lemma big_BitLen_le: "big_BitLen i \<le> n \<longleftrightarrow> \<bar>i\<bar> < 2 ^ n"
proof -
  let ?m = "nat \<bar>i\<bar>"
  have e: "\<bar>i\<bar> < 2 ^ n \<longleftrightarrow> ?m < 2 ^ n" by (simp add: nat_less_iff)
  have "nat_bitlen m \<le> n \<longleftrightarrow> m < 2 ^ n" for m
  proof
    assume "nat_bitlen m \<le> n"
    then have "(2::nat) ^ nat_bitlen m \<le> 2 ^ n" by simp
    with nat_bitlen_bounds [of m] show "m < 2 ^ n" by linarith
  next
    assume l: "m < 2 ^ n"
    show "nat_bitlen m \<le> n"
    proof (cases "m = 0")
      case False
      then have "2 ^ (nat_bitlen m - 1) \<le> m" using nat_bitlen_bounds [of m] by simp
      then have "(2::nat) ^ (nat_bitlen m - 1) < 2 ^ n" using l by (rule le_less_trans)
      then have "nat_bitlen m - 1 < n" by (rule power_less_imp_less_exp [rotated]) simp
      then show ?thesis by simp
    qed simp
  qed
  with e show ?thesis by (simp add: big_BitLen_def)
qed

lemma length_nat_bytes: "n < 256 ^ k \<Longrightarrow> length (nat_bytes n) \<le> k"
proof (induction k arbitrary: n)
  case (Suc k)
  show ?case
  proof (cases "n = 0")
    case False
    have "n div 256 < 256 ^ k" using Suc.prems by (simp add: less_mult_imp_div_less mult.commute)
    from Suc.IH [OF this] False show ?thesis by (simp add: nat_bytes_Suc)
  qed simp
qed simp

lemma length_big_Bytes: "\<bar>i\<bar> < 256 ^ k \<Longrightarrow> length (big_Bytes i) \<le> k"
  unfolding big_Bytes_def by (rule length_nat_bytes) (simp add: nat_less_iff)

end
