(* ===== verification/Sha256.thy ===== *)
theory Sha256
  imports Helpers
begin

text \<open>
  SHA-256 (FIPS 180-4), the function of Go's standard library that the precompiled contract
  \<^verbatim>\<open>sha256h\<close> returns: the padding, the message schedule and the compression of one block.
\<close>

type_synonym u32 = "32 word"
type_synonym h8 = "u32 \<times> u32 \<times> u32 \<times> u32 \<times> u32 \<times> u32 \<times> u32 \<times> u32"

definition sha256_K :: "u32 list" where
  "sha256_K = [
     0x428a2f98, 0x71374491, 0xb5c0fbcf, 0xe9b5dba5, 0x3956c25b, 0x59f111f1, 0x923f82a4, 0xab1c5ed5,
     0xd807aa98, 0x12835b01, 0x243185be, 0x550c7dc3, 0x72be5d74, 0x80deb1fe, 0x9bdc06a7, 0xc19bf174,
     0xe49b69c1, 0xefbe4786, 0x0fc19dc6, 0x240ca1cc, 0x2de92c6f, 0x4a7484aa, 0x5cb0a9dc, 0x76f988da,
     0x983e5152, 0xa831c66d, 0xb00327c8, 0xbf597fc7, 0xc6e00bf3, 0xd5a79147, 0x06ca6351, 0x14292967,
     0x27b70a85, 0x2e1b2138, 0x4d2c6dfc, 0x53380d13, 0x650a7354, 0x766a0abb, 0x81c2c92e, 0x92722c85,
     0xa2bfe8a1, 0xa81a664b, 0xc24b8b70, 0xc76c51a3, 0xd192e819, 0xd6990624, 0xf40e3585, 0x106aa070,
     0x19a4c116, 0x1e376c08, 0x2748774c, 0x34b0bcb5, 0x391c0cb3, 0x4ed8aa4a, 0x5b9cca4f, 0x682e6ff3,
     0x748f82ee, 0x78a5636f, 0x84c87814, 0x8cc70208, 0x90befffa, 0xa4506ceb, 0xbef9a3f7, 0xc67178f2]"

definition sha256_H0 :: h8 where
  "sha256_H0 = (0x6a09e667, 0xbb67ae85, 0x3c6ef372, 0xa54ff53a, 0x510e527f, 0x9b05688c, 0x1f83d9ab, 0x5be0cd19)"

definition rotr32 :: "nat \<Rightarrow> u32 \<Rightarrow> u32" where
  "rotr32 n x = or (drop_bit n x) (push_bit (32 - n) x)"

definition sha256_Ch :: "u32 \<Rightarrow> u32 \<Rightarrow> u32 \<Rightarrow> u32" where
  "sha256_Ch x y z = xor (and x y) (and (not x) z)"

definition sha256_Maj :: "u32 \<Rightarrow> u32 \<Rightarrow> u32 \<Rightarrow> u32" where
  "sha256_Maj x y z = xor (xor (and x y) (and x z)) (and y z)"

definition sha256_S0 :: "u32 \<Rightarrow> u32" where
  "sha256_S0 x = xor (xor (rotr32 2 x) (rotr32 13 x)) (rotr32 22 x)"

definition sha256_S1 :: "u32 \<Rightarrow> u32" where
  "sha256_S1 x = xor (xor (rotr32 6 x) (rotr32 11 x)) (rotr32 25 x)"

definition sha256_s0 :: "u32 \<Rightarrow> u32" where
  "sha256_s0 x = xor (xor (rotr32 7 x) (rotr32 18 x)) (drop_bit 3 x)"

definition sha256_s1 :: "u32 \<Rightarrow> u32" where
  "sha256_s1 x = xor (xor (rotr32 17 x) (rotr32 19 x)) (drop_bit 10 x)"

text \<open>The message schedule, newest word first.\<close>

fun sha256_schedule :: "nat \<Rightarrow> u32 list \<Rightarrow> u32 list" where
  "sha256_schedule 0 w = w"
| "sha256_schedule (Suc n) w =
     sha256_schedule n ((sha256_s1 (w ! 1) + w ! 6 + sha256_s0 (w ! 14) + w ! 15) # w)"

definition sha256_step :: "u32 \<times> u32 \<Rightarrow> h8 \<Rightarrow> h8" where
  "sha256_step = (\<lambda>(k, w) (a, b, c, d, e, f, g, h).
     let t1 = h + sha256_S1 e + sha256_Ch e f g + k + w;
         t2 = sha256_S0 a + sha256_Maj a b c
     in (t1 + t2, a, b, c, d + t1, e, f, g))"

fun words32 :: "bytes \<Rightarrow> u32 list" where
  "words32 (a # b # c # d # bs) = of_be_bytes [a, b, c, d] # words32 bs"
| "words32 bs = []"

definition sha256_block :: "bytes \<Rightarrow> h8 \<Rightarrow> h8" where
  "sha256_block bs s =
     (let w = rev (sha256_schedule 48 (rev (words32 bs)));
          (a, b, c, d, e, f, g, h) = s;
          (a', b', c', d', e', f', g', h') = fold sha256_step (zip sha256_K w) s
      in (a + a', b + b', c + c', d + d', e + e', f + f', g + g', h + h'))"

definition sha256_pad :: "bytes \<Rightarrow> bytes" where
  "sha256_pad bs =
     (let l = length bs; z = (119 - l mod 64) mod 64
      in bs @ [0x80] @ replicate z 0 @ be_bytes 8 (of_nat (8 * l) :: u64))"

fun sha256_blocks :: "nat \<Rightarrow> bytes \<Rightarrow> h8 \<Rightarrow> h8" where
  "sha256_blocks 0 bs s = s"
| "sha256_blocks (Suc n) bs s = sha256_blocks n (drop 64 bs) (sha256_block (take 64 bs) s)"

definition sha256 :: "bytes \<Rightarrow> bytes" where
  "sha256 bs =
     (let p = sha256_pad bs; (a, b, c, d, e, f, g, h) = sha256_blocks (length p div 64) p sha256_H0
      in concat (map (be_bytes 4) [a, b, c, d, e, f, g, h]))"

lemma length_sha256 [simp]: "length (sha256 bs) = 32"
  by (simp add: sha256_def Let_def split_def)

end
