(* ===== verification/Blake2f.thy ===== *)
theory Blake2f
  imports Helpers
begin

text \<open>
  The BLAKE2b compression function of \<^verbatim>\<open>src/state/runtime/precompiled/blake2f.go\<close>, the precompiled
  contract of EIP-152: the interleaved rounds of \<^verbatim>\<open>F\<close> with the table \<^verbatim>\<open>precomputed\<close>, and the contract
  around it. The reference is section 3 of RFC 7693: the mixing function \<open>mixG\<close>, the message schedule
  \<open>rfc_sigma\<close> and the rounds built from them. A \<^verbatim>\<open>[16]uint64\<close> that the code keeps in variables is a
  16-tuple; the arrays \<^verbatim>\<open>h\<close>, \<^verbatim>\<open>m\<close> and \<^verbatim>\<open>c\<close> are lists.
\<close>

type_synonym v16 = "u64 \<times> u64 \<times> u64 \<times> u64 \<times> u64 \<times> u64 \<times> u64 \<times> u64 \<times>
  u64 \<times> u64 \<times> u64 \<times> u64 \<times> u64 \<times> u64 \<times> u64 \<times> u64"

definition RotateLeft64 :: "u64 \<Rightarrow> int \<Rightarrow> u64" where
  "RotateLeft64 x k = (let s = nat (k mod 64) in or (push_bit s x) (drop_bit (64 - s) x))"

definition IV :: "u64 list" where
  "IV = [0x6a09e667f3bcc908, 0xbb67ae8584caa73b, 0x3c6ef372fe94f82b, 0xa54ff53a5f1d36f1,
         0x510e527fade682d1, 0x9b05688c2b3e6c1f, 0x1f83d9abfb41bd6b, 0x5be0cd19137e2179]"

definition precomputed :: "nat list list" where
  "precomputed = [
     [0, 2, 4, 6, 1, 3, 5, 7, 8, 10, 12, 14, 9, 11, 13, 15],
     [14, 4, 9, 13, 10, 8, 15, 6, 1, 0, 11, 5, 12, 2, 7, 3],
     [11, 12, 5, 15, 8, 0, 2, 13, 10, 3, 7, 9, 14, 6, 1, 4],
     [7, 3, 13, 11, 9, 1, 12, 14, 2, 5, 4, 15, 6, 10, 0, 8],
     [9, 5, 2, 10, 0, 7, 4, 15, 14, 11, 6, 3, 1, 12, 8, 13],
     [2, 6, 0, 8, 12, 10, 11, 3, 4, 7, 15, 1, 13, 5, 14, 9],
     [12, 1, 14, 4, 5, 15, 13, 10, 0, 6, 9, 8, 7, 3, 2, 11],
     [13, 7, 12, 3, 11, 14, 1, 9, 5, 15, 8, 2, 0, 4, 6, 10],
     [6, 14, 11, 0, 15, 9, 3, 8, 12, 13, 1, 10, 2, 7, 4, 5],
     [10, 8, 7, 1, 2, 4, 6, 5, 15, 9, 3, 13, 11, 14, 12, 0]]"

definition F_round :: "u64 list \<Rightarrow> nat list \<Rightarrow> v16 \<Rightarrow> v16" where
  "F_round m s = (\<lambda>(v0, v1, v2, v3, v4, v5, v6, v7, v8, v9, v10, v11, v12, v13, v14, v15).
     let mg = (\<lambda>i. m ! (s ! i)) in
     (let v0 = v0 + mg 0; v0 = v0 + v4; v12 = xor v12 v0; v12 = RotateLeft64 v12 (- 32); v8 = v8 + v12; v4 = xor v4 v8; v4 = RotateLeft64 v4 (- 24);
          v1 = v1 + mg 1; v1 = v1 + v5; v13 = xor v13 v1; v13 = RotateLeft64 v13 (- 32); v9 = v9 + v13; v5 = xor v5 v9; v5 = RotateLeft64 v5 (- 24);
          v2 = v2 + mg 2; v2 = v2 + v6; v14 = xor v14 v2; v14 = RotateLeft64 v14 (- 32); v10 = v10 + v14; v6 = xor v6 v10; v6 = RotateLeft64 v6 (- 24);
          v3 = v3 + mg 3; v3 = v3 + v7; v15 = xor v15 v3; v15 = RotateLeft64 v15 (- 32); v11 = v11 + v15; v7 = xor v7 v11; v7 = RotateLeft64 v7 (- 24);
          v0 = v0 + mg 4; v0 = v0 + v4; v12 = xor v12 v0; v12 = RotateLeft64 v12 (- 16); v8 = v8 + v12; v4 = xor v4 v8; v4 = RotateLeft64 v4 (- 63);
          v1 = v1 + mg 5; v1 = v1 + v5; v13 = xor v13 v1; v13 = RotateLeft64 v13 (- 16); v9 = v9 + v13; v5 = xor v5 v9; v5 = RotateLeft64 v5 (- 63);
          v2 = v2 + mg 6; v2 = v2 + v6; v14 = xor v14 v2; v14 = RotateLeft64 v14 (- 16); v10 = v10 + v14; v6 = xor v6 v10; v6 = RotateLeft64 v6 (- 63);
          v3 = v3 + mg 7; v3 = v3 + v7; v15 = xor v15 v3; v15 = RotateLeft64 v15 (- 16); v11 = v11 + v15; v7 = xor v7 v11; v7 = RotateLeft64 v7 (- 63);
          v0 = v0 + mg 8; v0 = v0 + v5; v15 = xor v15 v0; v15 = RotateLeft64 v15 (- 32); v10 = v10 + v15; v5 = xor v5 v10; v5 = RotateLeft64 v5 (- 24);
          v1 = v1 + mg 9; v1 = v1 + v6; v12 = xor v12 v1; v12 = RotateLeft64 v12 (- 32); v11 = v11 + v12; v6 = xor v6 v11; v6 = RotateLeft64 v6 (- 24);
          v2 = v2 + mg 10; v2 = v2 + v7; v13 = xor v13 v2; v13 = RotateLeft64 v13 (- 32); v8 = v8 + v13; v7 = xor v7 v8; v7 = RotateLeft64 v7 (- 24);
          v3 = v3 + mg 11; v3 = v3 + v4; v14 = xor v14 v3; v14 = RotateLeft64 v14 (- 32); v9 = v9 + v14; v4 = xor v4 v9; v4 = RotateLeft64 v4 (- 24);
          v0 = v0 + mg 12; v0 = v0 + v5; v15 = xor v15 v0; v15 = RotateLeft64 v15 (- 16); v10 = v10 + v15; v5 = xor v5 v10; v5 = RotateLeft64 v5 (- 63);
          v1 = v1 + mg 13; v1 = v1 + v6; v12 = xor v12 v1; v12 = RotateLeft64 v12 (- 16); v11 = v11 + v12; v6 = xor v6 v11; v6 = RotateLeft64 v6 (- 63);
          v2 = v2 + mg 14; v2 = v2 + v7; v13 = xor v13 v2; v13 = RotateLeft64 v13 (- 16); v8 = v8 + v13; v7 = xor v7 v8; v7 = RotateLeft64 v7 (- 63);
          v3 = v3 + mg 15; v3 = v3 + v4; v14 = xor v14 v3; v14 = RotateLeft64 v14 (- 16); v9 = v9 + v14; v4 = xor v4 v9; v4 = RotateLeft64 v4 (- 63)
      in (v0, v1, v2, v3, v4, v5, v6, v7, v8, v9, v10, v11, v12, v13, v14, v15)))"

fun F_loop :: "u64 list \<Rightarrow> nat \<Rightarrow> nat \<Rightarrow> v16 \<Rightarrow> v16" where
  "F_loop m j 0 v = v"
| "F_loop m j (Suc n) v = F_loop m (j + 1) n (F_round m (precomputed ! (j mod 10)) v)"

definition F_init :: "u64 list \<Rightarrow> u64 list \<Rightarrow> bool \<Rightarrow> v16" where
  "F_init h c f =
     (h ! 0, h ! 1, h ! 2, h ! 3, h ! 4, h ! 5, h ! 6, h ! 7, IV ! 0, IV ! 1, IV ! 2, IV ! 3,
      xor (IV ! 4) (c ! 0), xor (IV ! 5) (c ! 1),
      (if f then xor (IV ! 6) 0xffffffffffffffff else IV ! 6), IV ! 7)"

definition F_final :: "u64 list \<Rightarrow> v16 \<Rightarrow> u64 list" where
  "F_final h = (\<lambda>(v0, v1, v2, v3, v4, v5, v6, v7, v8, v9, v10, v11, v12, v13, v14, v15).
     [xor (h ! 0) (xor v0 v8), xor (h ! 1) (xor v1 v9), xor (h ! 2) (xor v2 v10), xor (h ! 3) (xor v3 v11),
      xor (h ! 4) (xor v4 v12), xor (h ! 5) (xor v5 v13), xor (h ! 6) (xor v6 v14), xor (h ! 7) (xor v7 v15)])"

definition F :: "u64 list \<Rightarrow> u64 list \<Rightarrow> u64 list \<Rightarrow> bool \<Rightarrow> 32 word \<Rightarrow> u64 list" where
  "F h m c f rounds = F_final h (F_loop m 0 (unat rounds) (F_init h c f))"

section \<open>The contract\<close>

definition le_Uint64 :: "bytes \<Rightarrow> u64" where
  "le_Uint64 b = of_be_bytes (rev (take 8 b))"

definition le_PutUint64 :: "u64 \<Rightarrow> bytes" where
  "le_PutUint64 w = rev (be_bytes 8 w)"

fun readUint64s :: "nat \<Rightarrow> bytes \<Rightarrow> u64 list \<times> bytes" where
  "readUint64s 0 input = ([], input)"
| "readUint64s (Suc n) input =
     (let w = le_Uint64 input; (ws, rest) = readUint64s n (drop 8 input) in (w # ws, rest))"

definition blake2f_gas :: "bytes \<Rightarrow> u64" where
  "blake2f_gas input = (if length input \<noteq> 213 then 0 else ucast (of_be_bytes (take 4 input) :: 32 word))"

datatype blake2fError = badLength | badFlag

definition blake2f_run :: "bytes \<Rightarrow> blake2fError + bytes" where
  "blake2f_run input =
     (if length input \<noteq> 213 then Inl badLength
      else if input ! 212 \<noteq> 0 \<and> input ! 212 \<noteq> 1 then Inl badFlag
      else
        let rounds = of_be_bytes (take 4 input);
            input = drop 4 input;
            (h, input) = readUint64s 8 input;
            (m, input) = readUint64s 16 input;
            c = [le_Uint64 (take 8 input), le_Uint64 (take 8 (drop 8 input))];
            flag = input ! 16;
            h = F h m c (flag = 1) rounds
        in Inr (concat (map le_PutUint64 h)))"

section \<open>RFC 7693\<close>

definition rotr64 :: "u64 \<Rightarrow> nat \<Rightarrow> u64" where
  "rotr64 w n = word_rotr n w"

definition mixG :: "u64 \<Rightarrow> u64 \<Rightarrow> u64 \<Rightarrow> u64 \<Rightarrow> u64 \<Rightarrow> u64 \<Rightarrow> u64 \<times> u64 \<times> u64 \<times> u64" where
  "mixG a b c d x y =
     (let a = a + b + x; d = rotr64 (xor d a) 32; c = c + d; b = rotr64 (xor b c) 24;
          a = a + b + y; d = rotr64 (xor d a) 16; c = c + d; b = rotr64 (xor b c) 63
      in (a, b, c, d))"

definition rfc_sigma :: "nat list list" where
  "rfc_sigma = [
     [0, 1, 2, 3, 4, 5, 6, 7, 8, 9, 10, 11, 12, 13, 14, 15],
     [14, 10, 4, 8, 9, 15, 13, 6, 1, 12, 0, 2, 11, 7, 5, 3],
     [11, 8, 12, 0, 5, 2, 15, 13, 10, 14, 3, 6, 7, 1, 9, 4],
     [7, 9, 3, 1, 13, 12, 11, 14, 2, 6, 5, 10, 4, 0, 15, 8],
     [9, 0, 5, 7, 2, 4, 10, 15, 14, 1, 11, 12, 6, 8, 3, 13],
     [2, 12, 6, 10, 0, 11, 8, 3, 4, 13, 7, 5, 15, 14, 1, 9],
     [12, 5, 1, 15, 14, 13, 4, 10, 0, 7, 6, 3, 9, 2, 8, 11],
     [13, 11, 7, 14, 12, 1, 3, 9, 5, 0, 15, 4, 8, 6, 2, 10],
     [6, 15, 14, 9, 11, 3, 0, 8, 12, 2, 13, 7, 1, 4, 10, 5],
     [10, 2, 8, 4, 7, 6, 1, 5, 15, 11, 9, 14, 3, 12, 13, 0]]"

definition rfc_round :: "u64 list \<Rightarrow> nat list \<Rightarrow> v16 \<Rightarrow> v16" where
  "rfc_round m s = (\<lambda>(v0, v1, v2, v3, v4, v5, v6, v7, v8, v9, v10, v11, v12, v13, v14, v15).
     let (v0, v4, v8, v12) = mixG v0 v4 v8 v12 (m ! (s ! 0)) (m ! (s ! 1));
         (v1, v5, v9, v13) = mixG v1 v5 v9 v13 (m ! (s ! 2)) (m ! (s ! 3));
         (v2, v6, v10, v14) = mixG v2 v6 v10 v14 (m ! (s ! 4)) (m ! (s ! 5));
         (v3, v7, v11, v15) = mixG v3 v7 v11 v15 (m ! (s ! 6)) (m ! (s ! 7));
         (v0, v5, v10, v15) = mixG v0 v5 v10 v15 (m ! (s ! 8)) (m ! (s ! 9));
         (v1, v6, v11, v12) = mixG v1 v6 v11 v12 (m ! (s ! 10)) (m ! (s ! 11));
         (v2, v7, v8, v13) = mixG v2 v7 v8 v13 (m ! (s ! 12)) (m ! (s ! 13));
         (v3, v4, v9, v14) = mixG v3 v4 v9 v14 (m ! (s ! 14)) (m ! (s ! 15))
     in (v0, v1, v2, v3, v4, v5, v6, v7, v8, v9, v10, v11, v12, v13, v14, v15))"

definition rfc_rounds :: "u64 list \<Rightarrow> nat \<Rightarrow> v16 \<Rightarrow> v16" where
  "rfc_rounds m n v = fold (\<lambda>i. rfc_round m (rfc_sigma ! (i mod 10))) [0..<n] v"

definition rfc_F :: "u64 list \<Rightarrow> u64 list \<Rightarrow> u64 list \<Rightarrow> bool \<Rightarrow> nat \<Rightarrow> u64 list" where
  "rfc_F h m t f n =
     (let (v0, v1, v2, v3, v4, v5, v6, v7, v8, v9, v10, v11, v12, v13, v14, v15) =
            rfc_rounds m n (h ! 0, h ! 1, h ! 2, h ! 3, h ! 4, h ! 5, h ! 6, h ! 7,
              IV ! 0, IV ! 1, IV ! 2, IV ! 3, xor (IV ! 4) (t ! 0), xor (IV ! 5) (t ! 1),
              (if f then not (IV ! 6) else IV ! 6), IV ! 7)
      in map (\<lambda>(x, y, z). xor (xor x y) z)
           (zip (take 8 h) (zip [v0, v1, v2, v3, v4, v5, v6, v7] [v8, v9, v10, v11, v12, v13, v14, v15])))"

section \<open>Equivalence\<close>

lemma rotr64_RotateLeft64: "0 < n \<Longrightarrow> n < 64 \<Longrightarrow> RotateLeft64 x (- int n) = rotr64 x n"
proof -
  assume n: "0 < n" "n < 64"
  have k: "(- int n) mod 64 = 64 - int n"
    using n by (simp add: zmod_zminus1_eq_if)
  have s: "nat (64 - int n) = 64 - n" using n by linarith
  show ?thesis
  proof (rule bit_word_eqI)
    fix i assume "i < LENGTH(64)"
    then have i: "i < 64" by simp
    show "bit (RotateLeft64 x (- int n)) i \<longleftrightarrow> bit (rotr64 x n) i"
    proof (cases "i + n < 64")
      case True
      with n i show ?thesis
        by (auto simp: RotateLeft64_def rotr64_def k s bit_word_rotr_iff bit_simps add.commute)
    next
      case False
      then have "(i + n) mod 64 = i + n - 64" using n i by (simp add: mod_if)
      moreover have "\<not> bit x (n + i)" using False bit_imp_le_length [of x "n + i"] by auto
      ultimately show ?thesis using False n i
        by (auto simp: RotateLeft64_def rotr64_def k s bit_word_rotr_iff bit_simps)
    qed
  qed
qed

lemma RotateLeft64_numerals:
  "RotateLeft64 x (- 32) = rotr64 x 32" "RotateLeft64 x (- 24) = rotr64 x 24"
  "RotateLeft64 x (- 16) = rotr64 x 16" "RotateLeft64 x (- 63) = rotr64 x 63"
  using rotr64_RotateLeft64 [of 32 x] rotr64_RotateLeft64 [of 24 x] rotr64_RotateLeft64 [of 16 x]
    rotr64_RotateLeft64 [of 63 x] by simp_all

lemma mixG_code:
  "mixG a b c d x y =
     (let a = a + x; a = a + b; d = xor d a; d = rotr64 d 32; c = c + d; b = xor b c; b = rotr64 b 24;
          a = a + y; a = a + b; d = xor d a; d = rotr64 d 16; c = c + d; b = xor b c; b = rotr64 b 63
      in (a, b, c, d))"
  unfolding mixG_def Let_def by (simp only: ac_simps)

lemma F_round_rfc:
  assumes "s = map (\<lambda>i. t ! i) [0, 2, 4, 6, 1, 3, 5, 7, 8, 10, 12, 14, 9, 11, 13, 15]"
  shows "F_round m s v = rfc_round m t v"
proof -
  obtain v0 v1 v2 v3 v4 v5 w where w: "v = (v0, v1, v2, v3, v4, v5, w)" by (cases v)
  obtain v6 v7 v8 v9 v10 v11 u where u: "w = (v6, v7, v8, v9, v10, v11, u)" by (cases w)
  obtain v12 v13 v14 v15 where "u = (v12, v13, v14, v15)" by (cases u)
  then have v: "v = (v0, v1, v2, v3, v4, v5, v6, v7, v8, v9, v10, v11, v12, v13, v14, v15)"
    using w u by simp
  have s: "s ! 0 = t ! 0" "s ! 1 = t ! 2" "s ! 2 = t ! 4" "s ! 3 = t ! 6" "s ! 4 = t ! 1" "s ! 5 = t ! 3"
    "s ! 6 = t ! 5" "s ! 7 = t ! 7" "s ! 8 = t ! 8" "s ! 9 = t ! 10" "s ! 10 = t ! 12" "s ! 11 = t ! 14"
    "s ! 12 = t ! 9" "s ! 13 = t ! 11" "s ! 14 = t ! 13" "s ! 15 = t ! 15"
    by (simp_all add: assms)
  show ?thesis
    by (simp only: v F_round_def rfc_round_def mixG_code Let_def prod.case s RotateLeft64_numerals)
qed

lemma precomputed_sigma:
  "j < 10 \<Longrightarrow> precomputed ! j =
     map (\<lambda>i. rfc_sigma ! j ! i) [0, 2, 4, 6, 1, 3, 5, 7, 8, 10, 12, 14, 9, 11, 13, 15]"
proof -
  have "\<forall>j \<in> set [0..<10]. precomputed ! j =
     map (\<lambda>i. rfc_sigma ! j ! i) [0, 2, 4, 6, 1, 3, 5, 7, 8, 10, 12, 14, 9, 11, 13, 15]"
    by code_simp
  then show "j < 10 \<Longrightarrow> ?thesis" by simp
qed

lemma F_loop_rfc: "F_loop m j n v = fold (\<lambda>i. rfc_round m (rfc_sigma ! (i mod 10))) [j..<j + n] v"
proof (induction n arbitrary: j v)
  case (Suc n)
  have "F_round m (precomputed ! (j mod 10)) v = rfc_round m (rfc_sigma ! (j mod 10)) v"
    by (rule F_round_rfc [OF precomputed_sigma]) simp
  with Suc show ?case by (simp add: upt_conv_Cons del: upt_Suc)
qed simp

lemma take8: "length h = 8 \<Longrightarrow> take 8 h = [h ! 0, h ! 1, h ! 2, h ! 3, h ! 4, h ! 5, h ! 6, h ! 7]"
  by (rule nth_equalityI) (auto simp: less_Suc_eq numeral_eq_Suc)

text \<open>The compression function of the code is that of the RFC.\<close>

lemma F_eq_rfc:
  assumes "length h = 8"
  shows "F h m c f rounds = rfc_F h m c f (unat rounds)"
proof -
  have "(0xffffffffffffffff :: u64) = - 1" by simp
  then have x: "xor w 0xffffffffffffffff = not w" for w :: u64
    by (simp only:) (rule bit_word_eqI, simp add: bit_simps)
  show ?thesis
    unfolding F_def F_init_def F_final_def rfc_F_def rfc_rounds_def F_loop_rfc x take8 [OF assms]
    by (simp add: split_def Let_def xor.assoc)
qed

lemma length_F [simp]: "length (F h m c f rounds) = 8"
  by (simp add: F_def F_final_def split_def)

lemma length_concat_le: "length (concat (map le_PutUint64 ws)) = 8 * length ws"
  by (induction ws) (simp_all add: le_PutUint64_def)

lemma blake2f_run_length: "blake2f_run input = Inr out \<Longrightarrow> length out = 64"
  by (auto simp: blake2f_run_def Let_def split_def length_concat_le split: if_splits)

end
