(* ===== verification/Bitmap.thy ===== *)
theory Bitmap
  imports Helpers
begin

text \<open>
  The signer bitmap of \<^verbatim>\<open>src/consensus/polybft/bitmap/bitmap.go\<close>: bit \<open>i\<close> is bit \<open>i mod 8\<close> of byte
  \<open>i div 8\<close>, and setting a bit past the end extends the slice.
\<close>

type_synonym Bitmap = bytes

definition extendByteSlice :: "bytes \<Rightarrow> nat \<Rightarrow> bytes" where
  "extendByteSlice b needLen = (if needLen > length b then b @ replicate (needLen - length b) 0 else b)"

definition Bitmap_Set :: "Bitmap \<Rightarrow> u64 \<Rightarrow> Bitmap" where
  "Bitmap_Set b idx =
     (let index = unat idx div 8;
          b = extendByteSlice b (index + 1);
          bit = push_bit (unat idx mod 8) 1
      in b[index := or (b ! index) bit])"

definition Bitmap_Len :: "Bitmap \<Rightarrow> u64" where
  "Bitmap_Len b = of_nat (length b * 8)"

definition Bitmap_IsSet :: "Bitmap \<Rightarrow> u64 \<Rightarrow> bool" where
  "Bitmap_IsSet b idx =
     (if Bitmap_Len b \<le> idx then False
      else let bit = push_bit (unat idx mod 8) 1 in and (b ! (unat idx div 8)) bit = bit)"

lemma and_push_bit_1: "and w (push_bit n 1) = push_bit n 1 \<longleftrightarrow> bit w n" if "n < LENGTH('a)" for w :: "'a::len word"
proof
  assume "and w (push_bit n 1) = push_bit n 1"
  then have "bit (and w (push_bit n 1)) n" using that by (simp add: bit_simps)
  then show "bit w n" by (simp add: bit_simps)
next
  assume "bit w n"
  then show "and w (push_bit n 1) = push_bit n 1"
    by (intro bit_word_eqI) (auto simp: bit_simps)
qed

lemma and_exp_bit: "and w (2 ^ n) = 2 ^ n \<longleftrightarrow> bit w n" if "n < LENGTH('a)" for w :: "'a::len word"
  using and_push_bit_1 [OF that, of w] by (simp add: push_bit_eq_mult)

lemma IsSet_iff:
  assumes "length b < 2 ^ 60"
  shows "Bitmap_IsSet b i \<longleftrightarrow> unat i < 8 * length b \<and> bit (b ! (unat i div 8)) (unat i mod 8)"
proof -
  have "unat (of_nat (length b * 8) :: u64) = length b * 8"
    using assms by (intro unat_of_nat_small) simp
  then have "Bitmap_Len b \<le> i \<longleftrightarrow> 8 * length b \<le> unat i"
    by (simp add: Bitmap_Len_def word_le_nat_alt mult.commute)
  then show ?thesis by (auto simp: Bitmap_IsSet_def Let_def and_exp_bit)
qed

lemma length_extendByteSlice: "length (extendByteSlice b n) = max (length b) n"
  by (simp add: extendByteSlice_def)

lemma nth_extendByteSlice: "j < max (length b) n \<Longrightarrow> extendByteSlice b n ! j = (if j < length b then b ! j else 0)"
  by (auto simp: extendByteSlice_def nth_append)

lemma length_Bitmap_Set: "length (Bitmap_Set b i) = max (length b) (unat i div 8 + 1)"
  by (simp add: Bitmap_Set_def Let_def length_extendByteSlice)

text \<open>A bit is set in the extended bitmap if it was set before or is the one just set.\<close>

lemma IsSet_Set:
  assumes "length b < 2 ^ 60" "unat i < 2 ^ 60"
  shows "Bitmap_IsSet (Bitmap_Set b i) j \<longleftrightarrow> j = i \<or> Bitmap_IsSet b j"
proof -
  let ?b = "Bitmap_Set b i"
  have "unat i div 8 + 1 < 2 ^ 60" using assms(2) by simp
  then have "length ?b < 2 ^ 60" using assms(1) by (simp add: length_Bitmap_Set)
  note I = IsSet_iff [OF this, of j] IsSet_iff [OF assms(1), of j]
  have ij: "j = i \<longleftrightarrow> unat j div 8 = unat i div 8 \<and> unat j mod 8 = unat i mod 8"
    by (metis div_mult_mod_eq unsigned_word_eqI)
  show ?thesis
  proof (cases "unat j div 8 < length ?b")
    case True
    then have e: "unat j < 8 * length ?b" by linarith
    have l: "unat j div 8 < max (length b) (unat i div 8 + 1)" using True by (simp add: length_Bitmap_Set)
    have "bit (?b ! (unat j div 8)) (unat j mod 8) \<longleftrightarrow>
        j = i \<or> unat j div 8 < length b \<and> bit (b ! (unat j div 8)) (unat j mod 8)"
    proof (cases "unat j div 8 = unat i div 8")
      case True
      then show ?thesis using l ij
        by (auto simp: Bitmap_Set_def Let_def length_extendByteSlice nth_extendByteSlice bit_simps)
    next
      case False
      then show ?thesis using l ij
        by (auto simp: Bitmap_Set_def Let_def nth_list_update length_extendByteSlice nth_extendByteSlice)
    qed
    moreover have "unat j < 8 * length b \<longleftrightarrow> unat j div 8 < length b" by linarith
    ultimately show ?thesis using e by (simp add: I)
  next
    case False
    then have "\<not> unat j < 8 * length ?b" by (metis less_mult_imp_div_less mult.commute)
    moreover have "length b \<le> unat j div 8" "unat i div 8 < unat j div 8"
      using False by (simp_all add: length_Bitmap_Set)
    ultimately have "\<not> unat j < 8 * length ?b" "\<not> unat j < 8 * length b" "unat j div 8 \<noteq> unat i div 8"
      by linarith+
    then show ?thesis using ij by (simp add: I)
  qed
qed

lemma IsSet_empty: "\<not> Bitmap_IsSet [] j"
  by (simp add: Bitmap_IsSet_def Bitmap_Len_def)

text \<open>Setting the bits of a list of indices and reading them back.\<close>

lemma IsSet_foldl_Set:
  assumes "\<forall>i \<in> set is'. unat i < 2 ^ 59"
  shows "Bitmap_IsSet (foldl Bitmap_Set [] is') j \<longleftrightarrow> j \<in> set is'"
    and "length (foldl Bitmap_Set [] is') < 2 ^ 60"
proof -
  have "(Bitmap_IsSet (foldl Bitmap_Set [] is') j \<longleftrightarrow> j \<in> set is') \<and>
      length (foldl Bitmap_Set [] is') \<le> 2 ^ 59"
    using assms
  proof (induction is' rule: rev_induct)
    case (snoc i xs)
    then have "unat i < 2 ^ 59" by simp
    then have "Suc (unat i div 8) \<le> 2 ^ 59" by linarith
    with snoc show ?case by (auto simp: IsSet_Set length_Bitmap_Set)
  qed (simp add: IsSet_empty)
  then show "Bitmap_IsSet (foldl Bitmap_Set [] is') j \<longleftrightarrow> j \<in> set is'"
    "length (foldl Bitmap_Set [] is') < 2 ^ 60" by auto
qed

end
