(* ===== verification/Precompiled.thy ===== *)
theory Precompiled
  imports Runtime BigInt Sha256 Blake2f Bitmap
begin

text \<open>
  The precompiled contracts, \<^verbatim>\<open>src/state/runtime/precompiled\<close>: the registry, its dispatcher and the
  contracts. The Go interface \<^verbatim>\<open>contract\<close> has one implementing struct per contract; here it is the
  datatype \<open>contract\<close>, and the methods \<^verbatim>\<open>gas\<close> and \<^verbatim>\<open>run\<close> are the functions \<open>contract_gas\<close> and
  \<open>contract_run\<close> by cases on it.

  Third-party code is the parameter \<open>crypto\<close>: secp256k1 recovery, RIPEMD-160, Keccak, the two bn256
  libraries, the ABI decoder at the five types the contracts use, and the Cardano library. \<^typ>\<open>'g\<close>
  stands for the values of these libraries (points, keys, signatures). The decoder returns Go maps
  whose entries have the Go types of the ABI types, so the checks of these types in the code succeed.

  The contracts share the buffer \<^verbatim>\<open>Precompiled.buf\<close>. It is an argument of the functions that use it and
  is not threaded: every read of it follows a complete write, as \<open>pc_get_eq\<close> shows.
\<close>

section \<open>System addresses\<close>

definition addr_of :: "160 word \<Rightarrow> Address" where
  "addr_of w = be_bytes 20 w"

definition NativeERC20TokenContract :: Address where "NativeERC20TokenContract = addr_of 0x1010"
definition SystemCaller :: Address where
  "SystemCaller = addr_of 0xfffffffffffffffffffffffffffffffffffffffe"
definition NativeTransferPrecompile :: Address where "NativeTransferPrecompile = addr_of 0x2020"
definition BLSAggSigsVerificationPrecompile :: Address where
  "BLSAggSigsVerificationPrecompile = addr_of 0x2030"
definition ConsolePrecompile :: Address where
  "ConsolePrecompile = addr_of 0x636f6e736f6c652e6c6f67"
definition CardanoVerifySignaturePrecompile :: Address where
  "CardanoVerifySignaturePrecompile = addr_of 0x2050"
definition ApexBLSSignaturesVerificationPrecompile :: Address where
  "ApexBLSSignaturesVerificationPrecompile = addr_of 0x2060"
definition AllowListContractsAddr :: Address where
  "AllowListContractsAddr = addr_of 0x0200000000000000000000000000000000000000"
definition BlockListContractsAddr :: Address where
  "BlockListContractsAddr = addr_of 0x0300000000000000000000000000000000000000"
definition AllowListTransactionsAddr :: Address where
  "AllowListTransactionsAddr = addr_of 0x0200000000000000000000000000000000000002"
definition BlockListTransactionsAddr :: Address where
  "BlockListTransactionsAddr = addr_of 0x0300000000000000000000000000000000000002"
definition AllowListBridgeAddr :: Address where
  "AllowListBridgeAddr = addr_of 0x0200000000000000000000000000000000000004"
definition BlockListBridgeAddr :: Address where
  "BlockListBridgeAddr = addr_of 0x0300000000000000000000000000000000000004"

section \<open>Libraries\<close>

datatype verifyResult = VerifyOk | VerifyInvalidSignature | VerifyError string

record 'g crypto =
  cr_keccak :: "bytes \<Rightarrow> bytes"
  cr_RecoverCompact :: "bytes \<Rightarrow> bytes \<Rightarrow> 'g option"
  cr_MarshalPublicKey :: "'g \<Rightarrow> bytes"
  cr_ripemd160 :: "bytes \<Rightarrow> bytes"
  cr_abiBoolTrue :: bytes
  cr_abiBoolFalse :: bytes
  bn_G1_Unmarshal :: "bytes \<Rightarrow> string + 'g"
  bn_G2_Unmarshal :: "bytes \<Rightarrow> string + 'g"
  bn_Add :: "'g \<Rightarrow> 'g \<Rightarrow> 'g"
  bn_ScalarMult :: "'g \<Rightarrow> int \<Rightarrow> 'g"
  bn_Marshal :: "'g \<Rightarrow> bytes"
  bn_PairingCheck :: "'g list \<Rightarrow> 'g list \<Rightarrow> bool"
  bls_UnmarshalSignature :: "bytes \<Rightarrow> string + 'g"
  bls_UnmarshalPublicKey :: "bytes \<Rightarrow> string + 'g"
  bls_UnmarshalPublicKeyFromBigInt :: "int list \<Rightarrow> string + 'g"
  bls_VerifyAggregated :: "'g \<Rightarrow> 'g list \<Rightarrow> bytes \<Rightarrow> bytes \<Rightarrow> bool"
  abi_inputData :: "bytes \<Rightarrow> string + bytes \<times> bytes \<times> bytes"
  abi_BlsVerification :: "bytes \<Rightarrow> string + bytes list"
  abi_apexMulti :: "bytes \<Rightarrow> string + bytes \<times> bytes \<times> int list list \<times> int"
  abi_apexSingle :: "bytes \<Rightarrow> string + bytes \<times> bytes \<times> int list"
  abi_cardano :: "bytes \<Rightarrow> string + bytes \<times> bytes \<times> bytes \<times> bool"
  cardano_GetSignature :: "bytes \<Rightarrow> bytes option"
  cardano_ParseTxHash :: "bytes \<Rightarrow> string + string"
  cardano_VerifyMessage :: "bytes \<Rightarrow> bytes \<Rightarrow> bytes \<Rightarrow> verifyResult"

text \<open>The lengths the code relies on: Keccak-256 has 32 bytes, RIPEMD-160 has 20, an uncompressed
  public key 65, a marshalled G1 point 64 and an ABI-encoded boolean 32.\<close>

definition crypto_doc :: "'g crypto \<Rightarrow> bool" where
  "crypto_doc C \<longleftrightarrow> (\<forall>b. length (cr_keccak C b) = 32) \<and> (\<forall>b. length (cr_ripemd160 C b) = 20) \<and>
     (\<forall>g. length (cr_MarshalPublicKey C g) = 65) \<and> (\<forall>g. length (bn_Marshal C g) = 64) \<and>
     length (cr_abiBoolTrue C) = 32 \<and> length (cr_abiBoolFalse C) = 32"

type_synonym pres = "bytes \<times> Error option"

section \<open>Buffer\<close>

definition leftPad :: "bytes \<Rightarrow> nat \<Rightarrow> bytes" where
  "leftPad buf n =
     (let l = length buf in
      if l > n then buf
      else let tmp = replicate n 0 in take (n - l) tmp @ go_copy (drop (n - l) tmp) buf)"

definition zeroPadding :: bytes where
  "zeroPadding = replicate 64 0"

definition pc_get :: "bytes \<Rightarrow> bytes \<Rightarrow> nat \<Rightarrow> bytes \<times> bytes" where
  "pc_get buf input sz =
     (let buf = ExtendByteSlice buf sz;
          n = (if length input < sz then length input else sz);
          buf = go_copy buf (take n input);
          buf = (if n < sz then
                   let rest = sz - n in
                   if rest < 64 then take n buf @ go_copy (drop n buf) (take (sz - n) zeroPadding)
                   else take n buf @ go_copy (drop n buf) (replicate rest 0)
                 else buf)
      in (buf, drop n input))"

definition pc_getUint64 :: "bytes \<Rightarrow> bytes \<Rightarrow> u64 \<times> bytes" where
  "pc_getUint64 buf input =
     (let (buf, input) = pc_get buf input 32
      in (of_be_bytes (take 8 (drop 24 buf)), input))"

text \<open>\<^verbatim>\<open>get\<close> with the size \<^verbatim>\<open>int(n)\<close> of an unsigned \<^verbatim>\<open>n\<close>: a negative size panics.\<close>

definition pc_getInt :: "bytes \<Rightarrow> bytes \<Rightarrow> u64 \<Rightarrow> (bytes \<times> bytes) option" where
  "pc_getInt buf input n = (if sint n < 0 then None else Some (pc_get buf input (unat n)))"

section \<open>Elementary contracts\<close>

definition secp256k1N :: int where
  "secp256k1N = 0xfffffffffffffffffffffffffffffffebaaedce6af48a03bbfd25e8cd0364141"

definition secp256k1NHalf :: int where
  "secp256k1NHalf = secp256k1N div 2"

definition ValidateSignatureValues :: "int \<Rightarrow> int option \<Rightarrow> int option \<Rightarrow> bool \<Rightarrow> bool" where
  "ValidateSignatureValues v r s isHomestead =
     (case (r, s) of
        (Some r, Some s) \<Rightarrow>
          if r < 1 \<or> s < 1 then False
          else if v < 0 \<or> v > 1 then False
          else if isHomestead then r < secp256k1N \<and> s \<le> secp256k1NHalf
          else r < secp256k1N \<and> s < secp256k1N
      | _ \<Rightarrow> False)"

definition RecoverPubKey :: "'g crypto \<Rightarrow> bytes \<Rightarrow> bytes \<Rightarrow> 'g option" where
  "RecoverPubKey C signature h =
     (if length h \<noteq> HashLength then None
      else if length signature \<noteq> 65 then None
      else
        let btcsig = (signature ! 64 + 27) # take 64 signature
        in cr_RecoverCompact C btcsig h)"

definition Ecrecover :: "'g crypto \<Rightarrow> bytes \<Rightarrow> bytes \<Rightarrow> bytes option" where
  "Ecrecover C h sig = map_option (cr_MarshalPublicKey C) (RecoverPubKey C sig h)"

definition ecrecover_run :: "'g crypto \<Rightarrow> bytes \<Rightarrow> bytes \<Rightarrow> pres option" where
  "ecrecover_run C buf input =
     (let (input, _) = pc_get buf input 128 in
      if list_ex (\<lambda>i. input ! i \<noteq> 0) [32..<63] then Some ([], None)
      else
        let v = input ! 63 - 27;
            r = big_SetBytes (take 32 (drop 64 input));
            s = big_SetBytes (take 32 (drop 96 input))
        in if \<not> ValidateSignatureValues (big_SetBytes [v]) (Some r) (Some s) False then Some ([], None)
        else
          let sig = (go_copy (replicate 65 0) (take 64 (drop 64 input)))[64 := v]
          in case Ecrecover C (take 32 input) sig of
               None \<Rightarrow> Some ([], None)
             | Some pubKey \<Rightarrow> do {
                 pub \<leftarrow> go_slice pubKey 1 (length pubKey);
                 dst \<leftarrow> Some (cr_keccak C pub);
                 dst \<leftarrow> go_slice dst 12 (length dst);
                 Some (leftPad dst 32, None)
               })"

definition baseGasCalc :: "bytes \<Rightarrow> u64 \<Rightarrow> u64 \<Rightarrow> u64" where
  "baseGasCalc input base word = base + (of_nat (length input + 31) div 32) * word"

section \<open>Modular exponentiation\<close>

definition adjustedExponentLength :: "int \<Rightarrow> int \<Rightarrow> int" where
  "adjustedExponentLength expLen head =
     (let bitlength = (if sgn head \<noteq> 0 then of_nat (big_BitLen head - 1) else 0 :: u64) in
      if expLen \<le> 32 then uint bitlength
      else (expLen - 32) * 8 + uint bitlength)"

definition subMul :: "int \<Rightarrow> int \<Rightarrow> int \<Rightarrow> int \<Rightarrow> int" where
  "subMul x a b c = (x * b - c) + x * x div a"

definition multComplexity :: "int \<Rightarrow> int" where
  "multComplexity x =
     (if x \<le> 64 then x * x
      else if x \<le> 1024 then subMul x 4 96 3072
      else subMul x 16 480 199680)"

definition modExp_head :: "bytes \<Rightarrow> bytes \<Rightarrow> int \<Rightarrow> int \<Rightarrow> int" where
  "modExp_head buf input baseLen expLen =
     (let input = (if length input > 96 then drop 96 input else []);
          expHeadLen = (if expLen < 32 then big_Uint64 expLen else 32);
          bLen = big_Uint64 baseLen
      in if bLen < of_nat (length input)
         then big_SetBytes (fst (pc_get buf (drop (unat bLen) input) (unat expHeadLen))) else 0)"

definition modExp_price :: "ForksInTime \<Rightarrow> int \<Rightarrow> int \<Rightarrow> u64" where
  "modExp_price config gasCost adjExpLen =
     (if Berlin config then
        let gasCost = (gasCost + 7) div 8;
            gasCost = gasCost * gasCost;
            gasCost = (if adjExpLen \<ge> 1 then gasCost * adjExpLen else gasCost * 1);
            gasCost = gasCost div 3
        in if \<not> big_IsUint64 gasCost then - 1
           else if big_Uint64 gasCost < 200 then 200
           else big_Uint64 gasCost
      else
        let gasCost = multComplexity gasCost;
            gasCost = (if adjExpLen \<ge> 1 then gasCost * adjExpLen else gasCost * 1);
            gasCost = gasCost div 20
        in if \<not> big_IsUint64 gasCost then - 1 else big_Uint64 gasCost)"

definition modExp_gas :: "bytes \<Rightarrow> bytes \<Rightarrow> ForksInTime \<Rightarrow> u64" where
  "modExp_gas buf input config =
     (let (val, tail) = pc_get buf input 32;
          baseLen = big_SetBytes val;
          (val, tail) = pc_get buf tail 32;
          expLen = big_SetBytes val;
          (val, _) = pc_get buf tail 32;
          modLen = big_SetBytes val;
          expHead = modExp_head buf input baseLen expLen;
          adjExpLen = adjustedExponentLength expLen expHead;
          gasCost = (if modLen \<ge> baseLen then modLen else baseLen)
      in modExp_price config gasCost adjExpLen)"

definition modExp_run :: "bytes \<Rightarrow> bytes \<Rightarrow> pres option" where
  "modExp_run buf input =
     (let (baseLen, input) = pc_getUint64 buf input;
          (exponentLen, input) = pc_getUint64 buf input;
          (modulusLen, input) = pc_getUint64 buf input
      in if baseLen = 0 \<and> modulusLen = 0 then Some ([], None)
      else do {
        (val, input) \<leftarrow> pc_getInt buf input baseLen;
        base \<leftarrow> Some (big_SetBytes val);
        (val, input) \<leftarrow> pc_getInt buf input exponentLen;
        exponent \<leftarrow> Some (big_SetBytes val);
        (val, _) \<leftarrow> pc_getInt buf input modulusLen;
        modulus \<leftarrow> Some (big_SetBytes val);
        res \<leftarrow> Some (if sgn modulus \<noteq> 0 then big_Bytes (base ^ nat exponent mod modulus) else []);
        Some (leftPad res (unat modulusLen), None)
      })"

section \<open>Elliptic curves\<close>

definition bn256Add_run :: "'g crypto \<Rightarrow> bytes \<Rightarrow> bytes \<Rightarrow> pres" where
  "bn256Add_run C buf input =
     (let (val, input) = pc_get buf input 64 in
      case bn_G1_Unmarshal C val of
        Inl e \<Rightarrow> ([], Some (ErrPrecompile e))
      | Inr b1 \<Rightarrow>
          let (val, _) = pc_get buf input 64 in
          case bn_G1_Unmarshal C val of
            Inl e \<Rightarrow> ([], Some (ErrPrecompile e))
          | Inr b2 \<Rightarrow> (bn_Marshal C (bn_Add C b1 b2), None))"

definition bn256Mul_run :: "'g crypto \<Rightarrow> bytes \<Rightarrow> bytes \<Rightarrow> pres" where
  "bn256Mul_run C buf input =
     (let (v, input) = pc_get buf input 64 in
      case bn_G1_Unmarshal C v of
        Inl e \<Rightarrow> ([], Some (ErrPrecompile e))
      | Inr b0 \<Rightarrow>
          let (v, _) = pc_get buf input 32;
              k = big_SetBytes v
          in (bn_Marshal C (bn_ScalarMult C b0 k), None))"

fun pairingPoints :: "'g crypto \<Rightarrow> bytes \<Rightarrow> nat \<Rightarrow> bytes \<Rightarrow> string + 'g list \<times> 'g list" where
  "pairingPoints C buf 0 input = Inr ([], [])"
| "pairingPoints C buf (Suc n) input =
     (let (b, input) = pc_get buf input 64 in
      case bn_G1_Unmarshal C b of
        Inl e \<Rightarrow> Inl e
      | Inr a0 \<Rightarrow>
          let (b, input) = pc_get buf input 128 in
          case bn_G2_Unmarshal C b of
            Inl e \<Rightarrow> Inl e
          | Inr b0 \<Rightarrow>
              case pairingPoints C buf n input of
                Inl e \<Rightarrow> Inl e
              | Inr (ar, br) \<Rightarrow> Inr (a0 # ar, b0 # br))"

definition bn256Pairing_run :: "'g crypto \<Rightarrow> bytes \<Rightarrow> bytes \<Rightarrow> pres" where
  "bn256Pairing_run C buf input =
     (if length input = 0 then (cr_abiBoolTrue C, None)
      else if length input mod 192 \<noteq> 0 then ([], Some (ErrPrecompile ''bad size''))
      else
        case pairingPoints C buf (length input div 192) input of
          Inl e \<Rightarrow> ([], Some (ErrPrecompile e))
        | Inr (ar, br) \<Rightarrow>
            if bn_PairingCheck C ar br then (cr_abiBoolTrue C, None) else (cr_abiBoolFalse C, None))"

section \<open>Signatures\<close>

fun unmarshalAll :: "('a \<Rightarrow> string + 'g) \<Rightarrow> 'a list \<Rightarrow> string + 'g list" where
  "unmarshalAll f [] = Inr []"
| "unmarshalAll f (pk # pks) =
     (case f pk of
        Inl e \<Rightarrow> Inl e
      | Inr k \<Rightarrow> (case unmarshalAll f pks of Inl e \<Rightarrow> Inl e | Inr ks \<Rightarrow> Inr (k # ks)))"

definition ascii :: "string \<Rightarrow> bytes" where
  "ascii s = map (\<lambda>c. of_nat (of_char c)) s"

definition DomainStateReceiver :: "'g crypto \<Rightarrow> bytes" where
  "DomainStateReceiver C = cr_keccak C (ascii ''DOMAIN_STATE_RECEIVER'')"

definition DomainApexBridgeEVM :: "'g crypto \<Rightarrow> bytes" where
  "DomainApexBridgeEVM C = cr_keccak C (ascii ''DOMAIN_APEX_BRIDGE_EVM'')"

definition blsAggSignsVerification_run :: "'g crypto \<Rightarrow> bytes \<Rightarrow> pres" where
  "blsAggSignsVerification_run C input =
     (case abi_inputData C input of
        Inl e \<Rightarrow> ([], Some (ErrPrecompile e))
      | Inr (msg, aggSig, blsVerification) \<Rightarrow>
          (case bls_UnmarshalSignature C aggSig of
             Inl _ \<Rightarrow> ([], Some (ErrPrecompile ''invalid signature''))
           | Inr sig \<Rightarrow>
               (case abi_BlsVerification C blsVerification of
                  Inl e \<Rightarrow> ([], Some (ErrPrecompile e))
                | Inr publicKeys \<Rightarrow>
                    (case unmarshalAll (bls_UnmarshalPublicKey C) publicKeys of
                       Inl _ \<Rightarrow> ([], Some (ErrPrecompile ''invalid public keys''))
                     | Inr pubKeys \<Rightarrow>
                         if bls_VerifyAggregated C sig pubKeys msg (DomainStateReceiver C)
                         then (cr_abiBoolTrue C, None) else (cr_abiBoolFalse C, None)))))"

text \<open>The public keys of the signers in the bitmap; \<open>i\<close> is the index of the head.\<close>

fun signerKeys :: "Bitmap \<Rightarrow> nat \<Rightarrow> 'k list \<Rightarrow> 'k list" where
  "signerKeys bmp i [] = []"
| "signerKeys bmp i (x # xs) =
     (if Bitmap_IsSet bmp (of_nat i) then x # signerKeys bmp (i + 1) xs else signerKeys bmp (i + 1) xs)"

definition quorumCnt :: "nat \<Rightarrow> nat" where
  "quorumCnt n = n * 2 div 3 + 1"

definition apexVerify :: "'g crypto \<Rightarrow> bytes \<Rightarrow> bytes \<Rightarrow> bytes \<Rightarrow> int list list \<Rightarrow> pres" where
  "apexVerify C domain msg signatureBytes publicKeysSerialized =
     (case bls_UnmarshalSignature C signatureBytes of
        Inl e \<Rightarrow> ([], Some (ErrPrecompile ''invalid input: signature''))
      | Inr signature \<Rightarrow>
          (case unmarshalAll (bls_UnmarshalPublicKeyFromBigInt C) publicKeysSerialized of
             Inl e \<Rightarrow> ([], Some (ErrPrecompile ''invalid input: public key''))
           | Inr pubKeys \<Rightarrow>
               if bls_VerifyAggregated C signature pubKeys msg domain
               then (cr_abiBoolTrue C, None) else (cr_abiBoolFalse C, None)))"

definition apexBLSSignatureVerification_run :: "'g crypto \<Rightarrow> bytes \<Rightarrow> bytes \<Rightarrow> pres" where
  "apexBLSSignatureVerification_run C domain input =
     (case input of
        [] \<Rightarrow> ([], Some (ErrPrecompile ''invalid input''))
      | b # rest \<Rightarrow>
          let isSingle = (b = 0) in
          if isSingle then
            (case abi_apexSingle C rest of
               Inl e \<Rightarrow> ([], Some (ErrPrecompile ''invalid input: single''))
             | Inr (msg, signatureBytes, publicKey) \<Rightarrow>
                 apexVerify C domain msg signatureBytes [publicKey])
          else
            (case abi_apexMulti C rest of
               Inl e \<Rightarrow> ([], Some (ErrPrecompile ''invalid input: multi''))
             | Inr (msg, signatureBytes, allPublicKeys, bm) \<Rightarrow>
                 let bmp = big_Bytes bm;
                     publicKeysSerialized = signerKeys bmp 0 allPublicKeys
                 in if length publicKeysSerialized < quorumCnt (length allPublicKeys)
                    then ([], Some (ErrPrecompile ''quorum not reached''))
                    else apexVerify C domain msg signatureBytes publicKeysSerialized))"

definition hexDigit :: "char \<Rightarrow> byte option" where
  "hexDigit c =
     (let n = of_char c :: nat in
      if 48 \<le> n \<and> n \<le> 57 then Some (of_nat (n - 48))
      else if 97 \<le> n \<and> n \<le> 102 then Some (of_nat (n - 87))
      else if 65 \<le> n \<and> n \<le> 70 then Some (of_nat (n - 55)) else None)"

fun hex_DecodeString :: "string \<Rightarrow> bytes option" where
  "hex_DecodeString [] = Some []"
| "hex_DecodeString [_] = None"
| "hex_DecodeString (a # b # s) = do {
     x \<leftarrow> hexDigit a; y \<leftarrow> hexDigit b; r \<leftarrow> hex_DecodeString s; Some ((16 * x + y) # r)
   }"

definition cardanoVerify_run :: "'g crypto \<Rightarrow> bytes \<Rightarrow> pres" where
  "cardanoVerify_run C input =
     (case abi_cardano C input of
        Inl e \<Rightarrow> ([], Some ErrInvalidInputData)
      | Inr (rawTxOrMessage, signature, verifyingKey, isTx) \<Rightarrow>
          let signature = (case cardano_GetSignature C signature of None \<Rightarrow> signature | Some s \<Rightarrow> s);
              m = (if isTx then
                     (case cardano_ParseTxHash C rawTxOrMessage of
                        Inl e \<Rightarrow> Inl e
                      | Inr s \<Rightarrow> (case hex_DecodeString s of None \<Rightarrow> Inl ''hex'' | Some b \<Rightarrow> Inr b))
                   else Inr rawTxOrMessage)
          in case m of
               Inl e \<Rightarrow> ([], Some (ErrPrecompile e))
             | Inr msg \<Rightarrow>
                 (case cardano_VerifyMessage C msg verifyingKey signature of
                    VerifyOk \<Rightarrow> (cr_abiBoolTrue C, None)
                  | VerifyInvalidSignature \<Rightarrow> (cr_abiBoolFalse C, None)
                  | VerifyError e \<Rightarrow> ([], Some (ErrPrecompile e))))"

section \<open>Contracts with effects\<close>

definition nativeTransfer_run ::
  "'g crypto \<Rightarrow> 'h Host \<Rightarrow> bytes \<Rightarrow> Address \<Rightarrow> 'h \<Rightarrow> pres \<times> 'h" where
  "nativeTransfer_run C H input caller h =
     (if length input < 3 * HashLength then ((cr_abiBoolFalse C, Some ErrInvalidInputData), h)
      else if caller \<noteq> NativeERC20TokenContract then ((cr_abiBoolFalse C, Some ErrUnauthorizedCaller), h)
      else
        let from = BytesToAddress (take HashLength input);
            to = BytesToAddress (take HashLength (drop HashLength input));
            amount = big_SetBytes (take HashLength (drop (2 * HashLength) input))
        in case Transfer H h from to (Some amount) of
             (Some e, h) \<Rightarrow> ((cr_abiBoolFalse C, Some e), h)
           | (None, h) \<Rightarrow> ((cr_abiBoolTrue C, None), h))"

text \<open>The console prints the decoded arguments. \<^verbatim>\<open>decodeConsole\<close> slices the selector off the input
  before it looks at its length.\<close>

definition console_run :: "bytes \<Rightarrow> pres option" where
  "console_run input = map_option (\<lambda>sig. ([], None)) (go_slice input 0 4)"

section \<open>Registry and dispatch\<close>

datatype contract =
  ecrecover | sha256h | ripemd160h | identity | modExp | bn256Add | bn256Mul | bn256Pairing | blake2f
| nativeTransfer | console | blsAggSignsVerification | cardanoVerifySignaturePrecompile
| apexBLSSignatureVerification bytes

definition contract_gas :: "bytes \<Rightarrow> contract \<Rightarrow> bytes \<Rightarrow> ForksInTime \<Rightarrow> u64" where
  "contract_gas buf c input config =
     (case c of
        ecrecover \<Rightarrow> 3000
      | sha256h \<Rightarrow> baseGasCalc input 60 12
      | ripemd160h \<Rightarrow> baseGasCalc input 600 120
      | identity \<Rightarrow> baseGasCalc input 15 3
      | modExp \<Rightarrow> modExp_gas buf input config
      | bn256Add \<Rightarrow> if Istanbul config then 150 else 500
      | bn256Mul \<Rightarrow> if Istanbul config then 6000 else 40000
      | bn256Pairing \<Rightarrow>
          let (baseGas, pointGas) = (if Istanbul config then (45000, 34000) else (100000, 80000))
          in baseGas + pointGas * of_nat (length input div 192)
      | blake2f \<Rightarrow> blake2f_gas input
      | nativeTransfer \<Rightarrow> 21000
      | console \<Rightarrow> 0
      | blsAggSignsVerification \<Rightarrow> 150000
      | cardanoVerifySignaturePrecompile \<Rightarrow> 50000
      | apexBLSSignatureVerification _ \<Rightarrow> 50000)"

definition contract_run ::
  "'g crypto \<Rightarrow> 'h Host \<Rightarrow> bytes \<Rightarrow> contract \<Rightarrow> bytes \<Rightarrow> Address \<Rightarrow> 'h \<Rightarrow> (pres \<times> 'h) option" where
  "contract_run C H buf c input caller h =
     (case c of
        ecrecover \<Rightarrow> map_option (\<lambda>r. (r, h)) (ecrecover_run C buf input)
      | sha256h \<Rightarrow> Some ((sha256 input, None), h)
      | ripemd160h \<Rightarrow> Some ((leftPad (cr_ripemd160 C input) 32, None), h)
      | identity \<Rightarrow> Some ((input, None), h)
      | modExp \<Rightarrow> map_option (\<lambda>r. (r, h)) (modExp_run buf input)
      | bn256Add \<Rightarrow> Some (bn256Add_run C buf input, h)
      | bn256Mul \<Rightarrow> Some (bn256Mul_run C buf input, h)
      | bn256Pairing \<Rightarrow> Some (bn256Pairing_run C buf input, h)
      | blake2f \<Rightarrow>
          (case blake2f_run input of
             Inl badLength \<Rightarrow> Some (([], Some (ErrPrecompile ''bad length'')), h)
           | Inl badFlag \<Rightarrow> Some (([], Some (ErrPrecompile ''bad flag'')), h)
           | Inr out \<Rightarrow> Some ((out, None), h))
      | nativeTransfer \<Rightarrow> Some (nativeTransfer_run C H input caller h)
      | console \<Rightarrow> map_option (\<lambda>r. (r, h)) (console_run input)
      | blsAggSignsVerification \<Rightarrow> Some (blsAggSignsVerification_run C input, h)
      | cardanoVerifySignaturePrecompile \<Rightarrow> Some (cardanoVerify_run C input, h)
      | apexBLSSignatureVerification domain \<Rightarrow> Some (apexBLSSignatureVerification_run C domain input, h))"

record Precompiled =
  pc_buf :: bytes
  pc_contracts :: "Address \<rightharpoonup> contract"
  pc_Addrs :: "Address list"

definition pc_register :: "Precompiled \<Rightarrow> Address \<Rightarrow> contract \<Rightarrow> Precompiled" where
  "pc_register p a c = p\<lparr>pc_contracts := (pc_contracts p)(a \<mapsto> c), pc_Addrs := pc_Addrs p @ [a]\<rparr>"

definition setupContracts :: "'g crypto \<Rightarrow> Precompiled \<Rightarrow> Precompiled" where
  "setupContracts C p =
     foldl (\<lambda>p (a, c). pc_register p a c) p
       [(addr_of 1, ecrecover), (addr_of 2, sha256h), (addr_of 3, ripemd160h), (addr_of 4, identity),
        (addr_of 5, modExp), (addr_of 6, bn256Add), (addr_of 7, bn256Mul), (addr_of 8, bn256Pairing),
        (addr_of 9, blake2f),
        (NativeTransferPrecompile, nativeTransfer),
        (ConsolePrecompile, console),
        (BLSAggSigsVerificationPrecompile, blsAggSignsVerification),
        (CardanoVerifySignaturePrecompile, cardanoVerifySignaturePrecompile),
        (ApexBLSSignaturesVerificationPrecompile, apexBLSSignatureVerification (DomainApexBridgeEVM C))]"

definition NewPrecompiled :: "'g crypto \<Rightarrow> Precompiled" where
  "NewPrecompiled C = setupContracts C \<lparr>pc_buf = [], pc_contracts = Map.empty, pc_Addrs = []\<rparr>"

definition Precompiled_CanRun :: "Precompiled \<Rightarrow> Contract \<Rightarrow> ForksInTime \<Rightarrow> bool" where
  "Precompiled_CanRun p c config =
     (if pc_contracts p (c_CodeAddress c) = None then False
      else if c_CodeAddress c \<in> {addr_of 5, addr_of 6, addr_of 7, addr_of 8} then Byzantium config
      else if c_CodeAddress c = addr_of 9 then Istanbul config
      else True)"

text \<open>Calling a method of the nil interface that a missing entry yields panics.\<close>

definition Precompiled_Run ::
  "'g crypto \<Rightarrow> 'h Host \<Rightarrow> Precompiled \<Rightarrow> Contract \<Rightarrow> 'h \<Rightarrow> ForksInTime \<Rightarrow> (ExecutionResult \<times> 'h) option" where
  "Precompiled_Run C H p c h config = do {
     contract \<leftarrow> pc_contracts p (c_CodeAddress c);
     let gasCost = contract_gas (pc_buf p) contract (c_Input c) config;
     if c_Gas c < gasCost then Some (ErrResult 0 ErrOutOfGas, h)
     else do {
       let gas = c_Gas c - gasCost;
       ((returnValue, err), h) \<leftarrow> contract_run C H (pc_buf p) contract (c_Input c) (c_Caller c) h;
       let result = \<lparr>r_ReturnValue = returnValue, r_GasLeft = gas, r_GasUsed = 0, r_Err = err,
                     r_Address = ZeroAddress, r_AccessList = None\<rparr>;
       Some (if Failed result then result\<lparr>r_GasLeft := 0, r_ReturnValue := []\<rparr> else result, h)
     }
   }"

section \<open>Buffer and padding\<close>

lemma ExtendByteSlice_length [simp]: "length (ExtendByteSlice b n) = n"
  by (simp add: ExtendByteSlice_def Let_def)

lemma pc_get_eq: "pc_get buf input n = (take n input @ replicate (n - length input) 0, drop n input)"
proof (cases "length input < n")
  case True
  let ?b = "go_copy (ExtendByteSlice buf n) input"
  have "go_copy (drop (length input) ?b) (replicate (n - length input) 0) = replicate (n - length input) 0"
    by (simp add: go_copy_def)
  moreover have "take (length input) ?b = input" using True by (simp add: go_copy_def)
  ultimately show ?thesis using True
    by (auto simp: pc_get_def Let_def zeroPadding_def)
next
  case False
  then have "go_copy (ExtendByteSlice buf n) (take n input) = take n input" by (simp add: go_copy_def)
  with False show ?thesis by (simp add: pc_get_def Let_def)
qed

lemma length_pc_get [simp]: "length (fst (pc_get buf xs n)) = n"
  by (simp add: pc_get_eq min_def)

lemma leftPad_eq: "length b \<le> n \<Longrightarrow> leftPad b n = replicate (n - length b) 0 @ b"
  by (simp add: leftPad_def go_copy_def Let_def)

lemma length_leftPad: "length (leftPad b n) = max (length b) n"
  by (auto simp: leftPad_def Let_def)

lemma big_SetBytes_append: "big_SetBytes (xs @ ys) = big_SetBytes xs * 256 ^ length ys + big_SetBytes ys"
proof (induction ys rule: rev_induct)
  case (snoc y ys)
  have "big_SetBytes (xs @ ys @ [y]) = 256 * big_SetBytes (xs @ ys) + uint y"
    by (simp flip: append_assoc)
  with snoc show ?case by (simp add: algebra_simps)
qed simp

lemma of_be_bytes_SetBytes: "(of_be_bytes bs :: 'a::len word) = word_of_int (big_SetBytes bs)"
  if "8 \<le> LENGTH('a)"
proof (induction bs rule: rev_induct)
  case (snoc b bs)
  have "\<not> bit b n" if "8 \<le> n" for n using bit_imp_le_length [of b n] that by auto
  then have "and (push_bit 8 w) (ucast b) = (0 :: 'a word)" for w
    by (intro bit_word_eqI) (auto simp: bit_simps)
  then have o: "(or (push_bit 8 w) (ucast b) :: 'a word) = push_bit 8 w + ucast b" for w
    by (simp add: disjunctive_add_eq_or)
  have p: "(push_bit 8 w :: 'a word) = 256 * w" for w by (simp add: push_bit_eq_mult)
  have "of_be_bytes (bs @ [b]) = 256 * word_of_int (big_SetBytes bs) + (ucast b :: 'a word)"
    unfolding of_be_bytes_snoc o unfolding p snoc ..
  also have "(ucast b :: 'a word) = word_of_int (uint b)" by (rule ucast_eq)
  also have "256 * word_of_int (big_SetBytes bs) + word_of_int (uint b) =
      (word_of_int (big_SetBytes (bs @ [b])) :: 'a word)"
    by simp
  finally show ?case .
qed simp

text \<open>The unsigned integer read by \<^verbatim>\<open>getUint64\<close> is the low part of the big integer at the same place.\<close>

lemma pc_getUint64_eq:
  "pc_getUint64 buf input = (word_of_int (big_SetBytes (fst (pc_get buf input 32))), drop 32 input)"
proof -
  let ?v = "fst (pc_get buf input 32)"
  have l: "length ?v = 32" by simp
  have "?v = take 24 ?v @ take 8 (drop 24 ?v)" using l by simp
  then have "big_SetBytes ?v = big_SetBytes (take 24 ?v) * 256 ^ 8 + big_SetBytes (take 8 (drop 24 ?v))"
    using big_SetBytes_append [of "take 24 ?v" "take 8 (drop 24 ?v)"] l by (simp del: append_take_drop_id)
  moreover have "(word_of_int (x * 256 ^ 8 + y) :: u64) = word_of_int y" for x y :: int
    by (simp add: word_of_int_eq_iff take_bit_eq_mod del: of_int_add of_int_mult)
  ultimately have "(word_of_int (big_SetBytes ?v) :: u64) = word_of_int (big_SetBytes (take 8 (drop 24 ?v)))"
    by (simp only:)
  then show ?thesis
    by (simp add: pc_getUint64_def pc_get_eq Let_def of_be_bytes_SetBytes)
qed

section \<open>Gas of the modular exponentiation\<close>

definition lens :: "bytes \<Rightarrow> int \<times> int \<times> int" where
  "lens input = (big_SetBytes (fst (pc_get [] input 32)), big_SetBytes (fst (pc_get [] (drop 32 input) 32)),
     big_SetBytes (fst (pc_get [] (drop 64 input) 32)))"

definition complexity :: "ForksInTime \<Rightarrow> int \<Rightarrow> int" where
  "complexity config g = (if Berlin config then ((g + 7) div 8) * ((g + 7) div 8) else multComplexity g)"

lemma modExp_price_bound:
  assumes "k \<le> complexity config g * max 1 a" and "0 \<le> k"
  shows "min (2 ^ 64 - 1) (k div 20) \<le> uint (modExp_price config g a)"
proof -
  let ?x = "complexity config g * max 1 a"
  have m: "(if a \<ge> 1 then y * a else y * 1) = y * max 1 a" for y by (simp add: max_def)
  have u: "uint (big_Uint64 y) = y" if "big_IsUint64 y" for y
    using that by (simp add: big_Uint64_def big_IsUint64_def uint_word_of_int_eq take_bit_int_eq_self)
  have m1: "uint (- 1 :: u64) = 2 ^ 64 - 1" by (simp add: unsigned_minus_1_eq_mask mask_eq_exp_minus_1)
  have mn: "min (2 ^ 64 - 1) (k div 20) \<le> 2 ^ 64 - 1" "min (2 ^ 64 - 1) (k div 20) \<le> k div 20"
    by simp_all
  have d: "k div 20 \<le> ?x div 20" "?x div 20 \<le> ?x div 3"
    using assms by (simp_all add: zdiv_mono1 zdiv_mono2)
  have b: "min (2 ^ 64 - 1) (k div 20) \<le>
      uint (if \<not> big_IsUint64 y then - 1 else if c \<and> big_Uint64 y < 200 then 200 else big_Uint64 y)"
    if "k div 20 \<le> y" for y c
  proof (cases "big_IsUint64 y")
    case False
    then have "uint (if \<not> big_IsUint64 y then - 1 else if c \<and> big_Uint64 y < 200 then 200 else big_Uint64 y) = 2 ^ 64 - 1"
      by (simp only: m1 simp_thms if_True)
    with mn(1) show ?thesis by (simp only:)
  next
    case True
    from u [OF True] have "big_Uint64 y < 200 \<Longrightarrow> y < 200" by (simp add: word_less_alt)
    moreover have "min (2 ^ 64 - 1) (k div 20) \<le> y" using mn(2) that by (rule order_trans)
    moreover have "(if \<not> big_IsUint64 y then - 1 else if c \<and> big_Uint64 y < 200 then 200 else big_Uint64 y) =
        (if c \<and> big_Uint64 y < 200 then 200 else big_Uint64 y)" using True by (simp only: simp_thms if_False)
    ultimately show ?thesis using u [OF True] by (cases "c \<and> big_Uint64 y < 200") auto
  qed
  show ?thesis
  proof (cases "Berlin config")
    case True
    then have "modExp_price config g a =
        (if \<not> big_IsUint64 (?x div 3) then - 1
         else if True \<and> big_Uint64 (?x div 3) < 200 then 200 else big_Uint64 (?x div 3))"
      by (simp add: modExp_price_def m complexity_def Let_def)
    with b [of "?x div 3" True] d show ?thesis by (simp only:)
  next
    case False
    then have "modExp_price config g a = (if \<not> big_IsUint64 (?x div 20) then - 1
         else if False \<and> big_Uint64 (?x div 20) < 200 then 200 else big_Uint64 (?x div 20))"
      by (simp add: modExp_price_def m complexity_def Let_def)
    with b [of "?x div 20" False] d show ?thesis by (simp only:)
  qed
qed

lemma complexity_pos:
  assumes g: "1 \<le> g"
  shows "1 \<le> complexity config g"
proof -
  have "1 \<le> (g + 7) div 8" using g by linarith
  then have b: "1 * 1 \<le> (g + 7) div 8 * ((g + 7) div 8)" by (intro mult_mono) auto
  have s: "1 * 1 \<le> g * g" using g by (intro mult_mono) auto
  then have d: "0 \<le> g * g div 4" "0 \<le> g * g div 16" by (auto simp: pos_imp_zdiv_nonneg_iff)
  have "1 \<le> multComplexity g"
    using s d g unfolding multComplexity_def subMul_def by (cases "g \<le> 64"; cases "g \<le> 1024") simp_all
  with b show ?thesis by (simp add: complexity_def)
qed

lemma complexity_big:
  assumes g: "2 ^ 63 \<le> g"
  shows "2 ^ 100 \<le> complexity config g"
proof -
  have "2 ^ 63 div 8 \<le> (g + 7) div 8" using g by (intro zdiv_mono1) auto
  then have q: "2 ^ 60 \<le> (g + 7) div 8" by simp
  have b: "2 ^ 60 * 2 ^ 60 \<le> (g + 7) div 8 * ((g + 7) div 8)" by (rule mult_mono [OF q q]) (use q in simp_all)
  have "2 ^ 63 * 2 ^ 63 \<le> g * g" by (rule mult_mono [OF g g]) (use g in simp_all)
  then have "(2 ^ 63 * 2 ^ 63) div 16 \<le> g * g div 16" by (rule zdiv_mono1) simp
  then have "2 ^ 100 \<le> multComplexity g" using g by (simp add: multComplexity_def subMul_def)
  moreover have "(2::int) ^ 100 \<le> 2 ^ 60 * 2 ^ 60" by simp
  ultimately show ?thesis using b by (simp add: complexity_def)
qed

text \<open>A call that pays less than \<open>2 ^ 60\<close> has lengths that fit a signed integer.\<close>

lemma modExp_lens:
  assumes gas: "unat (modExp_gas buf input config) \<le> 2 ^ 60"
    and l: "lens input = (b, e, m)" and nz: "1 \<le> max b m"
  shows "b < 2 ^ 63 \<and> e < 2 ^ 63 \<and> m < 2 ^ 63"
proof -
  define a where "a = adjustedExponentLength e (modExp_head buf input b e)"
  have bem: "big_SetBytes (fst (pc_get buf input 32)) = b"
    "big_SetBytes (fst (pc_get buf (drop 32 input) 32)) = e"
    "big_SetBytes (fst (pc_get buf (drop 64 input) 32)) = m"
    using l by (simp_all add: lens_def pc_get_eq)
  have g: "modExp_gas buf input config = modExp_price config (max b m) a"
  proof -
    have "(if b \<le> m then m else b) = max b m" by simp
    then show ?thesis
      unfolding modExp_gas_def a_def using bem by (simp add: split_def Let_def pc_get_eq)
  qed
  have "int (unat (modExp_gas buf input config)) \<le> int (2 ^ 60)" using gas by (simp only: of_nat_le_iff)
  then have "uint (modExp_gas buf input config) \<le> 2 ^ 60" by simp
  then have u: "uint (modExp_price config (max b m) a) \<le> 2 ^ 60" by (simp only: g)
  have big: "\<not> 2 ^ 66 \<le> complexity config (max b m) * max 1 a"
  proof
    assume "2 ^ 66 \<le> complexity config (max b m) * max 1 a"
    from order_trans [OF modExp_price_bound [OF this] u] show False by simp
  qed
  have c1: "1 \<le> complexity config (max b m)" by (rule complexity_pos [OF nz])
  have "\<not> 2 ^ 63 \<le> max b m"
  proof
    assume "2 ^ 63 \<le> max b m"
    from complexity_big [OF this, of config] have "2 ^ 66 * 1 \<le> complexity config (max b m) * max 1 a"
      by (intro mult_mono) simp_all
    with big show False by simp
  qed
  moreover have "\<not> 2 ^ 63 \<le> e"
  proof
    assume e: "2 ^ 63 \<le> e"
    then have "(e - 32) * 8 \<le> a"
      by (simp add: a_def adjustedExponentLength_def Let_def)
    then have "2 ^ 65 \<le> max 1 a" using e by simp
    then have "1 * 2 ^ 65 \<le> complexity config (max b m) * max 1 a"
      using c1 by (intro mult_mono) simp_all
    then have "(2::int) ^ 65 \<le> complexity config (max b m) * max 1 a" by simp
    from order_trans [OF modExp_price_bound [OF this] u] show False by simp
  qed
  ultimately show ?thesis by (simp add: max_def split: if_splits)
qed

lemma sint_nonneg_small: "0 \<le> i \<Longrightarrow> i < 2 ^ 63 \<Longrightarrow> \<not> sint (word_of_int i :: u64) < 0 \<and> uint (word_of_int i :: u64) = i"
  by (simp add: sint_sbintrunc' signed_take_bit_int_eq_self uint_word_of_int_eq take_bit_int_eq_self)

text \<open>The contract computes the power modulo the modulus, read from the input padded with zeros, and
  pads it to the length of the modulus.\<close>

lemma modExp_run_spec:
  assumes "unat (modExp_gas buf input config) \<le> 2 ^ 60" and l: "lens input = (b, e, m)"
    and "B = big_SetBytes (fst (pc_get [] (drop 96 input) (nat b)))"
    and "X = big_SetBytes (fst (pc_get [] (drop (96 + nat b) input) (nat e)))"
    and "M = big_SetBytes (fst (pc_get [] (drop (96 + nat b + nat e) input) (nat m)))"
  shows "modExp_run buf input = Some (if b = 0 \<and> m = 0 then [] else
      let res = (if M = 0 then [] else big_Bytes (B ^ nat X mod M)) in
      replicate (nat m - length res) 0 @ res, None)"
    and "\<not> (b = 0 \<and> m = 0) \<Longrightarrow> m < 2 ^ 63 \<and>
      length (if M = 0 then [] else big_Bytes (B ^ nat X mod M)) \<le> nat m"
proof -
  have bem: "fst (pc_getUint64 buf input) = word_of_int b"
    "fst (pc_getUint64 buf (drop 32 input)) = word_of_int e"
    "fst (pc_getUint64 buf (drop 64 input)) = word_of_int m"
    using l by (simp_all add: lens_def pc_getUint64_eq pc_get_eq)
  have nn: "0 \<le> b" "0 \<le> e" "0 \<le> m" using l by (auto simp: lens_def)
  have s: "snd (pc_getUint64 buf xs) = drop 32 xs" for xs by (simp add: pc_getUint64_eq)
  have "modExp_run buf input = Some (if b = 0 \<and> m = 0 then [] else
      let res = (if M = 0 then [] else big_Bytes (B ^ nat X mod M)) in
      replicate (nat m - length res) 0 @ res, None) \<and>
      (\<not> (b = 0 \<and> m = 0) \<longrightarrow> m < 2 ^ 63 \<and>
        length (if M = 0 then [] else big_Bytes (B ^ nat X mod M)) \<le> nat m)"
  proof (cases "b = 0 \<and> m = 0")
    case True
    then show ?thesis using bem by (simp add: modExp_run_def split_def Let_def s)
  next
    case False
    then have "1 \<le> max b m" using nn by (auto simp: max_def)
    from modExp_lens [OF assms(1) l this] have lt: "b < 2 ^ 63" "e < 2 ^ 63" "m < 2 ^ 63" by auto
    note sb = sint_nonneg_small [OF nn(1) lt(1)] and se = sint_nonneg_small [OF nn(2) lt(2)]
      and sm = sint_nonneg_small [OF nn(3) lt(3)]
    have un: "unat (word_of_int b :: u64) = nat b" "unat (word_of_int e :: u64) = nat e"
      "unat (word_of_int m :: u64) = nat m"
      using sb se sm by (metis nat_uint_eq)+
    have z: "\<not> ((word_of_int b :: u64) = 0 \<and> (word_of_int m :: u64) = 0)"
      using False sb sm by (metis uint_0_eq)
    have gi: "pc_getInt buf xs (word_of_int b) = Some (pc_get [] xs (nat b))"
      "pc_getInt buf xs (word_of_int e) = Some (pc_get [] xs (nat e))"
      "pc_getInt buf xs (word_of_int m) = Some (pc_get [] xs (nat m))" for xs
      using sb se sm by (simp_all add: pc_getInt_def un pc_get_eq)
    have sg: "snd (pc_get [] xs n) = drop n xs" for xs n by (simp add: pc_get_eq)
    have "M < 256 ^ nat m" unfolding assms(5) by (rule big_SetBytes_less) simp
    moreover have "0 \<le> M" unfolding assms(5) by simp
    ultimately have "\<bar>B ^ nat X mod M\<bar> < 256 ^ nat m" if "M \<noteq> 0"
      using that pos_mod_bound [of M "B ^ nat X"] pos_mod_sign [of M "B ^ nat X"]
      by (auto simp del: pos_mod_bound pos_mod_sign)
    then have lr: "length (if M = 0 then [] else big_Bytes (B ^ nat X mod M)) \<le> nat m"
      using length_big_Bytes [of "B ^ nat X mod M" "nat m"] by simp
    then have lp: "leftPad (if M \<noteq> 0 then big_Bytes (B ^ nat X mod M) else []) (nat m) =
        (let res = (if M = 0 then [] else big_Bytes (B ^ nat X mod M)) in replicate (nat m - length res) 0 @ res)"
      by (simp add: leftPad_eq Let_def split: if_splits)
    have "modExp_run buf input =
        Some (leftPad (if M \<noteq> 0 then big_Bytes (B ^ nat X mod M) else []) (nat m), None)"
      unfolding modExp_run_def split_def Let_def s drop_drop
      using z by (auto simp: bem gi un split_def sg sgn_0_0 assms(3-5) add.commute add.left_commute)
    then show ?thesis using False lp lr lt by auto
  qed
  then show "modExp_run buf input = Some (if b = 0 \<and> m = 0 then [] else
      let res = (if M = 0 then [] else big_Bytes (B ^ nat X mod M)) in
      replicate (nat m - length res) 0 @ res, None)"
    and "\<not> (b = 0 \<and> m = 0) \<Longrightarrow> m < 2 ^ 63 \<and>
      length (if M = 0 then [] else big_Bytes (B ^ nat X mod M)) \<le> nat m" by blast+
qed

section \<open>The contracts never panic, but for the console\<close>

lemma length_sum_cases:
  assumes "crypto_doc C"
  shows "length (fst (bn256Add_run C buf input)) \<le> 64" "length (fst (bn256Mul_run C buf input)) \<le> 64"
    "length (fst (bn256Pairing_run C buf input)) \<le> 64"
    "length (fst (blsAggSignsVerification_run C input)) \<le> 64"
    "length (fst (apexBLSSignatureVerification_run C d input)) \<le> 64"
    "length (fst (cardanoVerify_run C input)) \<le> 64"
  using assms
  by (auto simp: bn256Add_run_def bn256Mul_run_def bn256Pairing_run_def blsAggSignsVerification_run_def
      apexBLSSignatureVerification_run_def apexVerify_def cardanoVerify_run_def Let_def split_def crypto_doc_def
      split: sum.split if_split list.split prod.split verifyResult.split)

lemma ecrecover_total:
  assumes "crypto_doc C"
  shows "\<exists>r. ecrecover_run C buf input = Some (r, None) \<and> length r \<le> 32"
  using assms
  by (auto simp: ecrecover_run_def Let_def split_def crypto_doc_def Ecrecover_def length_leftPad
      split: option.split)

lemma nativeTransfer_host:
  "\<exists>r e h'. nativeTransfer_run C H input caller h = ((r, e), h') \<and>
     (r = cr_abiBoolFalse C \<or> r = cr_abiBoolTrue C) \<and>
     (h' = h \<or> (\<exists>f t a. 0 \<le> a \<and> h' = snd (Transfer H h f t (Some a))))"
  by (auto simp: nativeTransfer_run_def Let_def split: prod.split option.split)
     (metis big_SetBytes_nonneg snd_conv)+

lemma contract_run_total:
  assumes "crypto_doc C" "c \<noteq> console" "unat (contract_gas buf c input config) \<le> 2 ^ 60"
    and "length input < 2 ^ 63"
  shows "\<exists>r e h'. contract_run C H buf c input caller h = Some ((r, e), h') \<and> length r < 2 ^ 63 \<and>
    (h' = h \<or> (\<exists>f t a. 0 \<le> a \<and> h' = snd (Transfer H h f t (Some a))))"
proof -
  show ?thesis
  proof (cases c)
    case ecrecover
    then show ?thesis using ecrecover_total [OF assms(1), of buf input] by (auto simp: contract_run_def)
  next
    case modExp
    obtain b e m where l: "lens input = (b, e, m)" by (cases "lens input")
    from assms(3) modExp have g: "unat (modExp_gas buf input config) \<le> 2 ^ 60" by (simp add: contract_gas_def)
    note spec = modExp_run_spec [OF g l refl refl refl]
    have "\<exists>r. modExp_run buf input = Some (r, None) \<and> length r < 2 ^ 63"
    proof (cases "b = 0 \<and> m = 0")
      case True
      then show ?thesis using spec(1) by simp
    next
      case False
      moreover have "0 \<le> m" using l by (auto simp: lens_def)
      ultimately have "nat m < 2 ^ 63" using spec(2) by (simp add: nat_less_iff)
      with spec False show ?thesis by (simp add: Let_def)
    qed
    then show ?thesis using modExp by (auto simp: contract_run_def)
  next
    case blake2f
    then show ?thesis
      using blake2f_run_length [of input]
      by (cases "blake2f_run input") (auto simp: contract_run_def split: blake2fError.split)
  next
    case nativeTransfer
    obtain r e h' where n: "nativeTransfer_run C H input caller h = ((r, e), h')"
      "r = cr_abiBoolFalse C \<or> r = cr_abiBoolTrue C" "h' = h \<or> (\<exists>f t a. 0 \<le> a \<and> h' = snd (Transfer H h f t (Some a)))"
      using nativeTransfer_host [of C H input caller h] by blast
    then have "length r < 2 ^ 63" using assms(1) by (auto simp: crypto_doc_def)
    with n nativeTransfer show ?thesis by (simp add: contract_run_def)
  next
    case ripemd160h
    then show ?thesis using assms(1) by (simp add: contract_run_def crypto_doc_def length_leftPad)
  next
    case bn256Add
    then show ?thesis using length_sum_cases(1) [OF assms(1), of buf input]
      by (cases "bn256Add_run C buf input") (simp add: contract_run_def)
  next
    case bn256Mul
    then show ?thesis using length_sum_cases(2) [OF assms(1), of buf input]
      by (cases "bn256Mul_run C buf input") (simp add: contract_run_def)
  next
    case bn256Pairing
    then show ?thesis using length_sum_cases(3) [OF assms(1), of buf input]
      by (cases "bn256Pairing_run C buf input") (simp add: contract_run_def)
  next
    case blsAggSignsVerification
    then show ?thesis using length_sum_cases(4) [OF assms(1), of input]
      by (cases "blsAggSignsVerification_run C input") (simp add: contract_run_def)
  next
    case (apexBLSSignatureVerification d)
    then show ?thesis using length_sum_cases(5) [OF assms(1), of d input]
      by (cases "apexBLSSignatureVerification_run C d input") (simp add: contract_run_def)
  next
    case cardanoVerifySignaturePrecompile
    then show ?thesis using length_sum_cases(6) [OF assms(1), of input]
      by (cases "cardanoVerify_run C input") (simp add: contract_run_def)
  qed (use assms(2,4) in \<open>simp_all add: contract_run_def\<close>)
qed

section \<open>Registry and dispatcher\<close>

lemma addr_of_eq [simp]: "addr_of v = addr_of w \<longleftrightarrow> v = w"
proof
  assume "addr_of v = addr_of w"
  then have "of_be_bytes (addr_of v) = (of_be_bytes (addr_of w) :: 160 word)" by simp
  then show "v = w" by (simp add: addr_of_def of_be_bytes_be_bytes)
qed simp

lemmas system_addresses = NativeTransferPrecompile_def ConsolePrecompile_def
  BLSAggSigsVerificationPrecompile_def CardanoVerifySignaturePrecompile_def
  ApexBLSSignaturesVerificationPrecompile_def SystemCaller_def NativeERC20TokenContract_def
  AllowListContractsAddr_def BlockListContractsAddr_def AllowListTransactionsAddr_def
  BlockListTransactionsAddr_def AllowListBridgeAddr_def BlockListBridgeAddr_def

lemma NewPrecompiled_contracts:
  "pc_contracts (NewPrecompiled C) =
     [addr_of 1 \<mapsto> ecrecover, addr_of 2 \<mapsto> sha256h, addr_of 3 \<mapsto> ripemd160h, addr_of 4 \<mapsto> identity,
      addr_of 5 \<mapsto> modExp, addr_of 6 \<mapsto> bn256Add, addr_of 7 \<mapsto> bn256Mul, addr_of 8 \<mapsto> bn256Pairing,
      addr_of 9 \<mapsto> blake2f, NativeTransferPrecompile \<mapsto> nativeTransfer, ConsolePrecompile \<mapsto> console,
      BLSAggSigsVerificationPrecompile \<mapsto> blsAggSignsVerification,
      CardanoVerifySignaturePrecompile \<mapsto> cardanoVerifySignaturePrecompile,
      ApexBLSSignaturesVerificationPrecompile \<mapsto> apexBLSSignatureVerification (DomainApexBridgeEVM C)]"
  by (simp add: NewPrecompiled_def setupContracts_def pc_register_def)

lemma NewPrecompiled_Addrs:
  "distinct (pc_Addrs (NewPrecompiled C))"
  "set (pc_Addrs (NewPrecompiled C)) = dom (pc_contracts (NewPrecompiled C))"
  by (simp add: NewPrecompiled_def setupContracts_def pc_register_def system_addresses)
     (auto simp: NewPrecompiled_def setupContracts_def pc_register_def)

lemma console_only:
  "pc_contracts (NewPrecompiled C) a = Some console \<longleftrightarrow> a = ConsolePrecompile"
  by (simp add: NewPrecompiled_contracts system_addresses)

lemma Precompiled_Run_total:
  assumes "crypto_doc C" "Precompiled_CanRun p c config" "pc_contracts p (c_CodeAddress c) \<noteq> Some console"
    and "unat (c_Gas c) \<le> 2 ^ 60" "length (c_Input c) < 2 ^ 63"
  shows "\<exists>r h'. Precompiled_Run C H p c h config = Some (r, h') \<and> r_GasLeft r \<le> c_Gas c \<and>
    length (r_ReturnValue r) < 2 ^ 63 \<and> (h' = h \<or> (\<exists>f t a. 0 \<le> a \<and> h' = snd (Transfer H h f t (Some a))))"
proof -
  obtain k where k: "pc_contracts p (c_CodeAddress c) = Some k"
    using assms(2) by (auto simp: Precompiled_CanRun_def split: if_splits)
  let ?g = "contract_gas (pc_buf p) k (c_Input c) config"
  show ?thesis
  proof (cases "c_Gas c < ?g")
    case True
    with k show ?thesis by (simp add: Precompiled_Run_def ErrResult_def Let_def)
  next
    case False
    then have g: "?g \<le> c_Gas c" by simp
    then have "unat ?g \<le> 2 ^ 60" using assms(4) by (simp add: word_le_nat_alt)
    moreover have "k \<noteq> console" using k assms(3) by simp
    ultimately obtain r e h' where
      "contract_run C H (pc_buf p) k (c_Input c) (c_Caller c) h = Some ((r, e), h')" "length r < 2 ^ 63"
      "h' = h \<or> (\<exists>f t a. 0 \<le> a \<and> h' = snd (Transfer H h f t (Some a)))"
      using contract_run_total [OF assms(1), of k "pc_buf p" "c_Input c" config H "c_Caller c" h] assms(5) by blast
    moreover have "c_Gas c - ?g \<le> c_Gas c" using g by (simp add: word_le_nat_alt unat_sub_le)
    ultimately show ?thesis using k False by (simp add: Precompiled_Run_def Let_def)
  qed
qed

text \<open>A failed precompiled contract takes all the gas of its call and returns nothing.\<close>

lemma Precompiled_Run_failed:
  "Precompiled_Run C H p c h config = Some (r, h') \<Longrightarrow> Failed r \<Longrightarrow> r_GasLeft r = 0 \<and> r_ReturnValue r = []"
  by (auto simp: Precompiled_Run_def Let_def bind_Some_iff ErrResult_def split: if_splits)

section \<open>Quorum of the Apex signatures\<close>

lemma signerKeys_eq:
  "i + length xs < 2 ^ 64 \<Longrightarrow>
   signerKeys bmp i xs = map snd (filter (\<lambda>(j, x). Bitmap_IsSet bmp (of_nat j)) (zip [i..<i + length xs] xs))"
  by (induction bmp i xs rule: signerKeys.induct) (simp_all add: upt_conv_Cons del: upt_Suc)

text \<open>More than two thirds of the validators take part in an accepted multi-signature.\<close>

lemma apex_quorum:
  assumes "apexBLSSignatureVerification_run C domain (b # rest) = (cr_abiBoolTrue C, None)" "b \<noteq> 0"
  shows "\<exists>msg sig keys bm g pks. abi_apexMulti C rest = Inr (msg, sig, keys, bm) \<and>
    3 * length (signerKeys (big_Bytes bm) 0 keys) > 2 * length keys \<and>
    bls_UnmarshalSignature C sig = Inr g \<and>
    unmarshalAll (bls_UnmarshalPublicKeyFromBigInt C) (signerKeys (big_Bytes bm) 0 keys) = Inr pks \<and>
    (cr_abiBoolTrue C \<noteq> cr_abiBoolFalse C \<longrightarrow> bls_VerifyAggregated C g pks msg domain)"
  using assms
  by (auto simp: apexBLSSignatureVerification_run_def apexVerify_def quorumCnt_def Let_def not_less
      split: sum.splits if_splits)

text \<open>The bitmap travels as an integer, which drops its leading zero bytes: with 25 validators of which
  the last 17, a quorum, have signed, the keys selected are those of validators 0 to 16.\<close>

lemma apex_bitmap_shift:
  "signerKeys (foldl Bitmap_Set [] (map of_nat [8..<25])) 0 [0..<25] = [8..<25]"
  "signerKeys (big_Bytes (big_SetBytes (foldl Bitmap_Set [] (map of_nat [8..<25])))) 0 [0..<25] = [0..<17]"
  by (code_simp, unfold big_Bytes_SetBytes, code_simp)

section \<open>A concrete instance of the libraries\<close>

text \<open>The hashes are the first bytes of the input, the curve and ABI libraries answer with fixed values.\<close>

definition crypto_std :: "unit crypto" where
  "crypto_std = \<lparr>
     cr_keccak = (\<lambda>b. take 32 (b @ replicate 32 0)), cr_RecoverCompact = (\<lambda>_ _. None),
     cr_MarshalPublicKey = (\<lambda>_. replicate 65 0), cr_ripemd160 = (\<lambda>b. take 20 (b @ replicate 20 0)),
     cr_abiBoolTrue = replicate 31 0 @ [1], cr_abiBoolFalse = replicate 32 0,
     bn_G1_Unmarshal = (\<lambda>_. Inl []), bn_G2_Unmarshal = (\<lambda>_. Inl []), bn_Add = (\<lambda>_ _. ()),
     bn_ScalarMult = (\<lambda>_ _. ()), bn_Marshal = (\<lambda>_. replicate 64 0), bn_PairingCheck = (\<lambda>_ _. False),
     bls_UnmarshalSignature = (\<lambda>_. Inr ()), bls_UnmarshalPublicKey = (\<lambda>_. Inr ()),
     bls_UnmarshalPublicKeyFromBigInt = (\<lambda>_. Inr ()), bls_VerifyAggregated = (\<lambda>_ _ _ _. True),
     abi_inputData = (\<lambda>_. Inl []), abi_BlsVerification = (\<lambda>_. Inl []),
     abi_apexMulti = (\<lambda>b. Inr ([], [], replicate 4 [], big_SetBytes b)),
     abi_apexSingle = (\<lambda>_. Inl []), abi_cardano = (\<lambda>_. Inl []), cardano_GetSignature = (\<lambda>_. None),
     cardano_ParseTxHash = (\<lambda>_. Inl []), cardano_VerifyMessage = (\<lambda>_ _ _. VerifyInvalidSignature)\<rparr>"

lemma crypto_doc_std [simp]: "crypto_doc crypto_std"
  by (auto simp: crypto_doc_def crypto_std_def min_def)

end
