(* ===== verification/StateTxn.thy ===== *)
theory StateTxn
  imports Runtime "HOL-Library.AList"
begin

text \<open>
  The state of a block under execution, \<^verbatim>\<open>src/state/txn.go\<close> and \<^verbatim>\<open>src/state/state.go\<close>: accounts,
  state objects, and the transaction object \<^verbatim>\<open>Txn\<close> that keeps the dirty objects over a read-only
  snapshot of the trie.

  Third-party code is a parameter, collected in the record \<open>statelib\<close>: the immutable radix tree of
  \<^verbatim>\<open>hashicorp/go-immutable-radix\<close> (\<open>iradix\<close>, with the documented map laws \<open>iradix_doc\<close>), the code cache
  of \<^verbatim>\<open>hashicorp/golang-lru\<close> (\<open>lru\<close>, \<open>lru_doc\<close>) and the Keccak hash. A tree and its mutable
  transaction are both values of the tree type: \<^verbatim>\<open>Txn\<close>, \<^verbatim>\<open>Commit\<close> and \<^verbatim>\<open>CommitOnly\<close> copy, so no two of
  them share a cell that is written.

  The one radix tree of a \<^verbatim>\<open>Txn\<close> holds state objects under 20-byte keys, the logs under one and the
  refund counter under another 32-byte key. No two of these keys are equal, so the record \<open>tree\<close> has
  one field for each kind of value, and a snapshot is the whole record. The list of logs is a value:
  an append never writes into an array another tree still reads. The read-only snapshot is the
  interface \<^verbatim>\<open>readSnapshot\<close>, a record of functions.
\<close>

section \<open>Libraries\<close>

record ('t, 'v) iradix =
  ir_New :: 't
  ir_Get :: "'t \<Rightarrow> bytes \<Rightarrow> 'v option"
  ir_Insert :: "'t \<Rightarrow> bytes \<Rightarrow> 'v \<Rightarrow> 't"
  ir_Walk :: "'t \<Rightarrow> (bytes \<times> 'v) list"

definition iradix_doc :: "('t, 'v) iradix \<Rightarrow> bool" where
  "iradix_doc R \<longleftrightarrow>
     (\<forall>k. ir_Get R (ir_New R) k = None) \<and>
     (\<forall>t k v k'. ir_Get R (ir_Insert R t k v) k' = (if k' = k then Some v else ir_Get R t k')) \<and>
     (\<forall>t. distinct (map fst (ir_Walk R t)) \<and> map_of (ir_Walk R t) = ir_Get R t)"

record 'c lru =
  lru_New :: 'c
  lru_Get :: "'c \<Rightarrow> Address \<Rightarrow> bytes option \<times> 'c"
  lru_Add :: "'c \<Rightarrow> Address \<Rightarrow> bytes \<Rightarrow> 'c"

text \<open>What a cache may answer: a lookup answers the value added last for the key, or nothing once the
  entry is evicted. \<open>cached c a v\<close> says that \<open>c\<close> may still answer \<open>v\<close> for \<open>a\<close>.\<close>

definition cached :: "'c lru \<Rightarrow> 'c \<Rightarrow> Address \<Rightarrow> bytes \<Rightarrow> bool" where
  "cached C c a v \<longleftrightarrow> fst (lru_Get C c a) = Some v"

definition lru_doc :: "'c lru \<Rightarrow> bool" where
  "lru_doc C \<longleftrightarrow>
     (\<forall>a v. \<not> cached C (lru_New C) a v) \<and>
     (\<forall>c a b v. cached C (snd (lru_Get C c b)) a v \<longrightarrow> cached C c a v) \<and>
     (\<forall>c a b v w. cached C (lru_Add C c b w) a v \<longrightarrow> (if a = b then v = w else cached C c a v))"

section \<open>Accounts and state objects\<close>

record Account =
  acc_Nonce :: u64
  acc_Balance :: int
  acc_Root :: Hash
  acc_CodeHash :: bytes

record 's StateObject =
  so_Account :: Account
  so_Code :: bytes
  so_Suicide :: bool
  so_Deleted :: bool
  so_DirtyCode :: bool
  so_Txn :: "'s option"
  so_withFakeStorage :: bool

record ('t, 's, 'c) statelib =
  lib_objs :: "('t, 's StateObject) iradix"
  lib_slots :: "('s, bytes option) iradix"
  lib_lru :: "'c lru"
  lib_keccak :: "bytes \<Rightarrow> bytes"

definition EmptyCodeHash :: Hash where
  "EmptyCodeHash =
     be_bytes 32 (0xc5d2460186f7233c927e7db2dcc703c0e500b653ca82273b7bfad8045d85a470 :: u256)"

definition EmptyRootHash :: Hash where
  "EmptyRootHash =
     be_bytes 32 (0x56e81f171bcc55a6ff8345e692c0f86e5b48e01b996cadc001622fb5e363b421 :: u256)"

definition emptyStateHash :: Hash where
  "emptyStateHash =
     be_bytes 32 (0x56e81f171bcc55a6ff8345e692c0f86e5b48e01b996cadc001622fb5e363b421 :: u256)"

text \<open>\<^verbatim>\<open>SetBytes(b.Bytes())\<close> copies the magnitude of a big integer and drops its sign.\<close>

definition copyBig :: "int \<Rightarrow> int" where
  "copyBig b = \<bar>b\<bar>"

definition Account_Copy :: "Account \<Rightarrow> Account" where
  "Account_Copy a = \<lparr>acc_Nonce = acc_Nonce a, acc_Balance = copyBig (acc_Balance a),
     acc_Root = acc_Root a, acc_CodeHash = acc_CodeHash a\<rparr>"

definition StateObject_Empty :: "'s StateObject \<Rightarrow> bool" where
  "StateObject_Empty s \<longleftrightarrow> acc_Nonce (so_Account s) = 0 \<and> sgn (acc_Balance (so_Account s)) = 0 \<and>
     acc_CodeHash (so_Account s) = EmptyCodeHash"

definition StateObject_Copy :: "'s StateObject \<Rightarrow> 's StateObject" where
  "StateObject_Copy s = \<lparr>so_Account = Account_Copy (so_Account s), so_Code = so_Code s,
     so_Suicide = so_Suicide s, so_Deleted = so_Deleted s, so_DirtyCode = so_DirtyCode s,
     so_Txn = so_Txn s, so_withFakeStorage = so_withFakeStorage s\<rparr>"

definition newStateObject :: "'s StateObject" where
  "newStateObject = \<lparr>so_Account = \<lparr>acc_Nonce = 0, acc_Balance = 0, acc_Root = emptyStateHash,
       acc_CodeHash = EmptyCodeHash\<rparr>,
     so_Code = [], so_Suicide = False, so_Deleted = False, so_DirtyCode = False, so_Txn = None,
     so_withFakeStorage = False\<rparr>"

record StorageObject =
  sto_Deleted :: bool
  sto_Key :: bytes
  sto_Val :: bytes

record Object =
  ob_Address :: Address
  ob_CodeHash :: Hash
  ob_Balance :: int
  ob_Root :: Hash
  ob_Nonce :: u64
  ob_Deleted :: bool
  ob_DirtyCode :: bool
  ob_Code :: bytes
  ob_Storage :: "StorageObject list"

definition StorageObject_Equals :: "StorageObject \<Rightarrow> StorageObject \<Rightarrow> bool" where
  "StorageObject_Equals s other =
     (if sto_Deleted s \<noteq> sto_Deleted other then False
      else if sto_Key s \<noteq> sto_Key other \<or> sto_Val s \<noteq> sto_Val other then False
      else True)"

fun Storage_Equals :: "StorageObject list \<Rightarrow> StorageObject list \<Rightarrow> bool" where
  "Storage_Equals [] ys = True"
| "Storage_Equals (x # xs) [] = False"
| "Storage_Equals (x # xs) (y # ys) = (if \<not> StorageObject_Equals x y then False else Storage_Equals xs ys)"

definition Object_Equals :: "Object \<Rightarrow> Object \<Rightarrow> bool" where
  "Object_Equals x y =
     (if ob_Address x \<noteq> ob_Address y \<or> ob_CodeHash x \<noteq> ob_CodeHash y \<or> ob_Root x \<noteq> ob_Root y \<or>
         ob_Nonce x \<noteq> ob_Nonce y \<or> ob_Deleted x \<noteq> ob_Deleted y \<or> ob_DirtyCode x \<noteq> ob_DirtyCode y
      then False
      else if ob_Balance x \<noteq> ob_Balance y then False
      else if ob_Code x \<noteq> ob_Code y then False
      else if length (ob_Storage x) \<noteq> length (ob_Storage y) then False
      else Storage_Equals (ob_Storage x) (ob_Storage y))"

section \<open>The transaction object\<close>

record readSnapshot =
  sn_GetStorage :: "Address \<Rightarrow> Hash \<Rightarrow> Hash \<Rightarrow> Hash"
  sn_GetAccount :: "Address \<Rightarrow> unit + Account option"
  sn_GetCode :: "Hash \<Rightarrow> bytes \<times> bool"
  sn_GetRootHash :: Hash

record Log =
  log_Address :: Address
  log_Topics :: "Hash list"
  log_Data :: bytes

record 't tree =
  tr_objs :: 't
  tr_logs :: "Log list option"
  tr_refund :: "u64 option"

record ('t, 'c) Txn =
  txn_snapshot :: readSnapshot
  txn_snapshots :: "'t tree list"
  txn_txn :: "'t tree"
  txn_codeCache :: 'c

definition BerlinClearingRefund :: u64 where "BerlinClearingRefund = 15000"
definition LondonClearingRefund :: u64 where "LondonClearingRefund = 4800"
definition LegacyRefundQuotient :: u64 where "LegacyRefundQuotient = 2"
definition LondonRefundQuotient :: u64 where "LondonRefundQuotient = 5"

definition newTxn :: "('t, 's, 'c) statelib \<Rightarrow> readSnapshot \<Rightarrow> ('t, 'c) Txn" where
  "newTxn L snapshot = \<lparr>txn_snapshot = snapshot, txn_snapshots = [],
     txn_txn = \<lparr>tr_objs = ir_New (lib_objs L), tr_logs = None, tr_refund = None\<rparr>,
     txn_codeCache = lru_New (lib_lru L)\<rparr>"

definition Txn_Snapshot :: "('t, 'c) Txn \<Rightarrow> nat \<times> ('t, 'c) Txn" where
  "Txn_Snapshot txn =
     (let t = txn_txn txn; n = length (txn_snapshots txn)
      in (n, txn\<lparr>txn_snapshots := txn_snapshots txn @ [t]\<rparr>))"

definition Txn_RevertToSnapshot :: "('t, 'c) Txn \<Rightarrow> nat \<Rightarrow> Error option \<times> ('t, 'c) Txn" where
  "Txn_RevertToSnapshot txn n =
     (if int n > int (length (txn_snapshots txn)) - 1 then (Some (ErrSnapshotRange n), txn)
      else (None, txn\<lparr>txn_txn := txn_snapshots txn ! n\<rparr>))"

definition getStateObject ::
  "('t, 's, 'c) statelib \<Rightarrow> ('t, 'c) Txn \<Rightarrow> Address \<Rightarrow> 's StateObject option" where
  "getStateObject L txn addr =
     (case ir_Get (lib_objs L) (tr_objs (txn_txn txn)) addr of
        Some obj \<Rightarrow> if so_Deleted obj then None else Some (StateObject_Copy obj)
      | None \<Rightarrow>
          (case sn_GetAccount (txn_snapshot txn) addr of
             Inl _ \<Rightarrow> None
           | Inr None \<Rightarrow> None
           | Inr (Some account) \<Rightarrow> Some (newStateObject\<lparr>so_Account := Account_Copy account\<rparr>)))"

definition Txn_GetAccount :: "('t, 's, 'c) statelib \<Rightarrow> ('t, 'c) Txn \<Rightarrow> Address \<Rightarrow> Account option" where
  "Txn_GetAccount L txn addr = map_option so_Account (getStateObject L txn addr)"

definition insertObject ::
  "('t, 's, 'c) statelib \<Rightarrow> ('t, 'c) Txn \<Rightarrow> Address \<Rightarrow> 's StateObject \<Rightarrow> ('t, 'c) Txn" where
  "insertObject L txn addr obj =
     txn\<lparr>txn_txn := (txn_txn txn)\<lparr>tr_objs := ir_Insert (lib_objs L) (tr_objs (txn_txn txn)) addr obj\<rparr>\<rparr>"

definition upsertAccount ::
  "('t, 's, 'c) statelib \<Rightarrow> ('t, 'c) Txn \<Rightarrow> Address \<Rightarrow> bool \<Rightarrow>
   ('s StateObject option \<Rightarrow> 's StateObject option) \<Rightarrow> ('t, 'c) Txn" where
  "upsertAccount L txn addr create f =
     (let obj = getStateObject L txn addr;
          obj = (if obj = None \<and> create then Some newStateObject else obj)
      in case f obj of None \<Rightarrow> txn | Some obj \<Rightarrow> insertObject L txn addr obj)"

text \<open>The callbacks of the operations that create the account get an object.\<close>

definition updateAccount ::
  "('t, 's, 'c) statelib \<Rightarrow> ('t, 'c) Txn \<Rightarrow> Address \<Rightarrow> ('s StateObject \<Rightarrow> 's StateObject) \<Rightarrow> ('t, 'c) Txn" where
  "updateAccount L txn addr f = upsertAccount L txn addr True (map_option f)"

definition setBalanceOf :: "int \<Rightarrow> 's StateObject \<Rightarrow> 's StateObject" where
  "setBalanceOf v obj = obj\<lparr>so_Account := (so_Account obj)\<lparr>acc_Balance := v\<rparr>\<rparr>"

definition AddSealingReward :: "('t, 's, 'c) statelib \<Rightarrow> ('t, 'c) Txn \<Rightarrow> Address \<Rightarrow> int \<Rightarrow> ('t, 'c) Txn" where
  "AddSealingReward L txn addr balance = updateAccount L txn addr (\<lambda>obj.
     if so_Suicide obj then setBalanceOf (copyBig balance) newStateObject
     else setBalanceOf (acc_Balance (so_Account obj) + balance) obj)"

definition AddBalance :: "('t, 's, 'c) statelib \<Rightarrow> ('t, 'c) Txn \<Rightarrow> Address \<Rightarrow> int \<Rightarrow> ('t, 'c) Txn" where
  "AddBalance L txn addr balance =
     updateAccount L txn addr (\<lambda>obj. setBalanceOf (acc_Balance (so_Account obj) + balance) obj)"

definition Txn_GetBalance :: "('t, 's, 'c) statelib \<Rightarrow> ('t, 'c) Txn \<Rightarrow> Address \<Rightarrow> int" where
  "Txn_GetBalance L txn addr =
     (case getStateObject L txn addr of None \<Rightarrow> 0 | Some obj \<Rightarrow> acc_Balance (so_Account obj))"

definition SubBalance ::
  "('t, 's, 'c) statelib \<Rightarrow> ('t, 'c) Txn \<Rightarrow> Address \<Rightarrow> int \<Rightarrow> Error option \<times> ('t, 'c) Txn" where
  "SubBalance L txn addr amount =
     (if sgn amount = 0 then (None, txn)
      else if Txn_GetBalance L txn addr < amount then (Some ErrNotEnoughFunds, txn)
      else (None,
            updateAccount L txn addr (\<lambda>obj. setBalanceOf (acc_Balance (so_Account obj) - amount) obj)))"

definition SetBalance :: "('t, 's, 'c) statelib \<Rightarrow> ('t, 'c) Txn \<Rightarrow> Address \<Rightarrow> int \<Rightarrow> ('t, 'c) Txn" where
  "SetBalance L txn addr balance = updateAccount L txn addr (setBalanceOf (copyBig balance))"

definition Txn_EmitLog :: "('t, 'c) Txn \<Rightarrow> Address \<Rightarrow> Hash list \<Rightarrow> bytes \<Rightarrow> ('t, 'c) Txn" where
  "Txn_EmitLog txn addr topics data =
     (let log = \<lparr>log_Address = addr, log_Topics = topics, log_Data = data\<rparr>;
          logs = (case tr_logs (txn_txn txn) of None \<Rightarrow> [] | Some logs \<Rightarrow> logs)
      in txn\<lparr>txn_txn := (txn_txn txn)\<lparr>tr_logs := Some (logs @ [log])\<rparr>\<rparr>)"

section \<open>Storage\<close>

definition GetState :: "('t, 's, 'c) statelib \<Rightarrow> ('t, 'c) Txn \<Rightarrow> Address \<Rightarrow> Hash \<Rightarrow> Hash" where
  "GetState L txn addr key =
     (case getStateObject L txn addr of
        None \<Rightarrow> ZeroHash
      | Some obj \<Rightarrow>
          (case (case so_Txn obj of None \<Rightarrow> None | Some t \<Rightarrow> ir_Get (lib_slots L) t key) of
             Some None \<Rightarrow> ZeroHash
           | Some (Some val) \<Rightarrow> BytesToHash val
           | None \<Rightarrow>
               if so_withFakeStorage obj then ZeroHash
               else sn_GetStorage (txn_snapshot txn) addr (acc_Root (so_Account obj)) key))"

definition SetState ::
  "('t, 's, 'c) statelib \<Rightarrow> ('t, 'c) Txn \<Rightarrow> Address \<Rightarrow> Hash \<Rightarrow> Hash \<Rightarrow> ('t, 'c) Txn" where
  "SetState L txn addr key value = updateAccount L txn addr (\<lambda>obj.
     let t = (case so_Txn obj of None \<Rightarrow> ir_New (lib_slots L) | Some t \<Rightarrow> t)
     in obj\<lparr>so_Txn := Some (if value = ZeroHash then ir_Insert (lib_slots L) t key None
                             else ir_Insert (lib_slots L) t key (Some value))\<rparr>)"

definition GetCommittedState ::
  "('t, 's, 'c) statelib \<Rightarrow> ('t, 'c) Txn \<Rightarrow> Address \<Rightarrow> Hash \<Rightarrow> Hash" where
  "GetCommittedState L txn addr key =
     (case getStateObject L txn addr of None \<Rightarrow> ZeroHash
      | Some obj \<Rightarrow> sn_GetStorage (txn_snapshot txn) addr (acc_Root (so_Account obj)) key)"

definition Txn_GetRefund :: "('t, 'c) Txn \<Rightarrow> u64" where
  "Txn_GetRefund txn = (case tr_refund (txn_txn txn) of None \<Rightarrow> 0 | Some r \<Rightarrow> r)"

definition AddRefund :: "('t, 'c) Txn \<Rightarrow> u64 \<Rightarrow> ('t, 'c) Txn" where
  "AddRefund txn gas = txn\<lparr>txn_txn := (txn_txn txn)\<lparr>tr_refund := Some (Txn_GetRefund txn + gas)\<rparr>\<rparr>"

definition SubRefund :: "('t, 'c) Txn \<Rightarrow> u64 \<Rightarrow> ('t, 'c) Txn" where
  "SubRefund txn gas = txn\<lparr>txn_txn := (txn_txn txn)\<lparr>tr_refund := Some (Txn_GetRefund txn - gas)\<rparr>\<rparr>"

definition Txn_SetStorage ::
  "('t, 's, 'c) statelib \<Rightarrow> ('t, 'c) Txn \<Rightarrow> Address \<Rightarrow> Hash \<Rightarrow> Hash \<Rightarrow> ForksInTime \<Rightarrow>
   StorageStatus \<times> ('t, 'c) Txn" where
  "Txn_SetStorage L txn addr key value config =
     (let oldValue = GetState L txn addr key in
      if oldValue = value then (StorageUnchanged, txn)
      else
        let current = oldValue;
            original = GetCommittedState L txn addr key;
            txn = SetState L txn addr key value;
            legacyGasMetering = (\<not> Istanbul config \<and> (Petersburg config \<or> \<not> Constantinople config))
        in if legacyGasMetering then
             (if oldValue = ZeroHash then (StorageAdded, txn)
              else if value = ZeroHash then (StorageDeleted, AddRefund txn 15000)
              else (StorageModified, txn))
        else
          let clearingRefund = (if London config then LondonClearingRefund else BerlinClearingRefund)
          in if original = current then
               (if original = ZeroHash then (StorageAdded, txn)
                else if value = ZeroHash then (StorageDeleted, AddRefund txn clearingRefund)
                else (StorageModified, txn))
          else
            let txn =
                  (if original \<noteq> ZeroHash then
                     (if current = ZeroHash then SubRefund txn clearingRefund
                      else if value = ZeroHash then AddRefund txn clearingRefund
                      else txn)
                   else txn);
                txn =
                  (if original = value then
                     (if original = ZeroHash then
                        (if Berlin config then AddRefund txn 19900
                         else if Istanbul config then AddRefund txn 19200
                         else AddRefund txn 19800)
                      else
                        (if Berlin config then AddRefund txn 2800
                         else if Istanbul config then AddRefund txn 4200
                         else AddRefund txn 4800))
                   else txn)
            in (StorageModifiedAgain, txn))"

definition SetFullStorage ::
  "('t, 's, 'c) statelib \<Rightarrow> ('t, 'c) Txn \<Rightarrow> Address \<Rightarrow> (Hash \<times> Hash) list \<Rightarrow> ('t, 'c) Txn" where
  "SetFullStorage L txn addr state =
     (let txn = fold (\<lambda>(k, v) txn. SetState L txn addr k v) state txn
      in updateAccount L txn addr (\<lambda>obj. obj\<lparr>so_withFakeStorage := True\<rparr>))"

section \<open>Nonce, code, life cycle\<close>

text \<open>On overflow the callback returns early, and the unchanged object is still inserted.\<close>

definition IncrNonce :: "('t, 's, 'c) statelib \<Rightarrow> ('t, 'c) Txn \<Rightarrow> Address \<Rightarrow> Error option \<times> ('t, 'c) Txn" where
  "IncrNonce L txn addr =
     (let obj = (case getStateObject L txn addr of None \<Rightarrow> newStateObject | Some obj \<Rightarrow> obj);
          nonce = acc_Nonce (so_Account obj);
          overflow = (nonce + 1 < nonce)
      in (if overflow then Some ErrNonceUintOverflow else None,
          updateAccount L txn addr (\<lambda>obj.
            if overflow then obj
            else obj\<lparr>so_Account := (so_Account obj)\<lparr>acc_Nonce := acc_Nonce (so_Account obj) + 1\<rparr>\<rparr>)))"

definition SetNonce :: "('t, 's, 'c) statelib \<Rightarrow> ('t, 'c) Txn \<Rightarrow> Address \<Rightarrow> u64 \<Rightarrow> ('t, 'c) Txn" where
  "SetNonce L txn addr nonce =
     updateAccount L txn addr (\<lambda>obj. obj\<lparr>so_Account := (so_Account obj)\<lparr>acc_Nonce := nonce\<rparr>\<rparr>)"

definition Txn_GetNonce :: "('t, 's, 'c) statelib \<Rightarrow> ('t, 'c) Txn \<Rightarrow> Address \<Rightarrow> u64" where
  "Txn_GetNonce L txn addr =
     (case getStateObject L txn addr of None \<Rightarrow> 0 | Some obj \<Rightarrow> acc_Nonce (so_Account obj))"

definition SetCode :: "('t, 's, 'c) statelib \<Rightarrow> ('t, 'c) Txn \<Rightarrow> Address \<Rightarrow> bytes \<Rightarrow> ('t, 'c) Txn" where
  "SetCode L txn addr code = updateAccount L txn addr (\<lambda>obj.
     obj\<lparr>so_Account := (so_Account obj)\<lparr>acc_CodeHash := lib_keccak L code\<rparr>, so_DirtyCode := True,
         so_Code := code\<rparr>)"

definition Txn_GetCode ::
  "('t, 's, 'c) statelib \<Rightarrow> ('t, 'c) Txn \<Rightarrow> Address \<Rightarrow> bytes \<times> ('t, 'c) Txn" where
  "Txn_GetCode L txn addr =
     (case getStateObject L txn addr of
        None \<Rightarrow> ([], txn)
      | Some obj \<Rightarrow>
          if so_DirtyCode obj then (so_Code obj, txn)
          else
            (case lru_Get (lib_lru L) (txn_codeCache txn) addr of
               (Some v, c) \<Rightarrow> (v, txn\<lparr>txn_codeCache := c\<rparr>)
             | (None, c) \<Rightarrow>
                 let code = fst (sn_GetCode (txn_snapshot txn) (BytesToHash (acc_CodeHash (so_Account obj))))
                 in (code, txn\<lparr>txn_codeCache := lru_Add (lib_lru L) c addr code\<rparr>)))"

definition Txn_GetCodeSize ::
  "('t, 's, 'c) statelib \<Rightarrow> ('t, 'c) Txn \<Rightarrow> Address \<Rightarrow> nat \<times> ('t, 'c) Txn" where
  "Txn_GetCodeSize L txn addr = (case Txn_GetCode L txn addr of (code, txn) \<Rightarrow> (length code, txn))"

definition Txn_GetCodeHash :: "('t, 's, 'c) statelib \<Rightarrow> ('t, 'c) Txn \<Rightarrow> Address \<Rightarrow> Hash" where
  "Txn_GetCodeHash L txn addr =
     (case getStateObject L txn addr of None \<Rightarrow> ZeroHash
      | Some obj \<Rightarrow> BytesToHash (acc_CodeHash (so_Account obj)))"

definition GetStorageRoot :: "('t, 's, 'c) statelib \<Rightarrow> ('t, 'c) Txn \<Rightarrow> Address \<Rightarrow> Hash" where
  "GetStorageRoot L txn addr =
     (case getStateObject L txn addr of None \<Rightarrow> ZeroHash | Some obj \<Rightarrow> acc_Root (so_Account obj))"

definition Suicide :: "('t, 's, 'c) statelib \<Rightarrow> ('t, 'c) Txn \<Rightarrow> Address \<Rightarrow> bool \<times> ('t, 'c) Txn" where
  "Suicide L txn addr =
     (let obj = getStateObject L txn addr;
          suicided = (case obj of None \<Rightarrow> False | Some obj \<Rightarrow> \<not> so_Suicide obj)
      in (suicided,
          upsertAccount L txn addr False (map_option (\<lambda>obj.
            setBalanceOf 0 (if so_Suicide obj then obj else obj\<lparr>so_Suicide := True\<rparr>)))))"

definition HasSuicided :: "('t, 's, 'c) statelib \<Rightarrow> ('t, 'c) Txn \<Rightarrow> Address \<Rightarrow> bool" where
  "HasSuicided L txn addr =
     (case getStateObject L txn addr of None \<Rightarrow> False | Some obj \<Rightarrow> so_Suicide obj)"

definition Txn_Logs :: "('t, 'c) Txn \<Rightarrow> Log list \<times> ('t, 'c) Txn" where
  "Txn_Logs txn =
     (case tr_logs (txn_txn txn) of None \<Rightarrow> ([], txn)
      | Some logs \<Rightarrow> (logs, txn\<lparr>txn_txn := (txn_txn txn)\<lparr>tr_logs := None\<rparr>\<rparr>))"

definition TouchAccount :: "('t, 's, 'c) statelib \<Rightarrow> ('t, 'c) Txn \<Rightarrow> Address \<Rightarrow> ('t, 'c) Txn" where
  "TouchAccount L txn addr = updateAccount L txn addr (\<lambda>obj. obj)"

definition Exist :: "('t, 's, 'c) statelib \<Rightarrow> ('t, 'c) Txn \<Rightarrow> Address \<Rightarrow> bool" where
  "Exist L txn addr = (getStateObject L txn addr \<noteq> None)"

definition Txn_Empty :: "('t, 's, 'c) statelib \<Rightarrow> ('t, 'c) Txn \<Rightarrow> Address \<Rightarrow> bool" where
  "Txn_Empty L txn addr =
     (case getStateObject L txn addr of None \<Rightarrow> True | Some obj \<Rightarrow> StateObject_Empty obj)"

definition CreateAccount :: "('t, 's, 'c) statelib \<Rightarrow> ('t, 'c) Txn \<Rightarrow> Address \<Rightarrow> ('t, 'c) Txn" where
  "CreateAccount L txn addr =
     (let obj = (case getStateObject L txn addr of None \<Rightarrow> newStateObject
                 | Some prev \<Rightarrow> setBalanceOf (copyBig (acc_Balance (so_Account prev))) newStateObject)
      in insertObject L txn addr obj)"

section \<open>Cleaning and committing\<close>

definition removeKeys :: "bool \<Rightarrow> (bytes \<times> 's StateObject) list \<Rightarrow> bytes list" where
  "removeKeys deleteEmptyObjects kvs =
     map fst (filter (\<lambda>(k, a). so_Suicide a \<or> StateObject_Empty a \<and> deleteEmptyObjects) kvs)"

fun markDeleted :: "('t, 's, 'c) statelib \<Rightarrow> bytes list \<Rightarrow> ('t, 'c) Txn \<Rightarrow> bytes + ('t, 'c) Txn" where
  "markDeleted L [] txn = Inr txn"
| "markDeleted L (k # ks) txn =
     (case ir_Get (lib_objs L) (tr_objs (txn_txn txn)) k of
        None \<Rightarrow> Inl k
      | Some obj \<Rightarrow> markDeleted L ks (insertObject L txn k ((StateObject_Copy obj)\<lparr>so_Deleted := True\<rparr>)))"

definition CleanDeleteObjects ::
  "('t, 's, 'c) statelib \<Rightarrow> ('t, 'c) Txn \<Rightarrow> bool \<Rightarrow> bytes + ('t, 'c) Txn" where
  "CleanDeleteObjects L txn deleteEmptyObjects =
     (case markDeleted L (removeKeys deleteEmptyObjects (ir_Walk (lib_objs L) (tr_objs (txn_txn txn)))) txn of
        Inl k \<Rightarrow> Inl k
      | Inr txn \<Rightarrow> Inr (txn\<lparr>txn_txn := (txn_txn txn)\<lparr>tr_refund := None\<rparr>\<rparr>))"

definition commitObject :: "('t, 's, 'c) statelib \<Rightarrow> bytes \<Rightarrow> 's StateObject \<Rightarrow> Object" where
  "commitObject L k a = \<lparr>
     ob_Address = BytesToAddress k, ob_CodeHash = BytesToHash (acc_CodeHash (so_Account a)),
     ob_Balance = acc_Balance (so_Account a), ob_Root = acc_Root (so_Account a),
     ob_Nonce = acc_Nonce (so_Account a), ob_Deleted = so_Deleted a,
     ob_DirtyCode = so_DirtyCode a, ob_Code = so_Code a,
     ob_Storage =
       (if so_Deleted a then []
        else case so_Txn a of None \<Rightarrow> []
          | Some t \<Rightarrow> map (\<lambda>(k, v). case v of
              None \<Rightarrow> \<lparr>sto_Deleted = True, sto_Key = k, sto_Val = []\<rparr>
            | Some v \<Rightarrow> \<lparr>sto_Deleted = False, sto_Key = k, sto_Val = v\<rparr>) (ir_Walk (lib_slots L) t))\<rparr>"

definition Txn_Commit ::
  "('t, 's, 'c) statelib \<Rightarrow> ('t, 'c) Txn \<Rightarrow> bool \<Rightarrow> bytes + Object list \<times> ('t, 'c) Txn" where
  "Txn_Commit L txn deleteEmptyObjects =
     (case CleanDeleteObjects L txn deleteEmptyObjects of
        Inl k \<Rightarrow> Inl k
      | Inr txn \<Rightarrow>
          Inr (map (\<lambda>(k, a). commitObject L k a) (ir_Walk (lib_objs L) (tr_objs (txn_txn txn))), txn))"

section \<open>Sequences of operations\<close>

text \<open>The calls by which a client changes a \<^verbatim>\<open>Txn\<close> between a snapshot and the revert to it, nested
  snapshots and reverts included.\<close>

datatype TxnOp =
  OpAddSealingReward Address int | OpAddBalance Address int | OpSubBalance Address int
| OpSetBalance Address int | OpEmitLog Address "Hash list" bytes
| OpSetStorage Address Hash Hash ForksInTime | OpSetState Address Hash Hash
| OpIncrNonce Address | OpSetNonce Address u64 | OpSetCode Address bytes | OpGetCode Address
| OpSuicide Address | OpAddRefund u64 | OpSubRefund u64 | OpLogs
| OpSetFullStorage Address "(Hash \<times> Hash) list" | OpTouchAccount Address | OpCreateAccount Address
| OpSnapshot | OpRevert nat

fun txn_exec :: "('t, 's, 'c) statelib \<Rightarrow> TxnOp \<Rightarrow> ('t, 'c) Txn \<Rightarrow> ('t, 'c) Txn" where
  "txn_exec L (OpAddSealingReward a v) t = AddSealingReward L t a v"
| "txn_exec L (OpAddBalance a v) t = AddBalance L t a v"
| "txn_exec L (OpSubBalance a v) t = snd (SubBalance L t a v)"
| "txn_exec L (OpSetBalance a v) t = SetBalance L t a v"
| "txn_exec L (OpEmitLog a ts d) t = Txn_EmitLog t a ts d"
| "txn_exec L (OpSetStorage a k v c) t = snd (Txn_SetStorage L t a k v c)"
| "txn_exec L (OpSetState a k v) t = SetState L t a k v"
| "txn_exec L (OpIncrNonce a) t = snd (IncrNonce L t a)"
| "txn_exec L (OpSetNonce a n) t = SetNonce L t a n"
| "txn_exec L (OpSetCode a c) t = SetCode L t a c"
| "txn_exec L (OpGetCode a) t = snd (Txn_GetCode L t a)"
| "txn_exec L (OpSuicide a) t = snd (Suicide L t a)"
| "txn_exec L (OpAddRefund g) t = AddRefund t g"
| "txn_exec L (OpSubRefund g) t = SubRefund t g"
| "txn_exec L OpLogs t = snd (Txn_Logs t)"
| "txn_exec L (OpSetFullStorage a s) t = SetFullStorage L t a s"
| "txn_exec L (OpTouchAccount a) t = TouchAccount L t a"
| "txn_exec L (OpCreateAccount a) t = CreateAccount L t a"
| "txn_exec L OpSnapshot t = snd (Txn_Snapshot t)"
| "txn_exec L (OpRevert n) t = snd (Txn_RevertToSnapshot t n)"

section \<open>The libraries' concrete instances\<close>

definition iradix_std :: "((bytes \<times> 'v) list, 'v) iradix" where
  "iradix_std = \<lparr>ir_New = [], ir_Get = map_of, ir_Insert = (\<lambda>t k v. AList.update k v t),
     ir_Walk = AList.clearjunk\<rparr>"

definition lru_std :: "(Address \<times> bytes) list lru" where
  "lru_std = \<lparr>lru_New = [],
     lru_Get = (\<lambda>c a. case map_of c a of None \<Rightarrow> (None, c)
       | Some v \<Rightarrow> (Some v, (a, v) # filter (\<lambda>p. fst p \<noteq> a) c)),
     lru_Add = (\<lambda>c a v. take 20 ((a, v) # filter (\<lambda>p. fst p \<noteq> a) c))\<rparr>"

type_synonym std_slots = "(bytes \<times> bytes option) list"
type_synonym std_objs = "(bytes \<times> std_slots StateObject) list"
type_synonym std_lru = "(Address \<times> bytes) list"

definition statelib_std :: "(bytes \<Rightarrow> bytes) \<Rightarrow> (std_objs, std_slots, std_lru) statelib" where
  "statelib_std K = \<lparr>lib_objs = iradix_std, lib_slots = iradix_std, lib_lru = lru_std, lib_keccak = K\<rparr>"

definition statelib_doc :: "('t, 's, 'c) statelib \<Rightarrow> bool" where
  "statelib_doc L \<longleftrightarrow> iradix_doc (lib_objs L) \<and> iradix_doc (lib_slots L) \<and> lru_doc (lib_lru L)"

lemma iradix_doc_std [simp]: "iradix_doc iradix_std"
  by (simp add: iradix_doc_def iradix_std_def update_conv' distinct_clearjunk map_of_clearjunk)

lemma map_of_takeD: "map_of (take n xs) k = Some v \<Longrightarrow> map_of xs k = Some v"
proof (induction xs arbitrary: n)
  case (Cons p xs)
  then show ?case by (cases n) (auto split: if_splits)
qed simp

lemma map_of_filter_key: "map_of (filter (\<lambda>p. fst p \<noteq> a) c) k = (if k = a then None else map_of c k)"
  by (induction c) auto

lemma lru_doc_std [simp]: "lru_doc lru_std"
  unfolding lru_doc_def cached_def
proof (intro conjI allI impI)
  fix a v
  show "fst (lru_Get lru_std (lru_New lru_std) a) \<noteq> Some v" by (simp add: lru_std_def)
next
  fix c a b v
  assume "fst (lru_Get lru_std (snd (lru_Get lru_std c b)) a) = Some v"
  then show "fst (lru_Get lru_std c a) = Some v"
    by (auto simp: lru_std_def map_of_filter_key split: option.splits if_splits)
next
  fix c a b v w
  assume "fst (lru_Get lru_std (lru_Add lru_std c b w) a) = Some v"
  then have "map_of (take 20 ((b, w) # filter (\<lambda>p. fst p \<noteq> b) c)) a = Some v"
    by (simp add: lru_std_def split: option.splits if_splits)
  then have "map_of ((b, w) # filter (\<lambda>p. fst p \<noteq> b) c) a = Some v" by (rule map_of_takeD)
  then show "if a = b then v = w else fst (lru_Get lru_std c a) = Some v"
    by (auto simp: lru_std_def map_of_filter_key split: option.splits if_splits)
qed

lemma statelib_doc_std [simp]: "statelib_doc (statelib_std K)"
  by (simp add: statelib_doc_def statelib_std_def)

section \<open>Reading after writing\<close>

lemma copyBig_idem [simp]: "copyBig (copyBig b) = copyBig b"
  by (simp add: copyBig_def)

lemma copyBig_nonneg [simp]: "0 \<le> copyBig b"
  by (simp add: copyBig_def)

lemma copyBig_id: "0 \<le> b \<Longrightarrow> copyBig b = b"
  by (simp add: copyBig_def)

lemma StateObject_Copy_simps [simp]:
  "so_Account (StateObject_Copy s) = Account_Copy (so_Account s)"
  "so_Code (StateObject_Copy s) = so_Code s"
  "so_Suicide (StateObject_Copy s) = so_Suicide s"
  "so_Deleted (StateObject_Copy s) = so_Deleted s"
  "so_DirtyCode (StateObject_Copy s) = so_DirtyCode s"
  "so_Txn (StateObject_Copy s) = so_Txn s"
  "so_withFakeStorage (StateObject_Copy s) = so_withFakeStorage s"
  by (simp_all add: StateObject_Copy_def)

lemma Account_Copy_simps [simp]:
  "acc_Nonce (Account_Copy a) = acc_Nonce a"
  "acc_Balance (Account_Copy a) = copyBig (acc_Balance a)"
  "acc_Root (Account_Copy a) = acc_Root a"
  "acc_CodeHash (Account_Copy a) = acc_CodeHash a"
  by (simp_all add: Account_Copy_def)

lemma Account_Copy_idem [simp]: "Account_Copy (Account_Copy a) = Account_Copy a"
  by (simp add: Account_Copy_def)

lemma StateObject_Copy_idem [simp]: "StateObject_Copy (StateObject_Copy s) = StateObject_Copy s"
  by (simp add: StateObject_Copy_def)

lemma StateObject_Copy_id: "0 \<le> acc_Balance (so_Account s) \<Longrightarrow> StateObject_Copy s = s"
  by (cases s) (simp add: StateObject_Copy_def Account_Copy_def copyBig_id)

lemma newStateObject_simps [simp]:
  "so_Account newStateObject = \<lparr>acc_Nonce = 0, acc_Balance = 0, acc_Root = emptyStateHash,
     acc_CodeHash = EmptyCodeHash\<rparr>"
  "so_Code newStateObject = []" "so_Suicide newStateObject = False"
  "so_Deleted newStateObject = False" "so_DirtyCode newStateObject = False"
  "so_Txn newStateObject = None" "so_withFakeStorage newStateObject = False"
  by (simp_all add: newStateObject_def)

lemma setBalanceOf_simps [simp]:
  "acc_Balance (so_Account (setBalanceOf v s)) = v"
  "acc_Nonce (so_Account (setBalanceOf v s)) = acc_Nonce (so_Account s)"
  "acc_Root (so_Account (setBalanceOf v s)) = acc_Root (so_Account s)"
  "acc_CodeHash (so_Account (setBalanceOf v s)) = acc_CodeHash (so_Account s)"
  "so_Code (setBalanceOf v s) = so_Code s" "so_Suicide (setBalanceOf v s) = so_Suicide s"
  "so_Deleted (setBalanceOf v s) = so_Deleted s" "so_DirtyCode (setBalanceOf v s) = so_DirtyCode s"
  "so_Txn (setBalanceOf v s) = so_Txn s" "so_withFakeStorage (setBalanceOf v s) = so_withFakeStorage s"
  by (simp_all add: setBalanceOf_def)

text \<open>The object an operation that creates the account works on.\<close>

definition fetch :: "('t, 's, 'c) statelib \<Rightarrow> ('t, 'c) Txn \<Rightarrow> Address \<Rightarrow> 's StateObject" where
  "fetch L txn a = (case getStateObject L txn a of None \<Rightarrow> newStateObject | Some obj \<Rightarrow> obj)"

lemma updateAccount_eq: "updateAccount L txn a f = insertObject L txn a (f (fetch L txn a))"
  by (simp add: updateAccount_def upsertAccount_def fetch_def split: option.split)

lemma upsert_False_eq:
  "upsertAccount L txn a False (map_option f) =
     (case getStateObject L txn a of None \<Rightarrow> txn | Some obj \<Rightarrow> insertObject L txn a (f obj))"
  by (simp add: upsertAccount_def split: option.split)

lemma getStateObject_live:
  "getStateObject L txn a = Some obj \<Longrightarrow> \<not> so_Deleted obj \<and> StateObject_Copy obj = obj"
  by (auto simp: getStateObject_def StateObject_Copy_def Account_Copy_def
      split: option.splits if_splits sum.splits)

lemma fetch_live [simp]: "so_Deleted (fetch L txn a) = False" "StateObject_Copy (fetch L txn a) = fetch L txn a"
  using getStateObject_live [of L txn a]
  by (auto simp: fetch_def StateObject_Copy_id split: option.splits)

lemma fetch_balance_nonneg [simp]: "0 \<le> acc_Balance (so_Account (fetch L txn a))"
proof -
  have "acc_Balance (so_Account (StateObject_Copy (fetch L txn a))) \<ge> 0" by (simp del: fetch_live)
  then show ?thesis by (simp only: fetch_live)
qed

lemma insertObject_simps [simp]:
  "txn_snapshot (insertObject L txn a obj) = txn_snapshot txn"
  "txn_snapshots (insertObject L txn a obj) = txn_snapshots txn"
  "txn_codeCache (insertObject L txn a obj) = txn_codeCache txn"
  "tr_logs (txn_txn (insertObject L txn a obj)) = tr_logs (txn_txn txn)"
  "tr_refund (txn_txn (insertObject L txn a obj)) = tr_refund (txn_txn txn)"
  by (simp_all add: insertObject_def)

lemma Txn_GetRefund_insert [simp]: "Txn_GetRefund (insertObject L txn a obj) = Txn_GetRefund txn"
  by (simp add: Txn_GetRefund_def)

lemmas read_defs = Txn_GetBalance_def Txn_GetNonce_def Txn_GetCodeHash_def GetStorageRoot_def
  HasSuicided_def Exist_def Txn_Empty_def Txn_GetAccount_def GetCommittedState_def GetState_def

text \<open>Every read but that of the code depends on the snapshot and on the tree only.\<close>

lemma getStateObject_cong:
  assumes "txn_txn t = txn_txn t'" "txn_snapshot t = txn_snapshot t'"
  shows "getStateObject L t = getStateObject L t'"
  using assms by (simp add: getStateObject_def fun_eq_iff cong: option.case_cong)

text \<open>A storage trie with the empty root holds no slot.\<close>

definition snapshot_ok :: "readSnapshot \<Rightarrow> bool" where
  "snapshot_ok sn \<longleftrightarrow> (\<forall>a k. sn_GetStorage sn a emptyStateHash k = ZeroHash)"

locale state_library =
  fixes L :: "('t, 's, 'c) statelib"
  assumes doc: "statelib_doc L"
begin

lemma get_New: "ir_Get (lib_objs L) (ir_New (lib_objs L)) k = None"
  using doc by (simp add: statelib_doc_def iradix_doc_def)

lemma get_Insert:
  "ir_Get (lib_objs L) (ir_Insert (lib_objs L) t k v) k' = (if k' = k then Some v else ir_Get (lib_objs L) t k')"
  using doc by (simp add: statelib_doc_def iradix_doc_def)

lemma slot_New: "ir_Get (lib_slots L) (ir_New (lib_slots L)) k = None"
  using doc by (simp add: statelib_doc_def iradix_doc_def)

lemma slot_Insert:
  "ir_Get (lib_slots L) (ir_Insert (lib_slots L) t k v) k' = (if k' = k then Some v else ir_Get (lib_slots L) t k')"
  using doc by (simp add: statelib_doc_def iradix_doc_def)

lemma walk_objs: "distinct (map fst (ir_Walk (lib_objs L) t))" "map_of (ir_Walk (lib_objs L) t) = ir_Get (lib_objs L) t"
  using doc by (simp_all add: statelib_doc_def iradix_doc_def)

lemma walk_slots: "distinct (map fst (ir_Walk (lib_slots L) t))" "map_of (ir_Walk (lib_slots L) t) = ir_Get (lib_slots L) t"
  using doc by (simp_all add: statelib_doc_def iradix_doc_def)

lemma getStateObject_insert:
  "getStateObject L (insertObject L txn a obj) b =
     (if b = a then (if so_Deleted obj then None else Some (StateObject_Copy obj))
      else getStateObject L txn b)"
  by (auto simp: getStateObject_def insertObject_def get_Insert cong: option.case_cong)

lemma fetch_insert:
  "\<not> so_Deleted obj \<Longrightarrow>
   fetch L (insertObject L txn a obj) b = (if b = a then StateObject_Copy obj else fetch L txn b)"
  by (simp add: fetch_def getStateObject_insert)

lemma GetBalance_fetch: "Txn_GetBalance L txn a = acc_Balance (so_Account (fetch L txn a))"
  by (simp add: Txn_GetBalance_def fetch_def split: option.split)

lemma GetNonce_fetch: "Txn_GetNonce L txn a = acc_Nonce (so_Account (fetch L txn a))"
  by (simp add: Txn_GetNonce_def fetch_def split: option.split)

lemma balance_nonneg: "0 \<le> Txn_GetBalance L txn a"
  by (simp add: GetBalance_fetch)

lemma balance_add:
  "0 \<le> Txn_GetBalance L txn a + v \<Longrightarrow>
   Txn_GetBalance L (AddBalance L txn a v) b = (if b = a then Txn_GetBalance L txn a + v else Txn_GetBalance L txn b)"
  by (simp add: AddBalance_def updateAccount_eq GetBalance_fetch fetch_insert copyBig_id)

lemma balance_sub:
  "SubBalance L txn a v =
     (if v = 0 then (None, txn)
      else if Txn_GetBalance L txn a < v then (Some ErrNotEnoughFunds, txn)
      else (None, insertObject L txn a (setBalanceOf (Txn_GetBalance L txn a - v) (fetch L txn a))))"
  by (simp add: SubBalance_def updateAccount_eq GetBalance_fetch sgn_0_0)

lemma balance_sub_ok:
  "v \<le> Txn_GetBalance L txn a \<Longrightarrow> fst (SubBalance L txn a v) = None \<and>
   Txn_GetBalance L (snd (SubBalance L txn a v)) b =
     (if b = a then Txn_GetBalance L txn a - v else Txn_GetBalance L txn b)"
  by (simp add: balance_sub GetBalance_fetch fetch_insert copyBig_id)

lemma SetState_eq:
  "SetState L txn a k v = insertObject L txn a ((fetch L txn a)\<lparr>so_Txn :=
     Some (ir_Insert (lib_slots L)
             (case so_Txn (fetch L txn a) of None \<Rightarrow> ir_New (lib_slots L) | Some t \<Rightarrow> t) k
             (if v = ZeroHash then None else Some v))\<rparr>)"
  by (simp add: SetState_def updateAccount_eq Let_def split: option.split)

lemma GetState_fetch:
  assumes "snapshot_ok (txn_snapshot txn)"
  shows "GetState L txn a k =
     (case (case so_Txn (fetch L txn a) of None \<Rightarrow> None | Some t \<Rightarrow> ir_Get (lib_slots L) t k) of
        Some None \<Rightarrow> ZeroHash
      | Some (Some val) \<Rightarrow> BytesToHash val
      | None \<Rightarrow> if so_withFakeStorage (fetch L txn a) then ZeroHash
          else sn_GetStorage (txn_snapshot txn) a (acc_Root (so_Account (fetch L txn a))) k)"
  using assms by (simp add: GetState_def fetch_def snapshot_ok_def split: option.split)

lemma GetCommittedState_fetch:
  assumes "snapshot_ok (txn_snapshot txn)"
  shows "GetCommittedState L txn a k =
     sn_GetStorage (txn_snapshot txn) a (acc_Root (so_Account (fetch L txn a))) k"
  using assms by (simp add: GetCommittedState_def fetch_def snapshot_ok_def split: option.split)

lemma SetState_snapshot [simp]: "txn_snapshot (SetState L txn a k v) = txn_snapshot txn"
  by (simp add: SetState_eq)

lemma SetState_refund [simp]: "Txn_GetRefund (SetState L txn a k v) = Txn_GetRefund txn"
  by (simp add: SetState_eq)

lemma fetch_so_Txn:
  "StateObject_Copy ((fetch L txn a)\<lparr>so_Txn := t\<rparr>) = (fetch L txn a)\<lparr>so_Txn := t\<rparr>"
  by (rule StateObject_Copy_id) simp

lemma fetch_SetState:
  "fetch L (SetState L txn a k v) b = (if b = a then (fetch L txn a)\<lparr>so_Txn :=
     Some (ir_Insert (lib_slots L)
             (case so_Txn (fetch L txn a) of None \<Rightarrow> ir_New (lib_slots L) | Some t \<Rightarrow> t) k
             (if v = ZeroHash then None else Some v))\<rparr> else fetch L txn b)"
  by (simp add: SetState_eq fetch_insert fetch_so_Txn)

lemma SetState_get:
  assumes "length v = 32" and sn: "snapshot_ok (txn_snapshot txn)"
  shows "GetState L (SetState L txn a k v) b j = (if b = a \<and> j = k then v else GetState L txn b j)"
proof -
  have sn': "snapshot_ok (txn_snapshot (SetState L txn a k v))" using sn by simp
  show ?thesis
    by (auto simp: GetState_fetch [OF sn'] GetState_fetch [OF sn] fetch_SetState slot_Insert slot_New
        BytesToHash_id assms(1) split: option.split)
qed

lemma SetState_committed:
  assumes "snapshot_ok (txn_snapshot txn)"
  shows "GetCommittedState L (SetState L txn a k v) b j = GetCommittedState L txn b j"
proof -
  have "snapshot_ok (txn_snapshot (SetState L txn a k v))" using assms by simp
  then show ?thesis
    by (simp add: GetCommittedState_fetch [OF assms] GetCommittedState_fetch fetch_SetState)
qed

lemma markDeleted_spec:
  assumes "\<forall>k \<in> set ks. \<exists>obj. ir_Get (lib_objs L) (tr_objs (txn_txn txn)) k = Some obj"
  shows "\<exists>txn'. markDeleted L ks txn = Inr txn' \<and>
    txn_snapshot txn' = txn_snapshot txn \<and> txn_snapshots txn' = txn_snapshots txn \<and>
    txn_codeCache txn' = txn_codeCache txn \<and> tr_logs (txn_txn txn') = tr_logs (txn_txn txn) \<and>
    (\<forall>b. getStateObject L txn' b = (if b \<in> set ks then None else getStateObject L txn b))"
  using assms
proof (induction ks arbitrary: txn)
  case (Cons k ks)
  from Cons.prems obtain obj where g: "ir_Get (lib_objs L) (tr_objs (txn_txn txn)) k = Some obj" by auto
  let ?t = "insertObject L txn k ((StateObject_Copy obj)\<lparr>so_Deleted := True\<rparr>)"
  have "\<forall>k \<in> set ks. \<exists>obj. ir_Get (lib_objs L) (tr_objs (txn_txn ?t)) k = Some obj"
    using Cons.prems by (auto simp: insertObject_def get_Insert)
  from Cons.IH [OF this] g show ?case by (auto simp: getStateObject_insert)
qed simp

text \<open>Cleaning never fails, and afterwards exactly the suicided and, on request, the empty dirty
  objects are gone.\<close>

lemma CleanDelete_spec:
  shows "\<exists>txn'. CleanDeleteObjects L txn d = Inr txn' \<and>
    txn_snapshot txn' = txn_snapshot txn \<and> txn_snapshots txn' = txn_snapshots txn \<and>
    txn_codeCache txn' = txn_codeCache txn \<and>
    tr_logs (txn_txn txn') = tr_logs (txn_txn txn) \<and> Txn_GetRefund txn' = 0 \<and>
    (\<forall>b. getStateObject L txn' b =
       (case ir_Get (lib_objs L) (tr_objs (txn_txn txn)) b of
          Some obj \<Rightarrow> if so_Suicide obj \<or> StateObject_Empty obj \<and> d then None else getStateObject L txn b
        | None \<Rightarrow> getStateObject L txn b))"
proof -
  let ?w = "ir_Walk (lib_objs L) (tr_objs (txn_txn txn))"
  let ?ks = "removeKeys d ?w"
  have k: "k \<in> set ?ks \<longleftrightarrow> (\<exists>obj. ir_Get (lib_objs L) (tr_objs (txn_txn txn)) k = Some obj \<and>
      (so_Suicide obj \<or> StateObject_Empty obj \<and> d))" for k
  proof -
    have "k \<in> set ?ks \<longleftrightarrow> (\<exists>obj. (k, obj) \<in> set ?w \<and> (so_Suicide obj \<or> StateObject_Empty obj \<and> d))"
      by (force simp: removeKeys_def)
    then show ?thesis using walk_objs [of "tr_objs (txn_txn txn)"] by (metis map_of_eq_Some_iff)
  qed
  then obtain t where t: "markDeleted L ?ks txn = Inr t" "txn_snapshot t = txn_snapshot txn"
    "txn_snapshots t = txn_snapshots txn" "txn_codeCache t = txn_codeCache txn" "tr_logs (txn_txn t) = tr_logs (txn_txn txn)"
    "\<forall>b. getStateObject L t b = (if b \<in> set ?ks then None else getStateObject L txn b)"
    using markDeleted_spec [of ?ks txn] by blast
  let ?t = "t\<lparr>txn_txn := (txn_txn t)\<lparr>tr_refund := None\<rparr>\<rparr>"
  have "getStateObject L ?t = getStateObject L t"
    by (simp add: getStateObject_def fun_eq_iff cong: option.case_cong)
  then show ?thesis using t k
    by (auto simp: CleanDeleteObjects_def Txn_GetRefund_def split: option.split)
qed

end

interpretation stdlib: state_library "statelib_std K"
  by unfold_locales simp

section \<open>Storage gas\<close>

text \<open>The net gas metering of EIP-1283, EIP-2200, EIP-2929 and EIP-3529: the cost of reading, setting and
  resetting a slot and the refund for clearing one are the parameters; the second component is the
  change of the refund counter.\<close>

definition net_metering ::
  "int \<Rightarrow> int \<Rightarrow> int \<Rightarrow> int \<Rightarrow> Hash \<Rightarrow> Hash \<Rightarrow> Hash \<Rightarrow> StorageStatus \<times> int" where
  "net_metering sload sset sreset clear original current new =
     (if current = new then (StorageUnchanged, 0)
      else if current = original then
        (if original = ZeroHash then (StorageAdded, 0)
         else (if new = ZeroHash then (StorageDeleted, clear) else (StorageModified, 0)))
      else
        (StorageModifiedAgain,
         (if original \<noteq> ZeroHash then
            (if current = ZeroHash then - clear else 0) + (if new = ZeroHash then clear else 0) else 0) +
         (if original = new then (if original = ZeroHash then sset - sload else sreset - sload) else 0)))"

definition sloadGas :: "ForksInTime \<Rightarrow> int" where
  "sloadGas c = (if Berlin c then 100 else if Istanbul c then 800 else 200)"

definition sresetGas :: "ForksInTime \<Rightarrow> int" where
  "sresetGas c = (if Berlin c then 5000 - 2100 else 5000)"

definition clearGas :: "ForksInTime \<Rightarrow> int" where
  "clearGas c = (if London c then 4800 else 15000)"

lemma AddRefund_simps [simp]:
  "Txn_GetRefund (AddRefund t g) = Txn_GetRefund t + g"
  "Txn_GetRefund (SubRefund t g) = Txn_GetRefund t - g"
  "getStateObject L (AddRefund t g) = getStateObject L t"
  "getStateObject L (SubRefund t g) = getStateObject L t"
  by (simp_all add: AddRefund_def SubRefund_def Txn_GetRefund_def getStateObject_def fun_eq_iff
      cong: option.case_cong)

lemma state_read_cong:
  assumes "getStateObject L t = getStateObject L t'" "txn_snapshot t = txn_snapshot t'"
  shows "GetState L t = GetState L t'" "GetCommittedState L t = GetCommittedState L t'"
    "Txn_GetBalance L t = Txn_GetBalance L t'" "Txn_GetNonce L t = Txn_GetNonce L t'"
  by (intro ext; simp only: read_defs assms)+

lemma refund_snapshot [simp]:
  "txn_snapshot (AddRefund t g) = txn_snapshot t" "txn_snapshot (SubRefund t g) = txn_snapshot t"
  by (simp_all add: AddRefund_def SubRefund_def)

lemma refund_reads [simp]:
  "GetState L (AddRefund t g) = GetState L t" "GetState L (SubRefund t g) = GetState L t"
  by (rule state_read_cong; simp)+

context state_library
begin

lemma SetStorage_get:
  assumes "length v = 32" and "snapshot_ok (txn_snapshot txn)"
  shows "GetState L (snd (Txn_SetStorage L txn a k v c)) b j =
    (if b = a \<and> j = k then v else GetState L txn b j)"
proof -
  have "GetState L (snd (Txn_SetStorage L txn a k v c)) =
      (if GetState L txn a k = v then GetState L txn else GetState L (SetState L txn a k v))"
    unfolding Txn_SetStorage_def Let_def by (simp split: if_split)
  then show ?thesis by (auto simp: SetState_get [OF assms])
qed

lemma SetStorage_net:
  assumes "Istanbul c \<or> Constantinople c \<and> \<not> Petersburg c"
  shows "(fst (Txn_SetStorage L txn a k v c),
      Txn_GetRefund (snd (Txn_SetStorage L txn a k v c)) - Txn_GetRefund txn) =
    map_prod (\<lambda>s. s) of_int (net_metering (sloadGas c) 20000 (sresetGas c) (clearGas c)
      (GetCommittedState L txn a k) (GetState L txn a k) v)"
proof -
  have leg: "(\<not> Istanbul c \<and> (Petersburg c \<or> \<not> Constantinople c)) = False" using assms by auto
  show ?thesis
    unfolding Txn_SetStorage_def Let_def leg net_metering_def sloadGas_def sresetGas_def clearGas_def
      LondonClearingRefund_def BerlinClearingRefund_def
    by (auto split: if_split)
qed

end

section \<open>Snapshots\<close>

lemma Txn_GetCode_snapshots [simp]:
  "txn_snapshots (snd (Txn_GetCode L t a)) = txn_snapshots t"
  "txn_snapshot (snd (Txn_GetCode L t a)) = txn_snapshot t"
  "txn_txn (snd (Txn_GetCode L t a)) = txn_txn t"
  by (auto simp: Txn_GetCode_def Let_def split: option.split prod.split)

lemma refund_snapshots [simp]:
  "txn_snapshots (AddRefund t g) = txn_snapshots t" "txn_snapshots (SubRefund t g) = txn_snapshots t"
  by (simp_all add: AddRefund_def SubRefund_def)

lemma updateAccount_snapshots [simp]:
  "txn_snapshots (updateAccount L t a f) = txn_snapshots t"
  "txn_snapshot (updateAccount L t a f) = txn_snapshot t"
  by (simp_all add: updateAccount_eq)

lemmas op_defs = AddSealingReward_def AddBalance_def SubBalance_def SetBalance_def Txn_EmitLog_def
  SetState_def IncrNonce_def SetNonce_def SetCode_def Suicide_def Txn_Logs_def TouchAccount_def
  CreateAccount_def Txn_Snapshot_def Txn_RevertToSnapshot_def

lemma fold_SetState_snapshots:
  "txn_snapshots (fold (\<lambda>(k, v) txn. SetState L txn a k v) st t) = txn_snapshots t \<and>
   txn_snapshot (fold (\<lambda>(k, v) txn. SetState L txn a k v) st t) = txn_snapshot t"
  by (induction st arbitrary: t) (auto simp: SetState_def)

lemma Txn_SetStorage_snapshots:
  "txn_snapshots (snd (Txn_SetStorage L t a k v c)) = txn_snapshots t \<and>
   txn_snapshot (snd (Txn_SetStorage L t a k v c)) = txn_snapshot t"
  unfolding Txn_SetStorage_def Let_def SetState_def by (simp split: if_split)

text \<open>No operation drops a snapshot or changes the underlying state.\<close>

lemma txn_exec_extends:
  "(\<exists>xs. txn_snapshots (txn_exec L p t) = txn_snapshots t @ xs) \<and>
   txn_snapshot (txn_exec L p t) = txn_snapshot t"
proof (cases p)
  case (OpSetFullStorage a st)
  then show ?thesis using fold_SetState_snapshots [of L a st t]
    by (simp add: SetFullStorage_def Let_def)
next
  case (OpSetStorage a k v c)
  then show ?thesis using Txn_SetStorage_snapshots [of L t a k v c] by simp
qed (auto simp: op_defs Let_def upsert_False_eq split: option.split)

lemma txn_execs_extend:
  "(\<exists>xs. txn_snapshots (fold (txn_exec L) ps t) = txn_snapshots t @ xs) \<and>
   txn_snapshot (fold (txn_exec L) ps t) = txn_snapshot t"
proof (induction ps arbitrary: t)
  case (Cons p ps)
  from Cons [of "txn_exec L p t"] txn_exec_extends [of L p t] show ?case by auto
qed simp

lemma Revert_restores:
  assumes "Txn_Snapshot t = (n, t1)"
  shows "\<exists>t'. Txn_RevertToSnapshot (fold (txn_exec L) ps t1) n = (None, t') \<and>
    txn_txn t' = txn_txn t \<and> txn_snapshot t' = txn_snapshot t"
proof -
  from assms have n: "n = length (txn_snapshots t)"
    and t1: "txn_snapshots t1 = txn_snapshots t @ [txn_txn t]" "txn_snapshot t1 = txn_snapshot t"
    by (auto simp: Txn_Snapshot_def Let_def)
  from txn_execs_extend [of L ps t1] obtain xs
    where "txn_snapshots (fold (txn_exec L) ps t1) = txn_snapshots t @ txn_txn t # xs"
      "txn_snapshot (fold (txn_exec L) ps t1) = txn_snapshot t"
    using t1 by auto
  then show ?thesis by (simp add: Txn_RevertToSnapshot_def n nth_append)
qed

section \<open>Code\<close>

context state_library
begin

lemma SetCode_get:
  "fst (Txn_GetCode L (SetCode L txn a code) a) = code \<and>
   Txn_GetCodeHash L (SetCode L txn a code) a = BytesToHash (lib_keccak L code)"
  by (simp add: Txn_GetCode_def Txn_GetCodeHash_def SetCode_def updateAccount_eq getStateObject_insert)

text \<open>The code of an account that was not written in the block is that of its code hash, as long as
  the cache holds no other entry for it.\<close>

lemma GetCode_clean:
  assumes "getStateObject L txn a = Some obj" "\<not> so_DirtyCode obj"
    and "\<And>v. cached (lib_lru L) (txn_codeCache txn) a v \<Longrightarrow>
      v = fst (sn_GetCode (txn_snapshot txn) (BytesToHash (acc_CodeHash (so_Account obj))))"
  shows "fst (Txn_GetCode L txn a) = fst (sn_GetCode (txn_snapshot txn) (Txn_GetCodeHash L txn a))"
  using assms
  by (auto simp: Txn_GetCode_def Txn_GetCodeHash_def cached_def Let_def split: option.split prod.split)

lemma stale_code:
  assumes "cached (lib_lru L) (txn_codeCache txn) a v"
    and "ir_Get (lib_objs L) (tr_objs (txn_txn txn)) a = Some obj" "so_Suicide obj"
    and "CleanDeleteObjects L txn d = Inr txn'"
  shows "fst (Txn_GetCode L (AddBalance L txn' a x) a) = v \<and>
    Txn_GetCodeHash L (AddBalance L txn' a x) a = BytesToHash EmptyCodeHash"
proof -
  from CleanDelete_spec [of txn d] assms have n: "getStateObject L txn' a = None"
    and c: "txn_codeCache txn' = txn_codeCache txn" by auto
  have g: "getStateObject L (AddBalance L txn' a x) a =
      Some (StateObject_Copy (setBalanceOf x newStateObject))"
    by (simp add: AddBalance_def updateAccount_eq getStateObject_insert fetch_def n)
  have "fst (lru_Get (lib_lru L) (txn_codeCache (AddBalance L txn' a x)) a) = Some v"
    using assms(1) c by (simp add: AddBalance_def updateAccount_eq cached_def)
  then show ?thesis
    by (auto simp: Txn_GetCode_def Txn_GetCodeHash_def g split: prod.split)
qed

end

section \<open>Commit\<close>

definition keys_ok :: "('t, 's, 'c) statelib \<Rightarrow> ('t, 'c) Txn \<Rightarrow> bool" where
  "keys_ok L t \<longleftrightarrow> (\<forall>kv \<in> set (ir_Walk (lib_objs L) (tr_objs (txn_txn t))). length (fst kv) = 20)"

context state_library
begin

lemma walk_iff: "(k, v) \<in> set (ir_Walk (lib_objs L) t) \<longleftrightarrow> ir_Get (lib_objs L) t k = Some v"
  using walk_objs [of t] by (metis map_of_eq_Some_iff)

lemma walk_slot_iff: "(k, v) \<in> set (ir_Walk (lib_slots L) t) \<longleftrightarrow> ir_Get (lib_slots L) t k = Some v"
  using walk_slots [of t] by (metis map_of_eq_Some_iff)

lemma keys_ok_iff:
  "keys_ok L t \<longleftrightarrow> (\<forall>k. ir_Get (lib_objs L) (tr_objs (txn_txn t)) k \<noteq> None \<longrightarrow> length k = 20)"
  by (auto simp: keys_ok_def Ball_def walk_iff)

lemma keys_ok_insert: "keys_ok L txn \<Longrightarrow> length a = 20 \<Longrightarrow> keys_ok L (insertObject L txn a obj)"
  by (auto simp: keys_ok_iff insertObject_def get_Insert)

lemma keys_ok_new: "keys_ok L (newTxn L sn)"
  by (auto simp: keys_ok_iff newTxn_def get_New)

lemma keys_ok_markDeleted: "markDeleted L ks txn = Inr txn' \<Longrightarrow> keys_ok L txn' = keys_ok L txn"
proof (induction ks arbitrary: txn)
  case (Cons k ks)
  from Cons.prems obtain obj where g: "ir_Get (lib_objs L) (tr_objs (txn_txn txn)) k = Some obj"
    and m: "markDeleted L ks (insertObject L txn k ((StateObject_Copy obj)\<lparr>so_Deleted := True\<rparr>)) = Inr txn'"
    by (auto split: option.splits)
  have "keys_ok L (insertObject L txn k ((StateObject_Copy obj)\<lparr>so_Deleted := True\<rparr>)) = keys_ok L txn"
    using g by (auto simp: keys_ok_iff insertObject_def get_Insert)
  with Cons.IH [OF m] show ?case by simp
qed simp

lemma commit_live:
  assumes "keys_ok L txn" and "(k, o') \<in> set (ir_Walk (lib_objs L) (tr_objs (txn_txn txn)))"
    and "ob = commitObject L k o'"
  shows "ob_Address ob = k \<and> ob_Deleted ob = (\<not> Exist L txn k) \<and>
    (Exist L txn k \<longrightarrow>
       copyBig (ob_Balance ob) = Txn_GetBalance L txn k \<and> ob_Nonce ob = Txn_GetNonce L txn k \<and>
       ob_CodeHash ob = Txn_GetCodeHash L txn k \<and> ob_Root ob = GetStorageRoot L txn k \<and>
       (\<forall>e \<in> set (ob_Storage ob). GetState L txn k (sto_Key e) =
          (if sto_Deleted e then ZeroHash else BytesToHash (sto_Val e))))"
proof -
  have l: "length k = 20" using assms by (auto simp: keys_ok_def)
  have g: "getStateObject L txn k = (if so_Deleted o' then None else Some (StateObject_Copy o'))"
    using assms(2) by (simp add: getStateObject_def walk_iff)
  have "GetState L txn k (sto_Key e) = (if sto_Deleted e then ZeroHash else BytesToHash (sto_Val e))"
    if "e \<in> set (ob_Storage ob)" "\<not> so_Deleted o'" for e
    using that by (auto simp: assms(3) commitObject_def GetState_def g walk_slot_iff split: option.splits)
  then show ?thesis
    by (auto simp: assms(3) commitObject_def read_defs g BytesToAddress_id l)
qed

lemma Commit_objects:
  assumes "keys_ok L txn"
  shows "\<exists>objs txn'. Txn_Commit L txn d = Inr (objs, txn') \<and> CleanDeleteObjects L txn d = Inr txn' \<and>
    distinct (map ob_Address objs) \<and>
    (\<forall>ob \<in> set objs. ob_Deleted ob = (\<not> Exist L txn' (ob_Address ob)) \<and>
      (Exist L txn' (ob_Address ob) \<longrightarrow>
         copyBig (ob_Balance ob) = Txn_GetBalance L txn' (ob_Address ob) \<and>
         ob_Nonce ob = Txn_GetNonce L txn' (ob_Address ob) \<and>
         ob_CodeHash ob = Txn_GetCodeHash L txn' (ob_Address ob) \<and>
         ob_Root ob = GetStorageRoot L txn' (ob_Address ob) \<and>
         (\<forall>e \<in> set (ob_Storage ob). GetState L txn' (ob_Address ob) (sto_Key e) =
            (if sto_Deleted e then ZeroHash else BytesToHash (sto_Val e)))))"
proof -
  from CleanDelete_spec [of txn d] obtain t where c: "CleanDeleteObjects L txn d = Inr t" by blast
  then have k: "keys_ok L t" using assms keys_ok_markDeleted
    by (fastforce simp: CleanDeleteObjects_def keys_ok_def split: sum.splits)
  let ?w = "ir_Walk (lib_objs L) (tr_objs (txn_txn t))"
  let ?o = "map (\<lambda>(k, a). commitObject L k a) ?w"
  have "map ob_Address ?o = map fst ?w"
    using commit_live [OF k] by (simp add: case_prod_beta)
  then have "distinct (map ob_Address ?o)" by (simp only: walk_objs)
  then show ?thesis
    using commit_live [OF k] c by (auto simp: Txn_Commit_def)
qed

end

end
