(* ===== verification/Block_Types.thy ===== *)
theory Block_Types
  imports Transaction StateTxn
begin

text \<open>
  Headers, blocks and receipts, \<^verbatim>\<open>src/types/header.go\<close> and \<^verbatim>\<open>src/types/receipt.go\<close>, with the Bloom
  filter of the logs. The Keccak hash is the argument \<open>K\<close>; the filter reads its first six bytes.
\<close>

section \<open>Headers and blocks\<close>

type_synonym Bloom = bytes

record Header =
  hdr_ParentHash :: Hash
  hdr_Sha3Uncles :: Hash
  hdr_Miner :: bytes
  hdr_StateRoot :: Hash
  hdr_TxRoot :: Hash
  hdr_ReceiptsRoot :: Hash
  hdr_LogsBloom :: Bloom
  hdr_Difficulty :: u64
  hdr_Number :: u64
  hdr_GasLimit :: u64
  hdr_GasUsed :: u64
  hdr_Timestamp :: u64
  hdr_ExtraData :: bytes
  hdr_MixHash :: Hash
  hdr_Nonce :: bytes
  hdr_Hash :: Hash
  hdr_BaseFee :: u64

definition EmptyUncleHash :: Hash where
  "EmptyUncleHash =
     be_bytes 32 (0x1dcc4de8dec75d7aab85b567b6ccd41ad312451b948a7413f0a142fd40d49347 :: u256)"

definition Header_Equal :: "Header \<Rightarrow> Header \<Rightarrow> bool" where
  "Header_Equal h hh = (hdr_Hash h = hdr_Hash hh)"

definition HasBody :: "Header \<Rightarrow> bool" where
  "HasBody h = (hdr_TxRoot h \<noteq> EmptyRootHash \<or> hdr_Sha3Uncles h \<noteq> EmptyUncleHash)"

definition HasReceipts :: "Header \<Rightarrow> bool" where
  "HasReceipts h = (hdr_ReceiptsRoot h \<noteq> EmptyRootHash)"

definition Header_SetNonce :: "Header \<Rightarrow> u64 \<Rightarrow> Header" where
  "Header_SetNonce h i = h\<lparr>hdr_Nonce := be_bytes 8 i\<rparr>"

definition IsGenesis :: "Header \<Rightarrow> bool" where
  "IsGenesis h = (hdr_Hash h \<noteq> ZeroHash \<and> hdr_Number h = 0)"

definition Header_Copy :: "Header \<Rightarrow> Header" where
  "Header_Copy h = \<lparr>
     hdr_ParentHash = hdr_ParentHash h, hdr_Sha3Uncles = hdr_Sha3Uncles h,
     hdr_Miner = go_copy (replicate (length (hdr_Miner h)) 0) (hdr_Miner h),
     hdr_StateRoot = hdr_StateRoot h, hdr_TxRoot = hdr_TxRoot h, hdr_ReceiptsRoot = hdr_ReceiptsRoot h,
     hdr_LogsBloom = hdr_LogsBloom h, hdr_Difficulty = hdr_Difficulty h, hdr_Number = hdr_Number h,
     hdr_GasLimit = hdr_GasLimit h, hdr_GasUsed = hdr_GasUsed h, hdr_Timestamp = hdr_Timestamp h,
     hdr_ExtraData = go_copy (replicate (length (hdr_ExtraData h)) 0) (hdr_ExtraData h),
     hdr_MixHash = hdr_MixHash h, hdr_Nonce = hdr_Nonce h, hdr_Hash = hdr_Hash h, hdr_BaseFee = hdr_BaseFee h\<rparr>"

record Block =
  bk_Header :: Header
  bk_Transactions :: "Transaction list"
  bk_Uncles :: "Header list"

section \<open>Receipts\<close>

datatype ReceiptStatus = ReceiptFailed | ReceiptSuccess

record Receipt =
  rc_Root :: Hash
  rc_CumulativeGasUsed :: u64
  rc_LogsBloom :: Bloom
  rc_Logs :: "Log list"
  rc_Status :: "ReceiptStatus option"
  rc_GasUsed :: u64
  rc_ContractAddress :: "Address option"
  rc_TxHash :: Hash
  rc_TransactionType :: TxType

definition IsLegacyTx :: "Receipt \<Rightarrow> bool" where
  "IsLegacyTx r = (rc_TransactionType r = LegacyTxType)"

definition SetStatus :: "Receipt \<Rightarrow> ReceiptStatus \<Rightarrow> Receipt" where
  "SetStatus r s = r\<lparr>rc_Status := Some s\<rparr>"

definition SetContractAddress :: "Receipt \<Rightarrow> Address \<Rightarrow> Receipt" where
  "SetContractAddress r a = r\<lparr>rc_ContractAddress := Some a\<rparr>"

section \<open>Bloom filter\<close>

definition BloomByteLength :: nat where "BloomByteLength = 256"

text \<open>The position of the bit for the bytes \<open>i\<close> and \<open>i + 1\<close> of the hash: byte and bit.\<close>

definition bloomBit :: "bytes \<Rightarrow> nat \<Rightarrow> nat \<times> nat" where
  "bloomBit buf i =
     (let bit = and (unat (buf ! (i + 1)) + push_bit 8 (unat (buf ! i))) (BloomByteLength * 8 - 1)
      in (BloomByteLength - 1 - bit div 8, bit mod 8))"

definition setBit :: "bytes \<Rightarrow> Bloom \<Rightarrow> nat \<Rightarrow> Bloom" where
  "setBit buf b i =
     (let (byteLocation, bitLocation) = bloomBit buf i
      in b[byteLocation := or (b ! byteLocation) (push_bit bitLocation 1)])"

definition setEncode :: "(bytes \<Rightarrow> bytes) \<Rightarrow> Bloom \<Rightarrow> bytes \<Rightarrow> Bloom" where
  "setEncode K b h = (let buf = K h in foldl (setBit buf) b [0, 2, 4])"

definition CreateBloom :: "(bytes \<Rightarrow> bytes) \<Rightarrow> Receipt list \<Rightarrow> Bloom" where
  "CreateBloom K receipts =
     foldl (\<lambda>b receipt.
       foldl (\<lambda>b log. foldl (setEncode K) (setEncode K b (log_Address log)) (log_Topics log)) b (rc_Logs receipt))
     (replicate BloomByteLength 0) receipts"

definition isByteArrPresent :: "(bytes \<Rightarrow> bytes) \<Rightarrow> Bloom \<Rightarrow> bytes \<Rightarrow> bool" where
  "isByteArrPresent K b data =
     (let buf = K data in
      list_all (\<lambda>i. let (byteLocation, bitLocation) = bloomBit buf i
                    in and (b ! byteLocation) (push_bit bitLocation 1) \<noteq> 0) [0, 2, 4])"

definition IsLogInBloom :: "(bytes \<Rightarrow> bytes) \<Rightarrow> Bloom \<Rightarrow> Log \<Rightarrow> bool" where
  "IsLogInBloom K b log =
     (if \<not> isByteArrPresent K b (log_Address log) then False
      else list_all (isByteArrPresent K b) (log_Topics log))"

section \<open>No false negatives\<close>

lemma Header_Copy_id: "Header_Copy h = h"
  by (simp add: Header_Copy_def go_copy_def)

lemma bloomBit_range: "bloomBit buf i = (x, y) \<Longrightarrow> x < 256 \<and> y < 8"
  by (auto simp: bloomBit_def BloomByteLength_def Let_def)

definition bloom_has :: "Bloom \<Rightarrow> nat \<times> nat \<Rightarrow> bool" where
  "bloom_has b p = bit (b ! fst p) (snd p)"

lemma and_exp_nonzero: "n < LENGTH('a) \<Longrightarrow> and w (2 ^ n) = 0 \<longleftrightarrow> \<not> bit w n" for w :: "'a::len word"
proof -
  assume n: "n < LENGTH('a)"
  have "and w (2 ^ n) = (if bit w n then 2 ^ n else 0)"
    by (intro bit_word_eqI) (auto simp: bit_simps)
  moreover have "bit (2 ^ n :: 'a word) n" using n by (simp add: bit_simps)
  then have "(2 ^ n :: 'a word) \<noteq> 0" by (metis bit_0_eq bot_apply bot_bool_def)
  ultimately show ?thesis by simp
qed

lemma isByteArrPresent_iff:
  "isByteArrPresent K b d \<longleftrightarrow> (\<forall>i \<in> {0, 2, 4}. bloom_has b (bloomBit (K d) i))"
proof -
  have "snd (bloomBit (K d) i) < 8" for i
    using bloomBit_range [of "K d" i] by (cases "bloomBit (K d) i") simp
  then show ?thesis
    by (simp add: isByteArrPresent_def Let_def bloom_has_def split_def and_exp_nonzero)
qed

lemma length_setBit [simp]: "length (setBit buf b i) = length b"
  by (simp add: setBit_def Let_def split_def)

lemma bloom_has_setBit:
  assumes "length b = 256" "fst p < 256" "snd p < 8"
  shows "bloom_has (setBit buf b i) p \<longleftrightarrow> bloom_has b p \<or> p = bloomBit buf i"
proof -
  obtain x y where xy: "bloomBit buf i = (x, y)" by fastforce
  note r = bloomBit_range [OF xy]
  show ?thesis
  proof (cases "fst p = x")
    case True
    then show ?thesis using assms r xy
      by (cases p) (auto simp: setBit_def bloom_has_def bit_simps)
  next
    case False
    then show ?thesis using assms r xy by (cases p) (auto simp: setBit_def bloom_has_def)
  qed
qed

definition bloom_le :: "Bloom \<Rightarrow> Bloom \<Rightarrow> bool" where
  "bloom_le b b' \<longleftrightarrow> length b = 256 \<and> length b' = 256 \<and>
     (\<forall>x < 256. \<forall>y < 8. bloom_has b (x, y) \<longrightarrow> bloom_has b' (x, y))"

lemma bloom_le_trans: "bloom_le a b \<Longrightarrow> bloom_le b c \<Longrightarrow> bloom_le a c"
  by (auto simp: bloom_le_def)

lemma bloom_le_refl: "length b = 256 \<Longrightarrow> bloom_le b b"
  by (simp add: bloom_le_def)

lemma setBit_le: "length b = 256 \<Longrightarrow> bloom_le b (setBit buf b i)"
  by (auto simp: bloom_le_def bloom_has_setBit)

lemma setEncode_le: "length b = 256 \<Longrightarrow> bloom_le b (setEncode K b d)"
  unfolding setEncode_def Let_def foldl.simps
  by (rule bloom_le_trans [OF bloom_le_trans [OF setBit_le setBit_le] setBit_le]) simp_all

lemma setEncode_present: "length b = 256 \<Longrightarrow> isByteArrPresent K (setEncode K b d) d"
proof -
  assume "length b = 256"
  moreover have "fst (bloomBit buf i) < 256" "snd (bloomBit buf i) < 8" for buf i
    using bloomBit_range [of buf i] by (cases "bloomBit buf i"; simp)+
  ultimately show ?thesis
    by (auto simp: isByteArrPresent_iff setEncode_def Let_def bloom_has_setBit)
qed

lemma present_mono: "bloom_le b b' \<Longrightarrow> isByteArrPresent K b d \<Longrightarrow> isByteArrPresent K b' d"
proof -
  assume "bloom_le b b'" "isByteArrPresent K b d"
  moreover have "bloom_has b' (bloomBit buf i)" if "bloom_has b (bloomBit buf i)" "bloom_le b b'" for buf i
    using that bloomBit_range [of buf i] by (cases "bloomBit buf i") (auto simp: bloom_le_def)
  ultimately show ?thesis by (auto simp: isByteArrPresent_iff)
qed

text \<open>A fold whose steps only add bits keeps what an earlier step has added.\<close>

lemma foldl_bloom:
  assumes step: "\<And>b x. length b = 256 \<Longrightarrow> bloom_le b (f b x)"
    and made: "\<And>b x. length b = 256 \<Longrightarrow> P (f b x) x"
    and mono: "\<And>b b' x. bloom_le b b' \<Longrightarrow> P b x \<Longrightarrow> P b' x"
    and "length b = 256"
  shows "bloom_le b (foldl f b xs) \<and> (\<forall>x \<in> set xs. P (foldl f b xs) x)"
  using \<open>length b = 256\<close>
proof (induction xs rule: rev_induct)
  case Nil
  then show ?case by (simp add: bloom_le_refl)
next
  case (snoc x xs)
  let ?b = "foldl f b xs"
  have l: "length ?b = 256" using snoc by (simp add: bloom_le_def)
  have le: "bloom_le ?b (f ?b x)" by (rule step [OF l])
  have "bloom_le b (f ?b x)" using snoc le by (blast intro: bloom_le_trans)
  moreover have "P (f ?b x) y" if "y \<in> set xs" for y using snoc that by (blast intro: mono [OF le])
  ultimately show ?case using made [OF l, of x] by simp
qed

lemma topics_bloom:
  assumes "length b = 256"
  shows "bloom_le b (foldl (setEncode K) b ts) \<and> (\<forall>t \<in> set ts. isByteArrPresent K (foldl (setEncode K) b ts) t)"
  by (rule foldl_bloom) (simp_all add: setEncode_le setEncode_present present_mono assms)

lemma IsLogInBloom_mono: "bloom_le b b' \<Longrightarrow> IsLogInBloom K b l \<Longrightarrow> IsLogInBloom K b' l"
  by (auto simp: IsLogInBloom_def list_all_iff split: if_splits intro: present_mono)

lemma log_bloom:
  assumes "length b = 256" and b': "b' = foldl (setEncode K) (setEncode K b (log_Address l)) (log_Topics l)"
  shows "bloom_le b b' \<and> IsLogInBloom K b' l"
proof -
  let ?a = "setEncode K b (log_Address l)"
  have a: "bloom_le b ?a" by (rule setEncode_le [OF assms(1)])
  then have "length ?a = 256" by (simp add: bloom_le_def)
  from topics_bloom [OF this, of K "log_Topics l"] have t: "bloom_le ?a b'"
    "\<forall>t \<in> set (log_Topics l). isByteArrPresent K b' t" by (simp_all add: b')
  have "isByteArrPresent K b' (log_Address l)"
    by (rule present_mono [OF t(1) setEncode_present [OF assms(1)]])
  with t a show ?thesis
    by (auto simp: IsLogInBloom_def list_all_iff intro: bloom_le_trans)
qed

lemma receipt_bloom:
  assumes "length b = 256" and f: "f = (\<lambda>b log. foldl (setEncode K) (setEncode K b (log_Address log)) (log_Topics log))"
  shows "bloom_le b (foldl f b ls) \<and> (\<forall>l \<in> set ls. IsLogInBloom K (foldl f b ls) l)"
  by (rule foldl_bloom) (simp_all add: f log_bloom [OF _ refl] IsLogInBloom_mono assms(1))

lemma CreateBloom_sound:
  assumes "r \<in> set rs" "l \<in> set (rc_Logs r)"
  shows "IsLogInBloom K (CreateBloom K rs) l"
proof -
  have "length (replicate BloomByteLength (0 :: byte)) = 256" by (simp add: BloomByteLength_def)
  from foldl_bloom [where P = "\<lambda>b r. \<forall>l \<in> set (rc_Logs r). IsLogInBloom K b l" and xs = rs, OF _ _ _ this,
      of "\<lambda>b receipt. foldl (\<lambda>b log. foldl (setEncode K) (setEncode K b (log_Address log)) (log_Topics log)) b
        (rc_Logs receipt)"]
  show ?thesis using assms receipt_bloom [OF _ refl] IsLogInBloom_mono
    by (auto simp: CreateBloom_def)
qed

end
