(* ===== verification/Transition.thy ===== *)
theory Transition
  imports AccessList Transaction AddressList Precompiled Block_Types Evm_Run
begin

text \<open>
  The state transition of \<^verbatim>\<open>src/state/executor.go\<close>: \<^verbatim>\<open>Transition\<close>, which is the host of the EVM, and
  \<^verbatim>\<open>Executor\<close>, which runs the transactions of a block.

  \<^verbatim>\<open>Transition\<close> is the record \<open>Transition\<close>, threaded through every operation. The record \<open>exec\<close> collects
  the parameters: the libraries of the other components, the RLP encoding of an address and a nonce,
  the sender recovery of the signers, the post hook, the hook for pending transactions and the
  \<^verbatim>\<open>NewSnapshot\<close> and \<^verbatim>\<open>Commit\<close> methods of the state and its snapshots. Tracing and logging have no effect on the result and are left out.

  A frame of the EVM calls back into the transition, which may start another frame. The definitions of
  the handlers take the function \<open>cx\<close> that runs a nested call; \<open>trans_Callx\<close> ties the knot with a bound
  on the nesting. \<^verbatim>\<open>applyCall\<close> and \<^verbatim>\<open>applyCreate\<close> refuse a frame at depth 1026, so the bound \<open>callFuel\<close>
  is never reached; \<^verbatim>\<open>Transition_Safety\<close> proves it. \<^term>\<open>None\<close> is a panic.
\<close>

section \<open>Errors\<close>

datatype TxError =
  ErrNonceTooLow | ErrNonceTooHigh | ErrNonceMax | ErrSenderNoEOA | ErrNotEnoughFundsForGas
| ErrBlockLimitReached | ErrIntrinsicGasOverflow | ErrNotEnoughIntrinsicGas | ErrInsufficientFunds
| ErrTipAboveFeeCap | ErrTipVeryHigh | ErrFeeCapVeryHigh | ErrFeeCapTooLow
| StateTxGasPrice | StateTxGas | StateTxSender | StateTxTo
| RuntimeError Error | SignerError | CleanError bytes | SnapshotError | BurnContractMissing | GenesisHookError

datatype ApplyError =
  TransitionApplicationError TxError bool
| GasLimitReachedTransitionApplicationError TxError
| PlainError TxError

section \<open>State\<close>

record ('t, 'c) Transition =
  tn_snap :: readSnapshot
  tn_config :: ForksInTime
  tn_state :: "('t, 'c) Txn"
  tn_getHash :: "u64 \<Rightarrow> Hash"
  tn_ctx :: TxContext
  tn_gasPool :: u64
  tn_receipts :: "Receipt list"
  tn_totalGas :: u64
  tn_precompiles :: Precompiled
  tn_deploymentAllowList :: "AddressList option"
  tn_deploymentBlockList :: "AddressList option"
  tn_txnAllowList :: "AddressList option"
  tn_txnBlockList :: "AddressList option"
  tn_bridgeAllowList :: "AddressList option"
  tn_bridgeBlockList :: "AddressList option"
  tn_journal :: Journal
  tn_journalRevisions :: "JournalRevision list"
  tn_accessList :: AccessList
  tn_isL1OriginatedToken :: bool

record ('t, 's, 'c, 'g) exec =
  ex_L :: "('t, 's, 'c) statelib"
  ex_C :: "'g crypto"
  ex_U :: uint256
  ex_F :: selectors
  ex_rlpAddrNonce :: "Address \<Rightarrow> u64 \<Rightarrow> bytes"
  ex_Sender :: "ForksInTime \<Rightarrow> u64 \<Rightarrow> Transaction \<Rightarrow> Address option"
  ex_PostHook :: "(('t, 'c) Transition \<Rightarrow> ('t, 'c) Transition) option"
  ex_GetPendingTx :: "Hash \<Rightarrow> Transaction option"
  ex_NewSnapshot :: "Hash \<Rightarrow> readSnapshot option"
  ex_CommitSnapshot :: "readSnapshot \<Rightarrow> Object list \<Rightarrow> (readSnapshot \<times> bytes) option"
  ex_GetHash :: "Header \<Rightarrow> u64 \<Rightarrow> Hash"

definition SpuriousDragonMaxCodeSize :: nat where "SpuriousDragonMaxCodeSize = 24576"
definition TxPoolMaxInitCodeSize :: nat where "TxPoolMaxInitCodeSize = 2 * SpuriousDragonMaxCodeSize"
definition TxGas :: u64 where "TxGas = 21000"
definition TxGasContractCreation :: u64 where "TxGasContractCreation = 53000"
definition TxAccessListAddressGas :: u64 where "TxAccessListAddressGas = 2400"
definition TxAccessListStorageKeyGas :: u64 where "TxAccessListStorageKeyGas = 1900"

text \<open>The callers set the context right after the construction; it is an argument here.\<close>

definition NewTransition ::
  "'g crypto \<Rightarrow> ForksInTime \<Rightarrow> readSnapshot \<Rightarrow> ('t, 'c) Txn \<Rightarrow> TxContext \<Rightarrow> ('t, 'c) Transition" where
  "NewTransition C config snap radix ctx = \<lparr>
     tn_snap = snap, tn_config = config, tn_state = radix, tn_getHash = (\<lambda>_. ZeroHash), tn_ctx = ctx, tn_gasPool = 0,
     tn_receipts = [], tn_totalGas = 0, tn_precompiles = NewPrecompiled C,
     tn_deploymentAllowList = None, tn_deploymentBlockList = None, tn_txnAllowList = None,
     tn_txnBlockList = None, tn_bridgeAllowList = None, tn_bridgeBlockList = None,
     tn_journal = [], tn_journalRevisions = [], tn_accessList = NewAccessList,
     tn_isL1OriginatedToken = False\<rparr>"

definition on_state ::
  "(('t, 'c) Txn \<Rightarrow> 'a \<times> ('t, 'c) Txn) \<Rightarrow> ('t, 'c) Transition \<Rightarrow> 'a \<times> ('t, 'c) Transition" where
  "on_state f t = (case f (tn_state t) of (r, s) \<Rightarrow> (r, t\<lparr>tn_state := s\<rparr>))"

definition set_state :: "(('t, 'c) Txn \<Rightarrow> ('t, 'c) Txn) \<Rightarrow> ('t, 'c) Transition \<Rightarrow> ('t, 'c) Transition" where
  "set_state f t = t\<lparr>tn_state := f (tn_state t)\<rparr>"

definition subGasPool :: "('t, 'c) Transition \<Rightarrow> u64 \<Rightarrow> TxError option \<times> ('t, 'c) Transition" where
  "subGasPool t amount =
     (if tn_gasPool t < amount then (Some ErrBlockLimitReached, t)
      else (None, t\<lparr>tn_gasPool := tn_gasPool t - amount\<rparr>))"

definition addGasPool :: "('t, 'c) Transition \<Rightarrow> u64 \<Rightarrow> ('t, 'c) Transition" where
  "addGasPool t amount = t\<lparr>tn_gasPool := tn_gasPool t + amount\<rparr>"

section \<open>Snapshots\<close>

definition trans_Snapshot :: "('t, 'c) Transition \<Rightarrow> nat \<times> ('t, 'c) Transition" where
  "trans_Snapshot t =
     (let (snapshot, t) = on_state Txn_Snapshot t
      in (snapshot, t\<lparr>tn_journalRevisions := tn_journalRevisions t @
                        [\<lparr>jr_ID = snapshot, jr_Index = Journal_Len (tn_journal t)\<rparr>]\<rparr>))"

text \<open>Go's \<^verbatim>\<open>sort.Search\<close>: the invariant of the loop is \<^verbatim>\<open>f(i-1) == false\<close> and \<^verbatim>\<open>f(j) == true\<close>.\<close>

function sort_Search_loop :: "(nat \<Rightarrow> bool) \<Rightarrow> nat \<Rightarrow> nat \<Rightarrow> nat" where
  "sort_Search_loop f i j =
     (if i < j then
        let h = (i + j) div 2 in
        if \<not> f h then sort_Search_loop f (h + 1) j else sort_Search_loop f i h
      else i)"
  by pat_completeness auto
termination by (relation "measure (\<lambda>(f, i, j). j - i)") auto

definition sort_Search :: "nat \<Rightarrow> (nat \<Rightarrow> bool) \<Rightarrow> nat" where
  "sort_Search n f = sort_Search_loop f 0 n"

declare sort_Search_loop.simps [simp del]

definition trans_RevertToSnapshot ::
  "('t, 'c) Transition \<Rightarrow> nat \<Rightarrow> (Error option \<times> ('t, 'c) Transition) option" where
  "trans_RevertToSnapshot t snapshot =
     (case on_state (\<lambda>s. Txn_RevertToSnapshot s snapshot) t of
        (Some err, t) \<Rightarrow> Some (Some err, t)
      | (None, t) \<Rightarrow>
          let revs = tn_journalRevisions t;
              idx = sort_Search (length revs) (\<lambda>i. jr_ID (revs ! i) \<ge> snapshot)
          in if idx = length revs \<or> jr_ID (revs ! idx) \<noteq> snapshot
             then Some (Some (ErrJournalRevision snapshot), t)
             else do {
               let journalIndex = jr_Index (revs ! idx);
               (j, al) \<leftarrow> Journal_Revert (tn_journal t) journalIndex (tn_accessList t);
               Some (None, t\<lparr>tn_journal := j, tn_accessList := al, tn_journalRevisions := take idx revs\<rparr>)
             })"

section \<open>Access list\<close>

definition trans_AddSlot :: "('t, 'c) Transition \<Rightarrow> Address \<Rightarrow> Hash \<Rightarrow> ('t, 'c) Transition" where
  "trans_AddSlot t addr slot =
     t\<lparr>tn_journal := Journal_Append (tn_journal t) (AccessListAddSlotChange addr slot),
       tn_accessList := AddSlot (tn_accessList t) addr [slot]\<rparr>"

definition trans_AddAddress :: "('t, 'c) Transition \<Rightarrow> Address \<Rightarrow> ('t, 'c) Transition" where
  "trans_AddAddress t addr =
     t\<lparr>tn_journal := Journal_Append (tn_journal t) (AccessListAddAccountChange addr),
       tn_accessList := AddAddress (tn_accessList t) [addr]\<rparr>"

definition PopulateAccessList ::
  "('t, 'c) Transition \<Rightarrow> Address \<Rightarrow> Address option \<Rightarrow> TxAccessList \<Rightarrow> ('t, 'c) Transition" where
  "PopulateAccessList t from to acl =
     t\<lparr>tn_accessList := PrepareAccessList (tn_accessList t) from to (pc_Addrs (tn_precompiles t)) acl\<rparr>"

section \<open>Balances\<close>

definition trans_Transfer ::
  "('t, 's, 'c, 'g) exec \<Rightarrow> ('t, 'c) Transition \<Rightarrow> Address \<Rightarrow> Address \<Rightarrow> int option \<Rightarrow>
   Error option \<times> ('t, 'c) Transition" where
  "trans_Transfer P t from to amount =
     (case amount of
        None \<Rightarrow> (None, t)
      | Some amount \<Rightarrow>
          (case on_state (\<lambda>s. SubBalance (ex_L P) s from amount) t of
             (Some err, t) \<Rightarrow> (Some (if err = ErrNotEnoughFunds then ErrInsufficientBalance else err), t)
           | (None, t) \<Rightarrow> (None, set_state (\<lambda>s. AddBalance (ex_L P) s to amount) t)))"

definition trans_Selfdestruct ::
  "('t, 's, 'c, 'g) exec \<Rightarrow> ('t, 'c) Transition \<Rightarrow> Address \<Rightarrow> Address \<Rightarrow> ('t, 'c) Transition" where
  "trans_Selfdestruct P t addr beneficiary =
     (let t = (if \<not> London (tn_config t) \<and> \<not> HasSuicided (ex_L P) (tn_state t) addr
               then set_state (\<lambda>s. AddRefund s 24000) t else t);
          t = set_state (\<lambda>s. AddBalance (ex_L P) s beneficiary (Txn_GetBalance (ex_L P) s addr)) t
      in set_state (\<lambda>s. snd (Suicide (ex_L P) s addr)) t)"

section \<open>The transition as host\<close>

definition transHost ::
  "('t, 's, 'c, 'g) exec \<Rightarrow>
   (('t, 'c) Transition \<Rightarrow> Contract \<Rightarrow> (ExecutionResult \<times> ('t, 'c) Transition) option) \<Rightarrow>
   ('t, 'c) Transition Host" where
  "transHost P cx = \<lparr>
     AccountExists = (\<lambda>t a. Exist (ex_L P) (tn_state t) a),
     GetStorage = (\<lambda>t a k. GetState (ex_L P) (tn_state t) a k),
     SetStorage = (\<lambda>t a k v config. on_state (\<lambda>s. Txn_SetStorage (ex_L P) s a k v config) t),
     GetBalance = (\<lambda>t a. Txn_GetBalance (ex_L P) (tn_state t) a),
     GetCodeSize = (\<lambda>t a. on_state (\<lambda>s. Txn_GetCodeSize (ex_L P) s a) t),
     GetCodeHash = (\<lambda>t a. Txn_GetCodeHash (ex_L P) (tn_state t) a),
     GetCode = (\<lambda>t a. on_state (\<lambda>s. Txn_GetCode (ex_L P) s a) t),
     Selfdestruct = trans_Selfdestruct P,
     GetTxContext = tn_ctx,
     GetBlockHash = (\<lambda>t number. tn_getHash t number),
     EmitLog = (\<lambda>t a ts d. set_state (\<lambda>s. Txn_EmitLog s a ts d) t),
     Callx = cx,
     Empty = (\<lambda>t a. Txn_Empty (ex_L P) (tn_state t) a),
     GetNonce = (\<lambda>t a. Txn_GetNonce (ex_L P) (tn_state t) a),
     Transfer = trans_Transfer P,
     AddSlotToAccessList = trans_AddSlot,
     AddAddressToAccessList = trans_AddAddress,
     ContainsAccessListAddress = (\<lambda>t a. ContainsAddress (tn_accessList t) a),
     ContainsAccessListSlot = (\<lambda>t a s. Contains (tn_accessList t) a s)\<rparr>"

definition transEnv ::
  "('t, 's, 'c, 'g) exec \<Rightarrow>
   (('t, 'c) Transition \<Rightarrow> Contract \<Rightarrow> (ExecutionResult \<times> ('t, 'c) Transition) option) \<Rightarrow>
   ('t, 'c) Transition env" where
  "transEnv P cx = \<lparr>env_U = ex_U P, env_H = transHost P cx, env_keccak = cr_keccak (ex_C P),
     env_rlpAddrNonce = ex_rlpAddrNonce P\<rparr>"

definition transRef :: "('t, 's, 'c, 'g) exec \<Rightarrow> ('t, 'c) Transition stateRef" where
  "transRef P = \<lparr>
     sr_SetState = (\<lambda>t a k v. set_state (\<lambda>s. SetState (ex_L P) s a k v) t),
     sr_GetStorage = (\<lambda>t a k. GetState (ex_L P) (tn_state t) a k)\<rparr>"

section \<open>Frames\<close>

definition runList ::
  "('t, 's, 'c, 'g) exec \<Rightarrow> AddressList option \<Rightarrow> Contract \<Rightarrow> ('t, 'c) Transition \<Rightarrow>
   (ExecutionResult \<times> ('t, 'c) Transition) option" where
  "runList P l contract t =
     (case l of
        None \<Rightarrow> None
      | Some l \<Rightarrow>
          if al_addr l = c_CodeAddress contract
          then Some (AddressList_Run (ex_F P) (transRef P) l contract t) else None)"

definition orElse :: "'a option \<Rightarrow> 'a option \<Rightarrow> 'a option" where
  "orElse x y = (case x of None \<Rightarrow> y | Some _ \<Rightarrow> x)"

definition handleAllowBlockListsUpdate ::
  "('t, 's, 'c, 'g) exec \<Rightarrow> ('t, 'c) Transition \<Rightarrow> Contract \<Rightarrow>
   (ExecutionResult \<times> ('t, 'c) Transition) option" where
  "handleAllowBlockListsUpdate P t contract =
     orElse (runList P (tn_deploymentAllowList t) contract t)
    (orElse (runList P (tn_deploymentBlockList t) contract t)
    (orElse (runList P (tn_bridgeAllowList t) contract t)
    (orElse (runList P (tn_bridgeBlockList t) contract t)
    (orElse (runList P (tn_txnAllowList t) contract t)
            (runList P (tn_txnBlockList t) contract t)))))"

text \<open>The caller is not on the allow list, or, without one, is on the block list.\<close>

definition txnDenied :: "('t, 's, 'c, 'g) exec \<Rightarrow> ('t, 'c) Transition \<Rightarrow> Contract \<Rightarrow> bool" where
  "txnDenied P t contract =
     (case tn_txnAllowList t of
        Some l \<Rightarrow> c_Caller contract \<noteq> SystemCaller \<and>
                  \<not> Role_Enabled (GetRole (transRef P) l t (c_Caller contract))
      | None \<Rightarrow>
          (case tn_txnBlockList t of
             Some l \<Rightarrow> c_Caller contract \<noteq> SystemCaller \<and>
                       GetRole (transRef P) l t (c_Caller contract) = EnabledRole
           | None \<Rightarrow> False))"

definition deploymentDenied :: "('t, 's, 'c, 'g) exec \<Rightarrow> ('t, 'c) Transition \<Rightarrow> Contract \<Rightarrow> bool" where
  "deploymentDenied P t c =
     (case tn_deploymentAllowList t of
        Some l \<Rightarrow> \<not> Role_Enabled (GetRole (transRef P) l t (c_Caller c))
      | None \<Rightarrow>
          (case tn_deploymentBlockList t of
             Some l \<Rightarrow> GetRole (transRef P) l t (c_Caller c) = EnabledRole
           | None \<Rightarrow> False))"

text \<open>\<^verbatim>\<open>EVM.CanRun\<close> is always true, so the last result of \<^verbatim>\<open>run\<close> is unreachable.\<close>

definition trans_run ::
  "('t, 's, 'c, 'g) exec \<Rightarrow>
   (('t, 'c) Transition \<Rightarrow> Contract \<Rightarrow> (ExecutionResult \<times> ('t, 'c) Transition) option) \<Rightarrow>
   ('t, 'c) Transition \<Rightarrow> Contract \<Rightarrow> (ExecutionResult \<times> ('t, 'c) Transition) option" where
  "trans_run P cx t contract =
     (case handleAllowBlockListsUpdate P t contract of
        Some r \<Rightarrow> Some r
      | None \<Rightarrow>
          if txnDenied P t contract then Some (ErrResult 0 ErrNotAuth, t)
          else if Precompiled_CanRun (tn_precompiles t) contract (tn_config t)
          then Precompiled_Run (ex_C P) (transHost P cx) (tn_precompiles t) contract t (tn_config t)
          else EVM_Run (transEnv P cx) (zeroState contract t (tn_config t)) contract t (tn_config t))"

text \<open>When the revert fails, the gas of the result is the gas of the contract; a precompile has by then
  lowered it. No revert in a frame fails, since its snapshot was taken by that frame.\<close>

definition applyCall ::
  "('t, 's, 'c, 'g) exec \<Rightarrow>
   (('t, 'c) Transition \<Rightarrow> Contract \<Rightarrow> (ExecutionResult \<times> ('t, 'c) Transition) option) \<Rightarrow>
   ('t, 'c) Transition \<Rightarrow> Contract \<Rightarrow> CallType \<Rightarrow> (ExecutionResult \<times> ('t, 'c) Transition) option" where
  "applyCall P cx t c callType =
     (if c_Depth c > 1024 + 1 then Some (ErrResult (c_Gas c) ErrDepth, t)
      else
        let (snapshot, t) = trans_Snapshot t;
            t = set_state (\<lambda>s. TouchAccount (ex_L P) s (c_Address c)) t;
            (err, t) = (if callType = Call
                        then trans_Transfer P t (c_Caller c) (c_Address c) (c_Value c) else (None, t))
        in case err of
             Some err \<Rightarrow> Some (ErrResult (c_Gas c) err, t)
           | None \<Rightarrow> do {
               (result, t) \<leftarrow> trans_run P cx t c;
               if Failed result then do {
                 (err, t) \<leftarrow> trans_RevertToSnapshot t snapshot;
                 Some (case err of Some err \<Rightarrow> (ErrResult (c_Gas c) err, t) | None \<Rightarrow> (result, t))
               }
               else Some (result, t)
             })"

definition hasCodeOrNonce :: "('t, 's, 'c, 'g) exec \<Rightarrow> ('t, 'c) Transition \<Rightarrow> Address \<Rightarrow> bool" where
  "hasCodeOrNonce P t addr =
     (if Txn_GetNonce (ex_L P) (tn_state t) addr \<noteq> 0 then True
      else
        let codeHash = Txn_GetCodeHash (ex_L P) (tn_state t) addr;
            storageRoot = GetStorageRoot (ex_L P) (tn_state t) addr
        in (codeHash \<noteq> EmptyCodeHash \<and> codeHash \<noteq> ZeroHash) \<or>
           (storageRoot \<noteq> EmptyRootHash \<and> storageRoot \<noteq> ZeroHash))"

text \<open>A revert whose result replaces \<open>r\<close> when it fails.\<close>

definition revertOr ::
  "('t, 'c) Transition \<Rightarrow> nat \<Rightarrow> ExecutionResult \<Rightarrow> (ExecutionResult \<times> ('t, 'c) Transition) option" where
  "revertOr t snapshot r = do {
     (err, t) \<leftarrow> trans_RevertToSnapshot t snapshot;
     Some (case err of Some err \<Rightarrow> ErrResult 0 err | None \<Rightarrow> r, t)
   }"

text \<open>What \<^verbatim>\<open>applyCreate\<close> does with the result of the initialisation code.\<close>

definition finishCreate ::
  "('t, 's, 'c, 'g) exec \<Rightarrow> Contract \<Rightarrow> nat \<Rightarrow> ExecutionResult \<Rightarrow> ('t, 'c) Transition \<Rightarrow>
   (ExecutionResult \<times> ('t, 'c) Transition) option" where
  "finishCreate P c snapshot result t =
     (if Failed result then revertOr t snapshot result
      else if EIP158 (tn_config t) \<and> length (r_ReturnValue result) > SpuriousDragonMaxCodeSize
      then revertOr t snapshot (ErrResult 0 ErrMaxCodeSizeExceeded)
      else if r_Err result = None \<and> length (r_ReturnValue result) \<ge> 1 \<and> r_ReturnValue result ! 0 = 0xef \<and>
              London (tn_config t)
      then revertOr t snapshot (ErrResult 0 ErrInvalidCode)
      else
        let gasCost = of_nat (length (r_ReturnValue result)) * 200 in
        if r_GasLeft result < gasCost then
          let result = result\<lparr>r_Err := Some ErrCodeStoreOutOfGas, r_ReturnValue := []\<rparr> in
          if Homestead (tn_config t) then revertOr t snapshot (result\<lparr>r_GasLeft := 0\<rparr>)
          else Some (result, t)
        else
          Some (result\<lparr>r_GasLeft := r_GasLeft result - gasCost, r_Address := c_Address c\<rparr>,
                set_state (\<lambda>s. SetCode (ex_L P) s (c_Address c) (r_ReturnValue result)) t))"

definition applyCreate ::
  "('t, 's, 'c, 'g) exec \<Rightarrow>
   (('t, 'c) Transition \<Rightarrow> Contract \<Rightarrow> (ExecutionResult \<times> ('t, 'c) Transition) option) \<Rightarrow>
   ('t, 'c) Transition \<Rightarrow> Contract \<Rightarrow> (ExecutionResult \<times> ('t, 'c) Transition) option" where
  "applyCreate P cx t c =
     (let gasLimit = c_Gas c in
      if c_Depth c > 1024 + 1 then Some (ErrResult gasLimit ErrDepth, t)
      else
        let (err, t) = on_state (\<lambda>s. IncrNonce (ex_L P) s (c_Caller c)) t in
        case err of
          Some err \<Rightarrow> Some (ErrResult gasLimit err, t)
        | None \<Rightarrow>
            let t = (if Berlin (tn_config t) then trans_AddAddress t (c_Address c) else t) in
            if hasCodeOrNonce P t (c_Address c) then Some (ErrResult 0 ErrContractAddressCollision, t)
            else
              let (snapshot, t) = trans_Snapshot t;
                  (err, t) =
                    (if EIP158 (tn_config t)
                     then on_state (\<lambda>s. IncrNonce (ex_L P) (CreateAccount (ex_L P) s (c_Address c)) (c_Address c)) t
                     else (None, t))
              in case err of
                Some err \<Rightarrow> Some (ErrResult 0 err, t)
              | None \<Rightarrow>
                  (case trans_Transfer P t (c_Caller c) (c_Address c) (c_Value c) of
                     (Some err, t) \<Rightarrow> Some (ErrResult gasLimit err, t)
                   | (None, t) \<Rightarrow>
                       if deploymentDenied P t c then Some (ErrResult 0 ErrNotAuth, t)
                       else Option.bind (trans_run P cx t c)
                              (\<lambda>(result, t). finishCreate P c snapshot result t)))"

fun trans_Callx ::
  "('t, 's, 'c, 'g) exec \<Rightarrow> nat \<Rightarrow> ('t, 'c) Transition \<Rightarrow> Contract \<Rightarrow>
   (ExecutionResult \<times> ('t, 'c) Transition) option" where
  "trans_Callx P 0 t c = None"
| "trans_Callx P (Suc n) t c =
     (if c_Type c = Create then applyCreate P (trans_Callx P n) t c
      else applyCall P (trans_Callx P n) t c (c_Type c))"

text \<open>A message has depth one, and a frame at depth 1026 returns at once.\<close>

definition callFuel :: nat where "callFuel = 1025"

definition trans_Create2 ::
  "('t, 's, 'c, 'g) exec \<Rightarrow> ('t, 'c) Transition \<Rightarrow> Address \<Rightarrow> bytes \<Rightarrow> int \<Rightarrow> u64 \<Rightarrow>
   (ExecutionResult \<times> ('t, 'c) Transition) option" where
  "trans_Create2 P t caller code value gas =
     (let cx = trans_Callx P callFuel;
          address = CreateAddress (transEnv P cx) caller (Txn_GetNonce (ex_L P) (tn_state t) caller);
          contract = NewContractCreation 1 caller caller address (Some value) gas code
      in applyCreate P cx t contract)"

definition trans_Call2 ::
  "('t, 's, 'c, 'g) exec \<Rightarrow> ('t, 'c) Transition \<Rightarrow> Address \<Rightarrow> Address \<Rightarrow> bytes \<Rightarrow> int \<Rightarrow> u64 \<Rightarrow>
   (ExecutionResult \<times> ('t, 'c) Transition) option" where
  "trans_Call2 P t caller to input value gas =
     (let cx = trans_Callx P callFuel;
          (code, t) = on_state (\<lambda>s. Txn_GetCode (ex_L P) s to) t;
          c = NewContractCall 1 caller caller to (Some value) gas code input
      in applyCall P cx t c Call)"

section \<open>Messages\<close>

definition checkSenderAccount :: "('t, 's, 'c, 'g) exec \<Rightarrow> ('t, 'c) Transition \<Rightarrow> Transaction \<Rightarrow> bool" where
  "checkSenderAccount P t msg =
     (if \<not> EIP3607 (tn_config t) then True
      else
        let codeHash = Txn_GetCodeHash (ex_L P) (tn_state t) (Tx_From msg)
        in codeHash = ZeroHash \<or> codeHash = EmptyCodeHash)"

definition subGasLimitPrice ::
  "('t, 's, 'c, 'g) exec \<Rightarrow> ('t, 'c) Transition \<Rightarrow> Transaction \<Rightarrow> (TxError option \<times> ('t, 'c) Transition) option" where
  "subGasLimitPrice P t msg = do {
     let upfrontGasCost = uint (Tx_Gas msg) * GetGasPrice msg (big_Uint64 (ctx_BaseFee (tn_ctx t)));
     balanceCheck \<leftarrow> (if Tx_Type msg = DynamicFeeTxType then do {
                         v \<leftarrow> Tx_Value msg;
                         cap \<leftarrow> Tx_GasFeeCap msg;
                         Some (uint (Tx_Gas msg) * cap + v)
                       }
                       else Some upfrontGasCost);
     if Txn_GetBalance (ex_L P) (tn_state t) (Tx_From msg) < balanceCheck
     then Some (Some ErrInsufficientFunds, t)
     else
       Some (case on_state (\<lambda>s. SubBalance (ex_L P) s (Tx_From msg) upfrontGasCost) t of
               (Some err, t) \<Rightarrow>
                 (Some (if err = ErrNotEnoughFunds then ErrNotEnoughFundsForGas else RuntimeError err), t)
             | (None, t) \<Rightarrow> (None, t))
   }"

definition nonceCheck :: "('t, 's, 'c, 'g) exec \<Rightarrow> ('t, 'c) Transition \<Rightarrow> Transaction \<Rightarrow> TxError option" where
  "nonceCheck P t msg =
     (let currentNonce = Txn_GetNonce (ex_L P) (tn_state t) (Tx_From msg); msgNonce = Tx_Nonce msg in
      if currentNonce < msgNonce then Some ErrNonceTooHigh
      else if currentNonce > msgNonce then Some ErrNonceTooLow
      else if currentNonce + 1 < currentNonce then Some ErrNonceMax
      else None)"

text \<open>The comparison of the fee cap with the base fee, for every kind of transaction.\<close>

definition checkFeeCap :: "('t, 'c) Transition \<Rightarrow> Transaction \<Rightarrow> TxError option option" where
  "checkFeeCap t msg = do {
     gasFeeCap \<leftarrow> GetGasFeeCap msg;
     Some (if gasFeeCap < ctx_BaseFee (tn_ctx t) then Some ErrFeeCapTooLow else None)
   }"

definition checkDynamicFees :: "('t, 'c) Transition \<Rightarrow> Transaction \<Rightarrow> TxError option option" where
  "checkDynamicFees t msg =
     (if \<not> London (tn_config t) then Some None
      else if Tx_Type msg = DynamicFeeTxType then do {
        cap \<leftarrow> Tx_GasFeeCap msg;
        tip \<leftarrow> Tx_GasTipCap msg;
        if big_BitLen cap = 0 \<and> big_BitLen tip = 0 then Some None
        else if big_BitLen cap > 256 then Some (Some ErrFeeCapVeryHigh)
        else if big_BitLen tip > 256 then Some (Some ErrTipVeryHigh)
        else if cap < tip then Some (Some ErrTipAboveFeeCap)
        else checkFeeCap t msg
      }
      else checkFeeCap t msg)"

fun countZeros :: "u64 \<Rightarrow> bytes \<Rightarrow> u64" where
  "countZeros zeros [] = zeros"
| "countZeros zeros (b # payload) = countZeros (if b = 0 then zeros + 1 else zeros) payload"

definition TransactionGasCost :: "Transaction \<Rightarrow> bool \<Rightarrow> bool \<Rightarrow> TxError + u64" where
  "TransactionGasCost msg isHomestead isIstanbul =
     (let cost = (if IsContractCreation msg \<and> isHomestead then TxGasContractCreation else TxGas);
          payload = Tx_Input msg;
          r = (if length payload > 0 then
                 let zeros = countZeros 0 payload;
                     nonZeros = of_nat (length payload) - zeros;
                     nonZeroCost = (if isIstanbul then 16 else 68)
                 in if (- 1 - cost) div nonZeroCost < nonZeros then Inl ErrIntrinsicGasOverflow
                    else
                      let cost = cost + nonZeros * nonZeroCost in
                      if (- 1 - cost) div 4 < zeros then Inl ErrIntrinsicGasOverflow
                      else Inr (cost + zeros * 4)
               else Inr cost)
      in case r of
           Inl e \<Rightarrow> Inl e
         | Inr cost \<Rightarrow>
             let cost = cost + of_nat (length (Tx_AccessList msg)) * TxAccessListAddressGas
             in Inr (cost + of_nat (StorageKeys (Tx_AccessList msg)) * TxAccessListStorageKeyGas))"

definition checkAndProcessTx ::
  "('t, 's, 'c, 'g) exec \<Rightarrow> Transaction \<Rightarrow> ('t, 'c) Transition \<Rightarrow>
   (ApplyError option \<times> ('t, 'c) Transition) option" where
  "checkAndProcessTx P msg t =
     (case nonceCheck P t msg of
        Some err \<Rightarrow> Some (Some (TransitionApplicationError err True), t)
      | None \<Rightarrow>
          if \<not> ctx_NonPayable (tn_ctx t) then do {
            err \<leftarrow> checkDynamicFees t msg;
            case err of
              Some err \<Rightarrow> Some (Some (TransitionApplicationError err True), t)
            | None \<Rightarrow> do {
                (err, t) \<leftarrow> subGasLimitPrice P t msg;
                Some (map_option (\<lambda>err. TransitionApplicationError err True) err, t)
              }
          }
          else Some (None, t))"

definition checkAndProcessStateTx :: "Transaction \<Rightarrow> ApplyError option option" where
  "checkAndProcessStateTx msg = do {
     gasPrice \<leftarrow> Tx_GasPrice msg;
     Some (if gasPrice \<noteq> 0 then Some (TransitionApplicationError StateTxGasPrice True)
           else if Tx_Gas msg \<noteq> StateTransactionGasLimit then Some (TransitionApplicationError StateTxGas True)
           else if Tx_From msg \<noteq> SystemCaller then Some (TransitionApplicationError StateTxSender True)
           else if Tx_To msg = None \<or> Tx_To msg = Some ZeroAddress
           then Some (TransitionApplicationError StateTxTo True)
           else None)
   }"

text \<open>The payments after the call: the sender's refund, the coinbase's fee and the burnt base fee.\<close>

definition payFees ::
  "('t, 's, 'c, 'g) exec \<Rightarrow> Transaction \<Rightarrow> int \<Rightarrow> ExecutionResult \<Rightarrow> ('t, 'c) Transition \<Rightarrow>
   ('t, 'c) Transition option" where
  "payFees P msg gasPrice result t = do {
     let remaining = uint (r_GasLeft result) * gasPrice;
     let t = set_state (\<lambda>s. AddBalance (ex_L P) s (Tx_From msg) remaining) t;
     effectiveTip \<leftarrow> (if London (tn_config t) then EffectiveGasTip msg (Some (ctx_BaseFee (tn_ctx t)))
                      else Some gasPrice);
     let coinbaseFee = uint (r_GasUsed result) * effectiveTip;
     let t = set_state (\<lambda>s. AddBalance (ex_L P) s (ctx_Coinbase (tn_ctx t)) coinbaseFee) t;
     let t = (if tn_isL1OriginatedToken t \<and> London (tn_config t) \<and> Tx_Type msg \<noteq> StateTxType then
                let burnAmount = uint (r_GasUsed result) * ctx_BaseFee (tn_ctx t)
                in set_state (\<lambda>s. AddBalance (ex_L P) s (ctx_BurnContract (tn_ctx t)) burnAmount) t
              else t);
     Some (addGasPool t (r_GasLeft result))
   }"

text \<open>The context and the access list of a message.\<close>

definition prepareMessage :: "Transaction \<Rightarrow> int \<Rightarrow> ('t, 'c) Transition \<Rightarrow> ('t, 'c) Transition" where
  "prepareMessage msg gasPrice t =
     (let t = t\<lparr>tn_ctx := (tn_ctx t)\<lparr>ctx_GasPrice := BytesToHash (big_Bytes gasPrice),
                                      ctx_Origin := Tx_From msg\<rparr>\<rparr>;
          initialAccessList =
            (if Berlin (tn_config t)
             then PrepareAccessList NewAccessList (Tx_From msg) (Tx_To msg) (pc_Addrs (tn_precompiles t))
                    (Tx_AccessList msg)
             else NewAccessList)
      in t\<lparr>tn_accessList := initialAccessList\<rparr>)"

definition runMessage ::
  "('t, 's, 'c, 'g) exec \<Rightarrow> Transaction \<Rightarrow> int \<Rightarrow> u64 \<Rightarrow> ('t, 'c) Transition \<Rightarrow>
   ((ApplyError + ExecutionResult) \<times> ('t, 'c) Transition) option" where
  "runMessage P msg value gasLeft t =
     (if IsContractCreation msg
      then map_option (\<lambda>(r, t). (Inr r, t)) (trans_Create2 P t (Tx_From msg) (Tx_Input msg) value gasLeft)
      else
        case on_state (\<lambda>s. IncrNonce (ex_L P) s (Tx_From msg)) t of
          (Some err, t) \<Rightarrow> Some (Inl (PlainError (RuntimeError err)), t)
        | (None, t) \<Rightarrow> do {
            to \<leftarrow> Tx_To msg;
            map_option (\<lambda>(r, t). (Inr r, t)) (trans_Call2 P t (Tx_From msg) to (Tx_Input msg) value gasLeft)
          })"

text \<open>The message after its checks.\<close>

definition executeMessage ::
  "('t, 's, 'c, 'g) exec \<Rightarrow> Transaction \<Rightarrow> u64 \<Rightarrow> ('t, 'c) Transition \<Rightarrow>
   ((ApplyError + ExecutionResult) \<times> ('t, 'c) Transition) option" where
  "executeMessage P msg gasLeft t = do {
     let gasPrice = GetGasPrice msg (big_Uint64 (ctx_BaseFee (tn_ctx t)));
     let value = (case Tx_Value msg of None \<Rightarrow> 0 | Some v \<Rightarrow> v);
     (r, t) \<leftarrow> runMessage P msg value gasLeft (prepareMessage msg gasPrice t);
     case r of
       Inl e \<Rightarrow> Some (Inl e, t)
     | Inr result \<Rightarrow> do {
         let result = result\<lparr>r_AccessList := Some (tn_accessList t)\<rparr>;
         let refundQuotient = (if London (tn_config t) then LondonRefundQuotient else LegacyRefundQuotient);
         let refund = Txn_GetRefund (tn_state t);
         let result = UpdateGasUsed result (Tx_Gas msg) refund refundQuotient;
         t \<leftarrow> payFees P msg gasPrice result t;
         Some (Inr result, t)
       }
   }"

definition trans_apply ::
  "('t, 's, 'c, 'g) exec \<Rightarrow> ('t, 'c) Transition \<Rightarrow> Transaction \<Rightarrow>
   ((ApplyError + ExecutionResult) \<times> ('t, 'c) Transition) option" where
  "trans_apply P t msg = do {
     (err, t) \<leftarrow> (if Tx_Type msg = StateTxType
                  then map_option (\<lambda>e. (e, t)) (checkAndProcessStateTx msg)
                  else checkAndProcessTx P msg t);
     case err of
       Some e \<Rightarrow> Some (Inl e, t)
     | None \<Rightarrow>
         (case subGasPool t (Tx_Gas msg) of
            (Some e, t) \<Rightarrow> Some (Inl (GasLimitReachedTransitionApplicationError e), t)
          | (None, t) \<Rightarrow>
              (case TransactionGasCost msg (Homestead (tn_config t)) (Istanbul (tn_config t)) of
                 Inl e \<Rightarrow> Some (Inl (TransitionApplicationError e False), t)
               | Inr intrinsicGasCost \<Rightarrow>
                   let gasLeft = Tx_Gas msg - intrinsicGasCost in
                   if gasLeft > Tx_Gas msg
                   then Some (Inl (TransitionApplicationError ErrNotEnoughIntrinsicGas False), t)
                   else executeMessage P msg gasLeft t))
   }"

definition trans_Apply ::
  "('t, 's, 'c, 'g) exec \<Rightarrow> ('t, 'c) Transition \<Rightarrow> Transaction \<Rightarrow>
   ((ApplyError + ExecutionResult) \<times> ('t, 'c) Transition) option" where
  "trans_Apply P t msg =
     (if \<not> checkSenderAccount P t msg then Some (Inl (PlainError ErrSenderNoEOA), t)
      else do {
        let (s, t) = trans_Snapshot t;
        (result, t) \<leftarrow> trans_apply P t msg;
        (rerr, t) \<leftarrow> (case result of Inl _ \<Rightarrow> trans_RevertToSnapshot t s | Inr _ \<Rightarrow> Some (None, t));
        case rerr of
          Some e \<Rightarrow> Some (Inl (PlainError (RuntimeError e)), t)
        | None \<Rightarrow> Some (result, case ex_PostHook P of None \<Rightarrow> t | Some f \<Rightarrow> f t)
      })"

section \<open>Transactions and blocks\<close>

abbreviation (input) emptyFrom :: Address where "emptyFrom \<equiv> ZeroAddress"

definition makeReceipt ::
  "('t, 's, 'c, 'g) exec \<Rightarrow> Transaction \<Rightarrow> ExecutionResult \<Rightarrow> Log list \<Rightarrow> ('t, 'c) Transition \<Rightarrow> Receipt" where
  "makeReceipt P txn result logs t =
     (let receipt = \<lparr>rc_Root = ZeroHash, rc_CumulativeGasUsed = tn_totalGas t,
            rc_LogsBloom = replicate BloomByteLength 0, rc_Logs = [], rc_Status = None,
            rc_GasUsed = r_GasUsed result, rc_ContractAddress = None, rc_TxHash = Tx_Hash txn,
            rc_TransactionType = Tx_Type txn\<rparr>;
          receipt = SetStatus receipt (if Failed result then ReceiptFailed else ReceiptSuccess);
          receipt = (if Tx_To txn = None
                     then receipt\<lparr>rc_ContractAddress := Some (CreateAddress (transEnv P (trans_Callx P callFuel))
                            (Tx_From txn) (Tx_Nonce txn))\<rparr>
                     else receipt);
          receipt = receipt\<lparr>rc_Logs := logs\<rparr>
      in receipt\<lparr>rc_LogsBloom := CreateBloom (cr_keccak (ex_C P)) [receipt]\<rparr>)"

definition trans_Write ::
  "('t, 's, 'c, 'g) exec \<Rightarrow> ('t, 'c) Transition \<Rightarrow> Transaction \<Rightarrow>
   (ApplyError option \<times> ('t, 'c) Transition) option" where
  "trans_Write P t txn =
     (case (if Tx_From txn = emptyFrom \<and> Tx_Type txn \<noteq> StateTxType
            then map_option (Tx_SetFrom txn) (ex_Sender P (tn_config t) (ctx_ChainID (tn_ctx t)) txn)
            else Some txn) of
        None \<Rightarrow> Some (Some (TransitionApplicationError SignerError False), t)
      | Some txn \<Rightarrow> do {
          let msg = Tx_Copy txn;
          (result, t) \<leftarrow> trans_Apply P t msg;
          case result of
            Inl e \<Rightarrow> Some (Some e, t)
          | Inr result \<Rightarrow>
              let t = t\<lparr>tn_totalGas := tn_totalGas t + r_GasUsed result\<rparr>;
                  (logs, t) = on_state Txn_Logs t
              in case CleanDeleteObjects (ex_L P) (tn_state t) True of
                   Inl k \<Rightarrow> Some (Some (PlainError (CleanError k)), t)
                 | Inr s \<Rightarrow>
                     let t = t\<lparr>tn_state := s\<rparr>
                     in Some (None, t\<lparr>tn_receipts := tn_receipts t @ [makeReceipt P txn result logs t]\<rparr>)
        })"

definition trans_Commit ::
  "('t, 's, 'c, 'g) exec \<Rightarrow> ('t, 'c) Transition \<Rightarrow> TxError + readSnapshot \<times> Hash" where
  "trans_Commit P t =
     (case Txn_Commit (ex_L P) (tn_state t) (EIP155 (tn_config t)) of
        Inl k \<Rightarrow> Inl (CleanError k)
      | Inr (objs, _) \<Rightarrow>
          (case ex_CommitSnapshot P (tn_snap t) objs of
             None \<Rightarrow> Inl SnapshotError
           | Some (s2, root) \<Rightarrow> Inr (s2, BytesToHash root)))"

definition SetNonPayable :: "('t, 'c) Transition \<Rightarrow> bool \<Rightarrow> ('t, 'c) Transition" where
  "SetNonPayable t nonPayable = t\<lparr>tn_ctx := (tn_ctx t)\<lparr>ctx_NonPayable := nonPayable\<rparr>\<rparr>"

record Params =
  pr_Forks :: Forks
  pr_ChainID :: u64
  pr_BurnContract :: "(u64 \<times> Address) list"
  pr_ContractDeployerAllowList :: bool
  pr_ContractDeployerBlockList :: bool
  pr_TransactionsAllowList :: bool
  pr_TransactionsBlockList :: bool
  pr_BridgeAllowList :: bool
  pr_BridgeBlockList :: bool
  pr_IsL1OriginatedToken :: bool

definition mkList :: "bool \<Rightarrow> Address \<Rightarrow> AddressList option" where
  "mkList b a = (if b then Some \<lparr>al_addr = a\<rparr> else None)"

definition BeginTxn ::
  "('t, 's, 'c, 'g) exec \<Rightarrow> Params \<Rightarrow> Hash \<Rightarrow> Header \<Rightarrow> Address \<Rightarrow> TxError + ('t, 'c) Transition" where
  "BeginTxn P cfg parentRoot header coinbaseReceiver =
     (let forkConfig = Forks_At (pr_Forks cfg) (hdr_Number header) in
      case ex_NewSnapshot P parentRoot of
        None \<Rightarrow> Inl SnapshotError
      | Some snap \<Rightarrow>
          (case (if London forkConfig then CalculateBurnContract (pr_BurnContract cfg) (hdr_Number header)
                 else Inr ZeroAddress) of
             Inl _ \<Rightarrow> Inl BurnContractMissing
           | Inr burnContract \<Rightarrow>
               let txCtx = \<lparr>ctx_GasPrice = ZeroHash, ctx_Origin = ZeroAddress, ctx_Coinbase = coinbaseReceiver,
                     ctx_Number = hdr_Number header, ctx_Timestamp = hdr_Timestamp header,
                     ctx_GasLimit = hdr_GasLimit header, ctx_ChainID = pr_ChainID cfg,
                     ctx_Difficulty = BytesToHash (big_Bytes (uint (hdr_Difficulty header))),
                     ctx_NonPayable = False, ctx_BaseFee = uint (hdr_BaseFee header),
                     ctx_BurnContract = burnContract\<rparr>;
                   t = NewTransition (ex_C P) forkConfig snap (newTxn (ex_L P) snap) txCtx
               in Inr (t\<lparr>
                    tn_getHash := ex_GetHash P header, tn_gasPool := ctx_GasLimit txCtx,
                    tn_isL1OriginatedToken := pr_IsL1OriginatedToken cfg,
                    tn_deploymentAllowList := mkList (pr_ContractDeployerAllowList cfg) AllowListContractsAddr,
                    tn_deploymentBlockList := mkList (pr_ContractDeployerBlockList cfg) BlockListContractsAddr,
                    tn_txnAllowList := mkList (pr_TransactionsAllowList cfg) AllowListTransactionsAddr,
                    tn_txnBlockList := mkList (pr_TransactionsBlockList cfg) BlockListTransactionsAddr,
                    tn_bridgeAllowList := mkList (pr_BridgeAllowList cfg) AllowListBridgeAddr,
                    tn_bridgeBlockList := mkList (pr_BridgeBlockList cfg) BlockListBridgeAddr\<rparr>)))"

fun processTxs ::
  "('t, 's, 'c, 'g) exec \<Rightarrow> u64 \<Rightarrow> Transaction list \<Rightarrow> ('t, 'c) Transition \<Rightarrow>
   (ApplyError + ('t, 'c) Transition) option" where
  "processTxs P gasLimit [] txn = Some (Inr txn)"
| "processTxs P gasLimit (t # ts) txn =
     (if Tx_Gas t > gasLimit then Some (Inl (PlainError (RuntimeError ErrOutOfGas)))
      else
        let t = (if Tx_From t = emptyFrom \<and> Tx_Type t \<noteq> StateTxType then
                   (case ex_GetPendingTx P (Tx_Hash t) of
                      Some poolTx \<Rightarrow> Tx_SetFrom t (Tx_From poolTx)
                    | None \<Rightarrow> t)
                 else t)
        in Option.bind (trans_Write P txn t)
             (\<lambda>(err, txn). case err of Some e \<Rightarrow> Some (Inl e) | None \<Rightarrow> processTxs P gasLimit ts txn))"

definition ProcessBlock ::
  "('t, 's, 'c, 'g) exec \<Rightarrow> Params \<Rightarrow> Hash \<Rightarrow> Block \<Rightarrow> Address \<Rightarrow>
   (ApplyError + ('t, 'c) Transition) option" where
  "ProcessBlock P cfg parentRoot block blockCreator =
     (case BeginTxn P cfg parentRoot (bk_Header block) blockCreator of
        Inl e \<Rightarrow> Some (Inl (PlainError e))
      | Inr txn \<Rightarrow> processTxs P (hdr_GasLimit (bk_Header block)) (bk_Transactions block) txn)"

section \<open>Genesis and overrides\<close>

definition writeGenesisAccount ::
  "('t, 's, 'c) statelib \<Rightarrow> Address \<times> GenesisAccount \<times> (Hash \<times> Hash) list \<Rightarrow> ('t, 'c) Txn \<Rightarrow> ('t, 'c) Txn" where
  "writeGenesisAccount L = (\<lambda>(addr, account, storage) txn.
     let txn = (case ga_Balance account of None \<Rightarrow> txn | Some b \<Rightarrow> AddBalance L txn addr b);
         txn = (if ga_Nonce account \<noteq> 0 then SetNonce L txn addr (ga_Nonce account) else txn);
         txn = (if length (ga_Code account) \<noteq> 0 then SetCode L txn addr (ga_Code account) else txn)
     in fold (\<lambda>(k, v) txn. SetState L txn addr k v) storage txn)"

text \<open>The accounts come in the order in which the range loop visits the map. The context of the genesis
  has no base fee, a nil pointer in the code; the hook is the caller's and is given the value zero.\<close>

definition WriteGenesis ::
  "('t, 's, 'c, 'g) exec \<Rightarrow> Params \<Rightarrow> (('t, 'c) Transition \<Rightarrow> ('t, 'c) Transition option) option \<Rightarrow>
   (Address \<times> GenesisAccount \<times> (Hash \<times> Hash) list) list \<Rightarrow> Hash \<Rightarrow> TxError + Hash" where
  "WriteGenesis P cfg hook alloc initialStateRoot =
     (case ex_NewSnapshot P initialStateRoot of
        None \<Rightarrow> Inl SnapshotError
      | Some snap \<Rightarrow>
          let txn = newTxn (ex_L P) snap;
              config = Forks_At (pr_Forks cfg) 0;
              env = \<lparr>ctx_GasPrice = ZeroHash, ctx_Origin = ZeroAddress, ctx_Coinbase = ZeroAddress,
                     ctx_Number = 0, ctx_Timestamp = 0, ctx_GasLimit = 0, ctx_ChainID = pr_ChainID cfg,
                     ctx_Difficulty = ZeroHash, ctx_NonPayable = False, ctx_BaseFee = 0,
                     ctx_BurnContract = ZeroAddress\<rparr>;
              transition = NewTransition (ex_C P) config snap
                             (fold (writeGenesisAccount (ex_L P)) alloc txn) env
          in case (case hook of None \<Rightarrow> Some transition | Some f \<Rightarrow> f transition) of
               None \<Rightarrow> Inl GenesisHookError
             | Some t \<Rightarrow>
                 (case Txn_Commit (ex_L P) (tn_state t) False of
                    Inl k \<Rightarrow> Inl (CleanError k)
                  | Inr (objs, _) \<Rightarrow>
                      (case ex_CommitSnapshot P snap objs of
                         None \<Rightarrow> Inl SnapshotError
                       | Some (_, root) \<Rightarrow> Inr (BytesToHash root))))"

record OverrideAccount =
  oa_Nonce :: "u64 option"
  oa_Code :: "bytes option"
  oa_Balance :: "int option"
  oa_State :: "(Hash \<times> Hash) list option"
  oa_StateDiff :: "(Hash \<times> Hash) list option"

fun WithStateOverride ::
  "('t, 's, 'c, 'g) exec \<Rightarrow> (Address \<times> OverrideAccount) list \<Rightarrow> ('t, 'c) Transition \<Rightarrow>
   bool \<times> ('t, 'c) Transition" where
  "WithStateOverride P [] t = (True, t)"
| "WithStateOverride P ((addr, ov) # rest) t =
     (if oa_State ov \<noteq> None \<and> oa_StateDiff ov \<noteq> None then (False, t)
      else
        let L = ex_L P;
            t = (case oa_Nonce ov of None \<Rightarrow> t | Some n \<Rightarrow> set_state (\<lambda>s. SetNonce L s addr n) t);
            t = (case oa_Balance ov of None \<Rightarrow> t | Some b \<Rightarrow> set_state (\<lambda>s. SetBalance L s addr b) t);
            t = (case oa_Code ov of None \<Rightarrow> t | Some c \<Rightarrow> set_state (\<lambda>s. SetCode L s addr c) t);
            t = (case oa_State ov of None \<Rightarrow> t | Some st \<Rightarrow> set_state (\<lambda>s. SetFullStorage L s addr st) t);
            t = (case oa_StateDiff ov of None \<Rightarrow> t
                 | Some st \<Rightarrow> set_state (fold (\<lambda>(k, v) s. SetState L s addr k v) st) t)
        in WithStateOverride P rest t)"

end
