(* ===== verification/Evm_Dispatch.thy ===== *)
theory Evm_Dispatch
  imports Evm_Run
begin

text \<open>The dispatch table that the \<^verbatim>\<open>init\<close> function of \<^verbatim>\<open>evm.go\<close> builds: no opcode is registered
  twice, so the initialisation does not panic, and every opcode has the handler, the stack
  requirement and the base cost of its one \<^verbatim>\<open>register\<close> call.\<close>

lemma registerAll_Some:
  assumes "distinct (map fst xs)" and "\<And>op. op \<in> fst ` set xs \<Longrightarrow> t op = None"
  shows "registerAll xs t = Some (t ++ map_of xs)"
  using assms
proof (induction xs arbitrary: t)
  case (Cons x xs)
  obtain op h where x: "x = (op, h)" by fastforce
  have t: "t op = None" and d: "op \<notin> fst ` set xs" using Cons.prems x by auto
  have "(t(op \<mapsto> h)) k = None" if "k \<in> fst ` set xs" for k
    using Cons.prems(2) [of k] that d by auto
  then have "registerAll xs (t(op \<mapsto> h)) = Some (t(op \<mapsto> h) ++ map_of xs)"
    using Cons.prems(1) by (intro Cons.IH) simp_all
  also have "t(op \<mapsto> h) ++ map_of xs = t ++ map_of (x # xs)"
    using d [folded map_of_eq_None_iff] by (auto simp: x map_add_def fun_eq_iff split: option.split)
  finally have "registerAll xs (t(op \<mapsto> h)) = Some (t ++ map_of (x # xs))" .
  then show ?case unfolding x by (simp add: register_def t del: map_of.simps)
qed simp

lemma registerRange_loop_Some:
  assumes "\<And>op. i \<le> op \<Longrightarrow> op \<le> to \<Longrightarrow> t op = None"
  shows "registerRange_loop i to c f g t =
    Some (\<lambda>op. if i \<le> op \<and> op \<le> to then Some (mkHandler (f (c + (op - i))) 0 g) else t op)"
  using assms
proof (induction i to c f g t rule: registerRange_loop.induct)
  case (1 i to c f g t)
  show ?case
  proof (cases "i \<le> to")
    case False
    then show ?thesis by (subst registerRange_loop.simps) (auto simp: fun_eq_iff)
  next
    case True
    let ?t = "t(i \<mapsto> mkHandler (f c) 0 g)"
    have r: "register i (mkHandler (f c) 0 g) t = Some ?t" using 1(2) True by (simp add: register_def)
    have "registerRange_loop (i + 1) to (c + 1) f g ?t =
      Some (\<lambda>op. if i + 1 \<le> op \<and> op \<le> to then Some (mkHandler (f (c + 1 + (op - (i + 1)))) 0 g) else ?t op)"
      using True 1(2) by (intro "1.IH") (auto simp: r)
    also have "\<dots> = Some (\<lambda>op. if i \<le> op \<and> op \<le> to then Some (mkHandler (f (c + (op - i))) 0 g) else t op)"
      using True by (auto simp: fun_eq_iff Suc_le_eq Suc_diff_Suc)
    finally show ?thesis using True r by (subst registerRange_loop.simps) simp
  qed
qed

text \<open>The handlers of the four ranges of opcodes.\<close>

definition rangeHandler :: "OpCode \<Rightarrow> 'h handler option" where
  "rangeHandler op =
     (if op_PUSH1 \<le> op \<and> op \<le> op_PUSH32 then Some (mkHandler (opPush (op - op_PUSH1 + 1)) 0 3)
      else if op_DUP1 \<le> op \<and> op \<le> op_DUP16 then Some (mkHandler (opDup (op - op_DUP1 + 1)) 0 3)
      else if op_SWAP1 \<le> op \<and> op \<le> op_SWAP16 then Some (mkHandler (opSwap (op - op_SWAP1 + 1)) 0 3)
      else if op_LOG0 \<le> op \<and> op \<le> op_LOG4 then Some (mkHandler (opLog (op - op_LOG0 + 1)) 0 375)
      else None)"

lemma handlers_distinct: "distinct (map fst handlersA)" "distinct (map fst handlersB)"
  by (simp_all add: handlersA_def handlersB_def)

lemma handlersA_fst: "fst ` set handlersA = {0, 1, 2, 3, 4, 5, 6, 7, 10, 0x5f}"
  by (auto simp: handlersA_def)

lemma handlersA_range: "op \<in> fst ` set handlersA \<Longrightarrow> op \<le> 0x5f"
  by (auto simp: handlersA_fst)

lemma handlersB_range:
  "\<forall>op \<in> fst ` set handlersB. op < 0x5f \<or> 0xa4 < op"
  by (simp add: handlersB_def)

lemma handlers_disjoint: "fst ` set handlersA \<inter> fst ` set handlersB = {}"
  by (simp add: handlersA_fst handlersB_def)

lemma dispatch_init_Some:
  "dispatch_init = Some ((map_of handlersA ++ rangeHandler) ++ map_of handlersB)"
proof -
  have A: "map_of handlersA op = None" if "0x5f < op" for op
    using that handlersA_range [of op] by (force simp: map_of_eq_None_iff)
  have a: "registerAll handlersA Map.empty = Some (map_of handlersA)"
    using registerAll_Some [OF handlers_distinct(1), of Map.empty] by simp
  let ?r1 = "\<lambda>op. if op_PUSH1 \<le> op \<and> op \<le> op_PUSH32 then Some (mkHandler (opPush (1 + (op - op_PUSH1))) 0 3) else map_of handlersA op"
  let ?r2 = "\<lambda>op. if op_DUP1 \<le> op \<and> op \<le> op_DUP16 then Some (mkHandler (opDup (1 + (op - op_DUP1))) 0 3) else ?r1 op"
  let ?r3 = "\<lambda>op. if op_SWAP1 \<le> op \<and> op \<le> op_SWAP16 then Some (mkHandler (opSwap (1 + (op - op_SWAP1))) 0 3) else ?r2 op"
  let ?r4 = "\<lambda>op. if op_LOG0 \<le> op \<and> op \<le> op_LOG4 then Some (mkHandler (opLog (1 + (op - op_LOG0))) 0 375) else ?r3 op"
  have r1: "registerRange op_PUSH1 op_PUSH32 opPush 3 (map_of handlersA) = Some ?r1"
    unfolding registerRange_def by (rule registerRange_loop_Some) (simp add: A)
  have r2: "registerRange op_DUP1 op_DUP16 opDup 3 ?r1 = Some ?r2"
    unfolding registerRange_def by (rule registerRange_loop_Some) (simp add: A)
  have r3: "registerRange op_SWAP1 op_SWAP16 opSwap 3 ?r2 = Some ?r3"
    unfolding registerRange_def by (rule registerRange_loop_Some) (simp add: A)
  have r4: "registerRange op_LOG0 op_LOG4 opLog 375 ?r3 = Some ?r4"
    unfolding registerRange_def by (rule registerRange_loop_Some) (simp add: A)
  have eq: "?r4 = map_of handlersA ++ rangeHandler"
    by (rule ext) (simp add: rangeHandler_def map_add_def)
  have "?r4 op = None" if "op \<in> fst ` set handlersB" for op
  proof -
    have "map_of handlersA op = None"
      using that handlers_disjoint by (auto simp: map_of_eq_None_iff)
    then show ?thesis using handlersB_range that by auto
  qed
  from registerAll_Some [OF handlers_distinct(2) this]
  have "registerAll handlersB ?r4 = Some (?r4 ++ map_of handlersB)" .
  then show ?thesis
    unfolding dispatch_init_def by (simp only: a r1 r2 r3 r4 Option.bind.simps eq)
qed

lemma dispatchTable_eq: "dispatchTable = (map_of handlersA ++ rangeHandler) ++ map_of handlersB"
  by (simp add: dispatchTable_def dispatch_init_Some)

lemma dispatchTable_cases:
  assumes "dispatchTable op = Some h"
  obtains (A) "(op, h) \<in> set handlersA" | (B) "(op, h) \<in> set handlersB"
  | (range) "rangeHandler op = Some h"
  using assms by (auto simp: dispatchTable_eq map_add_Some_iff dest: map_of_SomeD)

end
