(* ===== verification/Evm_Bitmap.thy ===== *)
theory Evm_Bitmap
  imports Evm_State
begin

declare setCode_loop.simps [simp del]

text \<open>The jump-destination bitmap of \<^verbatim>\<open>bitmap.go\<close>. The reference notion is the set of positions at
  which an instruction starts: position 0, and the position after an instruction and its
  immediate data.\<close>

definition instrLen :: "byte \<Rightarrow> nat" where
  "instrLen b = (if isPushOp b then unat b - 0x60 + 2 else 1)"

inductive instr_start :: "bytes \<Rightarrow> nat \<Rightarrow> bool" for code where
  instr_first: "instr_start code 0"
| instr_next: "instr_start code i \<Longrightarrow> i < length code \<Longrightarrow> instr_start code (i + instrLen (code ! i))"

lemma instrLen_pos: "0 < instrLen b"
  by (simp add: instrLen_def)

text \<open>Positions reached from a given position.\<close>

inductive reaches :: "bytes \<Rightarrow> nat \<Rightarrow> nat \<Rightarrow> bool" for code where
  reaches_here: "reaches code i i"
| reaches_step: "i < length code \<Longrightarrow> reaches code (i + instrLen (code ! i)) j \<Longrightarrow> reaches code i j"

lemma reaches_ge: "reaches code i j \<Longrightarrow> i \<le> j"
  by (induction rule: reaches.induct) simp_all

lemma reaches_snoc:
  "reaches code i j \<Longrightarrow> j < length code \<Longrightarrow> reaches code i (j + instrLen (code ! j))"
  by (induction rule: reaches.induct) (auto intro: reaches.intros)

lemma instr_start_reaches: "instr_start code j \<longleftrightarrow> reaches code 0 j"
proof
  show "instr_start code j \<Longrightarrow> reaches code 0 j"
    by (induction rule: instr_start.induct) (auto intro: reaches.intros reaches_snoc)
  have "reaches code i j \<Longrightarrow> instr_start code i \<Longrightarrow> instr_start code j" for i
    by (induction rule: reaches.induct) (auto intro: instr_start.intros)
  then show "reaches code 0 j \<Longrightarrow> instr_start code j" by (auto intro: instr_start.intros)
qed

lemma reaches_step_iff:
  assumes "i < length code"
  shows "reaches code i j \<longleftrightarrow> j = i \<or> reaches code (i + instrLen (code ! i)) j"
  using assms by (auto intro: reaches.intros elim: reaches.cases)

lemma reaches_end: "length code \<le> i \<Longrightarrow> reaches code i j \<longleftrightarrow> j = i"
  by (auto intro: reaches.intros elim: reaches.cases)

lemma isPushOp_iff: "isPushOp b \<longleftrightarrow> 0x60 \<le> unat b \<and> unat b \<le> 0x7f"
proof -
  have "isPushOp b \<longleftrightarrow> unat (drop_bit 5 b) = 3"
    unfolding isPushOp_def word_unat_eq_iff by simp
  also have "\<dots> \<longleftrightarrow> unat b div 32 = 3" by (simp add: drop_bit_eq_div unat_div)
  also have "\<dots> \<longleftrightarrow> 0x60 \<le> unat b \<and> unat b \<le> 0x7f" by auto
  finally show ?thesis .
qed

lemma bitmap_set_isSet:
  assumes "bitmap_set buf i = Some buf'" and "j div 8 < length buf"
  shows "bitmap_isSet buf' j = Some (j = i \<or> bit (buf ! (j div 8)) (j mod 8))"
proof -
  have ij: "j = i \<longleftrightarrow> j div 8 = i div 8 \<and> j mod 8 = i mod 8"
    by (metis div_mult_mod_eq)
  have b: "buf' = buf[i div 8 := or (buf ! (i div 8)) (push_bit (i mod 8) 1)]" "i div 8 < length buf"
    using assms(1) by (auto simp: bitmap_set_def split: if_splits)
  show ?thesis
  proof (cases "j div 8 = i div 8")
    case True
    have "bit (push_bit (i mod 8) 1 :: byte) (j mod 8) \<longleftrightarrow> j mod 8 = i mod 8"
      by (auto simp: bit_exp_iff)
    with True b assms(2) ij show ?thesis by (auto simp: bitmap_isSet_def bit_or_iff)
  next
    case False
    with b assms(2) ij show ?thesis by (auto simp: bitmap_isSet_def)
  qed
qed

lemma setCode_loop_spec:
  assumes "length code \<le> 8 * length buf"
  shows "\<exists>b. setCode_loop code i buf = Some b \<and> length b = length buf \<and>
    (\<forall>j < length code. bitmap_isSet b j =
       Some (bit (buf ! (j div 8)) (j mod 8) \<or> reaches code i j \<and> unat (code ! j) = JUMPDEST))"
  using assms
proof (induction code i buf rule: setCode_loop.induct)
  case (1 code i buf)
  have len: "j div 8 < length buf" if "j < length code" for j using 1(4) that by linarith
  show ?case
  proof (cases "i < length code")
    case False
    then show ?thesis
      using len by (subst setCode_loop.simps) (auto simp: bitmap_isSet_def reaches_end)
  next
    case True
    have r: "reaches code i j \<longleftrightarrow> j = i \<or> reaches code (i + instrLen (code ! i)) j" for j
      using True by (rule reaches_step_iff)
    show ?thesis
    proof (cases "isPushOp (code ! i)")
      case push: True
      then have nj: "unat (code ! i) \<noteq> JUMPDEST" by (auto simp: isPushOp_iff)
      have s: "setCode_loop code i buf = setCode_loop code (i + instrLen (code ! i)) buf"
        using True push by (subst setCode_loop.simps) (simp add: Let_def instrLen_def)
      show ?thesis
        using "1.IH"(1) [OF True refl push] "1.prems" push nj
        unfolding s r by (auto simp: instrLen_def)
    next
      case np: False
      show ?thesis
      proof (cases "unat (code ! i) = JUMPDEST")
        case False
        have s: "setCode_loop code i buf = setCode_loop code (i + 1) buf"
          using True np False by (subst setCode_loop.simps) (simp add: Let_def)
        show ?thesis
          using "1.IH"(3) [OF True refl np False] "1.prems" np False
          unfolding s r by (auto simp: instrLen_def)
      next
        case jd: True
        obtain buf' where b': "bitmap_set buf i = Some buf'" "length buf' = length buf"
          using len [OF True] by (simp add: bitmap_set_def)
        have s: "setCode_loop code i buf = setCode_loop code (i + 1) buf'"
          using True np jd b' by (subst setCode_loop.simps) (simp add: Let_def)
        obtain b where b: "setCode_loop code (i + 1) buf' = Some b" "length b = length buf'"
          "\<And>j. j < length code \<Longrightarrow> bitmap_isSet b j =
             Some (bit (buf' ! (j div 8)) (j mod 8) \<or> reaches code (i + 1) j \<and> unat (code ! j) = JUMPDEST)"
          using "1.IH"(2) [OF True refl np jd b'(1)] "1.prems" b'(2) by auto
        have "bit (buf' ! (j div 8)) (j mod 8) \<longleftrightarrow> j = i \<or> bit (buf ! (j div 8)) (j mod 8)"
          if "j < length code" for j
          using bitmap_set_isSet [OF b'(1) len [OF that]] b'(2) len [OF that]
          by (simp add: bitmap_isSet_def)
        then show ?thesis using b b'(2) np jd unfolding s r by (auto simp: instrLen_def)
      qed
    qed
  qed
qed

lemma bitmap_size: "n \<le> 8 * (n div 8 + 1)" for n :: nat
  by presburger

lemma bitmap_setCode_total:
  "\<exists>b. bitmap_setCode buf code = Some b \<and> length b = length code div 8 + 1"
  using setCode_loop_spec [of code "ExtendByteSlice buf (length code div 8 + 1)" 0]
    bitmap_size [of "length code"]
  by (auto simp: bitmap_setCode_def)

lemma bitmap_setCode_spec:
  assumes "\<And>x. x \<in> set buf \<Longrightarrow> x = 0"
  shows "\<exists>b. bitmap_setCode buf code = Some b \<and> length b = length code div 8 + 1 \<and>
    (\<forall>j < length code. bitmap_isSet b j = Some (instr_start code j \<and> unat (code ! j) = JUMPDEST))"
proof -
  let ?buf = "ExtendByteSlice buf (length code div 8 + 1)"
  have z: "?buf ! (j div 8) = 0" if "j < length code" for j
    using that assms by (subst ExtendByteSlice_nth) (auto simp: less_Suc_eq_le intro: div_le_mono)
  show ?thesis
    using setCode_loop_spec [of code ?buf 0] bitmap_size [of "length code"] z
    by (auto simp: bitmap_setCode_def instr_start_reaches)
qed

end
