(* ===== verification/Evm_Safety.thy ===== *)
theory Evm_Safety
  imports Evm_Frame Evm_Dispatch Evm_Bitmap
begin

text \<open>Safety and termination of the interpreter. The locale \<open>evm_host\<close> is the contract between the
  interpreter and its host: an invariant \<open>I\<close> of the host state that the methods keep, and a nested
  call one level deeper that returns, keeps the invariant and gives back no more gas than it got. The
  flag \<open>D\<close> says whether a nested call may panic; without it nothing does, with it the statements are
  about the runs that return.
  Under it every instruction returns without a panic (no index out of range, no slice out of
  bounds), never increases the gas of the frame, and costs gas or stops the loop, so that a run
  with gas \<open>g\<close> makes at most \<open>g + 1\<close> steps. \<open>inst_pre\<close> is what the loop guarantees an instruction,
  \<open>inst_post\<close> what it promises; \<open>inst_strict\<close> instructions pay for themselves, the others rely on
  the base cost of the dispatch table.\<close>

section \<open>Pre- and postconditions of instructions\<close>

text \<open>The gas a frame may hold: far above any block gas limit, and small enough for the lengths that
  the precompiled contracts convert to \<^verbatim>\<open>int\<close>.\<close>

definition MaxGas :: nat where "MaxGas = 2 ^ 60"

text \<open>The value of a frame is not negative.\<close>

definition value_ok :: "Contract \<Rightarrow> bool" where
  "value_ok m \<longleftrightarrow> (\<forall>v. c_Value m = Some v \<longrightarrow> 0 \<le> v)"

lemma value_ok_Type [simp]: "value_ok (m\<lparr>c_Type := ct\<rparr>) = value_ok m"
  by (simp add: value_ok_def)

lemma value_ok_callFrame:
  "uint256_doc (env_U E) \<Longrightarrow> value_ok (st_msg c) \<Longrightarrow> value_ok (fst (callFrame op E c addr value gas args))"
  by (simp add: value_ok_def callFrame_def NewContractCall_def NewContract_def uint256_docD Let_def split_def)

definition inst_pre :: "('h \<Rightarrow> bool) \<Rightarrow> nat \<Rightarrow> nat \<Rightarrow> 'h state \<Rightarrow> bool" where
  "inst_pre I d n c \<longleftrightarrow> I (st_host c) \<and> c_Depth (st_msg c) = d \<and> mem_ok c \<and>
     length (st_bitmap c) = length (st_code c) div 8 + 1 \<and> length (st_code c) < 2 ^ 63 \<and>
     0 \<le> st_ip c \<and> st_ip c < int (length (st_code c)) \<and> n \<le> length (st_stack c) \<and>
     unat (st_gas c) \<le> MaxGas \<and> value_ok (st_msg c)"

definition inst_post :: "('h \<Rightarrow> bool) \<Rightarrow> 'h state \<Rightarrow> 'h state \<Rightarrow> bool" where
  "inst_post I c c' \<longleftrightarrow>
     st_code c' = st_code c \<and> st_bitmap c' = st_bitmap c \<and> st_msg c' = st_msg c \<and>
     st_config c' = st_config c \<and> I (st_host c') \<and> unat (st_gas c') \<le> unat (st_gas c) \<and>
     (length (st_ret c) < 2 ^ 63 \<longrightarrow> length (st_ret c') < 2 ^ 63) \<and>
     (st_err c' = None \<longrightarrow> mem_ok c' \<and> - 1 \<le> st_ip c')"

definition inst_ok :: "'h env \<Rightarrow> ('h \<Rightarrow> bool) \<Rightarrow> nat \<Rightarrow> bool \<Rightarrow> nat \<Rightarrow> 'h instruction \<Rightarrow> bool" where
  "inst_ok E I d D n f \<longleftrightarrow>
     (\<forall>c. inst_pre I d n c \<longrightarrow> D \<and> f E c = None \<or> (\<exists>c'. f E c = Some c' \<and> inst_post I c c'))"

definition inst_strict :: "'h env \<Rightarrow> ('h \<Rightarrow> bool) \<Rightarrow> nat \<Rightarrow> bool \<Rightarrow> nat \<Rightarrow> 'h instruction \<Rightarrow> bool" where
  "inst_strict E I d D n f \<longleftrightarrow>
     (\<forall>c. inst_pre I d n c \<longrightarrow> D \<and> f E c = None \<or> (\<exists>c'. f E c = Some c' \<and> inst_post I c c' \<and>
        (st_stop c' \<or> unat (st_gas c') < unat (st_gas c))))"

lemma stack_nonempty: "n \<le> length xs \<Longrightarrow> 0 < n \<Longrightarrow> xs \<noteq> []"
  by auto

lemmas inst_defs = inst_ok_def inst_strict_def inst_pre_def inst_post_def Let_def split_def

lemma gas_le [simp]:
  "unat (st_gas c) \<le> G \<Longrightarrow> unat (st_gas (snd (allocateMemory E c off sz))) \<le> G"
  "g \<le> x \<Longrightarrow> unat x \<le> G \<Longrightarrow> unat (x - g :: u64) \<le> G"
  using allocateMemory_gas [of E c off sz] unat_sub_mono [of g x] by linarith+

lemma gas_less [simp]:
  "unat (st_gas c) < G \<Longrightarrow> unat (st_gas (snd (allocateMemory E c off sz))) < G"
  "0 < g \<Longrightarrow> g \<le> x \<Longrightarrow> unat x \<le> G \<Longrightarrow> unat (x - g :: u64) < G"
  using allocateMemory_gas [of E c off sz] unat_sub_strict [of g x] by linarith+

text \<open>What the interpreter finds in an object of the pool: the fields that \<^verbatim>\<open>reset\<close> clears.\<close>

definition fresh :: "'h state \<Rightarrow> bool" where
  "fresh s \<longleftrightarrow> st_ip s = 0 \<and> st_memory s = [] \<and> st_lastGasCost s = 0 \<and> st_stack s = [] \<and>
     st_err s = None \<and> \<not> st_stop s \<and> st_bitmap s = [] \<and> st_ret s = [] \<and>
     st_currentConsumedGas s = 0 \<and> st_tmp s = []"

lemma fresh_reset [simp]: "fresh (state_reset s)"
  by (simp add: fresh_def state_reset_def bitmap_reset_def)

lemma fresh_zero [simp]: "fresh (zeroState c h config)"
  by (simp add: fresh_def zeroState_def)

section \<open>The contract of the host\<close>

locale evm_host =
  fixes E :: "'h env" and I :: "'h \<Rightarrow> bool" and d :: nat and D :: bool
  assumes lib: "uint256_doc (env_U E)"
    and I_SetStorage: "I h \<Longrightarrow> I (snd (SetStorage (env_H E) h a k v cfg))"
    and I_Selfdestruct: "I h \<Longrightarrow> I (Selfdestruct (env_H E) h a b)"
    and I_EmitLog: "I h \<Longrightarrow> I (EmitLog (env_H E) h a ts bs)"
    and I_AddSlot: "I h \<Longrightarrow> I (AddSlotToAccessList (env_H E) h a k)"
    and I_AddAddress: "I h \<Longrightarrow> I (AddAddressToAccessList (env_H E) h a)"
    and I_BaseFee: "I h \<Longrightarrow> \<bar>ctx_BaseFee (GetTxContext (env_H E) h)\<bar> < 2 ^ 256"
    and I_GetCode: "I h \<Longrightarrow> I (snd (GetCode (env_H E) h a))"
    and I_GetCodeSize: "I h \<Longrightarrow> I (snd (GetCodeSize (env_H E) h a))"
    and GetCode_len: "I h \<Longrightarrow> length (fst (GetCode (env_H E) h a)) < 2 ^ 63"
    and callx: "I h \<Longrightarrow> c_Depth m = Suc d \<Longrightarrow> length (c_Code m) < 2 ^ 63 \<Longrightarrow>
      length (c_Input m) < 2 ^ 63 \<Longrightarrow> unat (c_Gas m) \<le> MaxGas \<Longrightarrow> value_ok m \<Longrightarrow>
      D \<and> Callx (env_H E) h m = None \<or>
      (\<exists>r h'. Callx (env_H E) h m = Some (r, h') \<and> r_GasLeft r \<le> c_Gas m \<and> I h')"
begin

lemma top_pos:
  "0 < length (st_stack c) \<Longrightarrow> top c = Some (last (st_stack c))"
  "Suc 0 \<le> length (st_stack c) \<Longrightarrow> top c = Some (last (st_stack c))"
  by (simp_all add: Suc_le_eq)

lemma binop_ok:
  assumes f: "\<And>c. f E c = (let (a, c) = pop c in Option.bind (top c) (\<lambda>b. Some (set_top c (g a b))))"
  shows "inst_ok E I d D 2 f"
  by (simp add: f inst_defs top_pos)

lemma triop_ok:
  assumes f: "\<And>c. f E c = (let (a, c) = pop c; (b, c) = pop c in
    Option.bind (top c) (\<lambda>z. Some (set_top c (g a b z))))"
  shows "inst_ok E I d D 3 f"
  by (simp add: f inst_defs top_pos)

lemma unop_ok:
  assumes f: "\<And>c. f E c = Option.bind (top c) (\<lambda>a. Some (set_top c (g a)))"
  shows "inst_ok E I d D 1 f"
  by (simp add: f inst_defs top_pos Suc_le_eq)

lemma gated_binop_ok:
  assumes f: "\<And>c. f E c = (if \<not> G c then Some (exit c (Some e))
    else let (a, c) = pop c in Option.bind (top c) (\<lambda>b. Some (set_top c (g a b))))"
  shows "inst_ok E I d D 2 f"
  by (simp add: f inst_defs top_pos)

lemma push_ok:
  assumes f: "\<And>c. f E c = Some (push c (g c))"
  shows "inst_ok E I d D 0 f"
  by (simp add: f inst_defs)

lemma gated_push_ok:
  assumes f: "\<And>c. f E c = (if \<not> G c then Some (exit c (Some e)) else Some (push c (g c)))"
  shows "inst_ok E I d D 0 f"
  by (simp add: f inst_defs)

lemmas ok_arith =
  binop_ok [OF opAdd_def] binop_ok [OF opMul_def] binop_ok [OF opSub_def] binop_ok [OF opDiv_def]
  binop_ok [OF opSDiv_def] binop_ok [OF opMod_def] binop_ok [OF opSMod_def]
  binop_ok [OF opAnd_def] binop_ok [OF opOr_def] binop_ok [OF opXor_def] binop_ok [OF opByte_def]
  binop_ok [OF opEq_def] binop_ok [OF opLt_def] binop_ok [OF opGt_def] binop_ok [OF opSlt_def]
  binop_ok [OF opSgt_def] binop_ok [OF opSignExtension_def]
  unop_ok [OF opNot_def] unop_ok [OF opIsZero_def]
  triop_ok [OF opAddMod_def] triop_ok [OF opMulMod_def]
  gated_binop_ok [OF opShl_def] gated_binop_ok [OF opShr_def] gated_binop_ok [OF opSar_def]

lemmas ok_context =
  push_ok [OF opAddress_def] push_ok [OF opOrigin_def] push_ok [OF opCaller_def]
  push_ok [OF opCallDataSize_def] push_ok [OF opCodeSize_def] push_ok [OF opGasPrice_def]
  push_ok [OF opPC_def] push_ok [OF opMSize_def] push_ok [OF opGas_def]
  push_ok [OF opCoinbase_def] push_ok [OF opTimestamp_def] push_ok [OF opNumber_def]
  push_ok [OF opDifficulty_def] push_ok [OF opGasLimit_def]
  gated_push_ok [OF opChainID_def] gated_push_ok [OF opReturnDataSize_def] gated_push_ok [OF opPush0_def]

lemma ok_stack:
  "inst_ok E I d D 1 opPop" "inst_ok E I d D 0 opJumpDest" "inst_strict E I d D 0 opStop"
  "inst_ok E I d D 1 opBlockHash"
  by (simp_all add: inst_defs opPop_def opJumpDest_def opStop_def opBlockHash_def top_pos Suc_le_eq)

lemma ok_big:
  "inst_ok E I d D 0 opSelfBalance" "inst_ok E I d D 0 opCallValue" "inst_ok E I d D 0 opBaseFee"
  by (auto simp: inst_defs opSelfBalance_def opCallValue_def opBaseFee_def pushBig_def
      uint256_docD [OF lib] not_le dest: I_BaseFee split: option.splits)

lemma ok_exp: "inst_ok E I d D 2 opExp"
  by (simp add: inst_defs opExp_def top_pos unat_sub_mono)

lemma strict_gas:
  fixes g x :: u64
  assumes "0 < g" and "g \<le> x" shows "unat (x - g) \<le> unat x" "unat (x - g) < unat x"
  using assms by (simp_all add: unat_sub_mono unat_sub_strict)

lemma calculateGas_I: "I (st_host c) \<Longrightarrow> I (st_host (snd (calculateGasForEIP2929 E c a)))"
  by (simp add: calculateGasForEIP2929_def I_AddAddress)

lemma strict_account:
  "inst_strict E I d D 1 opBalance" "inst_strict E I d D 1 opExtCodeSize" "inst_strict E I d D 1 opExtCodeHash"
  by (auto simp: inst_defs opBalance_def opExtCodeSize_def opExtCodeHash_def pushBig_def
      calculateGas_I strict_gas calculateGas_pos I_GetCodeSize)

lemma alloc_mem:
  assumes "fst (allocateMemory E c off sz)" and "mem_ok c"
  shows "mem_ok (snd (allocateMemory E c off sz))"
    and "sz \<noteq> 0 \<Longrightarrow> unat off + unat sz \<le> length (st_memory (snd (allocateMemory E c off sz)))"
  using allocateMemory_ok [OF lib assms(1)] assms(2) by blast+

lemma alloc_err:
  assumes "fst (allocateMemory E c off sz)"
  shows "st_err (snd (allocateMemory E c off sz)) = st_err c"
  using allocateMemory_ok [OF lib assms] by blast

lemma alloc_range:
  assumes "fst (allocateMemory E c off sz)" and "mem_ok c" and "sz \<noteq> 0"
  shows "unat (u_Uint64 (env_U E) off) = unat off" "unat (u_Uint64 (env_U E) sz) = unat sz"
    and "unat (u_Uint64 (env_U E) off + u_Uint64 (env_U E) sz) = unat off + unat sz"
proof -
  have l: "unat off < 2 ^ 64" "unat sz < 2 ^ 64"
    using allocateMemory_ok [OF lib assms(1)] by blast+
  then have "u_IsUint64 (env_U E) off" "u_IsUint64 (env_U E) sz"
    using lib by (simp_all add: uint256_docD)
  then show o: "unat (u_Uint64 (env_U E) off) = unat off"
    and s: "unat (u_Uint64 (env_U E) sz) = unat sz"
    by (simp_all add: uint256_Uint64_small [OF lib])
  have "unat off + unat sz < 2 ^ 42"
    using alloc_mem [OF assms(1,2)] assms(3) by (auto simp: mem_ok_def)
  then show "unat (u_Uint64 (env_U E) off + u_Uint64 (env_U E) sz) = unat off + unat sz"
    using o s by (subst unat_add_small) simp_all
qed

lemma U64_32: "u_Uint64 (env_U E) 32 = 32" and U64_1: "u_Uint64 (env_U E) 1 = 1"
  using lib by (simp_all add: uint256_docD)

lemma unat_lit256: "unat (32 :: u256) = 32" "unat (1 :: u256) = 1"
  by simp_all

lemma alloc_range32:
  assumes "fst (allocateMemory E c off 32)" and "mem_ok c"
  shows "unat (u_Uint64 (env_U E) off) = unat off"
    and "unat (u_Uint64 (env_U E) off + 32) = unat off + 32"
    and "unat off + 32 \<le> length (st_memory (snd (allocateMemory E c off 32)))"
  using alloc_range [OF assms] alloc_mem [OF assms] by (simp_all add: U64_32)

lemmas alloc_simps = allocateMemory_gas allocateMemory_fail alloc_mem alloc_err

lemma ok_mload: "inst_ok E I d D 1 opMLoad"
  by (auto simp: opMLoad_def wordSize256_def top_pos inst_defs alloc_simps alloc_range32 U64_32)

lemma length_WriteToSlice [simp]: "length (WriteToSlice E v n) = n"
  using lib by (simp add: WriteToSlice_def WriteToSlice32_def uint256_docD)

lemma mem_write:
  assumes "off + length ys \<le> length (st_memory c)"
  shows "mem_ok (c\<lparr>st_memory := take off (st_memory c) @ ys @ drop (off + length ys) (st_memory c)\<rparr>)
           = mem_ok c"
  using assms by (intro mem_ok_write) simp

lemma ok_mstore: "inst_ok E I d D 2 opMStore"
proof -
  have "\<exists>c'. opMStore E c = Some c' \<and> inst_post I c c'" if pre: "inst_pre I d 2 c" for c
  proof (cases "fst (allocateMemory E (snd (pop (snd (pop c)))) (fst (pop c)) 32)")
    case True
    let ?c = "snd (allocateMemory E (snd (pop (snd (pop c)))) (fst (pop c)) 32)"
    have m: "mem_ok (snd (pop (snd (pop c))))" using pre by (simp add: inst_pre_def)
    note r = alloc_range32 [OF True m]
    have "length (take 32 (drop (unat (fst (pop c))) (st_memory ?c))) = 32"
      using r by simp
    with True r alloc_mem(1) [OF True m] pre show ?thesis
      by (auto simp: opMStore_def wordSize256_def inst_defs
          mem_write [of _ "WriteToSlice E _ 32", simplified] simp del: length_take length_drop)
  next
    case False
    with pre show ?thesis
      by (auto simp: opMStore_def wordSize256_def inst_defs alloc_simps)
  qed
  then show ?thesis by (simp add: inst_ok_def)
qed

lemma ok_mstore8: "inst_ok E I d D 2 opMStore8"
proof -
  have "\<exists>c'. opMStore8 E c = Some c' \<and> inst_post I c c'" if pre: "inst_pre I d 2 c" for c
  proof (cases "fst (allocateMemory E (snd (pop (snd (pop c)))) (fst (pop c)) 1)")
    case True
    have m: "mem_ok (snd (pop (snd (pop c))))" using pre by (simp add: inst_pre_def)
    with True alloc_range [OF True m] alloc_mem [OF True m] pre show ?thesis
      by (auto simp: opMStore8_def inst_defs mem_write [of _ "[_]", simplified])
  next
    case False
    with pre show ?thesis
      by (auto simp: opMStore8_def inst_defs alloc_simps)
  qed
  then show ?thesis by (simp add: inst_ok_def)
qed

lemma ok_sload: "inst_strict E I d D 1 opSload"
  by (auto simp: opSload_def top_pos inst_defs I_AddSlot ColdStorageReadCostEIP2929_def
      WarmStorageReadCostEIP2929_def)

lemma sstore_cost_pos: "c = 0 \<or> c = 2100 \<Longrightarrow> 0 < sstoreStatusCost cfg st c"
  by (cases st) (auto simp: sstoreStatusCost_def ColdStorageReadCostEIP2929_def
      WarmStorageReadCostEIP2929_def Let_def)

lemma ok_sstore: "inst_strict E I d D 2 opSStore"
  by (auto simp: opSStore_def inst_defs I_AddSlot I_SetStorage ColdStorageReadCostEIP2929_def
      sstore_cost_pos)

lemma ok_selfdestruct: "inst_strict E I d D 1 opSelfDestruct"
  by (auto simp: opSelfDestruct_def inst_defs I_AddAddress I_Selfdestruct)

lemma get2_cases:
  assumes "mem_ok c"
  obtains (skip) "len = 0" "get2 E c dst off len = Some (([], True), c)"
  | (fail) "\<not> fst (allocateMemory E c off len)"
      "get2 E c dst off len = Some (([], False), snd (allocateMemory E c off len))"
  | (ok) m where "fst (allocateMemory E c off len)" "length m < 2 ^ 42"
      "get2 E c dst off len = Some ((dst @ m, True), snd (allocateMemory E c off len))"
proof (cases "len = 0")
  case True
  with skip lib show ?thesis by (simp add: get2_def uint256_Sign_zero)
next
  case False
  show ?thesis
  proof (cases "fst (allocateMemory E c off len)")
    case True
    note r = alloc_range [OF True assms False] alloc_mem [OF True assms]
    moreover have "unat len < 2 ^ 42"
      using r(4,5) False by (auto simp: mem_ok_def)
    ultimately show ?thesis
      using True False lib by (intro ok) (auto simp: get2_def uint256_Sign_zero split_def Let_def)
  next
    assume "\<not> fst (allocateMemory E c off len)"
    with False lib fail show ?thesis
      by (auto simp: get2_def uint256_Sign_zero split_def Let_def)
  qed
qed

lemma ok_sha3: "inst_ok E I d D 2 opSha3"
proof -
  have "\<exists>c'. opSha3 E c = Some c' \<and> inst_post I c c'" if pre: "inst_pre I d 2 c" for c
  proof -
    have m: "mem_ok (snd (pop (snd (pop c))))" using pre by (simp add: inst_pre_def)
    show ?thesis
      by (rule get2_cases [OF m, of "fst (pop (snd (pop c)))" "[]" "fst (pop c)"])
         (use pre m in \<open>auto simp: opSha3_def inst_defs alloc_simps\<close>)
  qed
  then show ?thesis by (simp add: inst_ok_def)
qed

lemma ok_halt: "inst_strict E I d D 2 (opHalt op)"
proof -
  have "\<exists>c'. opHalt op E c = Some c' \<and> inst_post I c c' \<and> (st_stop c' \<or> unat (st_gas c') < unat (st_gas c))"
    if pre: "inst_pre I d 2 c" for c
  proof -
    have m: "mem_ok (snd (pop (snd (pop c))))" using pre by (simp add: inst_pre_def)
    show ?thesis
      by (rule get2_cases [OF m, of "fst (pop (snd (pop c)))" "[]" "fst (pop c)"])
         (use pre m in \<open>auto simp: opHalt_def inst_defs alloc_simps\<close>)
  qed
  then show ?thesis by (simp add: inst_strict_def)
qed

lemma popTopics_frame [simp]:
  "st_ip (snd (popTopics E n c)) = st_ip c" "st_code (snd (popTopics E n c)) = st_code c"
  "st_host (snd (popTopics E n c)) = st_host c" "st_msg (snd (popTopics E n c)) = st_msg c"
  "st_config (snd (popTopics E n c)) = st_config c" "st_err (snd (popTopics E n c)) = st_err c"
  "st_gas (snd (popTopics E n c)) = st_gas c" "st_bitmap (snd (popTopics E n c)) = st_bitmap c"
  "mem_ok (snd (popTopics E n c)) = mem_ok c" "st_ret (snd (popTopics E n c)) = st_ret c"
  by (induction n arbitrary: c) (simp_all add: Let_def split_def)

lemma ok_log: "inst_ok E I d D 0 (opLog n)"
proof -
  have "\<exists>c'. opLog n E c = Some c' \<and> inst_post I c c'" if pre: "inst_pre I d 0 c" for c
  proof -
    let ?c = "snd (popTopics E (n - 1) (snd (pop (snd (pop c)))))"
    have m: "mem_ok ?c" using pre by (simp add: inst_pre_def)
    show ?thesis
      by (rule get2_cases [OF m, of "fst (pop (snd (pop c)))" "[]" "fst (pop c)"])
         (use pre m in \<open>auto simp: opLog_def inst_defs alloc_simps I_EmitLog\<close>)
  qed
  then show ?thesis by (simp add: inst_ok_def)
qed

lemma setBytes_total:
  assumes "unat sz \<le> length dst"
  shows "\<exists>r. setBytes E dst input sz off = Some r \<and> length r = length dst"
proof (cases "u_IsUint64 (env_U E) off")
  case False
  with assms show ?thesis by (simp add: setBytes_def)
next
  case True
  let ?n = "of_nat (length input) :: u64"
  let ?b = "less (u_Uint64 (env_U E) off) ?n"
  let ?k = "less sz (?n - ?b)"
  have b: "?b \<le> ?n" by (auto simp: less_def)
  have k: "?k \<le> ?n - ?b" "?k \<le> sz" by (auto simp: less_def)
  have "unat ?k \<le> unat ?n - unat ?b" using k(1) b by (simp add: word_le_nat_alt unat_sub)
  moreover have "unat ?b \<le> unat ?n" using b by (simp add: word_le_nat_alt)
  ultimately have bk: "unat ?b + unat ?k \<le> unat ?n" by linarith
  then have "unat (?b + ?k) = unat ?b + unat ?k"
    using u64_bound [of ?n] by (intro unat_add_small) simp
  then have "unat ?b \<le> unat (?b + ?k)" "unat (?b + ?k) \<le> length input"
    using bk unat_of_nat_le [of "length input", where 'a = 64] by simp_all
  moreover have "unat ?k + unat (sz - ?k) = unat sz"
    using k(2) by (simp add: unat_sub word_le_nat_alt)
  ultimately show ?thesis
    using True assms by (auto simp: setBytes_def Let_def)
qed

lemma ok_calldataload: "inst_ok E I d D 1 opCallDataLoad"
proof -
  have "\<exists>r. setBytes E (replicate 32 0) i 32 o' = Some r \<and> length r = 32" for i o'
    using setBytes_total [of 32 "replicate 32 0" i o'] by simp
  note r = this
  have "\<exists>c'. opCallDataLoad E c = Some c' \<and> inst_post I c c'" if "inst_pre I d 1 c" for c
    using that r [of "c_Input (st_msg c)" "last (st_stack c)"]
    by (auto simp: opCallDataLoad_def inst_defs top_pos)
  then show ?thesis by (simp add: inst_ok_def)
qed

lemma setMemory_total:
  assumes "unat (u_Uint64 (env_U E) off) + unat sz \<le> length (st_memory c)"
  shows "\<exists>m. setMemory E c off input sz o' = Some (c\<lparr>st_memory := m\<rparr>) \<and>
    length m = length (st_memory c)"
proof -
  let ?o = "unat (u_Uint64 (env_U E) off)"
  have "unat sz \<le> length (drop ?o (st_memory c))" using assms by simp
  from setBytes_total [OF this] obtain r where
    "setBytes E (drop ?o (st_memory c)) input sz o' = Some r"
    "length r = length (drop ?o (st_memory c))"
    by blast
  then show ?thesis using assms by (auto simp: setMemory_def)
qed

lemma copy_total:
  assumes "fst (allocateMemory E c off sz)" "mem_ok c" "sz \<noteq> 0"
    and "st_memory c' = st_memory (snd (allocateMemory E c off sz))"
  obtains m where "setMemory E c' off input (u_Uint64 (env_U E) sz) o' = Some (c'\<lparr>st_memory := m\<rparr>)"
    "mem_ok (c'\<lparr>st_memory := m\<rparr>) = mem_ok c'"
proof -
  have "unat (u_Uint64 (env_U E) off) + unat (u_Uint64 (env_U E) sz) \<le> length (st_memory c')"
    using alloc_range [OF assms(1-3)] alloc_mem [OF assms(1,2)] assms(3,4) by simp
  from setMemory_total [OF this, of input o'] that show thesis
    by (auto simp: mem_ok_write)
qed

lemma ok_codecopy: "inst_ok E I d D 3 opCodeCopy"
proof -
  have "\<exists>c'. opCodeCopy E c = Some c' \<and> inst_post I c c'" if pre: "inst_pre I d 3 c" for c
  proof -
    let ?c = "snd (pop (snd (pop (snd (pop c)))))" and ?o = "fst (pop c)"
      and ?l = "fst (pop (snd (pop (snd (pop c)))))"
    let ?a = "allocateMemory E ?c ?o ?l"
    let ?g = "consumeGas (snd ?a) (((u_Uint64 (env_U E) ?l + 31) div 32) * copyGas)"
    have m: "mem_ok ?c" using pre by (simp add: inst_pre_def)
    show ?thesis
    proof (cases "fst ?a \<and> ?l \<noteq> 0")
      case True
      have "st_memory (snd ?g) = st_memory (snd ?a)" by simp
      from copy_total [OF _ m _ this, of "st_code (snd ?g)" "fst (pop (snd (pop c)))"] True obtain mm where
        "setMemory E (snd ?g) ?o (st_code (snd ?g)) (u_Uint64 (env_U E) ?l) (fst (pop (snd (pop c)))) =
           Some (snd ?g\<lparr>st_memory := mm\<rparr>)" "mem_ok (snd ?g\<lparr>st_memory := mm\<rparr>) = mem_ok (snd ?g)"
        by blast
      with True pre m show ?thesis
        by (auto simp: opCodeCopy_def inst_defs alloc_simps)
    next
      case False
      with pre m lib show ?thesis
        by (auto simp: opCodeCopy_def inst_defs alloc_simps uint256_docD)
    qed
  qed
  then show ?thesis by (simp add: inst_ok_def)
qed

lemma ok_calldatacopy: "inst_ok E I d D 3 opCallDataCopy"
proof -
  have "\<exists>c'. opCallDataCopy E c = Some c' \<and> inst_post I c c'" if pre: "inst_pre I d 3 c" for c
  proof -
    let ?c = "snd (pop (snd (pop (snd (pop c)))))" and ?o = "fst (pop c)"
      and ?l = "fst (pop (snd (pop (snd (pop c)))))"
    let ?a = "allocateMemory E ?c ?o ?l"
    let ?g = "consumeGas (snd ?a) (((u_Uint64 (env_U E) ?l + 31) div 32) * copyGas)"
    let ?i = "c_Input (st_msg (snd ?g))"
    have m: "mem_ok ?c" using pre by (simp add: inst_pre_def)
    show ?thesis
    proof (cases "fst ?a \<and> ?l \<noteq> 0")
      case True
      have "st_memory (snd ?g) = st_memory (snd ?a)" by simp
      from copy_total [OF _ m _ this, of ?i "fst (pop (snd (pop c)))"] True obtain mm where
        "setMemory E (snd ?g) ?o ?i (u_Uint64 (env_U E) ?l) (fst (pop (snd (pop c)))) =
           Some (snd ?g\<lparr>st_memory := mm\<rparr>)" "mem_ok (snd ?g\<lparr>st_memory := mm\<rparr>) = mem_ok (snd ?g)"
        by blast
      with True pre m show ?thesis
        by (auto simp: opCallDataCopy_def inst_defs alloc_simps)
    next
      case False
      with pre m lib show ?thesis
        by (auto simp: opCallDataCopy_def inst_defs alloc_simps uint256_docD)
    qed
  qed
  then show ?thesis by (simp add: inst_ok_def)
qed

lemma memcopy_total:
  assumes "a + n \<le> length xs" "p + n \<le> length m"
  shows "\<exists>m'. Option.bind (go_slice xs a (a + n)) (\<lambda>data.
      Option.bind (go_slice m p (p + n)) (\<lambda>dst.
      Option.bind (write_at m p (go_copy dst data)) (\<lambda>m. Some (c\<lparr>st_memory := m\<rparr>)))) =
    Some (c\<lparr>st_memory := m'\<rparr>) \<and> length m' = length m"
  using assms by (auto simp: go_slice_def write_at_def go_copy_def)

lemma ok_returndatacopy: "inst_ok E I d D 3 opReturnDataCopy"
proof -
  have "\<exists>c'. opReturnDataCopy E c = Some c' \<and> inst_post I c c'" if pre: "inst_pre I d 3 c" for c
  proof -
    let ?c = "snd (pop (snd (pop (snd (pop c)))))" and ?o = "fst (pop c)"
      and ?l = "fst (pop (snd (pop (snd (pop c)))))" and ?s = "fst (pop (snd (pop c)))"
    let ?a = "allocateMemory E ?c ?o ?l"
    have m: "mem_ok ?c" using pre by (simp add: inst_pre_def)
    show ?thesis
    proof (cases "fst ?a \<and> ?l \<noteq> 0 \<and> u_IsUint64 (env_U E) ?s \<and> u_IsUint64 (env_U E) (u_Add (env_U E) ?s ?l)
        \<and> u_Uint64 (env_U E) (u_Add (env_U E) ?s ?l) \<le> of_nat (length (st_returnData ?c))")
      case True
      then have a: "fst ?a" and l: "?l \<noteq> 0" by simp_all
      note r = alloc_range [OF a m l] alloc_mem [OF a m]
      have s: "unat ?s < 2 ^ 64" using True lib by (simp add: uint256_docD)
      have "unat ?l < 2 ^ 64" using allocateMemory_ok [OF lib a] by blast
      with s have e: "unat (?s + ?l) = unat ?s + unat ?l"
        by (intro unat_add_small) simp
      then have e': "unat (u_Uint64 (env_U E) (?s + ?l)) = unat ?s + unat ?l"
        using True lib by (metis uint256_Uint64_small uint256_docD(1))
      have s': "unat (u_Uint64 (env_U E) ?s) = unat ?s"
        using True lib by (simp add: uint256_Uint64_small)
      have "unat ?s + unat ?l \<le> length (st_returnData ?c)"
        using True unat_of_nat_le [of "length (st_returnData ?c)", where 'a = 64] lib e'
        by (simp add: word_le_nat_alt uint256_docD)
      from memcopy_total [OF this r(5) [OF l], of "snd (consumeGas (snd ?a)
          (((u_Uint64 (env_U E) ?l + 31) div 32) * copyGas))"]
      show ?thesis
        using True pre m r(1-4) e' s' lib
        by (auto simp: opReturnDataCopy_def inst_defs alloc_simps uint256_docD not_less
              uint256_Sign_zero mem_ok_write)
    next
      case False
      with pre m lib show ?thesis
        by (auto simp: opReturnDataCopy_def inst_defs alloc_simps uint256_docD uint256_Sign_zero not_less)
    qed
  qed
  then show ?thesis by (simp add: inst_ok_def)
qed

lemma sint_small:
  assumes "unat (w :: u64) < 2 ^ 63"
  shows "sint w = int (unat w)"
proof -
  have "int (unat w) < int (2 ^ 63)" using assms by (simp only: of_nat_less_iff)
  then have "uint w < 2 ^ 63" by simp
  moreover have "- (2 ^ 63) \<le> uint w" by (rule order_trans [OF _ uint_ge_0]) simp
  ultimately have "signed_take_bit 63 (uint w) = uint w"
    by (intro signed_take_bit_int_eq_self)
  then show ?thesis by (simp add: sint_uint)
qed

lemma jump_ip:
  assumes "validJumpdest E c dest = Some True" and "length (st_code c) < 2 ^ 63"
  shows "- 1 \<le> sint (u_Uint64 (env_U E) dest - 1)"
proof (cases "u_Uint64 (env_U E) dest = 0")
  case False
  have "u_Uint64 (env_U E) dest < of_nat (length (st_code c))"
    using assms(1) by (auto simp: validJumpdest_def Let_def split: if_splits)
  then have "unat (u_Uint64 (env_U E) dest) < 2 ^ 63"
    using assms(2) by (simp add: word_less_nat_alt unat_of_nat_small)
  with False have "unat (u_Uint64 (env_U E) dest - 1) < 2 ^ 63"
    by (simp add: unat_minus_one)
  from sint_small [OF this] show ?thesis by linarith
qed simp

lemma validJumpdest_total:
  assumes "length (st_bitmap c) = length (st_code c) div 8 + 1"
  obtains b where "validJumpdest E c dest = Some b"
proof (cases "u_IsUint64 (env_U E) dest \<and> u_Uint64 (env_U E) dest < of_nat (length (st_code c))")
  case True
  then have "unat (u_Uint64 (env_U E) dest) < length (st_code c)"
    using unat_of_nat_le [of "length (st_code c)", where 'a = 64] by (simp add: word_less_nat_alt)
  then have "unat (u_Uint64 (env_U E) dest) div 8 < length (st_bitmap c)"
    unfolding assms using div_le_mono [of "unat (u_Uint64 (env_U E) dest)" "length (st_code c)" 8]
    by linarith
  then have "bitmap_isSet (st_bitmap c) (unat (u_Uint64 (env_U E) dest)) = Some (bit (st_bitmap c !
      (unat (u_Uint64 (env_U E) dest) div 8)) (unat (u_Uint64 (env_U E) dest) mod 8))"
    by (simp only: bitmap_isSet_def if_True)
  moreover have "\<not> of_nat (length (st_code c)) \<le> u_Uint64 (env_U E) dest"
    using True by (simp only: linorder_not_le)
  ultimately have "validJumpdest E c dest = Some (bit (st_bitmap c !
      (unat (u_Uint64 (env_U E) dest) div 8)) (unat (u_Uint64 (env_U E) dest) mod 8))"
    using True by (simp only: validJumpdest_def Let_def) simp
  with that show ?thesis by blast
next
  case False
  with that show ?thesis by (auto simp: validJumpdest_def Let_def not_less)
qed

lemma validJumpdest_frame [simp]:
  "validJumpdest E (snd (pop c)) dest = validJumpdest E c dest"
  by (simp add: validJumpdest_def Let_def split: if_split)

lemma ok_jump: "inst_ok E I d D 1 opJump"
proof -
  have "\<exists>c'. opJump E c = Some c' \<and> inst_post I c c'" if pre: "inst_pre I d 1 c" for c
  proof -
    obtain b where "validJumpdest E c (fst (pop c)) = Some b"
      using pre validJumpdest_total [of c "fst (pop c)"] by (auto simp: inst_pre_def)
    with pre jump_ip [of c "fst (pop c)"] show ?thesis
      by (cases b) (auto simp: opJump_def inst_defs)
  qed
  then show ?thesis by (simp add: inst_ok_def)
qed

lemma ok_jumpi: "inst_ok E I d D 2 opJumpi"
proof -
  have "\<exists>c'. opJumpi E c = Some c' \<and> inst_post I c c'" if pre: "inst_pre I d 2 c" for c
  proof -
    obtain b where "validJumpdest E c (fst (pop c)) = Some b"
      using pre validJumpdest_total [of c "fst (pop c)"] by (auto simp: inst_pre_def)
    with pre jump_ip [of c "fst (pop c)"] show ?thesis
      by (cases b) (auto simp: opJumpi_def inst_defs)
  qed
  then show ?thesis by (simp add: inst_ok_def)
qed

lemma ok_push: "inst_ok E I d D 0 (opPush n)"
proof -
  have "\<exists>c'. opPush n E c = Some c' \<and> inst_post I c c'" if pre: "inst_pre I d 0 c" for c
  proof -
    have "nat (st_ip c + 1) \<le> length (st_code c)" using pre by (auto simp: inst_pre_def)
    with pre show ?thesis by (auto simp: opPush_def inst_defs)
  qed
  then show ?thesis by (simp add: inst_ok_def)
qed

lemma ok_dup: "0 < n \<Longrightarrow> inst_ok E I d D 0 (opDup n)"
  by (simp add: opDup_def peekAt_def stack_peekAt_def go_index_def inst_defs)

lemma ok_swap: "inst_ok E I d D 0 (opSwap n)"
  by (simp add: opSwap_def inst_defs split: option.split)

lemma callCost_state [simp]:
  "snd (callCost op E c a t) =
     (if Berlin (st_config c) then snd (calculateGasForEIP2929 E c a) else c)"
  by (simp add: callCost_def Let_def split_def)

lemma callCost_bounds:
  "40 \<le> unat (fst (callCost op E c a t))" "t \<Longrightarrow> 9040 \<le> unat (fst (callCost op E c a t))"
  using calculateGas_cost [of E c a] by (auto simp: callCost_def Let_def split_def)

lemma call_gas:
  fixes g k x :: u64
  assumes "SafeAddUint64 k x = (s, False)" "s \<le> g" "40 \<le> unat k" "t \<Longrightarrow> 9040 \<le> unat k"
  shows "unat (g - s) + unat (if t then x + 2300 else x) < unat g"
proof -
  have s: "unat s = unat k + unat x" using assms(1) by (rule SafeAddUint64_ok)
  have g: "unat s \<le> unat g" using assms(2) by (simp add: word_le_nat_alt)
  then have "unat (g - s) = unat g - unat s" by (simp add: unat_sub word_le_nat_alt)
  moreover have "unat (x + 2300) \<le> unat x + 2300" using unat_add_le [of x 2300] by simp
  ultimately show ?thesis using s g assms(3,4) by (cases t) auto
qed

lemma callFrame_simps [simp]:
  "c_Depth (fst (callFrame op E c a v g args)) = Suc (c_Depth (st_msg c))"
  "c_Gas (fst (callFrame op E c a v g args)) = g"
  "c_Input (fst (callFrame op E c a v g args)) = args"
  "c_Code (fst (callFrame op E c a v g args)) = fst (GetCode (env_H E) (st_host c) a)"
  "snd (callFrame op E c a v g args) = c\<lparr>st_host := snd (GetCode (env_H E) (st_host c) a)\<rparr>"
  by (simp_all add: callFrame_def NewContractCall_def NewContract_def Let_def split_def)

definition call_post where
  "call_post c k off sz e c' \<longleftrightarrow>
     st_code c' = st_code c \<and> st_bitmap c' = st_bitmap c \<and> st_msg c' = st_msg c \<and>
     st_config c' = st_config c \<and> I (st_host c') \<and> st_ip c' = st_ip c \<and> st_ret c' = st_ret c \<and>
     (case k of None \<Rightarrow> e = None \<and> st_stop c' \<and> st_err c' \<noteq> None \<and> unat (st_gas c') \<le> unat (st_gas c)
      | Some k \<Rightarrow> c_Depth k = Suc (c_Depth (st_msg c)) \<and> length (c_Code k) < 2 ^ 63 \<and>
          length (c_Input k) < 2 ^ 63 \<and> (value_ok (st_msg c) \<longrightarrow> value_ok k) \<and> mem_ok c' \<and>
          unat (st_gas c') + unat (c_Gas k) < unat (st_gas c) \<and>
          (sz \<noteq> 0 \<longrightarrow> unat (off + sz) = unat off + unat sz \<and>
             unat off + unat sz \<le> length (st_memory c')))"

lemma callTail:
  assumes "mem_ok c" "I (st_host c)" "unat (st_gas c) \<le> unat (st_gas c0)"
    "st_code c = st_code c0" "st_bitmap c = st_bitmap c0" "st_msg c = st_msg c0"
    "st_config c = st_config c0" "st_ip c = st_ip c0" "st_ret c = st_ret c0"
    "sz \<noteq> 0 \<longrightarrow> unat (off + sz) = unat off + unat sz \<and>
             unat off + unat sz \<le> length (st_memory c)"
    "length args < 2 ^ 63"
  shows "\<exists>k off' sz' e c'. (let
                (gasCost, c) = callCost op E c addr t
            in case callGas E c gasCost initialGas of
              None \<Rightarrow> Some ((None, 0, 0, None), exit c (Some ErrOutOfGas))
            | Some gas \<Rightarrow>
              let (gasCostTmp, isOverflow) = SafeAddUint64 gasCost gas
              in if isOverflow then Some ((None, 0, 0, None), exit c (Some errGasUintOverflow))
              else
                let (ok, c) = consumeGas c gasCostTmp in
                if \<not> ok then Some ((None, 0, 0, None), c)
                else
                  let gas = (if t then gas + 2300 else gas);
                      (contract, c) = callFrame op E c addr value gas args
                  in if t \<and>
                        GetBalance H (st_host c) (c_Address (st_msg c)) < u_ToBig U value
                     then Some ((Some contract, 0, 0, Some TypesErrInsufficientFunds), c)
                     else Some ((Some contract, off, sz, None), c)) = Some ((k, off', sz', e), c')
     \<and> call_post c0 k off' sz' e c'"
proof -
  let ?k = "callCost op E c addr t"
  have h: "I (st_host (snd ?k))" using assms by (simp add: calculateGas_I)
  note b = callCost_bounds [where op = op and c = c and a = addr and t = t]
  show ?thesis
  proof (cases "callGas E (snd ?k) (fst ?k) initialGas")
    case None
    with h assms show ?thesis by (simp add: split_def Let_def call_post_def)
  next
    case (Some g)
    obtain s ov where sa: "SafeAddUint64 (fst ?k) g = (s, ov)" by fastforce
    show ?thesis
    proof (cases "\<not> ov \<and> s \<le> st_gas c")
      case True
      with sa have "unat (st_gas c - s) + unat (if t then g + 2300 else g) < unat (st_gas c)"
        by (intro call_gas [OF _ _ b]) simp_all
      with Some sa True h assms show ?thesis
        by (auto simp: split_def Let_def call_post_def GetCode_len [simplified] I_GetCode calculateGas_I
            value_ok_callFrame [OF lib])
    next
      case False
      with Some sa h assms show ?thesis
        by (auto simp: split_def Let_def call_post_def)
    qed
  qed
qed

lemma get2_total:
  assumes "mem_ok c"
  obtains args b c1 where "get2 E c dst off len = Some ((args, b), c1)"
    "c1 = c \<or> c1 = snd (allocateMemory E c off len)"
    "b \<Longrightarrow> mem_ok c1" "\<not> b \<Longrightarrow> st_stop c1" "\<not> b \<Longrightarrow> st_err c1 \<noteq> None"
    "length args < length dst + 2 ^ 42"
proof (rule get2_cases [OF assms, of len dst off])
  assume "get2 E c dst off len = Some (([], True), c)"
  with assms that [of "[]" True c] show thesis by simp
next
  assume "\<not> fst (allocateMemory E c off len)"
    and "get2 E c dst off len = Some (([], False), snd (allocateMemory E c off len))"
  with that [of "[]" False] allocateMemory_fail [of E c off len] show thesis by auto
next
  fix m
  assume "fst (allocateMemory E c off len)" and "length m < 2 ^ 42"
    and "get2 E c dst off len = Some ((dst @ m, True), snd (allocateMemory E c off len))"
  with that [of "dst @ m" True] alloc_mem [OF _ assms] show thesis by auto
qed

definition same_frame :: "'h state \<Rightarrow> 'h state \<Rightarrow> bool" where
  "same_frame c c' \<longleftrightarrow> st_code c' = st_code c \<and> st_bitmap c' = st_bitmap c \<and> st_msg c' = st_msg c \<and>
     st_config c' = st_config c \<and> st_ip c' = st_ip c \<and> st_host c' = st_host c \<and>
     st_ret c' = st_ret c \<and> unat (st_gas c') \<le> unat (st_gas c)"

lemma pop_same: "pop c = (v, c') \<Longrightarrow> mem_ok c \<Longrightarrow> mem_ok c' \<and> same_frame c c'"
  using pop_frame [of c] mem_ok_frame(1) [of c] by (simp add: same_frame_def)

lemma same_frame_trans [trans]: "same_frame a b \<Longrightarrow> same_frame b c \<Longrightarrow> same_frame a c"
  by (simp add: same_frame_def)

lemma same_frame_alloc: "same_frame c (snd (allocateMemory E c off sz))"
  by (simp add: same_frame_def)

lemma popAddr_same: "popAddr E c = (v, c') \<Longrightarrow> mem_ok c \<Longrightarrow> mem_ok c' \<and> same_frame c c'"
  using pop_same [of c "fst (pop c)" "snd (pop c)"] snd_popAddr [of E c] by simp

lemma buildCall_total:
  assumes m: "mem_ok c" and h: "I (st_host c)"
  shows "\<exists>k off sz e c'. buildCallContract op E c = Some ((k, off, sz, e), c') \<and>
           call_post c k off sz e c'"
proof -
  obtain g0 c0 where p0: "pop c = (g0, c0)" by fastforce
  obtain a u c1 where p1: "popAddr E c0 = ((a, u), c1)" by (metis prod.collapse)
  obtain v c2 where p2: "(if op = CALL \<or> op = CALLCODE then pop c1 else (0, c1)) = (v, c2)" by fastforce
  obtain io c3 where p3: "pop c2 = (io, c3)" by fastforce
  obtain il c4 where p4: "pop c3 = (il, c4)" by fastforce
  obtain ro c5 where p5: "pop c4 = (ro, c5)" by fastforce
  obtain rs c6 where p6: "pop c5 = (rs, c6)" by fastforce
  have f1: "mem_ok c1 \<and> same_frame c c1"
    using pop_same [OF p0 m] popAddr_same [OF p1] same_frame_trans by blast
  then have f2: "mem_ok c2 \<and> same_frame c c2"
    using p2 pop_same [of c1] same_frame_trans [of c c1 c2] by (auto split: if_splits)
  have f6: "mem_ok c6 \<and> same_frame c c6"
    using f2 pop_same [OF p3] pop_same [OF p4] pop_same [OF p5] pop_same [OF p6]
      same_frame_trans by blast
  then have m6: "mem_ok c6" by simp
  obtain args b c7 where g: "get2 E c6 [] io il = Some ((args, b), c7)"
    and c7: "c7 = c6 \<or> c7 = snd (allocateMemory E c6 io il)"
    and b: "b \<Longrightarrow> mem_ok c7" "\<not> b \<Longrightarrow> st_stop c7" "\<not> b \<Longrightarrow> st_err c7 \<noteq> None"
    and la: "length args < length ([] :: bytes) + 2 ^ 42"
    by (rule get2_total [OF m6, of "[]" io "il"]) blast
  have f7: "same_frame c c7"
    using f6 c7 same_frame_trans [OF _ same_frame_alloc, of c c6 io "il"] by auto
  note unf = buildCallContract_def Let_def p0 p1 p2 p3 p4 p5 p6 g
  show ?thesis
  proof (cases b)
    case False
    with b f7 h show ?thesis
      by (simp add: unf call_post_def same_frame_def)
  next
    case True
    obtain ok c8 where a8: "allocateMemory E c7 ro rs = (ok, c8)" by fastforce
    have f8: "same_frame c c8"
      using same_frame_trans [OF f7 same_frame_alloc, of ro rs] by (simp add: a8)
    show ?thesis
    proof (cases ok)
      case False
      with True f8 h allocateMemory_fail [of E c7 ro rs] show ?thesis
        by (simp add: unf a8 call_post_def same_frame_def)
    next
      case A: True
      have al: "fst (allocateMemory E c7 ro rs)" using A a8 by simp
      have z: "u_Uint64 (env_U E) rs \<noteq> 0 \<Longrightarrow> rs \<noteq> 0"
        using lib by (auto simp: uint256_docD)
      have r: "u_Uint64 (env_U E) rs \<noteq> 0 \<longrightarrow>
          unat (u_Uint64 (env_U E) ro + u_Uint64 (env_U E) rs) =
            unat (u_Uint64 (env_U E) ro) + unat (u_Uint64 (env_U E) rs) \<and>
          unat (u_Uint64 (env_U E) ro) + unat (u_Uint64 (env_U E) rs) \<le> length (st_memory c8)"
        using alloc_range [OF al b(1) [OF True]] alloc_mem [OF al b(1) [OF True]] z a8 by auto
      have m8: "mem_ok c8" using alloc_mem(1) [OF al b(1) [OF True]] a8 by simp
      show ?thesis
        using callTail [OF m8 _ _ _ _ _ _ _ _ r, of c args op] True A f8 h la
        by (simp add: buildCallContract_def p0 p1 p2 p3 p4 p5 p6 g a8 same_frame_def Let_def
              cong: option.case_cong)
    qed
  qed
qed

lemma overwrite_total:
  assumes "p + n \<le> length m"
  obtains m' where "Option.bind (go_slice m p (p + n)) (\<lambda>dst. write_at m p (go_copy dst src)) = Some m'"
    "length m' = length m"
proof -
  have "length (go_copy (take n (drop p m)) src) = n" using assms by simp
  with assms that show thesis by (auto simp: go_slice_def write_at_def simp del: length_go_copy)
qed

lemma finishCall_total:
  assumes "mem_ok c" and "sz \<noteq> 0 \<longrightarrow> unat (off + sz) = unat off + unat sz \<and>
             unat off + unat sz \<le> length (st_memory c)"
  shows "\<exists>c'. finishCall c r off sz E = Some c' \<and> mem_ok c' \<and>
     st_gas c' = st_gas c + r_GasLeft r \<and> st_host c' = st_host c \<and> st_code c' = st_code c \<and>
     st_bitmap c' = st_bitmap c \<and> st_msg c' = st_msg c \<and> st_config c' = st_config c \<and>
     st_ip c' = st_ip c \<and> st_ret c' = st_ret c"
proof (cases "(Succeeded r \<or> Reverted r) \<and> r_ReturnValue r \<noteq> [] \<and> sz > 0")
  case False
  with assms show ?thesis by (auto simp: finishCall_def Let_def)
next
  case True
  let ?m = "st_memory c" and ?n = "unat sz" and ?o = "unat off"
  have r: "unat (off + sz) = ?o + ?n" "?o + ?n \<le> length ?m" using True assms(2) by auto
  from overwrite_total [OF r(2)] obtain m' where
    "Option.bind (go_slice ?m ?o (?o + ?n)) (\<lambda>dst. write_at ?m ?o (go_copy dst (r_ReturnValue r))) = Some m'"
    "length m' = length ?m" .
  with True assms r show ?thesis
    by (simp add: finishCall_def Let_def mem_ok_write)
qed

lemma opCall_guard:
  assumes "3 \<le> length (st_stack c)"
  shows "\<exists>g. (if op = CALL \<and> inStaticCall (resetReturnData c) then
                  map_option (\<lambda>r. case r of
                      Inl e \<Rightarrow> Some e
                    | Inr val \<Rightarrow> if u_BitLen (env_U E) val > 0 then Some errWriteProtection else None)
                    (peekAt (resetReturnData c) 3)
                else Some None) = Some g"
  using assms by (simp add: peekAt_def stack_peekAt_def go_index_def)

lemma strict_call:
  assumes n: "3 \<le> n" shows "inst_strict E I d D n (opCall op)"
proof -
  have "D \<and> opCall op E c = None \<or>
      (\<exists>c'. opCall op E c = Some c' \<and> inst_post I c c' \<and> (st_stop c' \<or> unat (st_gas c') < unat (st_gas c)))"
    if pre: "inst_pre I d n c" for c
  proof -
    obtain g where g: "(if op = CALL \<and> inStaticCall (resetReturnData c) then
                  map_option (\<lambda>r. case r of
                      Inl e \<Rightarrow> Some e
                    | Inr val \<Rightarrow> if u_BitLen (env_U E) val > 0 then Some errWriteProtection else None)
                    (peekAt (resetReturnData c) 3)
                else Some None) = Some g"
      using opCall_guard [of c op] pre n unfolding inst_pre_def by (meson order_trans)
    show ?thesis
    proof (cases "g = None \<and> (op = DELEGATECALL \<longrightarrow> Homestead (st_config c)) \<and>
        (op = STATICCALL \<longrightarrow> Byzantium (st_config c))")
      case False
      then show ?thesis using g pre
        by (cases g) (auto simp: opCall_def inst_defs)
    next
      case True
      have "mem_ok (resetReturnData c)" "I (st_host (resetReturnData c))"
        using pre by (simp_all add: inst_pre_def)
      from buildCall_total [OF this, of op] obtain k off sz e c1 where
        b: "buildCallContract op E (resetReturnData c) = Some ((k, off, sz, e), c1)"
        and p: "call_post (resetReturnData c) k off sz e c1" by blast
      show ?thesis
      proof (cases k)
        case None
        with True g b p pre show ?thesis
          by (auto simp: opCall_def inst_defs call_post_def)
      next
        case (Some m)
        let ?m = "m\<lparr>c_Type := callTypeOf op\<rparr>"
        have "I (st_host c1)" "c_Depth ?m = Suc d" "length (c_Code ?m) < 2 ^ 63"
          "length (c_Input ?m) < 2 ^ 63" "unat (c_Gas ?m) \<le> MaxGas" "value_ok ?m"
          using p pre Some by (simp_all add: call_post_def inst_pre_def)
        note x = callx [OF this]
        have ge: "unat (st_gas c1 + c_Gas m) < unat (st_gas c)"
          using p Some unat_add_le [of "st_gas c1" "c_Gas m"] by (simp add: call_post_def)
        show ?thesis
        proof (cases e)
          case (Some e')
          with \<open>k = Some m\<close> True g b p pre ge show ?thesis
            by (simp add: opCall_def inst_defs call_post_def)
        next
          case N: None
          from x show ?thesis
          proof (elim disjE exE conjE)
            assume D "Callx (env_H E) (st_host c1) ?m = None"
            with N True g b Some show ?thesis by (auto simp: opCall_def Let_def)
          next
            fix r h
            assume x: "Callx (env_H E) (st_host c1) ?m = Some (r, h)" "r_GasLeft r \<le> c_Gas ?m" "I h"
            have "unat (st_gas c1) + unat (r_GasLeft r) < unat (st_gas c)"
              using p Some x(2) by (simp add: call_post_def word_le_nat_alt)
            then have gl': "unat (st_gas c1 + r_GasLeft r) < unat (st_gas c)"
              using unat_add_le [of "st_gas c1" "r_GasLeft r"] by linarith
            have "mem_ok (c1\<lparr>st_host := h\<rparr>)" "sz \<noteq> 0 \<longrightarrow> unat (off + sz) = unat off + unat sz \<and>
                 unat off + unat sz \<le> length (st_memory (c1\<lparr>st_host := h\<rparr>))"
              using p Some by (simp_all add: call_post_def)
            from finishCall_total [OF this, of r] obtain c' where
              f: "finishCall (c1\<lparr>st_host := h\<rparr>) r off sz E = Some c'" "mem_ok c'"
                 "st_gas c' = st_gas c1 + r_GasLeft r" "st_host c' = h" "st_code c' = st_code c1"
                 "st_bitmap c' = st_bitmap c1" "st_msg c' = st_msg c1" "st_config c' = st_config c1"
                 "st_ip c' = st_ip c1" "st_ret c' = st_ret c1"
              by auto
            with N True g b p pre Some x gl' show ?thesis
              by (simp add: opCall_def inst_defs call_post_def)
          qed
        qed
      qed
    qed
  qed
  then show ?thesis by (simp add: inst_strict_def)
qed

definition create_post where
  "create_post c k e c' \<longleftrightarrow>
     st_code c' = st_code c \<and> st_bitmap c' = st_bitmap c \<and> st_msg c' = st_msg c \<and>
     st_config c' = st_config c \<and> I (st_host c') \<and> st_ip c' = st_ip c \<and> st_ret c' = st_ret c \<and>
     unat (st_gas c') \<le> unat (st_gas c) \<and> (st_err c' = None \<longrightarrow> mem_ok c') \<and>
     (case k of None \<Rightarrow> True
      | Some k \<Rightarrow> e = None \<and> c_Depth k = Suc (c_Depth (st_msg c)) \<and> length (c_Code k) < 2 ^ 63 \<and>
          length (c_Input k) < 2 ^ 63 \<and> value_ok k \<and> mem_ok c' \<and>
          unat (st_gas c') + unat (c_Gas k) \<le> unat (st_gas c))"

lemma create_gas:
  fixes g :: u64
  shows "unat (g - (g - g div 64)) + unat (g - g div 64) = unat g" "g - g div 64 \<le> g"
proof -
  have 1: "g div 64 \<le> g" by (simp add: word_le_nat_alt unat_div)
  then have "unat (g - g div 64) = unat g - unat (g div 64)" by (simp add: unat_sub)
  moreover have "g - (g - g div 64) = g div 64" by simp
  ultimately show "unat (g - (g - g div 64)) + unat (g - g div 64) = unat g"
    using 1 by (simp add: word_le_nat_alt)
  show "g - g div 64 \<le> g" using 1 by (simp add: word_sub_le)
qed

lemma create_tail:
  assumes m: "mem_ok c" and h: "I (st_host c)" and f: "same_frame c0 c" and l: "length input < 2 ^ 63"
    and u: "uint256_doc U"
  shows "\<exists>k e c'. (if hasTransfer \<and>
                  GetBalance H (st_host c) (c_Address (st_msg c)) < u_ToBig U value
          then Some ((None, Some TypesErrInsufficientFunds), c)
          else
            let gas = st_gas c;
                gas = (if EIP150 (st_config c) \<or> op = CREATE2 then gas - gas div 64 else gas);
                (ok, c) = consumeGas c gas
            in if \<not> ok then Some ((None, None), c)
            else
              let m = st_msg c;
                  address = (if op = CREATE
                             then CreateAddress E (c_Address m) (GetNonce H (st_host c) (c_Address m))
                             else CreateAddress2 E (c_Address m) (uint256ToHash E salt) input);
                  contract = NewContractCreation (c_Depth m + 1) (c_Origin m) (c_Address m) address
                               (Some (u_ToBig U value)) gas input
              in Some ((Some contract, None), c)) = Some ((k, e), c') \<and> create_post c0 k e c'"
proof -
  let ?g = "if EIP150 (st_config c) \<or> op = CREATE2 then st_gas c - st_gas c div 64 else st_gas c"
  have g: "?g \<le> st_gas c" "unat (st_gas c - ?g) + unat ?g = unat (st_gas c)"
    using create_gas [of "st_gas c"] by simp_all
  then have "unat (st_gas c - ?g) \<le> unat (st_gas c)" by linarith
  with g f m h l show ?thesis
    by (simp add: same_frame_def create_post_def Let_def split_def NewContractCreation_def
        NewContract_def value_ok_def uint256_docD [OF u] del: diff_self)
qed

lemma consumeGas_same: "consumeGas c g = (ok, c') \<Longrightarrow> same_frame c c' \<and> (mem_ok c \<longrightarrow> mem_ok c')"
  by (auto simp: consumeGas_def same_frame_def Let_def mem_ok_def unat_sub_mono split: if_splits)

lemma consumeGas_out: "consumeGas c g = (False, c') \<Longrightarrow> st_stop c' \<and> st_err c' \<noteq> None"
  by (auto simp: consumeGas_def Let_def split: if_splits)

lemma buildCreate_total:
  assumes m: "mem_ok c" and h: "I (st_host c)"
  shows "\<exists>k e c'. buildCreateContract op E c = Some ((k, e), c') \<and> create_post c k e c'"
proof -
  obtain v c0 where p0: "pop c = (v, c0)" by fastforce
  obtain off c1 where p1: "pop c0 = (off, c1)" by fastforce
  obtain len c2 where p2: "pop c1 = (len, c2)" by fastforce
  obtain salt c3 where p3: "(if op = CREATE2 then pop c2 else (0, c2)) = (salt, c3)" by fastforce
  have f2: "mem_ok c2 \<and> same_frame c c2"
    using pop_same [OF p0 m] pop_same [OF p1] pop_same [OF p2] same_frame_trans by blast
  then have f3: "mem_ok c3 \<and> same_frame c c3"
    using p3 pop_same [of c2] same_frame_trans [of c c2 c3] by (auto split: if_splits)
  then have m3: "mem_ok c3" by simp
  obtain args b c4 where g: "get2 E c3 [] off len = Some ((args, b), c4)"
    and c4: "c4 = c3 \<or> c4 = snd (allocateMemory E c3 off len)"
    and b: "b \<Longrightarrow> mem_ok c4" "\<not> b \<Longrightarrow> st_stop c4" "\<not> b \<Longrightarrow> st_err c4 \<noteq> None"
    and la0: "length args < length ([] :: bytes) + 2 ^ 42"
    by (rule get2_total [OF m3, of "[]" off len]) blast
  have la: "length args < 2 ^ 63" using la0 by simp
  have f4: "same_frame c c4"
    using f3 c4 same_frame_trans [OF _ same_frame_alloc, of c c3 off len] by auto
  note unf = buildCreateContract_def Let_def p0 p1 p2 p3 g
  obtain ok c5 where k: "(if op = CREATE2 then consumeGas c4 (((u_Uint64 (env_U E) len + 31) div 32) * sha3WordGas)
                         else (True, c4)) = (ok, c5)" by fastforce
  show ?thesis
  proof (cases "b \<and> ok")
    case True
    then have f5: "same_frame c c5" "mem_ok c5"
      using k f4 b(1) consumeGas_same [of c4] same_frame_trans [of c c4 c5] by (auto split: if_splits)
    have "I (st_host c5)" using f5(1) h by (simp add: same_frame_def)
    note tail = create_tail [OF f5(2) this f5(1) la lib, of "u_Sign (env_U E) v \<noteq> 0" "env_H E" v op
        salt]
    show ?thesis
      by (rule back_subst [of "\<lambda>x. \<exists>k e c'. x = Some ((k, e), c') \<and> create_post c k e c'", OF tail])
         (use True in \<open>simp add: unf k\<close>)
  next
    case False
    show ?thesis
    proof (cases b)
      case b1: True
      then have op: "op = CREATE2" and nok: "\<not> ok" using False k by (auto split: if_splits)
      have "mem_ok c5" "same_frame c c5"
        using k f4 b(1) [OF b1] op consumeGas_same [of c4] same_frame_trans [of c c4 c5]
        by auto
      then show ?thesis
        using b1 nok h by (simp add: unf k create_post_def same_frame_def)
    next
      case False
      with b f4 h show ?thesis by (auto simp: unf create_post_def same_frame_def)
    qed
  qed
qed

lemma ok_create: "inst_ok E I d D n (opCreate op)"
proof -
  have "D \<and> opCreate op E c = None \<or> (\<exists>c'. opCreate op E c = Some c' \<and> inst_post I c c')" if pre: "inst_pre I d n c" for c
  proof (cases "inStaticCall c \<or> op = CREATE2 \<and> \<not> Constantinople (st_config c)")
    case True
    with pre show ?thesis by (auto simp: opCreate_def inst_defs)
  next
    case False
    have "mem_ok (resetReturnData c)" "I (st_host (resetReturnData c))"
      using pre by (simp_all add: inst_pre_def)
    from buildCreate_total [OF this, of op] obtain k e c1 where
      b: "buildCreateContract op E (resetReturnData c) = Some ((k, e), c1)"
      and p: "create_post (resetReturnData c) k e c1" by blast
    show ?thesis
    proof (cases k)
      case None
      with False b p pre show ?thesis
        by (auto simp: opCreate_def inst_defs create_post_def split: option.splits)
    next
      case (Some m)
      let ?m = "m\<lparr>c_Type := Create\<rparr>"
      have "I (st_host c1)" "c_Depth ?m = Suc d" "length (c_Code ?m) < 2 ^ 63"
        "length (c_Input ?m) < 2 ^ 63" "unat (c_Gas ?m) \<le> MaxGas" "value_ok ?m" and e: "e = None"
        using p pre Some by (simp_all add: create_post_def inst_pre_def)
      from callx [OF this(1-6)] show ?thesis
      proof (elim disjE exE conjE)
        assume D "Callx (env_H E) (st_host c1) ?m = None"
        with False b Some e show ?thesis by (auto simp: opCreate_def)
      next
        fix r h
        assume x: "Callx (env_H E) (st_host c1) ?m = Some (r, h)" "r_GasLeft r \<le> c_Gas ?m" "I h"
        have "unat (st_gas c1) + unat (r_GasLeft r) \<le> unat (st_gas c)"
          using p Some x(2) by (simp add: create_post_def word_le_nat_alt)
        then have "unat (st_gas c1 + r_GasLeft r) \<le> unat (st_gas c)"
          using unat_add_le [of "st_gas c1" "r_GasLeft r"] by linarith
        with False b p pre Some e x show ?thesis
          by (simp add: opCreate_def inst_defs create_post_def)
      qed
    qed
  qed
  then show ?thesis by (simp add: inst_ok_def)
qed

lemma account_cost:
  assumes "(if Berlin (st_config c) then calculateGasForEIP2929 E c a
            else if EIP150 (st_config c) then (700, c) else (20, c)) = (g, c')"
  shows "st_code c' = st_code c" "st_bitmap c' = st_bitmap c" "st_msg c' = st_msg c"
    "st_config c' = st_config c" "st_ip c' = st_ip c" "st_gas c' = st_gas c"
    "st_memory c' = st_memory c" "mem_ok c' = mem_ok c" "st_ret c' = st_ret c" "I (st_host c) \<Longrightarrow> I (st_host c')" "0 < g"
  using arg_cong [OF assms, of fst] arg_cong [OF assms, of snd] calculateGas_I [of c a]
    calculateGas_pos [of E c a]
  by (auto split: if_splits)

lemma strict_extcodecopy: "inst_strict E I d D 4 opExtCodeCopy"
proof -
  have "\<exists>c'. opExtCodeCopy E c = Some c' \<and> inst_post I c c' \<and> (st_stop c' \<or> unat (st_gas c') < unat (st_gas c))"
    if pre: "inst_pre I d 4 c" for c
  proof -
    obtain ad u c1 where p1: "popAddr E c = ((ad, u), c1)" by (metis prod.collapse)
    obtain off c2 where p2: "pop c1 = (off, c2)" by fastforce
    obtain src c3 where p3: "pop c2 = (src, c3)" by fastforce
    obtain len c4 where p4: "pop c3 = (len, c4)" by fastforce
    have f4: "mem_ok c4 \<and> same_frame c c4"
      using popAddr_same [OF p1] pop_same [OF p2] pop_same [OF p3] pop_same [OF p4] pre
        same_frame_trans unfolding inst_pre_def by blast
    obtain ok c5 where a: "allocateMemory E c4 off len = (ok, c5)" by fastforce
    have f5: "same_frame c c5" using same_frame_trans [OF _ same_frame_alloc, of c c4 off len] f4 a by simp
    define sz where "sz = u_Uint64 (env_U E) len"
    obtain ok1 c6 where k: "consumeGas c5 (((sz + 31) div 32) * copyGas) = (ok1, c6)"
      by fastforce
    note unf = opExtCodeCopy_def Let_def p1 p2 p3 p4 a k sz_def [symmetric]
    show ?thesis
    proof (cases "ok \<and> ok1")
      case False
      show ?thesis
      proof (cases ok)
        case True
        with False have "ok1 = False" by simp
        with k have "st_stop c6" "st_err c6 \<noteq> None" using consumeGas_out by blast+
        moreover have "opExtCodeCopy E c = Some c6" using True \<open>ok1 = False\<close> by (simp add: unf)
        moreover have "same_frame c c6" using same_frame_trans [OF f5] consumeGas_same [OF k] by blast
        ultimately show ?thesis using pre by (auto simp: inst_defs same_frame_def)
      next
        case False
        then have "opExtCodeCopy E c = Some c5" by (simp add: unf)
        with False allocateMemory_fail [of E c4 off len] a f5 pre show ?thesis
          by (auto simp: inst_defs same_frame_def)
      qed
    next
      case True
      then have al: "fst (allocateMemory E c4 off len)" "mem_ok c4" using a f4 by simp_all
      have f6: "same_frame c c6" "mem_ok c6" "st_memory c6 = st_memory c5"
        using consumeGas_same [OF k] f5 same_frame_trans alloc_mem(1) [OF al] a k
        by (auto simp: consumeGas_def Let_def split: if_splits)
      obtain gas c7 where g: "(if Berlin (st_config c6) then calculateGasForEIP2929 E c6 ad
                  else if EIP150 (st_config c6) then (700, c6) else (20, c6)) = (gas, c7)" by fastforce
      obtain ok2 c8 where k2: "consumeGas c7 gas = (ok2, c8)" by fastforce
      have f7: "st_code c7 = st_code c" "st_bitmap c7 = st_bitmap c" "st_msg c7 = st_msg c"
        "st_config c7 = st_config c" "st_ip c7 = st_ip c" "st_gas c7 = st_gas c6" "I (st_host c7)"
        "mem_ok c7" "st_memory c7 = st_memory c6" "0 < gas" "st_ret c7 = st_ret c"
        using account_cost [OF g] f6 pre by (auto simp: same_frame_def inst_pre_def)
      have f8: "same_frame c7 c8" "mem_ok c8" "st_memory c8 = st_memory c7"
        "ok2 \<Longrightarrow> unat (st_gas c8) < unat (st_gas c7)"
        using consumeGas_same [OF k2] k2 f7
        by (auto simp: consumeGas_def Let_def split: if_splits)
      have post: "inst_post I c c8 \<and> (st_stop c8 \<or> unat (st_gas c8) < unat (st_gas c))"
        using f8 f7 consumeGas_out [of c7 gas c8] k2 pre f6(1)
        by (cases ok2) (auto simp: same_frame_def inst_post_def inst_pre_def)
      obtain code h where gc: "GetCode (env_H E) (st_host c8) ad = (code, h)" by fastforce
      have "I (st_host c8)" using f8(1) f7(7) by (simp add: same_frame_def)
      then have "I h" using I_GetCode [of "st_host c8" ad] gc by simp
      let ?c = "c8\<lparr>st_host := h\<rparr>"
      have z: "sz = 0 \<Longrightarrow> consumeGas c5 0 = (ok1, c6)" using k by simp
      consider "\<not> ok2" | "ok2" "sz = 0" | "ok2" "sz \<noteq> 0" by blast
      then show ?thesis
      proof cases
        case 1
        with True z have "opExtCodeCopy E c = Some c8" by (simp add: unf g k2)
        with post show ?thesis by simp
      next
        case 2
        with True z have "opExtCodeCopy E c = Some ?c" by (simp add: unf g k2 gc)
        with post \<open>I h\<close> show ?thesis by (simp add: inst_post_def)
      next
        case 3
        then have "len \<noteq> 0" using lib by (auto simp: uint256_docD sz_def)
        have "st_memory ?c = st_memory (snd (allocateMemory E c4 off len))"
          using f8(3) f7(9) f6(3) a by simp
        from copy_total [OF al \<open>len \<noteq> 0\<close> this, of code src, folded sz_def] obtain m where
          "setMemory E ?c off code sz src = Some (?c\<lparr>st_memory := m\<rparr>)"
          "mem_ok (?c\<lparr>st_memory := m\<rparr>) = mem_ok ?c" .
        moreover from this True 3 have "opExtCodeCopy E c = Some (?c\<lparr>st_memory := m\<rparr>)"
          by (simp add: unf g k2 gc)
        ultimately show ?thesis using post \<open>I h\<close> by (simp add: inst_post_def)
      qed
    qed
  qed
  then show ?thesis by (simp add: inst_strict_def)
qed

section \<open>The dispatch table\<close>

definition handler_ok :: "'h handler \<Rightarrow> bool" where
  "handler_ok h \<longleftrightarrow> 0 < hd_gas h \<and> inst_ok E I d D (hd_stack h) (hd_inst h) \<or>
     inst_strict E I d D (hd_stack h) (hd_inst h)"

lemma handlersA_ok: "\<forall>x \<in> set handlersA. handler_ok (snd x)"
  using lib
  by (simp add: handlersA_def handler_ok_def mkHandler_def ok_arith ok_exp ok_context ok_stack)

lemma handlersB_ok: "\<forall>x \<in> set handlersB. handler_ok (snd x)"
  by (simp add: handlersB_def handler_ok_def mkHandler_def ok_arith ok_exp ok_context ok_stack
      ok_big strict_account ok_mload ok_mstore ok_mstore8 ok_sload ok_sstore ok_selfdestruct
      ok_sha3 ok_halt ok_calldataload ok_codecopy ok_calldatacopy ok_returndatacopy
      ok_jump ok_jumpi strict_call ok_create strict_extcodecopy
      del: One_nat_def)

lemma rangeHandler_ok: "rangeHandler op = Some h \<Longrightarrow> handler_ok h"
  by (auto simp: rangeHandler_def handler_ok_def mkHandler_def ok_push ok_dup ok_swap ok_log
      split: if_splits)

lemma dispatch_ok: "dispatchTable op = Some h \<Longrightarrow> handler_ok h"
  using handlersA_ok handlersB_ok rangeHandler_ok by (fastforce elim: dispatchTable_cases)

section \<open>The interpreter loop\<close>

definition run_inv :: "'h state \<Rightarrow> bool" where
  "run_inv c \<longleftrightarrow> I (st_host c) \<and> c_Depth (st_msg c) = d \<and> mem_ok c \<and>
     length (st_bitmap c) = length (st_code c) div 8 + 1 \<and> length (st_code c) < 2 ^ 63 \<and>
     length (st_ret c) < 2 ^ 63 \<and> 0 \<le> st_ip c \<and> unat (st_gas c) \<le> MaxGas \<and>
     value_ok (st_msg c)"

lemma handler_step:
  assumes "handler_ok h" "run_inv c" "st_ip c < int (length (st_code c))"
    "hd_stack h \<le> length (st_stack c)" "hd_gas h \<le> st_gas c"
  obtains D "hd_inst h E (snd (consumeGas c (hd_gas h))) = None"
  | c' where "hd_inst h E (snd (consumeGas c (hd_gas h))) = Some c'" "inst_post I c c'"
    "st_stop c' \<or> unat (st_gas c') < unat (st_gas c)"
proof -
  let ?c = "snd (consumeGas c (hd_gas h))"
  have g: "st_gas ?c = st_gas c - hd_gas h" using assms(5) by simp
  have le: "unat (st_gas ?c) \<le> unat (st_gas c)" using assms(5) unfolding g by (rule unat_sub_mono)
  have pre: "inst_pre I d (hd_stack h) ?c"
    using assms(2-4) le by (simp add: run_inv_def inst_pre_def)
  have post: "inst_post I c c'" if "inst_post I ?c c'" for c'
    using that order_trans [OF _ le, of "unat (st_gas c')"]
    unfolding inst_post_def consumeGas_frame by blast
  show thesis
  proof (cases "inst_strict E I d D (hd_stack h) (hd_inst h)")
    case True
    note i = True [unfolded inst_strict_def, rule_format, OF pre]
    show thesis
    proof (cases "hd_inst h E ?c")
      case None
      with i show thesis by (intro that(1)) simp_all
    next
      case (Some c')
      with i have c': "inst_post I ?c c'" "st_stop c' \<or> unat (st_gas c') < unat (st_gas ?c)" by simp_all
      have "st_stop c' \<or> unat (st_gas c') < unat (st_gas c)" using c'(2) le by linarith
      with Some post [OF c'(1)] show thesis by (rule that(2))
    qed
  next
    case False
    with assms(1) have pos: "0 < hd_gas h" and ok: "inst_ok E I d D (hd_stack h) (hd_inst h)"
      unfolding handler_ok_def by blast+
    note i = ok [unfolded inst_ok_def, rule_format, OF pre]
    show thesis
    proof (cases "hd_inst h E ?c")
      case None
      with i show thesis by (intro that(1)) simp_all
    next
      case (Some c')
      with i have c': "inst_post I ?c c'" by simp
      have "unat (st_gas ?c) < unat (st_gas c)"
        unfolding g using assms(5) pos by (rule unat_sub_strict)
      moreover have "unat (st_gas c') \<le> unat (st_gas ?c)" using c' unfolding inst_post_def by blast
      ultimately have "st_stop c' \<or> unat (st_gas c') < unat (st_gas c)" by linarith
      with Some post [OF c'] show thesis by (rule that(2))
    qed
  qed
qed

lemma run_step_total:
  assumes inv: "run_inv c"
  shows "D \<and> run_step E c = None \<or>
    (\<exists>k c'. run_step E c = Some (k, c') \<and> I (st_host c') \<and> length (st_ret c') < 2 ^ 63 \<and>
      unat (st_gas c') \<le> unat (st_gas c) \<and>
      (k = Next \<longrightarrow> run_inv c' \<and> (st_stop c' \<or> unat (st_gas c') < unat (st_gas c))))"
proof (cases "st_ip c < int (length (st_code c))")
  case False
  then have "run_step E c = Some (Break, Halt c)" by (simp add: run_step_def CurrentOpCode_def)
  with inv show ?thesis by (simp add: run_inv_def)
next
  case True
  define op where "op = unat (st_code c ! nat (st_ip c))"
  have op: "CurrentOpCode c = Some (op, True)"
    using True inv by (simp add: CurrentOpCode_def go_index_def run_inv_def op_def)
  show ?thesis
  proof (cases "dispatchTable op :: 'h handler option")
    case None
    with op inv show ?thesis by (simp add: run_step_def run_inv_def)
  next
    case (Some h)
    show ?thesis
    proof (cases "hd_stack h \<le> length (st_stack c) \<and> hd_gas h \<le> st_gas c")
      case False
      with op Some inv show ?thesis
        by (auto simp: run_step_def run_inv_def split_def Let_def)
    next
      case ok: True
      from ok have ok': "hd_stack h \<le> length (st_stack c)" "hd_gas h \<le> st_gas c" by simp_all
      show ?thesis
      proof (cases rule: handler_step [OF dispatch_ok [OF Some] inv True ok'])
      case 1
      with op Some ok show ?thesis by (simp add: run_step_def split_def Let_def)
      next
      case h: (2 c')
      have l: "length (st_ret c') < 2 ^ 63" using h(2) inv by (simp add: inst_post_def run_inv_def)
      show ?thesis
      proof (cases "st_err c' = None \<and> length (st_stack c') \<le> stackSize")
        case False
        with op Some ok h(1) have "\<exists>e. run_step E c = Some (Break, c') \<or> run_step E c = Some (Break, exit c' e)"
          by (auto simp: run_step_def split_def Let_def)
        then show ?thesis using h(2) l by (auto simp: inst_post_def)
      next
        case e: True
        then have "run_step E c = Some (Next, c'\<lparr>st_ip := st_ip c' + 1\<rparr>)"
          using op Some ok h by (simp add: run_step_def split_def Let_def)
        with h e inv show ?thesis
          by (simp add: inst_post_def run_inv_def)
      qed
      qed
    qed
  qed
qed

lemma run_loop_total:
  assumes "run_inv c" and "st_stop c \<and> 0 < n \<or> unat (st_gas c) + 2 \<le> n"
  shows "D \<and> run_loop E n c = None \<or>
    (\<exists>c'. run_loop E n c = Some c' \<and> I (st_host c') \<and> length (st_ret c') < 2 ^ 63 \<and>
      unat (st_gas c') \<le> unat (st_gas c))"
  using assms
proof (induction n arbitrary: c)
  case (Suc n)
  show ?case
  proof (cases "st_stop c")
    case True
    with Suc.prems show ?thesis by (simp add: run_inv_def)
  next
    case False
    from run_step_total [OF Suc.prems(1)] show ?thesis
    proof (elim disjE exE conjE)
      assume D "run_step E c = None"
      with False show ?thesis by simp
    next
      fix k c'
      assume s: "run_step E c = Some (k, c')" "I (st_host c')" "length (st_ret c') < 2 ^ 63"
        "unat (st_gas c') \<le> unat (st_gas c)"
        and nx: "k = Next \<longrightarrow> run_inv c' \<and> (st_stop c' \<or> unat (st_gas c') < unat (st_gas c))"
      show ?thesis
      proof (cases k)
        case Break
        with s False show ?thesis by simp
      next
        case Next
        with nx False Suc.prems(2) have "run_inv c'" "st_stop c' \<and> 0 < n \<or> unat (st_gas c') + 2 \<le> n"
          by auto
        from Suc.IH [OF this] s Next False show ?thesis by fastforce
      qed
    qed
  qed
qed simp

lemma EVM_Run_total:
  assumes "fresh s" and "I h" and "c_Depth m = d" and "length (c_Code m) < 2 ^ 63"
    and "unat (c_Gas m) \<le> MaxGas" and "value_ok m"
  shows "D \<and> EVM_Run E s m h config = None \<or>
    (\<exists>r h'. EVM_Run E s m h config = Some (r, h') \<and> r_GasLeft r \<le> c_Gas m \<and>
      r_GasUsed r = c_Gas m - r_GasLeft r \<and> length (r_ReturnValue r) < 2 ^ 63 \<and> I h')"
proof -
  obtain b where b: "bitmap_setCode (st_bitmap s) (c_Code m) = Some b"
    "length b = length (c_Code m) div 8 + 1"
    using bitmap_setCode_total by blast
  let ?s = "(resetReturnData s)\<lparr>st_msg := m, st_code := c_Code m, st_gas := c_Gas m, st_host := h,
                st_config := config, st_bitmap := b\<rparr>"
  have i: "initState s m h config = Some ?s" using b by (simp add: initState_def)
  have "run_inv ?s"
    using assms b by (simp add: run_inv_def fresh_def mem_ok_def memCost_def)
  then have "D \<and> run_loop E (unat (c_Gas m) + 2) ?s = None \<or>
    (\<exists>c'. run_loop E (unat (c_Gas m) + 2) ?s = Some c' \<and> I (st_host c') \<and>
      length (st_ret c') < 2 ^ 63 \<and> unat (st_gas c') \<le> unat (c_Gas m))"
    using run_loop_total [of ?s "unat (c_Gas m) + 2"] by auto
  then show ?thesis
  proof (elim disjE exE conjE)
    assume D "run_loop E (unat (c_Gas m) + 2) ?s = None"
    then show ?thesis by (simp add: EVM_Run_def i state_Run_def Let_def del: run_loop.simps add_2_eq_Suc')
  next
    fix c'
    assume "run_loop E (unat (c_Gas m) + 2) ?s = Some c'" "I (st_host c')"
      "length (st_ret c') < 2 ^ 63" "unat (st_gas c') \<le> unat (c_Gas m)"
    then have "\<exists>r h'. EVM_Run E s m h config = Some (r, h') \<and> r_GasLeft r \<le> c_Gas m \<and>
      r_GasUsed r = c_Gas m - r_GasLeft r \<and> length (r_ReturnValue r) < 2 ^ 63 \<and> I h'"
      by (auto simp: EVM_Run_def i state_Run_def word_le_nat_alt Let_def simp del: run_loop.simps add_2_eq_Suc')
    then show ?thesis ..
  qed
qed

end

end
