(* ===== verification/Txn_Inv.thy ===== *)
theory Txn_Inv
  imports StateTxn "HOL-Library.Sublist"
begin

text \<open>
  The invariant of a \<^verbatim>\<open>Txn\<close> during the execution of a frame, \<open>txn_ok L K S\<close>: the read-only snapshot
  returns slots of 32 bytes and codes that fit in memory, the same holds of the codes of the objects
  and of the cache, the stack of snapshots extends \<open>S\<close>, and no finite set of accounts holds more than
  \<open>K\<close> coins, neither now nor in a snapshot taken since \<open>S\<close>. Every operation a frame performs keeps it;
  an increase of balances has to be paid for by a decrease.
\<close>

section \<open>Sums of balances\<close>

definition supply_fun :: "int \<Rightarrow> ('a \<Rightarrow> int) \<Rightarrow> bool" where
  "supply_fun K f \<longleftrightarrow> (\<forall>A. finite A \<longrightarrow> sum f A \<le> K)"

lemma supply_mono: "supply_fun K f \<Longrightarrow> K \<le> K' \<Longrightarrow> supply_fun K' f"
  by (auto simp: supply_fun_def intro: order_trans)

lemma sum_insert_upd:
  fixes f :: "'a \<Rightarrow> int"
  assumes "finite A"
  shows "sum (f(a := x)) (insert a A) = sum f (insert a A) - f a + x"
proof -
  have "sum (f(a := x)) (A - {a}) = sum f (A - {a})" by (rule sum.cong) auto
  then show ?thesis using assms by (simp add: sum.insert_remove)
qed

lemma supply_upd:
  fixes f :: "'a \<Rightarrow> int"
  assumes "supply_fun K f" "\<And>b. 0 \<le> f b" "0 \<le> x"
  shows "supply_fun (K - f a + x) (f(a := x))"
  unfolding supply_fun_def
proof (intro allI impI)
  fix A :: "'a set" assume A: "finite A"
  have "sum (f(a := x)) A \<le> sum (f(a := x)) (insert a A)"
    using A assms(2,3) by (intro sum_mono2) auto
  also have "\<dots> = sum f (insert a A) - f a + x" using A by (rule sum_insert_upd)
  also have "\<dots> \<le> K - f a + x" using assms(1) A by (simp add: supply_fun_def)
  finally show "sum (f(a := x)) A \<le> K - f a + x" .
qed

lemma supply_single: "supply_fun K f \<Longrightarrow> f a \<le> K"
  unfolding supply_fun_def by (drule spec [of _ "{a}"]) simp

definition supply_le :: "('t, 's, 'c) statelib \<Rightarrow> int \<Rightarrow> ('t, 'c) Txn \<Rightarrow> bool" where
  "supply_le L K txn \<longleftrightarrow> supply_fun K (Txn_GetBalance L txn)"

lemma supply_le_cong:
  "txn_txn t = txn_txn t' \<Longrightarrow> txn_snapshot t = txn_snapshot t' \<Longrightarrow> supply_le L K t = supply_le L K t'"
  using getStateObject_cong [of t t' L] by (simp add: supply_le_def Txn_GetBalance_def [abs_def])

definition code_tree :: "('t, 's, 'c) statelib \<Rightarrow> 't tree \<Rightarrow> bool" where
  "code_tree L tr \<longleftrightarrow> (\<forall>k obj. ir_Get (lib_objs L) (tr_objs tr) k = Some obj \<longrightarrow> length (so_Code obj) < 2 ^ 63)"

definition snap_ok :: "readSnapshot \<Rightarrow> bool" where
  "snap_ok sn \<longleftrightarrow> (\<forall>a r k. length (sn_GetStorage sn a r k) = 32) \<and> (\<forall>h. length (fst (sn_GetCode sn h)) < 2 ^ 63)"

definition txn_ok :: "('t, 's, 'c) statelib \<Rightarrow> int \<Rightarrow> 't tree list \<Rightarrow> ('t, 'c) Txn \<Rightarrow> bool" where
  "txn_ok L K S txn \<longleftrightarrow>
     snap_ok (txn_snapshot txn) \<and> prefix S (txn_snapshots txn) \<and>
     (\<forall>tr \<in> set (txn_txn txn # drop (length S) (txn_snapshots txn)).
        code_tree L tr \<and> supply_le L K (txn\<lparr>txn_txn := tr\<rparr>)) \<and>
     (\<forall>a v. cached (lib_lru L) (txn_codeCache txn) a v \<longrightarrow> length v < 2 ^ 63)"

lemma txn_ok_supply: "txn_ok L K S t \<Longrightarrow> supply_le L K t"
  by (simp add: txn_ok_def)

lemma txn_ok_step:
  assumes "txn_ok L K S t" "txn_snapshot t' = txn_snapshot t" "txn_snapshots t' = txn_snapshots t"
    and "txn_codeCache t' = txn_codeCache t" "code_tree L (txn_txn t')" "supply_le L K t'"
  shows "txn_ok L K S t'"
proof -
  have "supply_le L K (t'\<lparr>txn_txn := tr\<rparr>) = supply_le L K (t\<lparr>txn_txn := tr\<rparr>)" for tr
    by (rule supply_le_cong) (simp_all add: assms)
  moreover from this [of "txn_txn t'"] have "supply_le L K (t\<lparr>txn_txn := txn_txn t'\<rparr>)" using assms by simp
  ultimately show ?thesis using assms by (simp add: txn_ok_def)
qed

text \<open>Operations on the logs and on the refund counter.\<close>

lemma txn_ok_same_objs:
  assumes "txn_ok L K S t" "txn_snapshot t' = txn_snapshot t" "txn_snapshots t' = txn_snapshots t"
    and "txn_codeCache t' = txn_codeCache t" "tr_objs (txn_txn t') = tr_objs (txn_txn t)"
  shows "txn_ok L K S t'"
proof -
  have "getStateObject L t' = getStateObject L t"
    using assms by (simp add: getStateObject_def fun_eq_iff cong: option.case_cong)
  then have "supply_le L K t'" using txn_ok_supply [OF assms(1)]
    by (simp add: supply_le_def Txn_GetBalance_def [abs_def])
  moreover have "code_tree L (txn_txn t')" using assms by (simp add: txn_ok_def code_tree_def)
  ultimately show ?thesis using assms by (intro txn_ok_step [OF assms(1)])
qed

lemma txn_ok_refund [simp]:
  "txn_ok L K S t \<Longrightarrow> txn_ok L K S (AddRefund t g)" "txn_ok L K S t \<Longrightarrow> txn_ok L K S (SubRefund t g)"
  by (erule txn_ok_same_objs; simp add: AddRefund_def SubRefund_def)+

lemma txn_ok_log [simp]: "txn_ok L K S t \<Longrightarrow> txn_ok L K S (Txn_EmitLog t a ts d)"
  by (erule txn_ok_same_objs) (simp_all add: Txn_EmitLog_def Let_def)

lemma txn_ok_logs [simp]: "txn_ok L K S t \<Longrightarrow> txn_ok L K S (snd (Txn_Logs t))"
  by (erule txn_ok_same_objs) (simp_all add: Txn_Logs_def split: option.split)

section \<open>Operations on accounts\<close>

context state_library
begin

lemma fetch_code:
  assumes "txn_ok L K S t" shows "length (so_Code (fetch L t a)) < 2 ^ 63"
  using assms
  by (auto simp: txn_ok_def code_tree_def fetch_def getStateObject_def split: option.split sum.split)

lemma bal_insert:
  assumes "\<not> so_Deleted obj"
  shows "Txn_GetBalance L (insertObject L t a obj) =
    (Txn_GetBalance L t)(a := copyBig (acc_Balance (so_Account obj)))"
  using assms by (auto simp: GetBalance_fetch fetch_insert)

lemma txn_ok_insert:
  assumes "txn_ok L K S t" "length (so_Code obj) < 2 ^ 63" "supply_le L K (insertObject L t a obj)"
  shows "txn_ok L K S (insertObject L t a obj)"
proof (rule txn_ok_step [OF assms(1)])
  have "code_tree L (txn_txn t)" using assms(1) by (simp add: txn_ok_def)
  then show "code_tree L (txn_txn (insertObject L t a obj))"
    using assms(2) by (simp add: code_tree_def insertObject_def get_Insert)
qed (use assms(3) in simp_all)

lemma txn_ok_same_balance:
  assumes "txn_ok L K S t" "length (so_Code obj) < 2 ^ 63" "\<not> so_Deleted obj"
    and "acc_Balance (so_Account obj) = Txn_GetBalance L t a"
  shows "txn_ok L K S (insertObject L t a obj)"
proof (rule txn_ok_insert [OF assms(1,2)])
  have "Txn_GetBalance L (insertObject L t a obj) = Txn_GetBalance L t"
    using assms(3,4) balance_nonneg [of t a] by (simp add: bal_insert copyBig_id)
  then show "supply_le L K (insertObject L t a obj)"
    using txn_ok_supply [OF assms(1)] by (simp add: supply_le_def)
qed

lemma txn_ok_update:
  assumes "txn_ok L K S t" "length (so_Code (f (fetch L t a))) < 2 ^ 63" "\<not> so_Deleted (f (fetch L t a))"
    and "acc_Balance (so_Account (f (fetch L t a))) = acc_Balance (so_Account (fetch L t a))"
  shows "txn_ok L K S (updateAccount L t a f)"
  using assms by (simp add: updateAccount_eq txn_ok_same_balance GetBalance_fetch)

lemma txn_ok_SetState: "txn_ok L K S t \<Longrightarrow> txn_ok L K S (SetState L t a k v)"
  unfolding SetState_eq by (rule txn_ok_same_balance) (simp_all add: fetch_code [simplified] GetBalance_fetch)

lemma txn_ok_SetStorage: "txn_ok L K S t \<Longrightarrow> txn_ok L K S (snd (Txn_SetStorage L t a k v cfg))"
  unfolding Txn_SetStorage_def Let_def by (simp add: txn_ok_SetState split: if_split)

lemma txn_ok_IncrNonce: "txn_ok L K S t \<Longrightarrow> txn_ok L K S (snd (IncrNonce L t a))"
  unfolding IncrNonce_def Let_def snd_conv by (rule txn_ok_update) (simp_all add: fetch_code [simplified] split: if_split)

lemma txn_ok_SetCode: "txn_ok L K S t \<Longrightarrow> length code < 2 ^ 63 \<Longrightarrow> txn_ok L K S (SetCode L t a code)"
  unfolding SetCode_def by (rule txn_ok_update) simp_all

lemma txn_ok_Touch: "txn_ok L K S t \<Longrightarrow> txn_ok L K S (TouchAccount L t a)"
  unfolding TouchAccount_def by (rule txn_ok_update) (simp_all add: fetch_code [simplified])

lemma txn_ok_Create: "txn_ok L K S t \<Longrightarrow> txn_ok L K S (CreateAccount L t a)"
  using balance_nonneg [of t a]
  by (auto simp: CreateAccount_def Let_def Txn_GetBalance_def copyBig_id split: option.splits intro!: txn_ok_same_balance)

lemma txn_ok_GetCode:
  assumes "txn_ok L K S t"
  shows "txn_ok L K S (snd (Txn_GetCode L t a))" "length (fst (Txn_GetCode L t a)) < 2 ^ 63"
proof -
  let ?C = "lib_lru L"
  have d: "cached ?C (snd (lru_Get ?C c b)) a v \<Longrightarrow> cached ?C c a v"
    "cached ?C (lru_Add ?C c b w) a v \<Longrightarrow> if a = b then v = w else cached ?C c a v" for c a b v w
    using doc unfolding statelib_doc_def lru_doc_def by blast+
  have s: "supply_le L K (t\<lparr>txn_codeCache := c, txn_txn := tr\<rparr>) = supply_le L K (t\<lparr>txn_txn := tr\<rparr>)" for tr c
    by (rule supply_le_cong) simp_all
  have cc: "cached ?C (txn_codeCache t) b v \<Longrightarrow> length v < 2 ^ 63" for b v
    using assms unfolding txn_ok_def by blast
  obtain r c where g: "lru_Get ?C (txn_codeCache t) a = (r, c)" by fastforce
  have c: "cached ?C c b v \<Longrightarrow> length v < 2 ^ 63" for b v
    using d(1) [of "txn_codeCache t" a b v] g cc by simp
  have r: "r = Some v \<Longrightarrow> length v < 2 ^ 63" for v
    using g cc [of a v] by (simp add: cached_def)
  have n: "length (fst (sn_GetCode (txn_snapshot t) h)) < 2 ^ 63" for h
    using assms by (simp add: txn_ok_def snap_ok_def)
  have o: "getStateObject L t a = Some obj \<Longrightarrow> length (so_Code obj) < 2 ^ 63" for obj
    using fetch_code [OF assms, of a] by (simp add: fetch_def)
  have w: "cached ?C (lru_Add ?C c a w) b v \<Longrightarrow> length w < 2 ^ 63 \<Longrightarrow> length v < 2 ^ 63" for b v w
    using d(2) [of c a w b v] c [of b v] by (cases "b = a") simp_all
  have cache: "txn_ok L K S (t\<lparr>txn_codeCache := c'\<rparr>)"
    if "\<And>b v. cached ?C c' b v \<Longrightarrow> length v < 2 ^ 63" for c'
    using assms that s [of _ c'] s [of "txn_txn t" c'] unfolding txn_ok_def by simp
  show "txn_ok L K S (snd (Txn_GetCode L t a))"
  proof (cases "getStateObject L t a")
    case (Some obj)
    then show ?thesis
      using assms g cache [of c, OF c] cache [OF w, OF _ n]
      by (cases r) (simp_all add: Txn_GetCode_def Let_def)
  qed (use assms in \<open>simp add: Txn_GetCode_def\<close>)
  show "length (fst (Txn_GetCode L t a)) < 2 ^ 63"
  proof (cases "getStateObject L t a")
    case (Some obj)
    then show ?thesis using g r n o [OF Some] by (cases r) (simp_all add: Txn_GetCode_def Let_def)
  qed (simp add: Txn_GetCode_def)
qed

text \<open>A transfer within the funds, and the payment of a destroyed contract.\<close>

lemma bal_add: "0 \<le> v \<Longrightarrow> Txn_GetBalance L (AddBalance L t a v) = (Txn_GetBalance L t)(a := Txn_GetBalance L t a + v)"
  using balance_nonneg [of t a] by (auto simp: balance_add)

lemma bal_sub:
  "v \<le> Txn_GetBalance L t a \<Longrightarrow>
   Txn_GetBalance L (snd (SubBalance L t a v)) = (Txn_GetBalance L t)(a := Txn_GetBalance L t a - v)"
  using balance_sub_ok [of v t a] by auto

lemma supply_AddBalance:
  "supply_le L K t \<Longrightarrow> 0 \<le> v \<Longrightarrow> supply_le L (K + v) (AddBalance L t a v)"
  using supply_upd [of K "Txn_GetBalance L t" "Txn_GetBalance L t a + v" a] balance_nonneg [of t]
  by (simp add: supply_le_def bal_add)

lemma supply_SubBalance:
  "supply_le L K t \<Longrightarrow> v \<le> Txn_GetBalance L t a \<Longrightarrow> supply_le L (K - v) (snd (SubBalance L t a v))"
  using supply_upd [of K "Txn_GetBalance L t" "Txn_GetBalance L t a - v" a] balance_nonneg [of t]
  by (simp add: supply_le_def bal_sub)

lemma SubBalance_frame:
  assumes "txn_ok L K S t"
  shows "txn_snapshot (snd (SubBalance L t a v)) = txn_snapshot t"
    "txn_snapshots (snd (SubBalance L t a v)) = txn_snapshots t"
    "txn_codeCache (snd (SubBalance L t a v)) = txn_codeCache t"
    "code_tree L (txn_txn (snd (SubBalance L t a v)))"
  using assms fetch_code [OF assms, of a]
  by (auto simp: balance_sub txn_ok_def code_tree_def insertObject_def get_Insert split: if_splits)

lemma SubBalance_ok_iff: "0 \<le> v \<Longrightarrow> fst (SubBalance L t a v) = None \<longleftrightarrow> v \<le> Txn_GetBalance L t a"
  using balance_nonneg [of t a] by (auto simp: balance_sub)

lemma SubBalance_fail: "fst (SubBalance L t a v) \<noteq> None \<Longrightarrow> SubBalance L t a v = (Some ErrNotEnoughFunds, t)"
  by (auto simp: balance_sub split: if_splits)

lemma txn_ok_SubBalance:
  assumes "txn_ok L K S t" "0 \<le> v"
  shows "txn_ok L K S (snd (SubBalance L t a v))"
proof (cases "fst (SubBalance L t a v) = None")
  case True
  then have "supply_le L (K - v) (snd (SubBalance L t a v))"
    using assms SubBalance_ok_iff [OF assms(2)] txn_ok_supply [OF assms(1)] by (simp add: supply_SubBalance)
  then have "supply_le L K (snd (SubBalance L t a v))"
    using assms(2) by (auto simp: supply_le_def intro: supply_mono)
  with SubBalance_frame [OF assms(1)] show ?thesis by (intro txn_ok_step [OF assms(1)])
next
  case False
  then show ?thesis using assms(1) by (simp add: SubBalance_fail)
qed

lemma AddBalance_frame:
  assumes "txn_ok L K S t"
  shows "txn_snapshot (AddBalance L t a v) = txn_snapshot t"
    "txn_snapshots (AddBalance L t a v) = txn_snapshots t"
    "txn_codeCache (AddBalance L t a v) = txn_codeCache t"
    "code_tree L (txn_txn (AddBalance L t a v))"
  using assms fetch_code [OF assms, of a]
  by (auto simp: AddBalance_def updateAccount_eq txn_ok_def code_tree_def insertObject_def get_Insert)

lemma txn_ok_AddBalance:
  assumes "txn_ok L K S t" "supply_le L (K - v) t" "0 \<le> v"
  shows "txn_ok L K S (AddBalance L t a v)"
  using AddBalance_frame [OF assms(1)] supply_AddBalance [OF assms(2,3), of a]
  by (intro txn_ok_step [OF assms(1)]) simp_all

lemma txn_ok_transfer:
  assumes "txn_ok L K S t" "0 \<le> v" "v \<le> Txn_GetBalance L t a"
  shows "txn_ok L K S (AddBalance L (snd (SubBalance L t a v)) b v)"
  using assms txn_ok_supply [OF assms(1)]
  by (intro txn_ok_AddBalance txn_ok_SubBalance supply_SubBalance)

lemma Suicide_eq:
  "snd (Suicide L t a) = (case getStateObject L t a of None \<Rightarrow> t
     | Some obj \<Rightarrow> insertObject L t a (setBalanceOf 0 (if so_Suicide obj then obj else obj\<lparr>so_Suicide := True\<rparr>)))"
  by (simp add: Suicide_def upsert_False_eq Let_def split: option.split)

lemma bal_Suicide: "Txn_GetBalance L (snd (Suicide L t a)) = (Txn_GetBalance L t)(a := 0)"
proof (cases "getStateObject L t a")
  case None
  then show ?thesis by (auto simp: Suicide_eq Txn_GetBalance_def)
next
  case (Some obj)
  then have "\<not> so_Deleted obj" by (simp add: getStateObject_live)
  with Some show ?thesis by (simp add: Suicide_eq bal_insert copyBig_def)
qed

lemma txn_ok_selfdestruct:
  assumes "txn_ok L K S t"
  shows "txn_ok L K S (snd (Suicide L (AddBalance L t b (Txn_GetBalance L t a)) a))"
proof -
  let ?v = "Txn_GetBalance L t a" and ?t = "AddBalance L t b (Txn_GetBalance L t a)"
  let ?f = "Txn_GetBalance L ?t"
  have v: "0 \<le> ?v" by (rule balance_nonneg)
  have s: "supply_le L (K + ?v) ?t" using txn_ok_supply [OF assms] v by (rule supply_AddBalance)
  have "supply_fun (K + ?v - ?f a + 0) (?f(a := 0))"
    using s balance_nonneg [of ?t] by (intro supply_upd) (simp_all add: supply_le_def)
  moreover have "?v \<le> ?f a" using v balance_nonneg [of t b] by (simp add: bal_add)
  ultimately have sup: "supply_le L K (snd (Suicide L ?t a))"
    by (auto simp: supply_le_def bal_Suicide elim: supply_mono)
  note f = AddBalance_frame [OF assms, of b ?v]
  have c: "getStateObject L ?t a = Some obj \<Longrightarrow> length (so_Code obj) < 2 ^ 63" for obj
    using f(4) by (auto simp: code_tree_def getStateObject_def split: option.splits if_splits sum.splits)
  show ?thesis
    using f c sup
    by (intro txn_ok_step [OF assms])
       (auto simp: Suicide_eq code_tree_def insertObject_def get_Insert split: option.split)
qed

end

section \<open>Snapshots\<close>

lemma txn_ok_Snapshot:
  assumes "txn_ok L K S t" "Txn_Snapshot t = (n, t1)"
  shows "n = length (txn_snapshots t)" "txn_snapshots t1 = txn_snapshots t @ [txn_txn t]"
    "txn_txn t1 = txn_txn t" "txn_snapshot t1 = txn_snapshot t"
    "txn_ok L K (txn_snapshots t @ [txn_txn t]) t1" "txn_ok L K S t1"
proof -
  have t1: "n = length (txn_snapshots t)" "t1 = t\<lparr>txn_snapshots := txn_snapshots t @ [txn_txn t]\<rparr>"
    using assms(2) by (auto simp: Txn_Snapshot_def Let_def)
  have s: "supply_le L K (t\<lparr>txn_snapshots := ss, txn_txn := tr\<rparr>) = supply_le L K (t\<lparr>txn_txn := tr\<rparr>)"
    "supply_le L K (t\<lparr>txn_snapshots := ss\<rparr>) = supply_le L K t" for tr ss
    by (rule supply_le_cong; simp)+
  have l: "length S \<le> length (txn_snapshots t)" using assms(1) by (auto simp: txn_ok_def prefix_length_le)
  show "n = length (txn_snapshots t)" "txn_snapshots t1 = txn_snapshots t @ [txn_txn t]"
    "txn_txn t1 = txn_txn t" "txn_snapshot t1 = txn_snapshot t" by (simp_all add: t1)
  show "txn_ok L K (txn_snapshots t @ [txn_txn t]) t1" "txn_ok L K S t1"
    using assms(1) s l by (auto simp: txn_ok_def t1(2))
qed

lemma txn_ok_pop:
  assumes "txn_ok L K S t" "txn_ok L K (txn_snapshots t @ [txn_txn t]) t'" "txn_snapshot t' = txn_snapshot t"
  shows "txn_ok L K S t'"
proof -
  from assms(2) obtain xs where x: "txn_snapshots t' = txn_snapshots t @ txn_txn t # xs"
    by (auto simp: txn_ok_def prefix_def)
  have s: "supply_le L K (t'\<lparr>txn_txn := tr\<rparr>) = supply_le L K (t\<lparr>txn_txn := tr\<rparr>)" for tr
    by (rule supply_le_cong) (simp_all add: assms)
  have l: "length S \<le> length (txn_snapshots t)" using assms(1) by (auto simp: txn_ok_def prefix_length_le)
  show ?thesis using assms(1,2) s l x by (auto simp: txn_ok_def prefix_def)
qed

lemma txn_ok_Revert:
  assumes "txn_ok L K S t" "txn_ok L K (txn_snapshots t @ [txn_txn t]) t'" "txn_snapshot t' = txn_snapshot t"
  shows "\<exists>t2. Txn_RevertToSnapshot t' (length (txn_snapshots t)) = (None, t2) \<and> txn_ok L K S t2 \<and>
    txn_txn t2 = txn_txn t \<and> txn_snapshot t2 = txn_snapshot t \<and> txn_snapshots t2 = txn_snapshots t'"
proof -
  from assms(2) obtain xs where x: "txn_snapshots t' = txn_snapshots t @ txn_txn t # xs"
    by (auto simp: txn_ok_def prefix_def)
  have r: "Txn_RevertToSnapshot t' (length (txn_snapshots t)) = (None, t'\<lparr>txn_txn := txn_txn t\<rparr>)"
    by (simp add: Txn_RevertToSnapshot_def x nth_append)
  have s: "supply_le L K (t'\<lparr>txn_txn := tr\<rparr>) = supply_le L K (t\<lparr>txn_txn := tr\<rparr>)" for tr
    by (rule supply_le_cong) (simp_all add: assms)
  have "txn_ok L K S t'" by (rule txn_ok_pop [OF assms])
  moreover have "code_tree L (txn_txn t)" "supply_le L K t" using assms(1) by (simp_all add: txn_ok_def)
  ultimately show ?thesis
    using s [of "txn_txn t"] assms(3) by (simp add: r txn_ok_def)
qed

end
