(* ===== verification/Transition_Safety.thy ===== *)
theory Transition_Safety
  imports Transition Evm_Safety Txn_Inv
begin

text \<open>
  Safety of the state transition. The invariant \<open>trans_inv P K B\<close> of a \<^verbatim>\<open>Transition\<close> relative to an
  earlier value \<open>B\<close> of it: the \<^verbatim>\<open>Txn\<close> satisfies \<open>txn_ok\<close> over the snapshots of \<open>B\<close>, the journal revisions
  extend those of \<open>B\<close> and are in order, and every field a frame has no business with is that of \<open>B\<close>.
  The transition with its bound on nested calls then satisfies the contract \<open>evm_host\<close> of the
  interpreter, at every depth up to the limit, for every \<open>B\<close> and \<open>K\<close>. So every frame returns, gives back
  no more gas than it got, mints no coins, and a failed frame leaves the accounts as they were.
\<close>

section \<open>The binary search of the journal revisions\<close>

lemma sort_Search_loop_eq:
  assumes "i \<le> k" "k \<le> j" "\<And>x. x < k \<Longrightarrow> \<not> f x" "\<And>x. k \<le> x \<Longrightarrow> x < j \<Longrightarrow> f x"
  shows "sort_Search_loop f i j = k"
  using assms
proof (induction f i j rule: sort_Search_loop.induct)
  case (1 f i j)
  show ?case
  proof (cases "i < j")
    case True
    let ?h = "(i + j) div 2"
    have h: "i \<le> ?h" "?h < j" using True by auto
    show ?thesis
    proof (cases "f ?h")
      case f: True
      then have "k \<le> ?h" using 1(5) [of ?h] by (meson not_le_imp_less)
      then show ?thesis using 1(2) [OF True refl] f True h 1(3-6)
        by (subst sort_Search_loop.simps) (simp add: Let_def)
    next
      case f: False
      then have "?h < k" using 1(6) [of ?h] h by (meson not_le_imp_less)
      then show ?thesis using 1(1) [OF True refl] f True h 1(3-6)
        by (subst sort_Search_loop.simps) (simp add: Let_def)
    qed
  next
    case False
    then show ?thesis using 1(3,4) by (subst sort_Search_loop.simps) simp
  qed
qed

text \<open>A revision whose identifier is above all earlier ones is found at its place.\<close>

lemma sort_Search_revs:
  assumes "sorted_wrt (<) (map jr_ID (rs @ r # rs'))"
  shows "sort_Search (length (rs @ r # rs')) (\<lambda>i. jr_ID ((rs @ r # rs') ! i) \<ge> jr_ID r) = length rs"
  unfolding sort_Search_def
proof (rule sort_Search_loop_eq)
  fix x assume "x < length rs"
  with assms show "\<not> jr_ID r \<le> jr_ID ((rs @ r # rs') ! x)"
    by (auto simp: sorted_wrt_append nth_append not_le)
next
  fix x assume x: "length rs \<le> x" "x < length (rs @ r # rs')"
  show "jr_ID r \<le> jr_ID ((rs @ r # rs') ! x)"
  proof (cases "x = length rs")
    case False
    then have "(rs @ r # rs') ! x \<in> set rs'" using x
      by (auto simp: nth_append nth_Cons' not_less intro!: nth_mem)
    with assms show ?thesis by (auto simp: sorted_wrt_append)
  qed simp
qed simp_all

section \<open>The invariant\<close>

definition rev_ok :: "JournalRevision list \<Rightarrow> nat \<Rightarrow> nat \<Rightarrow> JournalRevision list \<Rightarrow> bool" where
  "rev_ok R n m rs \<longleftrightarrow> prefix R rs \<and> sorted_wrt (<) (map jr_ID rs) \<and> sorted (map jr_Index rs) \<and>
     (\<forall>r \<in> set rs. jr_ID r < n \<and> jr_Index r \<le> m)"

lemma rev_ok_mono: "rev_ok R n m rs \<Longrightarrow> n \<le> n' \<Longrightarrow> m \<le> m' \<Longrightarrow> rev_ok R n' m' rs"
  by (fastforce simp: rev_ok_def)

definition fixedPart where
  "fixedPart t = (tn_snap t, tn_config t, tn_getHash t, tn_ctx t, tn_gasPool t, tn_receipts t, tn_totalGas t,
     tn_precompiles t, tn_deploymentAllowList t, tn_deploymentBlockList t, tn_txnAllowList t,
     tn_txnBlockList t, tn_bridgeAllowList t, tn_bridgeBlockList t, tn_isL1OriginatedToken t,
     txn_snapshot (tn_state t))"

definition base_ok :: "('t, 'c) Transition \<Rightarrow> bool" where
  "base_ok t \<longleftrightarrow> \<bar>ctx_BaseFee (tn_ctx t)\<bar> < 2 ^ 256"

text \<open>The console precompile slices its input without looking at its length. A registry that holds it may
  panic; nothing else does.\<close>

definition mayPanic :: "('t, 'c) Transition \<Rightarrow> bool" where
  "mayPanic t \<longleftrightarrow> (\<exists>a. pc_contracts (tn_precompiles t) a = Some console)"

definition trans_inv :: "('t, 's, 'c, 'g) exec \<Rightarrow> int \<Rightarrow> ('t, 'c) Transition \<Rightarrow> ('t, 'c) Transition \<Rightarrow> bool" where
  "trans_inv P K B t \<longleftrightarrow>
     txn_ok (ex_L P) K (txn_snapshots (tn_state B)) (tn_state t) \<and>
     rev_ok (tn_journalRevisions B) (length (txn_snapshots (tn_state t))) (length (tn_journal t))
       (tn_journalRevisions t) \<and>
     fixedPart t = fixedPart B \<and> base_ok B"

lemma trans_inv_state:
  assumes "trans_inv P K B t" "txn_ok (ex_L P) K (txn_snapshots (tn_state B)) s"
    and "txn_snapshots s = txn_snapshots (tn_state t)" "txn_snapshot s = txn_snapshot (tn_state t)"
  shows "trans_inv P K B (t\<lparr>tn_state := s\<rparr>)"
  using assms by (simp add: trans_inv_def fixedPart_def)

lemma mayPanic_inv: "trans_inv P K B t \<Longrightarrow> mayPanic t = mayPanic B"
  by (simp add: trans_inv_def fixedPart_def mayPanic_def)

lemma trans_inv_txn: "trans_inv P K B t \<Longrightarrow> txn_ok (ex_L P) K (txn_snapshots (tn_state B)) (tn_state t)"
  by (simp add: trans_inv_def)

text \<open>The methods of the host that change the state of the transition keep the snapshots.\<close>

lemma op_snapshots [simp]:
  "txn_snapshots (SetState L s a k v) = txn_snapshots s" "txn_snapshot (SetState L s a k v) = txn_snapshot s"
  "txn_snapshots (AddBalance L s a x) = txn_snapshots s" "txn_snapshot (AddBalance L s a x) = txn_snapshot s"
  "txn_snapshots (snd (SubBalance L s a x)) = txn_snapshots s"
  "txn_snapshot (snd (SubBalance L s a x)) = txn_snapshot s"
  "txn_snapshots (Txn_EmitLog s a ts d) = txn_snapshots s" "txn_snapshot (Txn_EmitLog s a ts d) = txn_snapshot s"
  "txn_snapshots (snd (IncrNonce L s a)) = txn_snapshots s" "txn_snapshot (snd (IncrNonce L s a)) = txn_snapshot s"
  "txn_snapshots (SetCode L s a c) = txn_snapshots s" "txn_snapshot (SetCode L s a c) = txn_snapshot s"
  "txn_snapshots (TouchAccount L s a) = txn_snapshots s" "txn_snapshot (TouchAccount L s a) = txn_snapshot s"
  "txn_snapshots (CreateAccount L s a) = txn_snapshots s" "txn_snapshot (CreateAccount L s a) = txn_snapshot s"
  "txn_snapshots (snd (Suicide L s a)) = txn_snapshots s" "txn_snapshot (snd (Suicide L s a)) = txn_snapshot s"
  "txn_snapshots (snd (Txn_SetStorage L s a k v cfg)) = txn_snapshots s"
  "txn_snapshot (snd (Txn_SetStorage L s a k v cfg)) = txn_snapshot s"
  using Txn_SetStorage_snapshots [of L s a k v cfg]
  by (simp_all add: op_defs Let_def upsert_False_eq split: option.split)

lemma refund_snap [simp]: "txn_snapshot (AddRefund s g) = txn_snapshot s"
  by (simp add: AddRefund_def)

lemma on_state_eq: "on_state f t = (fst (f (tn_state t)), t\<lparr>tn_state := snd (f (tn_state t))\<rparr>)"
  by (simp add: on_state_def split: prod.split)

section \<open>Snapshots of the transition\<close>

text \<open>A frame takes a snapshot, runs, and reverts: the accounts are those of before.\<close>

lemma trans_Snapshot_inv:
  assumes "trans_inv P K B t" "trans_Snapshot t = (n, t1)"
  shows "trans_inv P K t1 t1" "trans_inv P K B t1" "n = length (txn_snapshots (tn_state t))"
    "txn_txn (tn_state t1) = txn_txn (tn_state t)" "fixedPart t1 = fixedPart t"
    "txn_snapshots (tn_state t1) = txn_snapshots (tn_state t) @ [txn_txn (tn_state t)]"
    "tn_journalRevisions t1 = tn_journalRevisions t @ [\<lparr>jr_ID = n, jr_Index = length (tn_journal t)\<rparr>]"
    "tn_journal t1 = tn_journal t" "tn_accessList t1 = tn_accessList t"
proof -
  obtain s where s: "Txn_Snapshot (tn_state t) = (n, s)"
    and t1: "t1 = t\<lparr>tn_state := s, tn_journalRevisions := tn_journalRevisions t @
                        [\<lparr>jr_ID = n, jr_Index = length (tn_journal t)\<rparr>]\<rparr>"
    using assms(2) by (auto simp: trans_Snapshot_def on_state_def Let_def Journal_Len_def split: prod.splits)
  note k = txn_ok_Snapshot [OF trans_inv_txn [OF assms(1)] s]
  show fx: "fixedPart t1 = fixedPart t" using k by (simp add: t1 fixedPart_def)
  have b: "base_ok t1" using assms(1) fx by (simp add: trans_inv_def base_ok_def fixedPart_def)
  have rev: "rev_ok R (Suc n) (length (tn_journal t)) (tn_journalRevisions t1)"
    if "prefix R (tn_journalRevisions t1)" for R
    using assms(1) that k(1)
    by (fastforce simp: trans_inv_def rev_ok_def t1 sorted_wrt_append sorted_append)
  show "trans_inv P K t1 t1" using k rev [of "tn_journalRevisions t1"] b by (simp add: trans_inv_def t1)
  have "prefix (tn_journalRevisions B) (tn_journalRevisions t1)"
    using assms(1) by (simp add: trans_inv_def rev_ok_def t1)
  from rev [OF this] show "trans_inv P K B t1" using k assms(1) fx by (simp add: trans_inv_def t1)
  show "n = length (txn_snapshots (tn_state t))" "txn_txn (tn_state t1) = txn_txn (tn_state t)"
    "txn_snapshots (tn_state t1) = txn_snapshots (tn_state t) @ [txn_txn (tn_state t)]"
    "tn_journalRevisions t1 = tn_journalRevisions t @ [\<lparr>jr_ID = n, jr_Index = length (tn_journal t)\<rparr>]"
    "tn_journal t1 = tn_journal t" "tn_accessList t1 = tn_accessList t"
    using k by (simp_all add: t1)
qed

lemma trans_inv_pop:
  assumes "trans_inv P K B t" "trans_Snapshot t = (n, t1)" "trans_inv P K t1 t2"
  shows "trans_inv P K B t2"
proof -
  note s = trans_Snapshot_inv [OF assms(1,2)]
  have fx: "fixedPart t2 = fixedPart B" using assms(1,3) s(5) by (simp add: trans_inv_def)
  have sn: "txn_snapshot (tn_state t2) = txn_snapshot (tn_state t)"
    using fx assms(1) by (simp add: trans_inv_def fixedPart_def)
  have "txn_ok (ex_L P) K (txn_snapshots (tn_state t) @ [txn_txn (tn_state t)]) (tn_state t2)"
    using trans_inv_txn [OF assms(3)] s by simp
  then have "txn_ok (ex_L P) K (txn_snapshots (tn_state B)) (tn_state t2)"
    using txn_ok_pop [OF trans_inv_txn [OF assms(1)]] sn by blast
  moreover have "prefix (tn_journalRevisions B) (tn_journalRevisions t2)"
    using assms(1,3) s(7) by (auto simp: trans_inv_def rev_ok_def prefix_def)
  ultimately show ?thesis using assms(1,3) fx by (simp add: trans_inv_def rev_ok_def)
qed

lemma trans_Revert_inv:
  assumes "trans_inv P K B t" "trans_Snapshot t = (n, t1)" "trans_inv P K t1 t2"
  shows "\<exists>t3. trans_RevertToSnapshot t2 n = Some (None, t3) \<and> trans_inv P K B t3 \<and>
    txn_txn (tn_state t3) = txn_txn (tn_state t) \<and>
    tn_journalRevisions t3 = tn_journalRevisions t \<and> length (tn_journal t3) = length (tn_journal t)"
proof -
  note s = trans_Snapshot_inv [OF assms(1,2)]
  note pop = trans_inv_pop [OF assms]
  have sn: "txn_snapshot (tn_state t2) = txn_snapshot (tn_state t)"
    using pop assms(1) by (simp add: trans_inv_def fixedPart_def)
  have "txn_ok (ex_L P) K (txn_snapshots (tn_state t) @ [txn_txn (tn_state t)]) (tn_state t2)"
    using trans_inv_txn [OF assms(3)] s by simp
  from txn_ok_Revert [OF trans_inv_txn [OF assms(1)] this sn] obtain s2 where
    r: "Txn_RevertToSnapshot (tn_state t2) n = (None, s2)" "txn_ok (ex_L P) K (txn_snapshots (tn_state B)) s2"
    "txn_txn s2 = txn_txn (tn_state t)" "txn_snapshot s2 = txn_snapshot (tn_state t)"
    "txn_snapshots s2 = txn_snapshots (tn_state t2)"
    using s(3) by auto
  let ?r = "\<lparr>jr_ID = n, jr_Index = length (tn_journal t)\<rparr>" and ?rs = "tn_journalRevisions t"
  from assms(3) s(7) obtain rs' where rs: "tn_journalRevisions t2 = ?rs @ ?r # rs'"
    by (auto simp: trans_inv_def rev_ok_def prefix_def)
  have ord: "sorted_wrt (<) (map jr_ID (?rs @ ?r # rs'))" "length (tn_journal t) \<le> length (tn_journal t2)"
    using assms(3) by (auto simp: trans_inv_def rev_ok_def rs)
  have idx: "sort_Search (length (?rs @ ?r # rs')) (\<lambda>i. n \<le> jr_ID ((?rs @ ?r # rs') ! i)) = length ?rs"
    using sort_Search_revs [OF ord(1)] by simp
  define al where "al = Journal_Revert_loop (tn_journal t2) (length (tn_journal t)) (length (tn_journal t2)) (tn_accessList t2)"
  define t3 where "t3 = t2\<lparr>tn_state := s2, tn_journal := take (length (tn_journal t)) (tn_journal t2),
    tn_accessList := al, tn_journalRevisions := ?rs\<rparr>"
  have "trans_RevertToSnapshot t2 n = Some (None, t3)"
    using r(1) idx ord(2) unfolding trans_RevertToSnapshot_def
    by (simp add: on_state_eq rs Let_def Journal_Revert_def go_slice_def al_def t3_def)
  moreover have "trans_inv P K B t3"
    using r sn pop assms(1) ord(2) by (auto simp: trans_inv_def t3_def fixedPart_def rev_ok_def txn_ok_def rs)
  ultimately show ?thesis using r(3) ord(2) by (simp add: t3_def)
qed

text \<open>What the interpreter guarantees of a frame it starts.\<close>

definition frame_pre :: "nat \<Rightarrow> Contract \<Rightarrow> bool" where
  "frame_pre d c \<longleftrightarrow> c_Depth c = d \<and> length (c_Code c) < 2 ^ 63 \<and> length (c_Input c) < 2 ^ 63 \<and>
     unat (c_Gas c) \<le> MaxGas \<and> value_ok c"

section \<open>The methods of the host\<close>

text \<open>The libraries behave as documented.\<close>

locale transition_libs =
  fixes P :: "('t, 's, 'c, 'g) exec"
  assumes state_doc: "statelib_doc (ex_L P)"
    and crypto_doc: "crypto_doc (ex_C P)"
    and uint256_doc: "uint256_doc (ex_U P)"
begin

lemmas slib = state_library.intro [OF state_doc]

lemmas txn_ok_ops =
  state_library.txn_ok_SetState [OF slib] state_library.txn_ok_SetStorage [OF slib]
  state_library.txn_ok_IncrNonce [OF slib] state_library.txn_ok_SetCode [OF slib]
  state_library.txn_ok_Touch [OF slib] state_library.txn_ok_Create [OF slib]
  state_library.txn_ok_GetCode [OF slib] state_library.txn_ok_selfdestruct [OF slib]
  state_library.txn_ok_SubBalance [OF slib]

lemma inv_set:
  assumes "trans_inv P K B t"
    and "\<And>S. txn_ok (ex_L P) K S (tn_state t) \<Longrightarrow> txn_ok (ex_L P) K S (f (tn_state t))"
    and "txn_snapshots (f (tn_state t)) = txn_snapshots (tn_state t)"
    and "txn_snapshot (f (tn_state t)) = txn_snapshot (tn_state t)"
  shows "trans_inv P K B (set_state f t)"
  unfolding set_state_def using trans_inv_state [OF assms(1) assms(2) [OF trans_inv_txn [OF assms(1)]] assms(3,4)] .

lemma inv_on:
  assumes "trans_inv P K B t"
    and "\<And>S. txn_ok (ex_L P) K S (tn_state t) \<Longrightarrow> txn_ok (ex_L P) K S (snd (f (tn_state t)))"
    and "txn_snapshots (snd (f (tn_state t))) = txn_snapshots (tn_state t)"
    and "txn_snapshot (snd (f (tn_state t))) = txn_snapshot (tn_state t)"
  shows "trans_inv P K B (snd (on_state f t))"
  unfolding on_state_eq snd_conv using trans_inv_state [OF assms(1) assms(2) [OF trans_inv_txn [OF assms(1)]] assms(3,4)] .

lemma inv_AddSlot: "trans_inv P K B t \<Longrightarrow> trans_inv P K B (trans_AddSlot t a k)"
  by (auto simp: trans_inv_def trans_AddSlot_def fixedPart_def Journal_Append_def elim!: rev_ok_mono)

lemma inv_AddAddress: "trans_inv P K B t \<Longrightarrow> trans_inv P K B (trans_AddAddress t a)"
  by (auto simp: trans_inv_def trans_AddAddress_def fixedPart_def Journal_Append_def elim!: rev_ok_mono)

lemma inv_Selfdestruct:
  assumes "trans_inv P K B t" shows "trans_inv P K B (trans_Selfdestruct P t a b)"
proof -
  let ?L = "ex_L P"
  have "trans_inv P K B (set_state (\<lambda>s. snd (Suicide ?L s a))
      (set_state (\<lambda>s. AddBalance ?L s b (Txn_GetBalance ?L s a)) u))" if "trans_inv P K B u" for u
  proof -
    have "trans_inv P K B (set_state (\<lambda>s. snd (Suicide ?L (AddBalance ?L s b (Txn_GetBalance ?L s a)) a)) u)"
      using that by (rule inv_set) (simp_all add: txn_ok_ops)
    then show ?thesis by (simp add: set_state_def)
  qed
  moreover have "trans_inv P K B (set_state (\<lambda>s. AddRefund s 24000) t)"
    using assms by (rule inv_set) simp_all
  ultimately show ?thesis using assms by (simp add: trans_Selfdestruct_def Let_def)
qed

lemma SubBalance_cases:
  obtains "v \<le> Txn_GetBalance (ex_L P) s a" "fst (SubBalance (ex_L P) s a v) = None"
  | "Txn_GetBalance (ex_L P) s a < v" "SubBalance (ex_L P) s a v = (Some ErrNotEnoughFunds, s)"
  using state_library.balance_sub [OF slib, of s a v] state_library.balance_nonneg [OF slib, of s a]
    state_library.balance_sub_ok [OF slib, of v s a]
  by (cases "v \<le> Txn_GetBalance (ex_L P) s a") auto

text \<open>A transfer moves the coins or, without the funds, changes nothing.\<close>

lemma Transfer_cases:
  assumes "0 \<le> v"
  obtains "v \<le> Txn_GetBalance (ex_L P) (tn_state t) a"
    "trans_Transfer P t a b (Some v) =
       (None, set_state (\<lambda>s. AddBalance (ex_L P) (snd (SubBalance (ex_L P) s a v)) b v) t)"
  | "Txn_GetBalance (ex_L P) (tn_state t) a < v"
    "trans_Transfer P t a b (Some v) = (Some ErrInsufficientBalance, t)"
proof (cases rule: SubBalance_cases [of v "tn_state t" a])
  case 1
  then show thesis
    by (intro that(1)) (simp_all add: trans_Transfer_def on_state_eq set_state_def)
next
  case 2
  then show thesis by (intro that(2)) (simp_all add: trans_Transfer_def on_state_eq)
qed

lemma inv_Transfer:
  assumes "trans_inv P K B t" "\<And>v. x = Some v \<Longrightarrow> 0 \<le> v"
  shows "trans_inv P K B (snd (trans_Transfer P t a b x))"
proof (cases x)
  case (Some v)
  then have v: "0 \<le> v" by (rule assms(2))
  show ?thesis
  proof (cases rule: Transfer_cases [OF v, of t a b])
    case 1
    have "trans_inv P K B (set_state (\<lambda>s. AddBalance (ex_L P) (snd (SubBalance (ex_L P) s a v)) b v) t)"
      using assms(1) by (rule inv_set) (simp_all add: state_library.txn_ok_transfer [OF slib _ v 1(1)])
    with 1 show ?thesis by (simp add: Some)
  qed (use assms(1) Some in simp)
qed (use assms(1) in \<open>simp add: trans_Transfer_def\<close>)

lemma Transfer_err:
  assumes "trans_Transfer P t a b x = (Some err, t')" "\<And>v. x = Some v \<Longrightarrow> 0 \<le> v"
  shows "err = ErrInsufficientBalance \<and> t' = t"
proof (cases x)
  case (Some v)
  with assms(2) have "0 \<le> v" .
  then show ?thesis using assms(1) Some by (cases rule: Transfer_cases [of v t a b]) auto
qed (use assms(1) in \<open>simp add: trans_Transfer_def\<close>)

text \<open>The address lists write their slots through \<^verbatim>\<open>SetState\<close>.\<close>

lemma inv_setRole: "trans_inv P K B t \<Longrightarrow> trans_inv P K B (sr_SetState (transRef P) t a k v)"
  unfolding transRef_def stateRef.simps by (rule inv_set) (simp_all add: txn_ok_ops)

lemma GetState_length: "snap_ok (txn_snapshot s) \<Longrightarrow> length (GetState (ex_L P) s a k) = 32"
  by (simp add: GetState_def snap_ok_def ZeroHash_def HashLength_def split: option.split)

lemma AddressList_Run_inv:
  assumes "trans_inv P K B t"
  shows "trans_inv P K B (snd (AddressList_Run sel (transRef P) l c t))"
    "length (r_ReturnValue (fst (AddressList_Run sel (transRef P) l c t))) < 2 ^ 63"
proof -
  have g: "length (GetRole (transRef P) l t x) < 2 ^ 63" for x
    using assms GetState_length by (simp add: GetRole_def transRef_def trans_inv_def txn_ok_def)
  show "trans_inv P K B (snd (AddressList_Run sel (transRef P) l c t))"
    using assms by (auto simp: AddressList_Run_def runInputCall_def Let_def SetRole_def inv_setRole
        split: option.split if_split)
  show "length (r_ReturnValue (fst (AddressList_Run sel (transRef P) l c t))) < 2 ^ 63"
    using g by (auto simp: AddressList_Run_def runInputCall_def Let_def split: option.split if_split)
qed

section \<open>Frames\<close>

lemma host_fields:
  "env_H (transEnv P cx) = transHost P cx" "env_U (transEnv P cx) = ex_U P"
  "Transfer (transHost P cx) = trans_Transfer P"
  by (simp_all add: transEnv_def transHost_def)

lemma evm_host_trans:
  assumes "\<And>t m. trans_inv P K B t \<Longrightarrow> frame_pre (Suc d) m \<Longrightarrow>
      mayPanic B \<and> cx t m = None \<or>
      (\<exists>r t'. cx t m = Some (r, t') \<and> r_GasLeft r \<le> c_Gas m \<and> trans_inv P K B t')"
  shows "evm_host (transEnv P cx) (trans_inv P K B) d (mayPanic B)"
proof
  show "uint256_doc (env_U (transEnv P cx))" by (simp add: host_fields uint256_doc)
next
  fix t assume t: "trans_inv P K B t"
  show "\<bar>ctx_BaseFee (GetTxContext (env_H (transEnv P cx)) t)\<bar> < 2 ^ 256"
    using t by (auto simp: host_fields transHost_def trans_inv_def base_ok_def fixedPart_def)
  fix a
  show "trans_inv P K B (snd (GetCode (env_H (transEnv P cx)) t a))"
    using inv_on [OF t, of "\<lambda>s. Txn_GetCode (ex_L P) s a"] by (simp add: host_fields transHost_def txn_ok_ops)
  show "trans_inv P K B (snd (GetCodeSize (env_H (transEnv P cx)) t a))"
    using inv_on [OF t, of "\<lambda>s. Txn_GetCodeSize (ex_L P) s a"]
    by (simp add: host_fields transHost_def txn_ok_ops Txn_GetCodeSize_def split_def)
  show "length (fst (GetCode (env_H (transEnv P cx)) t a)) < 2 ^ 63"
    using txn_ok_ops(8) [OF trans_inv_txn [OF t]] by (simp add: host_fields transHost_def on_state_eq)
  fix k v cfg
  show "trans_inv P K B (snd (SetStorage (env_H (transEnv P cx)) t a k v cfg))"
    using inv_on [OF t, of "\<lambda>s. Txn_SetStorage (ex_L P) s a k v cfg"]
    by (simp add: host_fields transHost_def txn_ok_ops)
next
  fix t a b assume "trans_inv P K B t"
  then show "trans_inv P K B (Selfdestruct (env_H (transEnv P cx)) t a b)"
    by (simp add: host_fields transHost_def inv_Selfdestruct)
next
  fix t a ts bs assume "trans_inv P K B t"
  then show "trans_inv P K B (EmitLog (env_H (transEnv P cx)) t a ts bs)"
    unfolding host_fields transHost_def Host.simps by (rule inv_set) simp_all
next
  fix t a k assume "trans_inv P K B t"
  then show "trans_inv P K B (AddSlotToAccessList (env_H (transEnv P cx)) t a k)"
    by (simp add: host_fields transHost_def inv_AddSlot)
next
  fix t a assume "trans_inv P K B t"
  then show "trans_inv P K B (AddAddressToAccessList (env_H (transEnv P cx)) t a)"
    by (simp add: host_fields transHost_def inv_AddAddress)
next
  fix t m
  assume "trans_inv P K B t" "c_Depth m = Suc d" "length (c_Code m) < 2 ^ 63"
    "length (c_Input m) < 2 ^ 63" "unat (c_Gas m) \<le> MaxGas" "value_ok m"
  then show "mayPanic B \<and> Callx (env_H (transEnv P cx)) t m = None \<or>
      (\<exists>r h'. Callx (env_H (transEnv P cx)) t m = Some (r, h') \<and> r_GasLeft r \<le> c_Gas m \<and> trans_inv P K B h')"
    using assms [of t m] by (simp add: host_fields transHost_def frame_pre_def)
qed

lemma runList_inv:
  assumes "trans_inv P K B t" "runList P l c t = Some (r, t')"
  shows "r_GasLeft r \<le> c_Gas c \<and> length (r_ReturnValue r) < 2 ^ 63 \<and> trans_inv P K B t'"
  using assms(2) AddressList_Run_gas [of "ex_F P" "transRef P" _ c t] AddressList_Run_inv [OF assms(1), of "ex_F P" _ c]
  by (auto simp: runList_def split: option.splits if_splits) (metis fst_conv snd_conv)+

lemma lists_inv:
  assumes "trans_inv P K B t" "handleAllowBlockListsUpdate P t c = Some (r, t')"
  shows "r_GasLeft r \<le> c_Gas c \<and> length (r_ReturnValue r) < 2 ^ 63 \<and> trans_inv P K B t'"
  using assms(2) unfolding handleAllowBlockListsUpdate_def orElse_def
  by (auto split: option.splits elim: runList_inv [OF assms(1)] dest: runList_inv [OF assms(1)])

lemma console_Run:
  assumes "pc_contracts p (c_CodeAddress c) = Some console"
  shows "Precompiled_Run C H p c h config = None \<or>
    (\<exists>r. Precompiled_Run C H p c h config = Some (r, h) \<and> r_GasLeft r \<le> c_Gas c \<and> r_ReturnValue r = [])"
  using assms by (cases "go_slice (c_Input c) 0 4")
    (simp_all add: Precompiled_Run_def contract_gas_def contract_run_def console_run_def Let_def Failed_def)

lemma trans_run_total:
  assumes host: "evm_host (transEnv P cx) (trans_inv P K B) d (mayPanic B)"
    and t: "trans_inv P K B t" and c: "frame_pre d c"
  shows "mayPanic B \<and> trans_run P cx t c = None \<or>
    (\<exists>r t'. trans_run P cx t c = Some (r, t') \<and> r_GasLeft r \<le> c_Gas c \<and>
      length (r_ReturnValue r) < 2 ^ 63 \<and> trans_inv P K B t')"
proof (cases "handleAllowBlockListsUpdate P t c")
  case (Some p)
  then show ?thesis using lists_inv [OF t] by (cases p) (simp add: trans_run_def)
next
  case None
  show ?thesis
  proof (cases "txnDenied P t c")
    case True
    with None t show ?thesis by (simp add: trans_run_def ErrResult_def)
  next
    case nd: False
    show ?thesis
    proof (cases "Precompiled_CanRun (tn_precompiles t) c (tn_config t)")
      case True
      have l: "unat (c_Gas c) \<le> 2 ^ 60" "length (c_Input c) < 2 ^ 63"
        using c by (simp_all add: frame_pre_def MaxGas_def)
      show ?thesis
      proof (cases "pc_contracts (tn_precompiles t) (c_CodeAddress c) = Some console")
        case con: True
        then have "mayPanic B" using mayPanic_inv [OF t] by (auto simp: mayPanic_def)
        then show ?thesis using None nd True t console_Run [OF con, of "ex_C P" "transHost P cx" t "tn_config t"]
          by (auto simp: trans_run_def)
      next
        case False
        with l obtain r t' where r: "Precompiled_Run (ex_C P) (transHost P cx) (tn_precompiles t) c t (tn_config t) = Some (r, t')"
          "r_GasLeft r \<le> c_Gas c" "length (r_ReturnValue r) < 2 ^ 63"
          "t' = t \<or> (\<exists>f u a. 0 \<le> a \<and> t' = snd (trans_Transfer P t f u (Some a)))"
          using Precompiled_Run_total [OF crypto_doc True, where H = "transHost P cx" and h = t]
          unfolding host_fields(3) by meson
        from r(4) have "trans_inv P K B t'" using t by (auto intro!: inv_Transfer [OF t])
        with r None nd True show ?thesis by (simp add: trans_run_def)
      qed
    next
      case False
      with None nd show ?thesis
        using evm_host.EVM_Run_total [OF host fresh_zero t, of c c t "tn_config t" "tn_config t"] c
        by (auto simp: trans_run_def frame_pre_def)
    qed
  qed
qed

text \<open>\<^verbatim>\<open>applyCall\<close>. A failed call leaves the accounts, the logs and the refunds as they were, except that a
  transfer without funds leaves the callee touched.\<close>

lemma applyCall_total:
  assumes host: "\<And>B'. c_Depth c \<le> 1025 \<Longrightarrow> evm_host (transEnv P cx) (trans_inv P K B') d (mayPanic B')"
    and t: "trans_inv P K B t" and c: "frame_pre d c"
  shows "mayPanic B \<and> applyCall P cx t c ct = None \<or>
    (\<exists>r t'. applyCall P cx t c ct = Some (r, t') \<and> r_GasLeft r \<le> c_Gas c \<and> trans_inv P K B t' \<and>
      (Failed r \<longrightarrow> txn_txn (tn_state t') = txn_txn (tn_state t) \<or>
         r = ErrResult (c_Gas c) ErrInsufficientBalance \<and>
         txn_txn (tn_state t') = txn_txn (TouchAccount (ex_L P) (tn_state t) (c_Address c))))"
proof (cases "c_Depth c \<le> 1025")
  case False
  with t show ?thesis by (simp add: applyCall_def ErrResult_def)
next
  case dep: True
  obtain n t1 where s: "trans_Snapshot t = (n, t1)" by fastforce
  note snap = trans_Snapshot_inv [OF t s]
  define t2 where "t2 = set_state (\<lambda>s. TouchAccount (ex_L P) s (c_Address c)) t1"
  have t2: "trans_inv P K t1 t2" unfolding t2_def
    using snap(1) by (rule inv_set) (simp_all add: txn_ok_ops)
  have tr2: "txn_txn (tn_state t2) = txn_txn (TouchAccount (ex_L P) (tn_state t) (c_Address c))"
  proof -
    have sn: "txn_snapshot (tn_state t1) = txn_snapshot (tn_state t)" using snap(5) by (simp add: fixedPart_def)
    have "getStateObject (ex_L P) (tn_state t1) = getStateObject (ex_L P) (tn_state t)"
      by (rule getStateObject_cong [OF snap(4) sn])
    then show ?thesis using snap(4)
      by (simp add: t2_def set_state_def TouchAccount_def updateAccount_eq insertObject_def fetch_def)
  qed
  obtain e t3 where x: "(if ct = Call then trans_Transfer P t2 (c_Caller c) (c_Address c) (c_Value c)
      else (None, t2)) = (e, t3)" by fastforce
  have v: "c_Value c = Some v \<Longrightarrow> 0 \<le> v" for v using c by (simp add: frame_pre_def value_ok_def)
  have t3: "trans_inv P K t1 t3"
    using x t2 inv_Transfer [OF t2, where x = "c_Value c" and a = "c_Caller c" and b = "c_Address c"] v by (auto split: if_splits)
  have unf: "applyCall P cx t c ct = (case e of
      Some err \<Rightarrow> Some (ErrResult (c_Gas c) err, t3)
    | None \<Rightarrow> do {
        (result, t) \<leftarrow> trans_run P cx t3 c;
        if Failed result then do {
          (err, t) \<leftarrow> trans_RevertToSnapshot t n;
          Some (case err of Some err \<Rightarrow> (ErrResult (c_Gas c) err, t) | None \<Rightarrow> (result, t))
        }
        else Some (result, t)
      })"
    using dep by (simp add: applyCall_def s Let_def x [unfolded t2_def] split del: if_split)
  show ?thesis
  proof (cases e)
    case (Some err)
    then have "trans_Transfer P t2 (c_Caller c) (c_Address c) (c_Value c) = (Some err, t3)"
      using x by (auto split: if_splits)
    then have "err = ErrInsufficientBalance \<and> t3 = t2" using v by (rule Transfer_err)
    then show ?thesis
      using Some dep tr2 trans_inv_pop [OF t s t3] by (simp add: unf) (simp add: ErrResult_def)
  next
    case None
    note run = trans_run_total [OF host [OF dep] t3 c]
    have mp: "mayPanic t1 = mayPanic B" using mayPanic_inv [OF snap(2)] .
    show ?thesis
    proof (cases "trans_run P cx t3 c")
      case N: None
      then show ?thesis using None run mp by (simp add: unf)
    next
    case (Some p)
    then obtain r t4 where r: "trans_run P cx t3 c = Some (r, t4)" "r_GasLeft r \<le> c_Gas c" "trans_inv P K t1 t4"
      using run by auto
    obtain t5 where rev: "trans_RevertToSnapshot t4 n = Some (None, t5)" "trans_inv P K B t5"
      "txn_txn (tn_state t5) = txn_txn (tn_state t)"
      using trans_Revert_inv [OF t s r(3)] by blast
    show ?thesis
      using None dep r rev trans_inv_pop [OF t s r(3)] by (cases "Failed r") (simp_all add: unf)
    qed
  qed
qed

lemma revertOr_total:
  assumes "trans_inv P K B t" "trans_Snapshot t = (n, t1)" "trans_inv P K t1 t2"
  shows "\<exists>t3. revertOr t2 n r = Some (r, t3) \<and> trans_inv P K B t3 \<and>
    txn_txn (tn_state t3) = txn_txn (tn_state t)"
  using trans_Revert_inv [OF assms] by (auto simp: revertOr_def)

lemma finishCreate_total:
  assumes "trans_inv P K B t" "trans_Snapshot t = (n, t1)" "trans_inv P K t1 t2"
    and "length (r_ReturnValue r) < 2 ^ 63" "r_GasLeft r \<le> g"
  shows "\<exists>r' t'. finishCreate P c n r t2 = Some (r', t') \<and> r_GasLeft r' \<le> g \<and> trans_inv P K B t' \<and>
    (Failed r' \<and> r_Err r' \<noteq> Some ErrCodeStoreOutOfGas \<longrightarrow> txn_txn (tn_state t') = txn_txn (tn_state t))"
proof -
  have z: "(0 :: u64) \<le> g" by simp
  have sub: "x \<le> r_GasLeft r \<Longrightarrow> r_GasLeft r - x \<le> g" for x
    using assms(5) word_sub_le order_trans by blast
  have pop: "trans_inv P K B t2" by (rule trans_inv_pop [OF assms(1-3)])
  have code: "trans_inv P K B (set_state (\<lambda>s. SetCode (ex_L P) s a (r_ReturnValue r)) t2)" for a
    using pop by (rule inv_set) (simp_all add: txn_ok_ops assms(4) [simplified])
  have rev: "\<exists>t3. revertOr t2 n r' = Some (r', t3) \<and> trans_inv P K B t3 \<and>
    txn_txn (tn_state t3) = txn_txn (tn_state t)" for r' by (rule revertOr_total [OF assms(1-3)])
  consider "Failed r" | "\<not> Failed r" "EIP158 (tn_config t2) \<and> length (r_ReturnValue r) > SpuriousDragonMaxCodeSize"
    | "\<not> Failed r" "\<not> (EIP158 (tn_config t2) \<and> length (r_ReturnValue r) > SpuriousDragonMaxCodeSize)" by blast
  then show ?thesis
  proof cases
    case 1
    then show ?thesis using rev [of r] assms(5) by (auto simp: finishCreate_def)
  next
    case 2
    then show ?thesis using rev [of "ErrResult 0 ErrMaxCodeSizeExceeded"]
      by (auto simp: finishCreate_def ErrResult_def)
  next
    case 3
    let ?ef = "r_Err r = None \<and> length (r_ReturnValue r) \<ge> 1 \<and> r_ReturnValue r ! 0 = 0xef \<and> London (tn_config t2)"
    let ?g = "of_nat (length (r_ReturnValue r)) * 200 :: u64"
    let ?r = "r\<lparr>r_Err := Some ErrCodeStoreOutOfGas, r_ReturnValue := []\<rparr>"
    show ?thesis
    proof (cases ?ef)
      case True
      then show ?thesis using 3 rev [of "ErrResult 0 ErrInvalidCode"]
        by (auto simp: finishCreate_def ErrResult_def)
    next
      case ef: False
      show ?thesis
      proof (cases "r_GasLeft r < ?g")
        case True
        then show ?thesis using 3 ef pop assms(5) rev [of "?r\<lparr>r_GasLeft := 0\<rparr>"]
          by (simp add: finishCreate_def Let_def) (auto simp: Failed_def)
      next
        case False
        then have "finishCreate P c n r t2 = Some (r\<lparr>r_GasLeft := r_GasLeft r - ?g, r_Address := c_Address c\<rparr>,
            set_state (\<lambda>s. SetCode (ex_L P) s (c_Address c) (r_ReturnValue r)) t2)"
          by (simp only: finishCreate_def Let_def if_not_P [OF 3(1)] if_not_P [OF 3(2)] if_not_P [OF ef] if_not_P if_False)
        moreover have "r_GasLeft r - ?g \<le> g" using False by (intro sub) simp
        ultimately show ?thesis using 3 code by (simp add: Failed_def)
      qed
    qed
  qed
qed

text \<open>\<^verbatim>\<open>applyCreate\<close>.\<close>

lemma applyCreate_total:
  assumes host: "\<And>B'. c_Depth c \<le> 1025 \<Longrightarrow> evm_host (transEnv P cx) (trans_inv P K B') d (mayPanic B')"
    and t: "trans_inv P K B t" and c: "frame_pre d c"
  shows "mayPanic B \<and> applyCreate P cx t c = None \<or>
    (\<exists>r t'. applyCreate P cx t c = Some (r, t') \<and> r_GasLeft r \<le> c_Gas c \<and> trans_inv P K B t')"
proof (cases "c_Depth c \<le> 1025")
  case False
  with t show ?thesis by (simp add: applyCreate_def ErrResult_def Let_def)
next
  case dep: True
  have v: "c_Value c = Some v \<Longrightarrow> 0 \<le> v" for v using c by (simp add: frame_pre_def value_ok_def)
  obtain e t1 where i: "on_state (\<lambda>s. IncrNonce (ex_L P) s (c_Caller c)) t = (e, t1)" by fastforce
  have t1: "trans_inv P K B t1"
    using inv_on [OF t, of "\<lambda>s. IncrNonce (ex_L P) s (c_Caller c)"] i by (simp add: txn_ok_ops)
  define t2 where "t2 = (if Berlin (tn_config t1) then trans_AddAddress t1 (c_Address c) else t1)"
  have t2: "trans_inv P K B t2" using t1 by (simp add: t2_def inv_AddAddress)
  show ?thesis
  proof (cases "e = None \<and> \<not> hasCodeOrNonce P t2 (c_Address c)")
    case False
    then show ?thesis using dep t1 t2
      by (cases e) (auto simp: applyCreate_def i Let_def t2_def ErrResult_def split del: if_split)
  next
    case True
    obtain n t3 where s: "trans_Snapshot t2 = (n, t3)" by fastforce
    note snap = trans_Snapshot_inv [OF t2 s]
    let ?create = "\<lambda>s. IncrNonce (ex_L P) (CreateAccount (ex_L P) s (c_Address c)) (c_Address c)"
    obtain e' t4 where m: "(if EIP158 (tn_config t3) then on_state ?create t3 else (None, t3)) = (e', t4)"
      by fastforce
    have "trans_inv P K t3 (snd (on_state ?create t3))"
      using snap(1) by (rule inv_on) (simp_all add: txn_ok_ops)
    with m snap(1) have t4: "trans_inv P K t3 t4" by (auto split: if_splits)
    obtain e'' t5 where x: "trans_Transfer P t4 (c_Caller c) (c_Address c) (c_Value c) = (e'', t5)" by fastforce
    have t5: "trans_inv P K t3 t5"
      using x inv_Transfer [OF t4, where x = "c_Value c" and a = "c_Caller c" and b = "c_Address c"] v by auto
    have eq: "applyCreate P cx t c = (case e' of Some err \<Rightarrow> Some (ErrResult 0 err, t4) | None \<Rightarrow>
        (case e'' of Some err \<Rightarrow> Some (ErrResult (c_Gas c) err, t5) | None \<Rightarrow>
           if deploymentDenied P t5 c then Some (ErrResult 0 ErrNotAuth, t5)
           else Option.bind (trans_run P cx t5 c) (\<lambda>(result, t). finishCreate P c n result t)))"
      using dep True by (simp add: applyCreate_def i Let_def t2_def [symmetric] s m x split del: if_split
        cong: option.case_cong)
    note run = trans_run_total [OF host [OF dep] t5 c]
    have mp: "mayPanic t3 = mayPanic B" using mayPanic_inv [OF snap(2)] .
    show ?thesis
    proof (cases "e' = None \<and> e'' = None \<and> \<not> deploymentDenied P t5 c")
      case False
      then show ?thesis
        using trans_inv_pop [OF t2 s t4] trans_inv_pop [OF t2 s t5]
        by (cases e'; cases e''; cases "deploymentDenied P t5 c") (auto simp: eq ErrResult_def)
    next
      case ok: True
      show ?thesis
      proof (cases "trans_run P cx t5 c")
        case None
        then show ?thesis using ok run mp by (simp add: eq)
      next
        case (Some p)
        then obtain r t6 where r: "trans_run P cx t5 c = Some (r, t6)" "r_GasLeft r \<le> c_Gas c"
          "length (r_ReturnValue r) < 2 ^ 63" "trans_inv P K t3 t6"
          using run by auto
        from finishCreate_total [OF t2 s r(4,3,2), of c] show ?thesis using ok r(1) by (auto simp: eq)
      qed
    qed
  qed
qed

section \<open>The bound on nested calls\<close>

text \<open>With \<open>n\<close> levels left at depth \<open>d\<close>, and \<open>n + d\<close> above the limit, the bound is never reached.\<close>

lemma trans_Callx_total:
  assumes "1026 \<le> n + d" "d \<le> 1025" "trans_inv P K B t" "frame_pre (Suc d) c"
  shows "mayPanic B \<and> trans_Callx P n t c = None \<or>
    (\<exists>r t'. trans_Callx P n t c = Some (r, t') \<and> r_GasLeft r \<le> c_Gas c \<and> trans_inv P K B t')"
  using assms
proof (induction n arbitrary: d t c B)
  case (Suc n)
  have host: "evm_host (transEnv P (trans_Callx P n)) (trans_inv P K B') (Suc d) (mayPanic B')" if "c_Depth c \<le> 1025" for B'
    using that Suc.prems by (intro evm_host_trans Suc.IH) (auto simp: frame_pre_def)
  show ?case
    using applyCreate_total [OF host Suc.prems(3,4)] applyCall_total [OF host Suc.prems(3,4), of "c_Type c"]
    by (cases "c_Type c = Create") auto
qed simp

lemma transition_host:
  assumes "1026 \<le> n + d" "d \<le> 1025"
  shows "evm_host (transEnv P (trans_Callx P n)) (trans_inv P K B) d (mayPanic B)"
  using trans_Callx_total [OF assms] by (intro evm_host_trans) auto

end

end
