(* ===== verification/Transition_Messages.thy ===== *)
theory Transition_Messages
  imports Transition_Safety
begin

text \<open>
  Messages and transactions: \<^verbatim>\<open>Call2\<close>, \<^verbatim>\<open>Create2\<close>, \<^verbatim>\<open>apply\<close> and \<^verbatim>\<open>Apply\<close>. A message that passes its checks is
  executed without a panic, its gas is accounted for to the last unit, and the fees it pays out are
  paid from the fee it charged, so no transaction mints coins.
\<close>

section \<open>Moving the base of the invariant\<close>

lemma txn_ok_mono: "txn_ok L K S s \<Longrightarrow> K \<le> K' \<Longrightarrow> txn_ok L K' S s"
  by (auto simp: txn_ok_def supply_le_def elim: supply_mono)

lemma txn_ok_self: "txn_ok L K S s \<Longrightarrow> txn_ok L K (txn_snapshots s) s"
  by (simp add: txn_ok_def)

lemma trans_inv_rebase:
  assumes "trans_inv P K B t" "base_ok t'" "tn_state t' = tn_state t" "tn_journal t' = tn_journal t"
    and "tn_journalRevisions t' = tn_journalRevisions t"
  shows "trans_inv P K t' t'"
  using assms by (auto simp: trans_inv_def rev_ok_def intro: txn_ok_self)

text \<open>The transition after a message, with the fields restored that \<^verbatim>\<open>apply\<close> sets for the message.\<close>

definition msg_inv :: "('t, 's, 'c, 'g) exec \<Rightarrow> int \<Rightarrow> ('t, 'c) Transition \<Rightarrow> ('t, 'c) Transition \<Rightarrow> bool" where
  "msg_inv P K t t' \<longleftrightarrow> trans_inv P K t (t'\<lparr>tn_ctx := tn_ctx t, tn_gasPool := tn_gasPool t\<rparr>) \<and>
     ctx_BaseFee (tn_ctx t') = ctx_BaseFee (tn_ctx t) \<and> ctx_NonPayable (tn_ctx t') = ctx_NonPayable (tn_ctx t)"

lemma msg_inv_refl: "trans_inv P K t t \<Longrightarrow> msg_inv P K t t"
  by (simp add: msg_inv_def)

text \<open>What the checks leave for the execution: the price, the tip and the base fee are not negative,
  and under London the price covers the tip and the base fee.\<close>

definition fees_ok :: "('t, 'c) Transition \<Rightarrow> Transaction \<Rightarrow> int \<Rightarrow> int \<Rightarrow> bool" where
  "fees_ok t msg price tip \<longleftrightarrow>
     price = GetGasPrice msg (big_Uint64 (ctx_BaseFee (tn_ctx t))) \<and> 0 \<le> price \<and> 0 \<le> tip \<and>
     0 \<le> ctx_BaseFee (tn_ctx t) \<and>
     (if London (tn_config t)
      then EffectiveGasTip msg (Some (ctx_BaseFee (tn_ctx t))) = Some tip \<and> tip + ctx_BaseFee (tn_ctx t) \<le> price
      else tip = price)"

text \<open>A transaction as it comes out of the decoder: the numbers are present and not negative. A dynamic-fee
  transaction with neither fee cap nor tip is left out: the checks accept it at any base fee.\<close>

definition tx_wf :: "Transaction \<Rightarrow> bool" where
  "tx_wf msg \<longleftrightarrow> Tx_Type msg \<noteq> StateTxType \<and>
     (\<exists>tip cap v. GetGasTipCap msg = Some tip \<and> GetGasFeeCap msg = Some cap \<and> Tx_Value msg = Some v \<and>
        0 \<le> tip \<and> 0 \<le> cap \<and> 0 \<le> v \<and> (Tx_Type msg = DynamicFeeTxType \<longrightarrow> cap \<noteq> 0 \<or> tip \<noteq> 0)) \<and>
     length (Tx_Input msg) < 2 ^ 63 \<and> unat (Tx_Gas msg) \<le> MaxGas \<and>
     (\<forall>u \<in> set (Tx_AccessList msg). length (at_Address u) = AddressLength)"

text \<open>The block context: the base fee is a 64-bit number, and not zero under London.\<close>

definition fee_ctx :: "('t, 'c) Transition \<Rightarrow> bool" where
  "fee_ctx t \<longleftrightarrow> (\<exists>b :: u64. ctx_BaseFee (tn_ctx t) = uint b \<and> (London (tn_config t) \<longrightarrow> b \<noteq> 0)) \<and>
     \<not> ctx_NonPayable (tn_ctx t)"

lemma big_Uint64_uint [simp]: "big_Uint64 (uint (b :: u64)) = b"
  by (simp add: big_Uint64_def)

lemma GetGasPrice_nonneg:
  assumes "tx_wf msg" shows "0 \<le> GetGasPrice msg b"
  using assms by (cases msg) (auto simp: tx_wf_def GetGasPrice_def feeMarketPrice_def Tx_GasPrice_def Tx_GasTipCap_def
      Tx_GasFeeCap_def GetGasTipCap_def GetGasFeeCap_def Tx_Type_def BigMin_def Let_def)

text \<open>A transaction that passes the fee checks covers its tip and the base fee.\<close>

lemma checked_fees:
  assumes w: "tx_wf msg" and c: "fee_ctx t" and "checkDynamicFees t msg = Some None"
  shows "\<exists>tip. fees_ok t msg (GetGasPrice msg (big_Uint64 (ctx_BaseFee (tn_ctx t)))) tip"
proof -
  obtain b :: u64 where b: "ctx_BaseFee (tn_ctx t) = uint b" "London (tn_config t) \<Longrightarrow> b \<noteq> 0"
    using c by (auto simp: fee_ctx_def)
  obtain tip cap where tc: "GetGasTipCap msg = Some tip" "GetGasFeeCap msg = Some cap" "0 \<le> tip" "0 \<le> cap"
    "Tx_Type msg = DynamicFeeTxType \<Longrightarrow> cap \<noteq> 0 \<or> tip \<noteq> 0"
    using w by (auto simp: tx_wf_def)
  show ?thesis
  proof (cases "London (tn_config t)")
    case False
    then show ?thesis using GetGasPrice_nonneg [OF w] by (auto simp: fees_ok_def b(1))
  next
    case True
    then have "b \<noteq> 0" by (rule b(2))
    from EffectiveGasTip_split [OF this tc(1,2)] obtain e where
      e: "EffectiveGasTip msg (Some (uint b)) = Some e" "e + uint b = GetGasPrice msg b" by blast
    have z: "big_BitLen x = 0 \<longleftrightarrow> x = 0" for x using big_BitLen_le [of x 0] by simp
    have "uint b \<le> cap"
      using assms(3) True tc(1,2,5)
      by (auto simp: checkDynamicFees_def checkFeeCap_def b(1) z GetGasTipCap_def GetGasFeeCap_def bind_eq_Some_conv
          split: if_splits)
    then have "0 \<le> e" using e(1) tc by (auto simp: EffectiveGasTip_def BigMin_def split: if_splits)
    with e show ?thesis using True GetGasPrice_nonneg [OF w] by (auto simp: fees_ok_def b(1))
  qed
qed

lemma checkDynamicFees_total:
  assumes "tx_wf msg" shows "\<exists>e. checkDynamicFees t msg = Some e"
  using assms by (auto simp: tx_wf_def checkDynamicFees_def checkFeeCap_def GetGasTipCap_def GetGasFeeCap_def
      split: if_splits)

lemma fees_ok_cong:
  "tn_config t' = tn_config t \<Longrightarrow> ctx_BaseFee (tn_ctx t') = ctx_BaseFee (tn_ctx t) \<Longrightarrow>
   fees_ok t' msg price tip = fees_ok t msg price tip"
  by (simp add: fees_ok_def)

lemma msg_inv_from:
  assumes "msg_inv P K (t\<lparr>tn_state := s, tn_gasPool := g\<rparr>) t'" "txn_snapshots s = txn_snapshots (tn_state t)"
    and "txn_snapshot s = txn_snapshot (tn_state t)" "base_ok t"
  shows "msg_inv P K t t'"
  using assms by (simp add: msg_inv_def trans_inv_def fixedPart_def)

text \<open>Between two transactions of a block: the gas used and the gas left in the pool add up to \<open>G\<close>.\<close>

definition block_inv :: "('t, 's, 'c, 'g) exec \<Rightarrow> int \<Rightarrow> nat \<Rightarrow> ('t, 'c) Transition \<Rightarrow> bool" where
  "block_inv P K G t \<longleftrightarrow> trans_inv P K t t \<and> fee_ctx t \<and>
     unat (tn_totalGas t) + unat (tn_gasPool t) = G \<and> G < 2 ^ 64"

lemma pool_step:
  fixes pool gas left used total :: u64
  assumes "unat used + unat left = unat gas" "gas \<le> pool" "unat total + unat pool = G" "G < 2 ^ 64"
  shows "unat (total + used) + unat (pool - gas + left) = G"
proof -
  have g: "unat gas \<le> unat pool" using assms(2) by (simp add: word_le_nat_alt)
  have p: "unat (pool - gas) = unat pool - unat gas" using assms(2) by (rule unat_sub)
  have "unat (pool - gas + left) = unat (pool - gas) + unat left"
    by (rule unat_add_lem [THEN iffD1]) (use assms g p in simp)
  moreover have "unat (total + used) = unat total + unat used"
    by (rule unat_add_lem [THEN iffD1]) (use assms g in simp)
  ultimately show ?thesis using assms g p by simp
qed

lemma tx_wf_SetFrom [simp]: "tx_wf (Tx_SetFrom msg a) = tx_wf msg"
  by (cases msg) (simp_all add: tx_wf_def Tx_SetFrom_def Tx_Type_def GetGasTipCap_def GetGasFeeCap_def
      Tx_GasPrice_def Tx_GasTipCap_def Tx_GasFeeCap_def Tx_Value_def Tx_Input_def Tx_Gas_def Tx_AccessList_def Tx_Base_def
      map_Base_def)

lemma tx_wf_Copy: "tx_wf msg \<Longrightarrow> Tx_Copy msg = msg"
  by (rule Tx_Copy_id) (auto simp: tx_wf_def)

context transition_libs
begin

section \<open>Calls and creations\<close>

lemma message_host: "evm_host (transEnv P (trans_Callx P callFuel)) (trans_inv P K B) 1 (mayPanic B)"
  by (rule transition_host) (simp_all add: callFuel_def)

lemma Call2_total:
  assumes t: "trans_inv P K B t" and "length input < 2 ^ 63" "0 \<le> value" "unat gas \<le> MaxGas"
  shows "mayPanic B \<and> trans_Call2 P t caller to input value gas = None \<or>
    (\<exists>r t'. trans_Call2 P t caller to input value gas = Some (r, t') \<and> r_GasLeft r \<le> gas \<and> trans_inv P K B t')"
proof -
  obtain code t1 where c: "on_state (\<lambda>s. Txn_GetCode (ex_L P) s to) t = (code, t1)" by fastforce
  have t1: "trans_inv P K B t1"
    using inv_on [OF t, of "\<lambda>s. Txn_GetCode (ex_L P) s to"] c by (simp add: txn_ok_ops)
  have l: "length code < 2 ^ 63" using txn_ok_ops(8) [OF trans_inv_txn [OF t], of to] c by (simp add: on_state_eq)
  let ?c = "NewContractCall 1 caller caller to (Some value) gas code input"
  have pre: "frame_pre 1 ?c" using assms(2-4) l
    by (simp add: frame_pre_def NewContractCall_def NewContract_def value_ok_def)
  have g: "c_Gas ?c = gas" by (simp add: NewContractCall_def NewContract_def)
  from applyCall_total [OF message_host t1 pre, of Call]
  show ?thesis unfolding g by (auto simp: trans_Call2_def c Let_def)
qed

lemma Create2_total:
  assumes t: "trans_inv P K B t" and "length code < 2 ^ 63" "0 \<le> value" "unat gas \<le> MaxGas"
  shows "mayPanic B \<and> trans_Create2 P t caller code value gas = None \<or>
    (\<exists>r t'. trans_Create2 P t caller code value gas = Some (r, t') \<and> r_GasLeft r \<le> gas \<and> trans_inv P K B t')"
proof -
  let ?a = "CreateAddress (transEnv P (trans_Callx P callFuel)) caller (Txn_GetNonce (ex_L P) (tn_state t) caller)"
  let ?c = "NewContractCreation 1 caller caller ?a (Some value) gas code"
  have pre: "frame_pre 1 ?c" using assms(2-4)
    by (simp add: frame_pre_def NewContractCreation_def NewContract_def value_ok_def)
  have g: "c_Gas ?c = gas" by (simp add: NewContractCreation_def NewContract_def)
  from applyCreate_total [OF message_host t pre]
  show ?thesis unfolding g by (auto simp: trans_Create2_def Let_def)
qed

section \<open>Fees\<close>

lemma pay:
  assumes "txn_ok (ex_L P) K S s" "supply_le (ex_L P) K' s" "0 \<le> v" "K' + v \<le> K"
  shows "txn_ok (ex_L P) K S (AddBalance (ex_L P) s a v)" "supply_le (ex_L P) (K' + v) (AddBalance (ex_L P) s a v)"
proof -
  have "supply_le (ex_L P) (K - v) s" using assms(2,4) by (auto simp: supply_le_def elim: supply_mono)
  then show "txn_ok (ex_L P) K S (AddBalance (ex_L P) s a v)"
    by (rule state_library.txn_ok_AddBalance [OF slib assms(1) _ assms(3)])
  show "supply_le (ex_L P) (K' + v) (AddBalance (ex_L P) s a v)"
    by (rule state_library.supply_AddBalance [OF slib assms(2,3)])
qed

text \<open>The three payments after a message, within the amount \<open>K\<close> available.\<close>

lemma payFees_ok:
  assumes "txn_ok (ex_L P) K S (tn_state t)" "supply_le (ex_L P) K' (tn_state t)" "0 \<le> price" "0 \<le> tip"
    and tip: "(if London (tn_config t) then EffectiveGasTip msg (Some (ctx_BaseFee (tn_ctx t))) else Some price) = Some tip"
    and b: "0 \<le> ctx_BaseFee (tn_ctx t)"
    and "K' + uint (r_GasLeft r) * price + uint (r_GasUsed r) * tip +
      (if London (tn_config t) then uint (r_GasUsed r) * ctx_BaseFee (tn_ctx t) else 0) \<le> K"
  shows "\<exists>s. payFees P msg price r t = Some (t\<lparr>tn_state := s, tn_gasPool := tn_gasPool t + r_GasLeft r\<rparr>) \<and>
    txn_ok (ex_L P) K S s \<and> txn_snapshots s = txn_snapshots (tn_state t) \<and> txn_snapshot s = txn_snapshot (tn_state t)"
proof -
  let ?L = "ex_L P" and ?l = "uint (r_GasLeft r) * price" and ?f = "uint (r_GasUsed r) * tip"
  let ?b = "uint (r_GasUsed r) * ctx_BaseFee (tn_ctx t)"
  have pos: "0 \<le> ?l" "0 \<le> ?f" "0 \<le> ?b" using assms(3,4) b by simp_all
  let ?s1 = "AddBalance ?L (tn_state t) (Tx_From msg) ?l"
  let ?s2 = "AddBalance ?L ?s1 (ctx_Coinbase (tn_ctx t)) ?f"
  let ?s3 = "AddBalance ?L ?s2 (ctx_BurnContract (tn_ctx t)) ?b"
  have k: "K' + ?l + ?f \<le> K" "London (tn_config t) \<Longrightarrow> K' + ?l + ?f + ?b \<le> K"
    using assms(7) pos by (simp_all split: if_splits)
  have s1: "txn_ok ?L K S ?s1" "supply_le ?L (K' + ?l) ?s1" using pay [OF assms(1,2) pos(1)] k pos by simp_all
  have s2: "txn_ok ?L K S ?s2" "supply_le ?L (K' + ?l + ?f) ?s2" using pay [OF s1 pos(2)] k by simp_all
  have s3: "London (tn_config t) \<Longrightarrow> txn_ok ?L K S ?s3" using pay(1) [OF s2 pos(3)] k(2) by simp
  show ?thesis
    using tip s2(1) s3
    by (cases "London (tn_config t)"; cases "tn_isL1OriginatedToken t \<and> Tx_Type msg \<noteq> StateTxType")
       (auto simp: payFees_def set_state_def addGasPool_def Let_def)
qed

section \<open>Execution of a message\<close>

lemma inv_fixed:
  assumes "trans_inv P K u t" "fixedPart u = fixedPart (v\<lparr>tn_ctx := tn_ctx u, tn_gasPool := tn_gasPool u\<rparr>)"
    and "base_ok v" "txn_snapshots (tn_state u) = txn_snapshots (tn_state v)"
    and "tn_journalRevisions u = tn_journalRevisions v" "ctx_BaseFee (tn_ctx u) = ctx_BaseFee (tn_ctx v)"
    and "ctx_NonPayable (tn_ctx u) = ctx_NonPayable (tn_ctx v)"
  shows "msg_inv P K v t"
  using assms by (simp add: trans_inv_def msg_inv_def fixedPart_def)

text \<open>The frame of the message. \<open>u\<close> is the transition with the context and the access list of the message.\<close>

lemma runMessage_ok:
  assumes u: "trans_inv P K u u" and v: "0 \<le> v"
    and "length (Tx_Input msg) < 2 ^ 63" "unat gasLeft \<le> MaxGas"
  shows "mayPanic u \<and> runMessage P msg v gasLeft u = None \<or>
    (\<exists>x t'. runMessage P msg v gasLeft u = Some (x, t') \<and> trans_inv P K u t' \<and>
      (\<forall>r. x = Inr r \<longrightarrow> r_GasLeft r \<le> gasLeft))"
proof (cases "IsContractCreation msg")
  case True
  then show ?thesis
    using Create2_total [OF u assms(3) v assms(4), of "Tx_From msg"] by (auto simp: runMessage_def)
next
  case False
  then obtain to where to: "Tx_To msg = Some to" by (auto simp: IsContractCreation_def)
  obtain e t1 where i: "on_state (\<lambda>s. IncrNonce (ex_L P) s (Tx_From msg)) u = (e, t1)" by fastforce
  have t1: "trans_inv P K u t1"
    using inv_on [OF u, of "\<lambda>s. IncrNonce (ex_L P) s (Tx_From msg)"] i by (simp add: txn_ok_ops)
  show ?thesis
    using False to i t1 Call2_total [OF t1 assms(3) v assms(4), of "Tx_From msg" to]
    by (cases e) (auto simp: runMessage_def)
qed

lemma prepareMessage_simps [simp]:
  "tn_state (prepareMessage msg p t) = tn_state t" "tn_journal (prepareMessage msg p t) = tn_journal t"
  "tn_journalRevisions (prepareMessage msg p t) = tn_journalRevisions t"
  "tn_config (prepareMessage msg p t) = tn_config t" "tn_gasPool (prepareMessage msg p t) = tn_gasPool t"
  "ctx_BaseFee (tn_ctx (prepareMessage msg p t)) = ctx_BaseFee (tn_ctx t)"
  "ctx_NonPayable (tn_ctx (prepareMessage msg p t)) = ctx_NonPayable (tn_ctx t)"
  "base_ok (prepareMessage msg p t) = base_ok t" "mayPanic (prepareMessage msg p t) = mayPanic t"
  by (simp_all add: prepareMessage_def base_ok_def mayPanic_def Let_def)

lemma prepareMessage_fixed:
  "fixedPart (prepareMessage msg p t) = fixedPart (t\<lparr>tn_ctx := tn_ctx (prepareMessage msg p t),
     tn_gasPool := tn_gasPool (prepareMessage msg p t)\<rparr>)"
  by (simp add: prepareMessage_def fixedPart_def Let_def)

lemma fees_paid:
  assumes f: "fees_ok t msg price tip" and c: "tn_config t1 = tn_config t" "ctx_BaseFee (tn_ctx t1) = ctx_BaseFee (tn_ctx t)"
    and s: "txn_ok (ex_L P) (K + uint gas * price) S (tn_state t1)" "supply_le (ex_L P) K (tn_state t1)"
    and used: "unat (r_GasUsed r) + unat (r_GasLeft r) = unat gas"
  shows "\<exists>s. payFees P msg price r t1 = Some (t1\<lparr>tn_state := s, tn_gasPool := tn_gasPool t1 + r_GasLeft r\<rparr>) \<and>
    txn_ok (ex_L P) (K + uint gas * price) S s \<and> txn_snapshots s = txn_snapshots (tn_state t1) \<and>
    txn_snapshot s = txn_snapshot (tn_state t1)"
proof (rule payFees_ok [OF s])
  have usedi: "uint (r_GasUsed r) + uint (r_GasLeft r) = uint gas"
    using used by (metis of_nat_add uint_nat)
  have "uint (r_GasUsed r) * (tip + (if London (tn_config t) then ctx_BaseFee (tn_ctx t) else 0))
      \<le> uint (r_GasUsed r) * price"
    using f by (intro mult_left_mono) (auto simp: fees_ok_def split: if_splits)
  then show "K + uint (r_GasLeft r) * price + uint (r_GasUsed r) * tip +
      (if London (tn_config t1) then uint (r_GasUsed r) * ctx_BaseFee (tn_ctx t1) else 0) \<le> K + uint gas * price"
    by (simp add: c usedi [symmetric] algebra_simps split: if_splits)
qed (use f c in \<open>simp_all add: fees_ok_def split: if_splits\<close>)

lemma executeMessage_ok:
  assumes t: "trans_inv P K t t" and f: "fees_ok t msg price tip"
    and gas: "gasLeft \<le> Tx_Gas msg" "unat (Tx_Gas msg) \<le> MaxGas"
    and msg: "\<And>v. Tx_Value msg = Some v \<Longrightarrow> 0 \<le> v" "length (Tx_Input msg) < 2 ^ 63"
  shows "mayPanic t \<and> executeMessage P msg gasLeft t = None \<or>
    (\<exists>x t'. executeMessage P msg gasLeft t = Some (x, t') \<and>
      msg_inv P (K + uint (Tx_Gas msg) * price) t t' \<and>
      (\<forall>r. x = Inr r \<longrightarrow> unat (r_GasUsed r) + unat (r_GasLeft r) = unat (Tx_Gas msg) \<and>
         tn_gasPool t' = tn_gasPool t + r_GasLeft r))"
proof -
  let ?K = "K + uint (Tx_Gas msg) * price" and ?u = "prepareMessage msg price t"
  let ?v = "case Tx_Value msg of None \<Rightarrow> 0 | Some v \<Rightarrow> v"
  have mono: "K \<le> ?K" using f by (simp add: fees_ok_def)
  have b: "base_ok t" using t by (simp add: trans_inv_def)
  have u: "trans_inv P K ?u ?u" by (rule trans_inv_rebase [OF t]) (use b in simp_all)
  have gl: "unat gasLeft \<le> MaxGas" using gas by (simp add: word_le_nat_alt)
  have v: "0 \<le> ?v" using msg(1) by (simp split: option.split)
  have price: "GetGasPrice msg (big_Uint64 (ctx_BaseFee (tn_ctx t))) = price" using f by (simp add: fees_ok_def)
  note run = runMessage_ok [OF u v msg(2) gl]
  show ?thesis
  proof (cases "runMessage P msg ?v gasLeft ?u")
  case None
  then show ?thesis using run by (simp add: executeMessage_def price Let_def)
  next
  case (Some p)
  then obtain x t1 where x: "runMessage P msg ?v gasLeft ?u = Some (x, t1)" and t1: "trans_inv P K ?u t1"
    and xr: "\<And>r. x = Inr r \<Longrightarrow> r_GasLeft r \<le> gasLeft"
    using run by auto
  have c1: "tn_config t1 = tn_config t" "ctx_BaseFee (tn_ctx t1) = ctx_BaseFee (tn_ctx t)"
    "tn_gasPool t1 = tn_gasPool t"
    using t1 prepareMessage_simps [of msg price t] unfolding trans_inv_def fixedPart_def by auto
  have up: "trans_inv P ?K ?u t1" using t1 txn_ok_mono [OF _ mono] by (auto simp: trans_inv_def)
  have fin: "trans_inv P ?K ?u t2 \<Longrightarrow> msg_inv P ?K t t2" for t2
    by (rule inv_fixed [OF _ prepareMessage_fixed b]) simp_all
  note eq = executeMessage_def price Let_def x
  show ?thesis
  proof (cases x)
    case (Inl e)
    then show ?thesis using fin [OF up] by (simp add: eq)
  next
    case (Inr r0)
    define q where "q = (if London (tn_config t1) then LondonRefundQuotient else LegacyRefundQuotient)"
    define r where "r = UpdateGasUsed (r0\<lparr>r_AccessList := Some (tn_accessList t1)\<rparr>) (Tx_Gas msg)
      (Txn_GetRefund (tn_state t1)) q"
    have "r_GasLeft (r0\<lparr>r_AccessList := Some (tn_accessList t1)\<rparr>) \<le> Tx_Gas msg" "0 < q"
      using xr [OF Inr] gas(1) by (simp_all add: q_def LondonRefundQuotient_def LegacyRefundQuotient_def)
    then have used: "unat (r_GasUsed r) + unat (r_GasLeft r) = unat (Tx_Gas msg)"
      unfolding r_def by (rule UpdateGasUsed_balance(1))
    obtain s where s: "payFees P msg price r t1 = Some (t1\<lparr>tn_state := s, tn_gasPool := tn_gasPool t1 + r_GasLeft r\<rparr>)"
      "txn_ok (ex_L P) ?K (txn_snapshots (tn_state ?u)) s" "txn_snapshots s = txn_snapshots (tn_state t1)"
      "txn_snapshot s = txn_snapshot (tn_state t1)"
      using fees_paid [OF f c1(1,2) trans_inv_txn [OF up] txn_ok_supply [OF trans_inv_txn [OF t1]] used] by blast
    have "msg_inv P ?K t (t1\<lparr>tn_state := s\<rparr>)" by (rule fin [OF trans_inv_state [OF up s(2-4)]])
    then have "msg_inv P ?K t (t1\<lparr>tn_state := s, tn_gasPool := tn_gasPool t1 + r_GasLeft r\<rparr>)"
      by (simp add: msg_inv_def)
    then show ?thesis using s(1) used c1(3)
      by (simp add: eq Inr q_def [symmetric] r_def [symmetric])
  qed
  qed
qed

section \<open>Checks\<close>

lemma SubBalance_paid:
  assumes t: "trans_inv P K t t" and "0 \<le> v" "v \<le> Txn_GetBalance (ex_L P) (tn_state t) a"
    and s: "s = snd (SubBalance (ex_L P) (tn_state t) a v)"
  shows "trans_inv P (K - v) (t\<lparr>tn_state := s\<rparr>) (t\<lparr>tn_state := s\<rparr>)" "trans_inv P K t (t\<lparr>tn_state := s\<rparr>)"
    "fst (SubBalance (ex_L P) (tn_state t) a v) = None"
proof -
  note k = trans_inv_txn [OF t]
  have "txn_ok (ex_L P) K (txn_snapshots (tn_state t)) s" unfolding s by (rule txn_ok_ops(10) [OF k assms(2)])
  then show inv: "trans_inv P K t (t\<lparr>tn_state := s\<rparr>)" by (rule trans_inv_state [OF t]) (simp_all add: s)
  have "supply_le (ex_L P) (K - v) s" unfolding s
    by (rule state_library.supply_SubBalance [OF slib txn_ok_supply [OF k] assms(3)])
  then have "txn_ok (ex_L P) (K - v) (txn_snapshots s) s" using trans_inv_txn [OF inv] by (simp add: txn_ok_def)
  then show "trans_inv P (K - v) (t\<lparr>tn_state := s\<rparr>) (t\<lparr>tn_state := s\<rparr>)"
    using inv t by (simp add: trans_inv_def rev_ok_def base_ok_def)
  show "fst (SubBalance (ex_L P) (tn_state t) a v) = None"
    using state_library.balance_sub_ok [OF slib assms(3)] by simp
qed

lemma subGasLimitPrice_cases:
  assumes t: "trans_inv P K t t" and f: "price = GetGasPrice msg (big_Uint64 (ctx_BaseFee (tn_ctx t)))" "0 \<le> price"
    and v: "Tx_Value msg = Some v" "0 \<le> v" and cap: "GetGasFeeCap msg = Some cap"
  obtains e where "subGasLimitPrice P t msg = Some (Some e, t)"
  | s where "subGasLimitPrice P t msg = Some (None, t\<lparr>tn_state := s\<rparr>)"
    "trans_inv P (K - uint (Tx_Gas msg) * price) (t\<lparr>tn_state := s\<rparr>) (t\<lparr>tn_state := s\<rparr>)"
    "trans_inv P K t (t\<lparr>tn_state := s\<rparr>)" "txn_snapshots s = txn_snapshots (tn_state t)"
proof -
  let ?up = "uint (Tx_Gas msg) * price" and ?b = "Txn_GetBalance (ex_L P) (tn_state t) (Tx_From msg)"
  let ?s = "snd (SubBalance (ex_L P) (tn_state t) (Tx_From msg) ?up)"
  have up: "0 \<le> ?up" using f(2) by simp
  obtain w where w: "(if Tx_Type msg = DynamicFeeTxType then do {
                         v \<leftarrow> Tx_Value msg;
                         cap \<leftarrow> Tx_GasFeeCap msg;
                         Some (uint (Tx_Gas msg) * cap + v)
                       }
                       else Some ?up) = Some w"
    using v cap by (cases "Tx_Type msg = DynamicFeeTxType") (auto simp: GetGasFeeCap_def)
  have eq: "subGasLimitPrice P t msg = (if ?b < w then Some (Some ErrInsufficientFunds, t)
     else Some (case on_state (\<lambda>s. SubBalance (ex_L P) s (Tx_From msg) ?up) t of
               (Some err, t) \<Rightarrow>
                 (Some (if err = ErrNotEnoughFunds then ErrNotEnoughFundsForGas else RuntimeError err), t)
             | (None, t) \<Rightarrow> (None, t)))"
    using w by (simp add: subGasLimitPrice_def Let_def f(1) [symmetric] split del: if_split)
  show thesis
  proof (cases "?b < w")
    case True
    then show thesis using that(1) by (simp add: eq)
  next
    case False
    show thesis
    proof (cases rule: SubBalance_cases [of ?up "tn_state t" "Tx_From msg"])
      case 1
      then have "subGasLimitPrice P t msg = Some (None, t\<lparr>tn_state := ?s\<rparr>)"
        using False by (simp add: eq on_state_eq)
      then show thesis using that(2) SubBalance_paid [OF t up 1(1) refl] by simp
    next
      case 2
      then show thesis using False that(1) by (simp add: eq on_state_eq)
    qed
  qed
qed

lemma trans_apply_ok:
  assumes t: "trans_inv P K t t" and w: "tx_wf msg" and c: "fee_ctx t"
  shows "mayPanic t \<and> trans_apply P t msg = None \<or>
    (\<exists>x t'. trans_apply P t msg = Some (x, t') \<and> msg_inv P K t t' \<and>
      (\<forall>r. x = Inr r \<longrightarrow> unat (r_GasUsed r) + unat (r_GasLeft r) = unat (Tx_Gas msg) \<and>
         Tx_Gas msg \<le> tn_gasPool t \<and> tn_gasPool t' = tn_gasPool t - Tx_Gas msg + r_GasLeft r))"
proof -
  let ?price = "GetGasPrice msg (big_Uint64 (ctx_BaseFee (tn_ctx t)))"
  have st: "Tx_Type msg \<noteq> StateTxType" and np: "\<not> ctx_NonPayable (tn_ctx t)"
    using w c by (auto simp: tx_wf_def fee_ctx_def)
  have b: "base_ok t" using t by (simp add: trans_inv_def)
  obtain v cap where v: "Tx_Value msg = Some v" "0 \<le> v" "GetGasFeeCap msg = Some cap"
    and lim: "length (Tx_Input msg) < 2 ^ 63" "unat (Tx_Gas msg) \<le> MaxGas"
    using w by (auto simp: tx_wf_def)
  obtain fe where fe: "checkDynamicFees t msg = Some fe" using checkDynamicFees_total [OF w] by blast
  show ?thesis
  proof (cases "nonceCheck P t msg \<noteq> None \<or> fe \<noteq> None")
    case True
    then show ?thesis using msg_inv_refl [OF t] st np fe
      by (cases "nonceCheck P t msg"; cases fe) (auto simp: trans_apply_def checkAndProcessTx_def)
  next
    case False
    then have nc: "nonceCheck P t msg = None" and fe': "checkDynamicFees t msg = Some None" using fe by auto
    obtain tip where f: "fees_ok t msg ?price tip" using checked_fees [OF w c fe'] by blast
    have chk: "trans_apply P t msg = Option.bind (subGasLimitPrice P t msg) (\<lambda>(err, t).
      case err of Some e \<Rightarrow> Some (Inl (TransitionApplicationError e True), t)
      | None \<Rightarrow>
         (case subGasPool t (Tx_Gas msg) of
            (Some e, t) \<Rightarrow> Some (Inl (GasLimitReachedTransitionApplicationError e), t)
          | (None, t) \<Rightarrow>
              (case TransactionGasCost msg (Homestead (tn_config t)) (Istanbul (tn_config t)) of
                 Inl e \<Rightarrow> Some (Inl (TransitionApplicationError e False), t)
               | Inr intrinsicGasCost \<Rightarrow>
                   let gasLeft = Tx_Gas msg - intrinsicGasCost in
                   if gasLeft > Tx_Gas msg
                   then Some (Inl (TransitionApplicationError ErrNotEnoughIntrinsicGas False), t)
                   else executeMessage P msg gasLeft t)))"
      using st np nc fe' by (cases "subGasLimitPrice P t msg")
        (auto simp: trans_apply_def checkAndProcessTx_def split: option.split)
    show ?thesis
    proof (cases rule: subGasLimitPrice_cases [OF t refl GetGasPrice_nonneg [OF w] v])
      case (1 e)
      then show ?thesis using msg_inv_refl [OF t] by (simp add: chk)
    next
      case (2 s)
      let ?t1 = "t\<lparr>tn_state := s\<rparr>"
      have m1: "msg_inv P K t (?t1\<lparr>tn_gasPool := g\<rparr>)" for g using 2(3) by (simp add: msg_inv_def)
      have m0: "msg_inv P K t ?t1" using 2(3) by (simp add: msg_inv_def)
      show ?thesis
      proof (cases "tn_gasPool t < Tx_Gas msg")
        case True
        then show ?thesis using 2(1) m0 by (simp add: chk subGasPool_def)
      next
        case pool: False
        let ?t2 = "t\<lparr>tn_state := s, tn_gasPool := tn_gasPool t - Tx_Gas msg\<rparr>"
        have i2: "trans_inv P (K - uint (Tx_Gas msg) * ?price) ?t2 ?t2"
          by (rule trans_inv_rebase [OF 2(2)]) (use b in \<open>simp_all add: base_ok_def\<close>)
        have f2: "fees_ok ?t2 msg ?price tip" using f by (simp add: fees_ok_def)
        have sn: "txn_snapshot s = txn_snapshot (tn_state t)"
          using 2(3) by (simp add: trans_inv_def fixedPart_def)
        have lift: "msg_inv P K ?t2 t' \<Longrightarrow> msg_inv P K t t'" for t'
          by (rule msg_inv_from [OF _ 2(4) sn b])
        show ?thesis
        proof (cases "TransactionGasCost msg (Homestead (tn_config t)) (Istanbul (tn_config t))")
          case (Inl e)
          then show ?thesis using 2(1) pool m1 by (simp add: chk subGasPool_def)
        next
          case (Inr cost)
          show ?thesis
          proof (cases "Tx_Gas msg < Tx_Gas msg - cost")
            case True
            then show ?thesis using 2(1) pool Inr m1 by (simp add: chk subGasPool_def)
          next
            case False
            then have "Tx_Gas msg - cost \<le> Tx_Gas msg" by simp
            from executeMessage_ok [OF i2 f2 this lim(2)] v lim
            have "mayPanic t \<and> executeMessage P msg (Tx_Gas msg - cost) ?t2 = None \<or>
              (\<exists>x t'. executeMessage P msg (Tx_Gas msg - cost) ?t2 = Some (x, t') \<and> msg_inv P K ?t2 t' \<and>
                (\<forall>r. x = Inr r \<longrightarrow> unat (r_GasUsed r) + unat (r_GasLeft r) = unat (Tx_Gas msg) \<and>
                  tn_gasPool t' = tn_gasPool t - Tx_Gas msg + r_GasLeft r))" by (simp add: mayPanic_def)
            moreover have "Tx_Gas msg \<le> tn_gasPool t" using pool by simp
            moreover have "trans_apply P t msg = executeMessage P msg (Tx_Gas msg - cost) ?t2"
              using 2(1) pool Inr False by (simp add: chk subGasPool_def Let_def)
            ultimately show ?thesis using lift by auto
          qed
        qed
      qed
    qed
  qed
qed

section \<open>Transactions\<close>

text \<open>The snapshot that \<^verbatim>\<open>Apply\<close> takes, seen from the transition after the message.\<close>

lemma snapshot_message:
  assumes t: "trans_inv P K t t" and s: "trans_Snapshot t = (n, t1)" and m: "msg_inv P K t1 t2"
  defines "u \<equiv> t\<lparr>tn_ctx := tn_ctx t2, tn_gasPool := tn_gasPool t2\<rparr>"
  shows "trans_inv P K u u" "trans_Snapshot u = (n, t1\<lparr>tn_ctx := tn_ctx t2, tn_gasPool := tn_gasPool t2\<rparr>)"
    "trans_inv P K (t1\<lparr>tn_ctx := tn_ctx t2, tn_gasPool := tn_gasPool t2\<rparr>) t2"
    "trans_inv P K u t3 \<Longrightarrow> msg_inv P K t t3"
proof -
  note sn = trans_Snapshot_inv [OF t s]
  have fx: "ctx_BaseFee (tn_ctx t1) = ctx_BaseFee (tn_ctx t)" "tn_precompiles t1 = tn_precompiles t"
    "ctx_NonPayable (tn_ctx t1) = ctx_NonPayable (tn_ctx t)"
    using sn(5) by (simp_all add: fixedPart_def)
  have c: "ctx_BaseFee (tn_ctx t2) = ctx_BaseFee (tn_ctx t)" "ctx_NonPayable (tn_ctx t2) = ctx_NonPayable (tn_ctx t)"
    using m fx by (simp_all add: msg_inv_def)
  have b: "base_ok t" using t by (simp add: trans_inv_def)
  then have bu: "base_ok u" using c by (simp add: u_def base_ok_def)
  show "trans_inv P K u u" by (rule trans_inv_rebase [OF t bu]) (simp_all add: u_def)
  show "trans_Snapshot u = (n, t1\<lparr>tn_ctx := tn_ctx t2, tn_gasPool := tn_gasPool t2\<rparr>)"
    using s by (auto simp: trans_Snapshot_def on_state_eq u_def Let_def)
  show "trans_inv P K (t1\<lparr>tn_ctx := tn_ctx t2, tn_gasPool := tn_gasPool t2\<rparr>) t2"
    using m b c fx by (simp add: msg_inv_def trans_inv_def fixedPart_def base_ok_def)
  show "trans_inv P K u t3 \<Longrightarrow> msg_inv P K t t3"
    using b c by (simp add: msg_inv_def trans_inv_def fixedPart_def u_def)
qed

lemma trans_Apply_ok:
  assumes t: "trans_inv P K t t" and w: "tx_wf msg" and c: "fee_ctx t" and hook: "ex_PostHook P = None"
  shows "mayPanic t \<and> trans_Apply P t msg = None \<or>
    (\<exists>x t'. trans_Apply P t msg = Some (x, t') \<and> msg_inv P K t t' \<and>
      (\<forall>e. x = Inl e \<longrightarrow> txn_txn (tn_state t') = txn_txn (tn_state t)) \<and>
      (\<forall>r. x = Inr r \<longrightarrow> unat (r_GasUsed r) + unat (r_GasLeft r) = unat (Tx_Gas msg) \<and>
         Tx_Gas msg \<le> tn_gasPool t \<and> tn_gasPool t' = tn_gasPool t - Tx_Gas msg + r_GasLeft r))"
proof (cases "checkSenderAccount P t msg")
  case False
  then show ?thesis using msg_inv_refl [OF t] by (simp add: trans_Apply_def)
next
  case True
  obtain n t1 where s: "trans_Snapshot t = (n, t1)" by fastforce
  note sn = trans_Snapshot_inv [OF t s]
  have c1: "fee_ctx t1" and pool: "tn_gasPool t1 = tn_gasPool t"
    using c sn(5) by (simp_all add: fee_ctx_def fixedPart_def)
  note ap = trans_apply_ok [OF sn(1) w c1]
  show ?thesis
  proof (cases "trans_apply P t1 msg")
  case None
  then show ?thesis using True s ap mayPanic_inv [OF sn(2)] by (simp add: trans_Apply_def)
  next
  case (Some p)
  then obtain x t2 where a: "trans_apply P t1 msg = Some (x, t2)" "msg_inv P K t1 t2"
    "\<And>r. x = Inr r \<Longrightarrow> unat (r_GasUsed r) + unat (r_GasLeft r) = unat (Tx_Gas msg) \<and>
       Tx_Gas msg \<le> tn_gasPool t1 \<and> tn_gasPool t2 = tn_gasPool t1 - Tx_Gas msg + r_GasLeft r"
    using ap by auto
  note m = snapshot_message [OF t s a(2)]
  show ?thesis
  proof (cases x)
    case (Inl e)
    obtain t3 where "trans_RevertToSnapshot t2 n = Some (None, t3)" "msg_inv P K t t3"
      "txn_txn (tn_state t3) = txn_txn (tn_state t)"
      using trans_Revert_inv [OF m(1-3)] m(4) by auto
    then show ?thesis using True s a(1) Inl hook by (simp add: trans_Apply_def)
  next
    case (Inr r)
    have "msg_inv P K t t2" by (rule m(4) [OF trans_inv_pop [OF m(1-3)]])
    then show ?thesis using True s a(1) a(3) [OF Inr] Inr hook pool by (simp add: trans_Apply_def)
  qed
  qed
qed

section \<open>Blocks\<close>

lemma txn_ok_clean:
  assumes "txn_ok (ex_L P) K S s"
  shows "\<exists>s'. CleanDeleteObjects (ex_L P) s d = Inr s' \<and> txn_ok (ex_L P) K S s' \<and>
    txn_snapshots s' = txn_snapshots s \<and> txn_snapshot s' = txn_snapshot s"
proof -
  let ?L = "ex_L P"
  obtain s' where c: "CleanDeleteObjects ?L s d = Inr s'" "txn_snapshot s' = txn_snapshot s"
    "txn_snapshots s' = txn_snapshots s" "txn_codeCache s' = txn_codeCache s"
    "\<And>b. getStateObject ?L s' b = None \<or> getStateObject ?L s' b = getStateObject ?L s b"
    using state_library.CleanDelete_spec [OF slib, of s d] by (force split: option.splits if_splits)
  have le: "Txn_GetBalance ?L s' b \<le> Txn_GetBalance ?L s b" for b
    using c(5) [of b] state_library.balance_nonneg [OF slib, of s b] by (auto simp: Txn_GetBalance_def)
  have "supply_le ?L K s'"
    using txn_ok_supply [OF assms] sum_mono [of _ "Txn_GetBalance ?L s'" "Txn_GetBalance ?L s"] le
    unfolding supply_le_def supply_fun_def by (meson order_trans)
  moreover have "code_tree ?L (txn_txn s')"
  proof -
    have "markDeleted ?L ks u = Inr u' \<Longrightarrow> code_tree ?L (txn_txn u) \<Longrightarrow> code_tree ?L (txn_txn u')" for ks u u'
    proof (induction ks arbitrary: u)
      case (Cons k ks)
      then obtain obj where g: "ir_Get (lib_objs ?L) (tr_objs (txn_txn u)) k = Some obj"
        by (auto split: option.splits)
      have "code_tree ?L (txn_txn (insertObject ?L u k ((StateObject_Copy obj)\<lparr>so_Deleted := True\<rparr>)))"
        using Cons.prems(2) g by (auto simp: code_tree_def insertObject_def state_library.get_Insert [OF slib])
      with Cons g show ?case by simp
    qed simp
    from this [of _ s] show ?thesis
      using c(1) assms by (fastforce simp: CleanDeleteObjects_def txn_ok_def code_tree_def split: sum.splits)
  qed
  ultimately show ?thesis using c txn_ok_step [OF assms c(2-4)] by blast
qed

lemma trans_Write_ok:
  assumes i: "block_inv P K G t" and w: "tx_wf txn" and hook: "ex_PostHook P = None"
  shows "mayPanic t \<and> trans_Write P t txn = None \<or>
    (\<exists>e t'. trans_Write P t txn = Some (e, t') \<and> mayPanic t' = mayPanic t \<and>
      (e = None \<longrightarrow> block_inv P K G t' \<and> length (tn_receipts t') = Suc (length (tn_receipts t))))"
proof -
  obtain q where q: "(if Tx_From txn = emptyFrom \<and> Tx_Type txn \<noteq> StateTxType
            then map_option (Tx_SetFrom txn) (ex_Sender P (tn_config t) (ctx_ChainID (tn_ctx t)) txn)
            else Some txn) = q" by blast
  show ?thesis
  proof (cases q)
    case None
    then show ?thesis using q by (simp add: trans_Write_def)
  next
    case (Some msg)
    then have wm: "tx_wf msg" using q w by (auto split: if_splits)
    have t: "trans_inv P K t t" and c: "fee_ctx t"
      and G: "unat (tn_totalGas t) + unat (tn_gasPool t) = G" "G < 2 ^ 64"
      using i by (simp_all add: block_inv_def)
    note ap = trans_Apply_ok [OF t wm c hook]
    show ?thesis
    proof (cases "trans_Apply P t msg")
    case N: None
    then show ?thesis using ap q Some by (simp add: trans_Write_def tx_wf_Copy [OF wm])
    next
    case A: (Some p)
    then obtain x t1 where a: "trans_Apply P t msg = Some (x, t1)" "msg_inv P K t t1"
      "\<And>r. x = Inr r \<Longrightarrow> unat (r_GasUsed r) + unat (r_GasLeft r) = unat (Tx_Gas msg) \<and>
         Tx_Gas msg \<le> tn_gasPool t \<and> tn_gasPool t1 = tn_gasPool t - Tx_Gas msg + r_GasLeft r"
      using ap by auto
    have mp: "mayPanic t1 = mayPanic t"
      using a(2) by (simp add: msg_inv_def trans_inv_def fixedPart_def mayPanic_def)
    show ?thesis
    proof (cases x)
      case (Inl e)
      then show ?thesis using q Some a(1) mp by (simp add: trans_Write_def tx_wf_Copy [OF wm])
    next
      case (Inr r)
      note g = a(3) [OF Inr]
      obtain logs s1 where l: "Txn_Logs (tn_state t1) = (logs, s1)" by fastforce
      have k1: "txn_ok (ex_L P) K (txn_snapshots (tn_state t)) (tn_state t1)"
        using a(2) by (simp add: msg_inv_def trans_inv_def)
      have s1: "txn_ok (ex_L P) K (txn_snapshots (tn_state t)) s1" "txn_snapshots s1 = txn_snapshots (tn_state t1)"
        "txn_snapshot s1 = txn_snapshot (tn_state t1)"
        using txn_ok_logs [OF k1] l by (auto simp: Txn_Logs_def split: option.splits)
      obtain s2 where s2: "CleanDeleteObjects (ex_L P) s1 True = Inr s2"
        "txn_ok (ex_L P) K (txn_snapshots (tn_state t)) s2" "txn_snapshots s2 = txn_snapshots s1"
        "txn_snapshot s2 = txn_snapshot s1"
        using txn_ok_clean [OF s1(1)] by blast
      have tot: "tn_totalGas t1 = tn_totalGas t" "tn_config t1 = tn_config t" "tn_precompiles t1 = tn_precompiles t"
        "tn_receipts t1 = tn_receipts t"
        "ctx_BaseFee (tn_ctx t1) = ctx_BaseFee (tn_ctx t)" "ctx_NonPayable (tn_ctx t1) = ctx_NonPayable (tn_ctx t)"
        using a(2) by (simp_all add: msg_inv_def trans_inv_def fixedPart_def)
      define t2 where "t2 = t1\<lparr>tn_totalGas := tn_totalGas t1 + r_GasUsed r, tn_state := s2\<rparr>"
      have "trans_inv P K t2 t2"
        using a(2) s1 s2 tot t txn_ok_self [OF s2(2)]
        by (simp add: t2_def msg_inv_def trans_inv_def rev_ok_def base_ok_def)
      moreover have "fee_ctx t2" using c tot by (simp add: t2_def fee_ctx_def)
      moreover have "unat (tn_totalGas t2) + unat (tn_gasPool t2) = G"
        using g G pool_step by (simp add: t2_def tot)
      ultimately have "block_inv P K G (t2\<lparr>tn_receipts := rs\<rparr>)" for rs
        using G(2) by (simp add: block_inv_def trans_inv_def fee_ctx_def fixedPart_def base_ok_def)
      moreover have "trans_Write P t txn =
          Some (None, t2\<lparr>tn_receipts := tn_receipts t2 @ [makeReceipt P msg r logs t2]\<rparr>)"
        using q Some a(1) Inr l s2(1)
        by (simp add: trans_Write_def tx_wf_Copy [OF wm] Let_def on_state_eq t2_def)
      ultimately show ?thesis using mp by (simp add: t2_def tot mayPanic_def)
    qed
    qed
  qed
qed

lemma processTxs_ok:
  assumes "block_inv P K G t" "\<forall>tx \<in> set txs. tx_wf tx" "ex_PostHook P = None"
  shows "mayPanic t \<and> processTxs P limit txs t = None \<or>
    (\<exists>x. processTxs P limit txs t = Some x \<and>
      (\<forall>t'. x = Inr t' \<longrightarrow> block_inv P K G t' \<and> length (tn_receipts t') = length (tn_receipts t) + length txs))"
  using assms
proof (induction txs arbitrary: t)
  case (Cons tx txs)
  define tx' where "tx' = (if Tx_From tx = emptyFrom \<and> Tx_Type tx \<noteq> StateTxType then
                   (case ex_GetPendingTx P (Tx_Hash tx) of
                      Some poolTx \<Rightarrow> Tx_SetFrom tx (Tx_From poolTx)
                    | None \<Rightarrow> tx)
                 else tx)"
  have "tx_wf tx'" using Cons.prems(2) by (simp add: tx'_def split: option.split)
  note wr = trans_Write_ok [OF Cons.prems(1) this Cons.prems(3)]
  show ?case
  proof (cases "Tx_Gas tx > limit")
    case False
    show ?thesis
    proof (cases "trans_Write P t tx'")
      case None
      then show ?thesis using wr False by (simp add: tx'_def [symmetric])
    next
      case (Some p)
      then obtain e t1 where w: "trans_Write P t tx' = Some (e, t1)" "mayPanic t1 = mayPanic t"
        "e = None \<Longrightarrow> block_inv P K G t1 \<and> length (tn_receipts t1) = Suc (length (tn_receipts t))"
        using wr by auto
      show ?thesis using w False Cons.IH [of t1] Cons.prems by (cases e) (auto simp: tx'_def [symmetric])
    qed
  qed simp
qed simp

end

section \<open>Nonces\<close>

text \<open>A message that is executed has passed the nonce check.\<close>

lemma Apply_nonce:
  fixes P :: "('t, 's, 'c, 'g) exec"
  assumes "trans_Apply P t msg = Some (Inr r, t')" "Tx_Type msg \<noteq> StateTxType"
  shows "nonceCheck P t msg = None"
proof -
  have "getStateObject L (snd (Txn_Snapshot s)) a = getStateObject L s a" for L :: "('t, 's, 'c) statelib" and s a
    using fun_cong [OF getStateObject_cong [of "snd (Txn_Snapshot s)" s L], of a] by (simp add: Txn_Snapshot_def Let_def)
  then have e: "nonceCheck P (snd (trans_Snapshot t)) msg = nonceCheck P t msg"
    by (simp add: nonceCheck_def trans_Snapshot_def on_state_eq Txn_GetNonce_def Let_def)
  show ?thesis
  proof (cases "nonceCheck P t msg")
    case (Some err)
    then have "trans_apply P (snd (trans_Snapshot t)) msg = Some (Inl (TransitionApplicationError err True), snd (trans_Snapshot t))"
      using e assms(2) by (simp add: trans_apply_def checkAndProcessTx_def)
    then show ?thesis using assms(1)
      by (auto simp: trans_Apply_def split_def Let_def bind_Some_iff split: if_splits option.splits)
  qed simp
qed

section \<open>The first transition of a block\<close>

lemma newTxn_ok:
  assumes "statelib_doc L" "snap_ok sn" "supply_le L K (newTxn L sn)"
  shows "txn_ok L K [] (newTxn L sn)"
  using assms by (auto simp: txn_ok_def newTxn_def code_tree_def statelib_doc_def iradix_doc_def lru_doc_def)

lemma BeginTxn_inv:
  assumes "BeginTxn P cfg root h cb = Inr t" "statelib_doc (ex_L P)" "ex_NewSnapshot P root = Some sn" "snap_ok sn"
    and "supply_le (ex_L P) K (newTxn (ex_L P) sn)" "London (Forks_At (pr_Forks cfg) (hdr_Number h)) \<Longrightarrow> hdr_BaseFee h \<noteq> 0"
  shows "block_inv P K (unat (hdr_GasLimit h)) t" "tn_receipts t = []"
proof -
  have "uint (hdr_BaseFee h) < 2 ^ 256" using uint_bounded [of "hdr_BaseFee h"] by simp
  then have b: "\<bar>uint (hdr_BaseFee h)\<bar> < 2 ^ 256" by simp
  have sn: "txn_snapshots (newTxn (ex_L P) sn) = []" by (simp add: newTxn_def)
  have g: "unat (hdr_GasLimit h) < 2 ^ 64" using unsigned_less [of "hdr_GasLimit h"] by simp
  obtain e where e: "(if London (Forks_At (pr_Forks cfg) (hdr_Number h))
      then CalculateBurnContract (pr_BurnContract cfg) (hdr_Number h) else Inr ZeroAddress) = Inr e"
    using assms(1,3) by (auto simp: BeginTxn_def Let_def split: sum.splits)
  show "block_inv P K (unat (hdr_GasLimit h)) t" "tn_receipts t = []"
    using assms(1,3,6) e newTxn_ok [OF assms(2,4,5)] b sn g
    by (auto simp: BeginTxn_def Let_def block_inv_def trans_inv_def rev_ok_def base_ok_def fee_ctx_def NewTransition_def
        simp del: abs_of_nonneg uint_ge_0)
qed

section \<open>The concrete instance\<close>

text \<open>A state without storage and code, whose accounts are given by a function.\<close>

definition snap_std :: "(Address \<Rightarrow> Account option) \<Rightarrow> readSnapshot" where
  "snap_std acc = \<lparr>sn_GetStorage = (\<lambda>_ _ _. ZeroHash), sn_GetAccount = (\<lambda>a. Inr (acc a)),
     sn_GetCode = (\<lambda>_. ([], False)), sn_GetRootHash = ZeroHash\<rparr>"

definition exec_std :: "(Address \<Rightarrow> Account option) \<Rightarrow> (std_objs, std_slots, std_lru, unit) exec" where
  "exec_std acc = \<lparr>ex_L = statelib_std (\<lambda>b. take 32 (b @ replicate 32 0)), ex_C = crypto_std, ex_U = uint256_std,
     ex_F = \<lparr>SetAdminFunc = [0, 0, 0, 1], SetEnabledFunc = [0, 0, 0, 2], SetNoneFunc = [0, 0, 0, 3],
             ReadAddressListFunc = [0, 0, 0, 4]\<rparr>,
     ex_rlpAddrNonce = (\<lambda>a n. a @ be_bytes 8 n), ex_Sender = (\<lambda>_ _ _. None), ex_PostHook = None,
     ex_GetPendingTx = (\<lambda>_. None), ex_NewSnapshot = (\<lambda>_. Some (snap_std acc)),
     ex_CommitSnapshot = (\<lambda>s _. Some (s, [])), ex_GetHash = (\<lambda>_ _. ZeroHash)\<rparr>"

lemma snap_std_ok [simp]: "snap_ok (snap_std acc)" "snapshot_ok (snap_std acc)"
  by (simp_all add: snap_ok_def snapshot_ok_def snap_std_def ZeroHash_def HashLength_def)

lemma exec_std_simps [simp]:
  "statelib_doc (ex_L (exec_std acc))" "crypto_doc (ex_C (exec_std acc))" "uint256_doc (ex_U (exec_std acc))"
  "ex_PostHook (exec_std acc) = None" "ex_NewSnapshot (exec_std acc) r = Some (snap_std acc)"
  by (simp_all add: exec_std_def)

interpretation stdtrans: transition_libs "exec_std acc" for acc
  by unfold_locales simp_all

interpretation stdhost: evm_host
  "transEnv (exec_std acc) (trans_Callx (exec_std acc) callFuel)" "trans_inv (exec_std acc) K B" 1 "mayPanic B" for acc K B
  by (rule stdtrans.message_host)

text \<open>The address lists read and write their roles through the transition.\<close>

lemma transition_state_ref:
  assumes "statelib_doc (ex_L P)"
  shows "state_ref (transRef P) (\<lambda>t. snapshot_ok (txn_snapshot (tn_state t)))"
proof
  fix h :: "('a, 'c) Transition" and v a k b j :: bytes
  assume "snapshot_ok (txn_snapshot (tn_state h))" "length v = 32"
  then show "sr_GetStorage (transRef P) (sr_SetState (transRef P) h a k v) b j =
      (if b = a \<and> j = k then v else sr_GetStorage (transRef P) h b j)"
    using state_library.SetState_get [OF state_library.intro [OF assms]] by (simp add: transRef_def set_state_def)
next
  fix h :: "('a, 'c) Transition" and a k v
  assume "snapshot_ok (txn_snapshot (tn_state h))"
  then show "snapshot_ok (txn_snapshot (tn_state (sr_SetState (transRef P) h a k v)))"
    by (simp add: transRef_def set_state_def)
qed

interpretation stdlist: state_ref "transRef (exec_std acc)" "\<lambda>t. snapshot_ok (txn_snapshot (tn_state t))" for acc
  by (rule transition_state_ref) simp

end
