(* ===== verification/Example_Block.thy ===== *)
theory Example_Block
  imports Evm_Opcodes Evm_Data Transition_Messages
begin

text \<open>
  Concrete inputs on which the theorems are applied: a chain with one funded account, a block with one transfer, a transition in the
  middle of that block, a call frame, a machine state, an address list with an administrator.
\<close>

definition demo_Header :: "u64 \<Rightarrow> u64 \<Rightarrow> Header" where
  "demo_Header gasLimit baseFee = \<lparr>hdr_ParentHash = ZeroHash, hdr_Sha3Uncles = ZeroHash, hdr_Miner = [],
     hdr_StateRoot = ZeroHash, hdr_TxRoot = ZeroHash, hdr_ReceiptsRoot = ZeroHash, hdr_LogsBloom = [],
     hdr_Difficulty = 1, hdr_Number = 1, hdr_GasLimit = gasLimit, hdr_GasUsed = 0, hdr_Timestamp = 0,
     hdr_ExtraData = [], hdr_MixHash = ZeroHash, hdr_Nonce = [], hdr_Hash = ZeroHash, hdr_BaseFee = baseFee\<rparr>"

definition demo_Params :: Params where
  "demo_Params = \<lparr>pr_Forks = AllForksEnabled, pr_ChainID = 1, pr_BurnContract = [(0, addr_of 0xb)],
     pr_ContractDeployerAllowList = False, pr_ContractDeployerBlockList = False, pr_TransactionsAllowList = False,
     pr_TransactionsBlockList = False, pr_BridgeAllowList = False, pr_BridgeBlockList = False,
     pr_IsL1OriginatedToken = False\<rparr>"

definition demo_accounts :: "Address \<Rightarrow> Account option" where
  "demo_accounts a = (if a = addr_of 0xa then
     Some \<lparr>acc_Nonce = 0, acc_Balance = 1000000, acc_Root = EmptyRootHash, acc_CodeHash = EmptyCodeHash\<rparr> else None)"

definition demo_transfer :: "u64 \<Rightarrow> Transaction" where
  "demo_transfer n = DynamicFeeTx \<lparr>tx_Nonce = n, tx_Gas = 22000, tx_To = Some (addr_of 0xc), tx_Value = Some 500,
     tx_Input = [], tx_V = None, tx_R = None, tx_S = None, tx_Hash = ZeroHash, tx_From = addr_of 0xa\<rparr>
     (Some 3) (Some 10) None []"

definition demo_block :: Block where
  "demo_block = \<lparr>bk_Header = demo_Header 100000 7, bk_Transactions = [demo_transfer 0], bk_Uncles = []\<rparr>"

text \<open>A transition of the same block whose registry has no console.\<close>

definition demo_context :: TxContext where
  "demo_context = \<lparr>ctx_GasPrice = ZeroHash, ctx_Origin = ZeroAddress, ctx_Coinbase = addr_of 0xd, ctx_Number = 1,
     ctx_Timestamp = 0, ctx_GasLimit = 100000, ctx_ChainID = 1, ctx_Difficulty = ZeroHash, ctx_NonPayable = False,
     ctx_BaseFee = 7, ctx_BurnContract = addr_of 0xb\<rparr>"

definition demo_transition :: "(std_objs, std_lru) Transition" where
  "demo_transition = (NewTransition crypto_std (Forks_At AllForksEnabled 1) (snap_std demo_accounts)
       (newTxn (ex_L (exec_std demo_accounts)) (snap_std demo_accounts)) demo_context)
     \<lparr>tn_gasPool := 100000,
      tn_precompiles := (NewPrecompiled crypto_std)
        \<lparr>pc_contracts := (pc_contracts (NewPrecompiled crypto_std))(ConsolePrecompile := None)\<rparr>\<rparr>"

definition demo_frame :: Contract where
  "demo_frame = NewContractCall 1 (addr_of 0xa) (addr_of 0xa) (addr_of 9) (Some 5) 1000 [] []"

definition demo_run :: "Block \<Rightarrow> (ApplyError + (std_objs, std_lru) Transition) option" where
  "demo_run b = ProcessBlock (exec_std demo_accounts) demo_Params ZeroHash b (addr_of 0xd)"

definition demo_ok :: "nat \<Rightarrow> (std_objs, std_lru) Transition \<Rightarrow> bool" where
  "demo_ok n t \<longleftrightarrow> supply_le (ex_L (exec_std demo_accounts)) 1000000 (tn_state t) \<and> tn_totalGas t \<le> 100000 \<and>
     length (tn_receipts t) = n"

lemma length_addr_of [simp]: "length (addr_of n) = 20"
  by (simp add: addr_of_def)

lemma demo_balance:
  "Txn_GetBalance (ex_L (exec_std demo_accounts)) (newTxn (ex_L (exec_std demo_accounts)) (snap_std demo_accounts)) a =
   (if a = addr_of 0xa then 1000000 else 0)"
  by (simp add: Txn_GetBalance_def getStateObject_def newTxn_def exec_std_def statelib_std_def iradix_std_def snap_std_def
      demo_accounts_def Account_Copy_def copyBig_def)

lemma demo_supply: "supply_le (ex_L (exec_std demo_accounts)) 1000000 (newTxn (ex_L (exec_std demo_accounts)) (snap_std demo_accounts))"
proof -
  have "(\<Sum>a\<in>A. if a = addr_of 0xa then 1000000 else 0) \<le> (1000000 :: int)" if "finite A" for A
    using that by (simp add: sum.delta)
  then show ?thesis by (simp add: supply_le_def supply_fun_def demo_balance)
qed

lemma demo_transfer_wf: "tx_wf (demo_transfer n)"
  by (simp add: tx_wf_def demo_transfer_def Tx_Type_def GetGasTipCap_def GetGasFeeCap_def Tx_Value_def Tx_Input_def Tx_Gas_def
     Tx_Base_def Tx_AccessList_def Tx_GasTipCap_def Tx_GasFeeCap_def MaxGas_def)

lemma demo_nonce: "Txn_GetNonce (ex_L (exec_std demo_accounts)) (tn_state demo_transition) (addr_of 0xa) = 0"
  by (simp add: Txn_GetNonce_def getStateObject_def demo_transition_def NewTransition_def newTxn_def exec_std_def statelib_std_def
      iradix_std_def snap_std_def demo_accounts_def Account_Copy_def)

lemma demo_inv: "trans_inv (exec_std demo_accounts) 1000000 demo_transition demo_transition"
  using newTxn_ok [OF exec_std_simps(1) snap_std_ok(1) demo_supply]
  by (simp add: trans_inv_def demo_transition_def NewTransition_def rev_ok_def base_ok_def demo_context_def newTxn_def)

lemma demo_block_inv: "block_inv (exec_std demo_accounts) 1000000 100000 demo_transition" "fee_ctx demo_transition"
proof -
  have "(7 :: int) = uint (7 :: u64)" by simp
  then have "\<exists>b :: u64. (7 :: int) = uint b \<and> (Q \<longrightarrow> b \<noteq> 0)" for Q by (intro exI [of _ 7]) simp
  then show f: "fee_ctx demo_transition"
    by (simp add: fee_ctx_def demo_transition_def NewTransition_def demo_context_def)
  show "block_inv (exec_std demo_accounts) 1000000 100000 demo_transition"
    using f demo_inv by (simp add: block_inv_def) (simp add: demo_transition_def NewTransition_def)
qed

lemma demo_no_panic: "\<not> mayPanic demo_transition"
  using console_only [of crypto_std] by (auto simp: mayPanic_def demo_transition_def)

definition demo_env :: "(std_objs, std_lru) Transition env" where
  "demo_env = transEnv (exec_std demo_accounts) (trans_Callx (exec_std demo_accounts) callFuel)"

definition demo_state :: "u256 list \<Rightarrow> bool \<Rightarrow> (std_objs, std_lru) Transition state" where
  "demo_state stack static = (zeroState (demo_frame\<lparr>c_Static := static\<rparr>) demo_transition (tn_config demo_transition))
     \<lparr>st_msg := demo_frame\<lparr>c_Static := static\<rparr>, st_stack := stack, st_gas := 1000\<rparr>"

lemma demo_env_doc: "uint256_doc (env_U demo_env)"
  by (simp add: demo_env_def transEnv_def)

lemma demo_mem_ok: "mem_ok (demo_state stack static)"
  by (simp add: demo_state_def zeroState_def mem_ok_def memCost_def)

lemma demo_alloc:
  assumes "unat off \<le> 32" "st_memory c = []" "st_lastGasCost c = 0" "st_gas c = 1000"
  shows "fst (allocateMemory demo_env c off 32)"
proof -
  let ?U = "env_U demo_env"
  have u: "u_IsUint64 ?U off" "u_IsUint64 ?U 32" "u_Sign ?U 32 \<noteq> 0" "u_Uint64 ?U 32 = 32" 
    using assms uint256_Sign_zero [OF demo_env_doc, of 32] by (simp_all add: uint256_docD [OF demo_env_doc])
  have o: "unat (u_Uint64 ?U off) = unat off" by (rule uint256_Uint64_small [OF demo_env_doc u(1)])
  define w where "w = (63 + u_Uint64 ?U off) div 32"
  have w: "unat w \<le> 2" using assms(1) o by (simp add: w_def unat_div unat_word_ariths)
  then have "unat w = unat (0 :: u64) \<or> unat w = unat (1 :: u64) \<or> unat w = unat (2 :: u64)" by auto
  then have "w = 0 \<or> w = 1 \<or> w = 2" by (simp only: word_unat_eq_iff)
  then have m: "memCost w \<le> 1000" by (auto simp: memCost_def)
  show ?thesis using u o assms m [unfolded word_le_nat_alt] unfolding allocateMemory_def by (simp add: Let_def w_def [symmetric] word_less_nat_alt consumeGas_def)
qed

definition demo_lib :: "(std_objs, std_slots, std_lru) statelib" where
  "demo_lib = ex_L (exec_std demo_accounts)"

definition demo_txn :: "(std_objs, std_lru) Txn" where
  "demo_txn = newTxn demo_lib (snap_std demo_accounts)"

lemma demo_lib_doc [simp]: "statelib_doc demo_lib"
  by (simp add: demo_lib_def)

lemma demo_txn_snapshot [simp]: "txn_snapshot demo_txn = snap_std demo_accounts"
  by (simp add: demo_txn_def newTxn_def)

definition modExp_demo :: bytes where
  "modExp_demo = replicate 31 0 @ [1] @ replicate 31 0 @ [1] @ replicate 31 0 @ [1] @ [3, 5, 7]"

definition demo_list :: AddressList where
  "demo_list = \<lparr>al_addr = addr_of 0x200\<rparr>"

definition demo_listed :: "(std_objs, std_lru) Transition" where
  "demo_listed = SetRole (transRef (exec_std demo_accounts)) demo_list demo_transition (addr_of 0xa) AdminRole"

definition demo_list_call :: Contract where
  "demo_list_call = NewContractCall 1 (addr_of 0xa) (addr_of 0xa) (addr_of 0x200) None 100000 [] ([0, 0, 0, 2] @ BytesToHash (addr_of 0xc))"

definition demo_receipt :: Receipt where
  "demo_receipt = \<lparr>rc_Root = ZeroHash, rc_CumulativeGasUsed = 21000, rc_LogsBloom = [],
     rc_Logs = [\<lparr>log_Address = addr_of 1, log_Topics = [ZeroHash], log_Data = []\<rparr>], rc_Status = None, rc_GasUsed = 21000,
     rc_ContractAddress = None, rc_TxHash = ZeroHash, rc_TransactionType = LegacyTxType\<rparr>"

definition demo_destroyed :: "(std_objs, std_lru) Txn" where
  "demo_destroyed = demo_txn\<lparr>txn_txn := (txn_txn demo_txn)\<lparr>tr_objs := [(addr_of 1, newStateObject\<lparr>so_Suicide := True\<rparr>)]\<rparr>,
     txn_codeCache := [(addr_of 1, [0x60])]\<rparr>"

end
