(* ===== verification/Validators.thy ===== *)
theory Validators
  imports Bitmap "HOL-Library.List_Lexorder"
begin

text \<open>
  The validator sets of \<^verbatim>\<open>src/consensus/polybft/validator/\<close>: validator metadata and account sets
  (\<^verbatim>\<open>validator_metadata.go\<close>), the difference between the sets of two epochs
  (\<^verbatim>\<open>validator_set_delta.go\<close>) and the quorum rule (\<^verbatim>\<open>validator_set.go\<close>).

  A BLS public key belongs to the external package \<^verbatim>\<open>bn256\<close>: it is a type variable, a nil key is
  \<^term>\<open>None\<close>, and the functions of that package the code calls are the fields of the record
  \<open>bn256\<close>, with their documented behaviour in \<open>bn256_doc\<close>. A \<^verbatim>\<open>*big.Int\<close> is an \<^typ>\<open>int\<close>. Account
  sets are lists; the metadata they point to is not changed by any operation of this theory.
\<close>

section \<open>The signature package\<close>

record ('k, 's) bn256 =
  bn256_Marshal :: "'k option \<Rightarrow> bytes option"
  bn256_UnmarshalPublicKey :: "bytes \<Rightarrow> 'k option \<times> string option"
  bn256_UnmarshalSignature :: "bytes \<Rightarrow> 's option \<times> string option"
  bn256_VerifyAggregated :: "'s option \<Rightarrow> 'k option list \<Rightarrow> bytes \<Rightarrow> bytes \<Rightarrow> bool"

definition bn256_doc :: "('k, 's) bn256 \<Rightarrow> bool" where
  "bn256_doc B \<longleftrightarrow>
     (\<forall>k. \<exists>bs. bn256_Marshal B (Some k) = Some bs \<and> bn256_UnmarshalPublicKey B bs = (Some k, None))"

lemma bn256_docD:
  "bn256_doc B \<Longrightarrow> \<exists>bs. bn256_Marshal B (Some k) = Some bs \<and> bn256_UnmarshalPublicKey B bs = (Some k, None)"
  by (simp add: bn256_doc_def)

section \<open>Validator metadata\<close>

record 'k ValidatorMetadata =
  vm_Address :: Address
  vm_BlsKey :: "'k option"
  vm_VotingPower :: int
  vm_IsActive :: bool

definition EqualAddressAndBlsKey :: "'k ValidatorMetadata \<Rightarrow> 'k ValidatorMetadata option \<Rightarrow> bool" where
  "EqualAddressAndBlsKey v b = (case b of None \<Rightarrow> False
     | Some b \<Rightarrow> vm_Address v = vm_Address b \<and> vm_BlsKey v = vm_BlsKey b)"

definition VM_Equals :: "'k ValidatorMetadata \<Rightarrow> 'k ValidatorMetadata option \<Rightarrow> bool" where
  "VM_Equals v b = (case b of None \<Rightarrow> False
     | Some b' \<Rightarrow> EqualAddressAndBlsKey v b \<and> vm_VotingPower v = vm_VotingPower b' \<and> vm_IsActive v = vm_IsActive b')"

definition VM_Copy :: "('k, 's) bn256 \<Rightarrow> 'k ValidatorMetadata \<Rightarrow> 'k ValidatorMetadata option" where
  "VM_Copy B v = do {
     copiedBlsKey \<leftarrow> bn256_Marshal B (vm_BlsKey v);
     let (blsKey, _) = bn256_UnmarshalPublicKey B copiedBlsKey;
     Some \<lparr>vm_Address = BytesToAddress (vm_Address v), vm_BlsKey = blsKey,
       vm_VotingPower = vm_VotingPower v, vm_IsActive = vm_IsActive v\<rparr>
   }"

section \<open>Account sets\<close>

type_synonym 'k AccountSet = "'k ValidatorMetadata list"

definition AccountSet_Equals :: "'k AccountSet \<Rightarrow> 'k AccountSet \<Rightarrow> bool" where
  "AccountSet_Equals as other =
     (length as = length other \<and> list_all (\<lambda>i. VM_Equals (as ! i) (Some (other ! i))) [0..<length as])"

definition GetAddresses :: "'k AccountSet \<Rightarrow> Address list" where
  "GetAddresses as = map vm_Address as"

definition GetAddressesAsSet :: "'k AccountSet \<Rightarrow> Address set" where
  "GetAddressesAsSet as = set (map vm_Address as)"

definition GetBlsKeys :: "'k AccountSet \<Rightarrow> 'k option list" where
  "GetBlsKeys as = map vm_BlsKey as"

primrec Index_from :: "int \<Rightarrow> 'k AccountSet \<Rightarrow> Address \<Rightarrow> int" where
  "Index_from i [] addr = -1"
| "Index_from i (v # as) addr = (if vm_Address v = addr then i else Index_from (i + 1) as addr)"

definition Index :: "'k AccountSet \<Rightarrow> Address \<Rightarrow> int" where
  "Index as addr = Index_from 0 as addr"

definition AccountSet_ContainsAddress :: "'k AccountSet \<Rightarrow> Address \<Rightarrow> bool" where
  "AccountSet_ContainsAddress as address = (Index as address \<noteq> -1)"

definition ContainsNodeID :: "(Address \<Rightarrow> string) \<Rightarrow> 'k AccountSet \<Rightarrow> string \<Rightarrow> bool" where
  "ContainsNodeID str as nodeID = list_ex (\<lambda>v. str (vm_Address v) = nodeID) as"

primrec AccountSet_Copy :: "('k, 's) bn256 \<Rightarrow> 'k AccountSet \<Rightarrow> 'k AccountSet option" where
  "AccountSet_Copy B [] = Some []"
| "AccountSet_Copy B (v # as) = do { v' \<leftarrow> VM_Copy B v; as' \<leftarrow> AccountSet_Copy B as; Some (v' # as') }"

definition GetValidatorMetadata :: "'k AccountSet \<Rightarrow> Address \<Rightarrow> 'k ValidatorMetadata option" where
  "GetValidatorMetadata as address =
     (let i = Index as address in if i = -1 then None else Some (as ! nat i))"

datatype ValidatorError =
    InvalidBitmapFilter
  | AlreadyPresent Address
  | UpdatedNotFound Address

definition GetFilteredValidators :: "'k AccountSet \<Rightarrow> Bitmap \<Rightarrow> ValidatorError + 'k AccountSet" where
  "GetFilteredValidators as b =
     (if as = [] then Inr []
      else if Bitmap_Len b > of_nat (length as) \<and>
        list_ex (\<lambda>i. Bitmap_IsSet b (of_nat i)) [length as..<unat (Bitmap_Len b)]
      then Inl InvalidBitmapFilter
      else Inr (map ((!) as) (filter (\<lambda>i. Bitmap_IsSet b (of_nat i)) [0..<length as])))"

definition GetTotalVotingPower :: "'k AccountSet \<Rightarrow> int" where
  "GetTotalVotingPower as = foldl (\<lambda>total v. total + vm_VotingPower v) 0 as"

section \<open>Validator set deltas\<close>

record 'k ValidatorSetDelta =
  vd_Added :: "'k AccountSet"
  vd_Updated :: "'k AccountSet"
  vd_Removed :: Bitmap

definition Delta_Equals :: "'k ValidatorSetDelta \<Rightarrow> 'k ValidatorSetDelta option \<Rightarrow> bool" where
  "Delta_Equals d other = (case other of None \<Rightarrow> False
     | Some other \<Rightarrow> AccountSet_Equals (vd_Added d) (vd_Added other) \<and>
         AccountSet_Equals (vd_Updated d) (vd_Updated other) \<and> vd_Removed d = vd_Removed other)"

definition Delta_IsEmpty :: "'k ValidatorSetDelta \<Rightarrow> bool" where
  "Delta_IsEmpty d = (length (vd_Added d) = 0 \<and> length (vd_Updated d) = 0 \<and> Bitmap_Len (vd_Removed d) = 0)"

definition Delta_Copy :: "('k, 's) bn256 \<Rightarrow> 'k ValidatorSetDelta \<Rightarrow> 'k ValidatorSetDelta option" where
  "Delta_Copy B d = do {
     added \<leftarrow> AccountSet_Copy B (vd_Added d);
     let removed = go_copy (replicate (length (vd_Removed d)) 0) (vd_Removed d);
     Some \<lparr>vd_Added = added, vd_Updated = [], vd_Removed = removed\<rparr>
   }"

primrec apply_added :: "'k AccountSet \<Rightarrow> 'k AccountSet \<Rightarrow> ValidatorError + 'k AccountSet" where
  "apply_added validators [] = Inr validators"
| "apply_added validators (a # added) =
     (if AccountSet_ContainsAddress validators (vm_Address a) then Inl (AlreadyPresent (vm_Address a))
      else apply_added (validators @ [a]) added)"

primrec apply_updated :: "'k AccountSet \<Rightarrow> 'k AccountSet \<Rightarrow> ValidatorError + 'k AccountSet" where
  "apply_updated validators [] = Inr validators"
| "apply_updated validators (u # updated) =
     (let validatorIndex = Index validators (vm_Address u) in
      if validatorIndex = -1 then Inl (UpdatedNotFound (vm_Address u))
      else apply_updated (validators[nat validatorIndex := u]) updated)"

definition ApplyDelta :: "'k AccountSet \<Rightarrow> 'k ValidatorSetDelta option \<Rightarrow> ValidatorError + 'k AccountSet" where
  "ApplyDelta as validatorsDelta = (case validatorsDelta of None \<Rightarrow> Inr as
     | Some d \<Rightarrow>
        if Delta_IsEmpty d then Inr as
        else (case apply_added (map ((!) as) (filter (\<lambda>i. \<not> Bitmap_IsSet (vd_Removed d) (of_nat i) \<or>
                     AccountSet_ContainsAddress (vd_Added d) (vm_Address (as ! i))) [0..<length as])) (vd_Added d) of
            Inl e \<Rightarrow> Inl e
          | Inr validators \<Rightarrow> apply_updated validators (vd_Updated d)))"

section \<open>The quorum rule\<close>

record 'k validatorSet =
  vs_validators :: "'k AccountSet"
  vs_votingPowerMap :: "Address \<rightharpoonup> int"
  vs_totalVotingPower :: int

definition NewValidatorSet :: "'k AccountSet \<Rightarrow> 'k validatorSet" where
  "NewValidatorSet valz = \<lparr>vs_validators = valz,
     vs_votingPowerMap = foldl (\<lambda>m val. m(vm_Address val \<mapsto> vm_VotingPower val)) Map.empty valz,
     vs_totalVotingPower = GetTotalVotingPower valz\<rparr>"

definition getQuorumSize :: "int \<Rightarrow> int" where
  "getQuorumSize totalVotingPower = totalVotingPower * 2 div 3 + 1"

definition aggregateVotingPower :: "'k validatorSet \<Rightarrow> Address set \<Rightarrow> int" where
  "aggregateVotingPower vs signers =
     (\<Sum>address\<in>signers. case vs_votingPowerMap vs address of None \<Rightarrow> 0 | Some votingPower \<Rightarrow> votingPower)"

definition HasQuorum :: "'k validatorSet \<Rightarrow> Address set \<Rightarrow> bool" where
  "HasQuorum vs signers = (aggregateVotingPower vs signers \<ge> getQuorumSize (vs_totalVotingPower vs))"

definition Includes :: "'k validatorSet \<Rightarrow> Address \<Rightarrow> bool" where
  "Includes vs address = AccountSet_ContainsAddress (vs_validators vs) address"

section \<open>Lookup\<close>

lemma Index_from_range:
  "Index_from i as a = -1 \<and> a \<notin> vm_Address ` set as \<or>
   (\<exists>j<length as. Index_from i as a = i + int j \<and> vm_Address (as ! j) = a)" if "0 \<le> i"
  using that
proof (induction as arbitrary: i)
  case (Cons v as)
  show ?case
  proof (cases "vm_Address v = a")
    case False
    then show ?thesis using Cons.IH [of "i + 1"] Cons.prems by force
  qed auto
qed simp

lemma Index_cases:
  obtains (absent) "Index as a = -1" "a \<notin> vm_Address ` set as"
  | (present) j where "j < length as" "Index as a = int j" "vm_Address (as ! j) = a"
  using Index_from_range [of 0 as a] by (auto simp: Index_def)

lemma AccountSet_ContainsAddress_iff [simp]: "AccountSet_ContainsAddress as a \<longleftrightarrow> a \<in> vm_Address ` set as"
  by (cases rule: Index_cases [of as a]) (auto simp: AccountSet_ContainsAddress_def)

lemma GetTotalVotingPower_sum_list: "GetTotalVotingPower as = sum_list (map vm_VotingPower as)"
proof -
  have "foldl (\<lambda>t v. t + vm_VotingPower v) x as = x + sum_list (map vm_VotingPower as)" for x
    by (induction as arbitrary: x) simp_all
  then show ?thesis by (simp add: GetTotalVotingPower_def)
qed

text \<open>The abstract content of an account set: a finite map from addresses to metadata.\<close>

definition account_map :: "'k AccountSet \<Rightarrow> Address \<rightharpoonup> 'k ValidatorMetadata" where
  "account_map as = map_of (map (\<lambda>v. (vm_Address v, v)) as)"

abbreviation addresses_distinct :: "'k AccountSet \<Rightarrow> bool" where
  "addresses_distinct as \<equiv> distinct (map vm_Address as)"

lemma account_map_Nil [simp]: "account_map [] = Map.empty"
  by (simp add: account_map_def)

lemma account_map_Cons [simp]: "account_map (v # as) = (account_map as)(vm_Address v \<mapsto> v)"
  by (simp add: account_map_def)

lemma account_map_append [simp]: "account_map (as @ bs) = account_map bs ++ account_map as"
  by (simp add: account_map_def)

lemma dom_account_map [simp]: "dom (account_map as) = vm_Address ` set as"
  by (simp add: account_map_def dom_map_of_conv_image_fst image_image)

lemma account_map_None: "account_map as a = None \<longleftrightarrow> a \<notin> vm_Address ` set as"
  using dom_account_map [of as] by (metis domIff)

lemma account_map_Some:
  "addresses_distinct as \<Longrightarrow> account_map as a = Some v \<longleftrightarrow> v \<in> set as \<and> vm_Address v = a"
  by (auto simp: account_map_def map_of_eq_Some_iff o_def)

lemma GetValidatorMetadata_eq:
  "addresses_distinct as \<Longrightarrow> GetValidatorMetadata as a = account_map as a"
proof (cases rule: Index_cases [of as a])
  case absent
  then show ?thesis by (simp add: GetValidatorMetadata_def account_map_None [THEN iffD2])
next
  case (present j)
  moreover assume "addresses_distinct as"
  ultimately have "account_map as a = Some (as ! j)" by (subst account_map_Some) auto
  then show ?thesis using present by (simp add: GetValidatorMetadata_def)
qed

section \<open>Equality and copies\<close>

lemma VM_Equals_iff: "VM_Equals v (Some b) \<longleftrightarrow> v = b"
  by (auto simp: VM_Equals_def EqualAddressAndBlsKey_def)

lemma AccountSet_Equals_iff: "AccountSet_Equals as bs \<longleftrightarrow> as = bs"
  unfolding AccountSet_Equals_def VM_Equals_iff list_eq_iff_nth_eq [of as bs] list_all_iff by (simp add: atLeast0LessThan Ball_def)

lemma Delta_Equals_iff: "Delta_Equals d (Some e) \<longleftrightarrow> d = e"
  by (auto simp: Delta_Equals_def AccountSet_Equals_iff)

lemma VM_Copy_eq:
  assumes "bn256_doc B" "length (vm_Address v) = 20" "vm_BlsKey v \<noteq> None"
  shows "VM_Copy B v = Some v"
proof -
  obtain k where k: "vm_BlsKey v = Some k" using assms(3) by auto
  from bn256_docD [OF assms(1), of k] obtain bs where
    "bn256_Marshal B (vm_BlsKey v) = Some bs" "bn256_UnmarshalPublicKey B bs = (vm_BlsKey v, None)" unfolding k by blast
  then show ?thesis by (simp add: VM_Copy_def BytesToAddress_id [OF assms(2)])
qed

lemma AccountSet_Copy_eq:
  "bn256_doc B \<Longrightarrow> \<forall>v \<in> set as. length (vm_Address v) = 20 \<and> vm_BlsKey v \<noteq> None \<Longrightarrow> AccountSet_Copy B as = Some as"
  by (induction as) (simp_all add: VM_Copy_eq)

lemma Delta_Copy_eq:
  "bn256_doc B \<Longrightarrow> \<forall>v \<in> set (vd_Added d). length (vm_Address v) = 20 \<and> vm_BlsKey v \<noteq> None \<Longrightarrow>
   Delta_Copy B d = Some (d\<lparr>vd_Updated := []\<rparr>)"
  by (cases d) (simp add: Delta_Copy_def AccountSet_Copy_eq go_copy_all)

section \<open>Filtering by a bitmap\<close>

lemma GetFilteredValidators_Inr:
  assumes "GetFilteredValidators as b = Inr r"
  shows "r = map ((!) as) (filter (\<lambda>i. Bitmap_IsSet b (of_nat i)) [0..<length as])"
  using assms by (auto simp: GetFilteredValidators_def split: if_splits)

lemma set_GetFilteredValidators: "GetFilteredValidators as b = Inr r \<Longrightarrow> set r \<subseteq> set as"
  by (auto dest!: GetFilteredValidators_Inr)

section \<open>Applying a delta\<close>

lemma apply_added_eq:
  "apply_added vs added =
     (case apply_added vs added of Inl e \<Rightarrow> Inl e | Inr _ \<Rightarrow> Inr (vs @ added))"
proof (induction added arbitrary: vs)
  case (Cons a added)
  show ?case using Cons.IH [of "vs @ [a]"] by (auto split: sum.splits)
qed simp

lemma apply_added_Inr:
  "addresses_distinct vs \<Longrightarrow>
     (\<exists>r. apply_added vs added = Inr r) \<longleftrightarrow> addresses_distinct (vs @ added)"
proof (induction added arbitrary: vs)
  case (Cons a added)
  show ?case
  proof (cases "vm_Address a \<in> vm_Address ` set vs")
    case False
    then have "addresses_distinct (vs @ [a])" using Cons.prems by auto
    from Cons.IH [OF this] show ?thesis using False by auto
  qed auto
qed simp

lemma apply_added_ok:
  assumes "addresses_distinct (vs @ added)"
  shows "apply_added vs added = Inr (vs @ added)"
  using apply_added_Inr [of vs added] apply_added_eq [of vs added] assms
  by (auto split: sum.splits)

lemma account_map_update:
  assumes "addresses_distinct vs" "j < length vs" "vm_Address (vs ! j) = vm_Address u"
  shows "account_map (vs[j := u]) = (account_map vs)(vm_Address u \<mapsto> u)"
  using assms
proof (induction vs arbitrary: j)
  case (Cons v vs)
  show ?case
  proof (cases j)
    case (Suc i)
    then have "vm_Address v \<noteq> vm_Address u" using Cons.prems by (metis (no_types, lifting)
        distinct.simps(2) image_eqI length_Cons list.simps(9) list.set_map nat_add_left_cancel_less
        nth_Cons_Suc nth_mem plus_1_eq_Suc)
    then show ?thesis using Suc Cons.IH [of i] Cons.prems by (auto simp: fun_upd_twist)
  qed (use Cons.prems in auto)
qed simp

lemma map_update_same: "j < length vs \<Longrightarrow> f (vs ! j) = f u \<Longrightarrow> map f (vs[j := u]) = map f vs"
  by (metis list_update_id map_update nth_map)

lemma apply_updated_ok:
  assumes "addresses_distinct vs" "vm_Address ` set us \<subseteq> vm_Address ` set vs"
  shows "\<exists>r. apply_updated vs us = Inr r \<and> map vm_Address r = map vm_Address vs \<and>
    account_map r = account_map vs ++ account_map (rev us)"
  using assms
proof (induction us arbitrary: vs)
  case (Cons u us)
  show ?case
  proof (cases rule: Index_cases [of vs "vm_Address u"])
    case absent
    then show ?thesis using Cons.prems by auto
  next
    case (present j)
    let ?vs = "vs[j := u]"
    have m: "map vm_Address ?vs = map vm_Address vs" using present by (simp add: map_update_same)
    then have "addresses_distinct ?vs" "vm_Address ` set us \<subseteq> vm_Address ` set ?vs"
      using Cons.prems by (simp_all flip: set_map)
    from Cons.IH [OF this] obtain r where "apply_updated ?vs us = Inr r"
      "map vm_Address r = map vm_Address ?vs" "account_map r = account_map ?vs ++ account_map (rev us)" by auto
    then show ?thesis using present m account_map_update [OF Cons.prems(1) present(1) present(3)]
      by (simp add: map_add_upd_left)
  qed
qed simp

lemma apply_updated_Inr:
  "apply_updated vs us = Inr r \<Longrightarrow> map vm_Address r = map vm_Address vs \<and> set r \<subseteq> set vs \<union> set us"
proof (induction us arbitrary: vs)
  case (Cons u us)
  show ?case
  proof (cases rule: Index_cases [of vs "vm_Address u"])
    case absent
    then show ?thesis using Cons.prems by simp
  next
    case (present j)
    then have "apply_updated (vs[j := u]) us = Inr r" using Cons.prems by simp
    from Cons.IH [OF this] present set_update_subset_insert [of vs j u] show ?thesis
      by (auto simp: map_update_same)
  qed
qed simp

text \<open>The validators that a delta keeps.\<close>

definition kept_validators :: "'k AccountSet \<Rightarrow> 'k ValidatorSetDelta \<Rightarrow> 'k AccountSet" where
  "kept_validators as d = map ((!) as) (filter (\<lambda>i. \<not> Bitmap_IsSet (vd_Removed d) (of_nat i) \<or>
     AccountSet_ContainsAddress (vd_Added d) (vm_Address (as ! i))) [0..<length as])"

lemma set_kept_validators: "set (kept_validators as d) \<subseteq> set as"
  by (auto simp: kept_validators_def)

lemma distinct_kept_validators: "addresses_distinct as \<Longrightarrow> addresses_distinct (kept_validators as d)"
proof -
  assume "addresses_distinct as"
  then have "distinct (map (\<lambda>i. vm_Address (as ! i)) (filter P [0..<length as]))" for P
    by (auto simp: distinct_map inj_on_def) (metis nth_eq_iff_index_eq nth_mem)
  then show ?thesis by (simp add: kept_validators_def comp_def)
qed

lemma ApplyDelta_Some:
  "ApplyDelta as (Some d) = (if Delta_IsEmpty d then Inr as
     else case apply_added (kept_validators as d) (vd_Added d) of
       Inl e \<Rightarrow> Inl e | Inr vs \<Rightarrow> apply_updated vs (vd_Updated d))"
  by (simp add: ApplyDelta_def kept_validators_def)

text \<open>A well-formed validator set: addresses of 20 bytes without repetition, positive voting
  powers, and a public key for every member.\<close>

definition validator_ok :: "'k ValidatorMetadata \<Rightarrow> bool" where
  "validator_ok v \<longleftrightarrow> length (vm_Address v) = 20 \<and> 0 < vm_VotingPower v \<and> vm_BlsKey v \<noteq> None"

definition validators_ok :: "'k AccountSet \<Rightarrow> bool" where
  "validators_ok as \<longleftrightarrow> addresses_distinct as \<and> list_all validator_ok as"

lemma ApplyDelta_well_formed:
  assumes "validators_ok as" "list_all validator_ok (vd_Added d)" "list_all validator_ok (vd_Updated d)"
    "ApplyDelta as (Some d) = Inr r"
  shows "validators_ok r"
proof (cases "Delta_IsEmpty d")
  case True
  then show ?thesis using assms by (simp add: ApplyDelta_Some)
next
  case False
  then obtain vs where vs: "apply_added (kept_validators as d) (vd_Added d) = Inr vs"
    and r: "apply_updated vs (vd_Updated d) = Inr r"
    using assms(4) by (auto simp: ApplyDelta_Some split: sum.splits)
  have k: "addresses_distinct (kept_validators as d)"
    using assms(1) distinct_kept_validators unfolding validators_ok_def by blast
  have d: "addresses_distinct (kept_validators as d @ vd_Added d)" using vs apply_added_Inr [OF k] by blast
  then have v: "vs = kept_validators as d @ vd_Added d" using vs apply_added_ok [OF d] by simp
  have "set r \<subseteq> set as \<union> set (vd_Added d) \<union> set (vd_Updated d)"
    using apply_updated_Inr [OF r] set_kept_validators [of as d] unfolding v by auto
  moreover have "map vm_Address r = map vm_Address vs" using apply_updated_Inr [OF r] by (rule conjunct1)
  ultimately show ?thesis using assms(1-3) d unfolding v validators_ok_def list_all_iff by auto
qed

section \<open>Quorums\<close>

text \<open>What the consensus relies on when it counts votes: voting power is additive and bounded by the
  total, and a quorum is a set with more than two thirds of it.\<close>

locale quorum_system =
  fixes ok :: "'c \<Rightarrow> bool" and power :: "'c \<Rightarrow> 'a set \<Rightarrow> int" and total :: "'c \<Rightarrow> int"
    and quorum :: "'c \<Rightarrow> 'a set \<Rightarrow> bool"
  assumes power_Un_Int: "ok c \<Longrightarrow> finite s \<Longrightarrow> finite t \<Longrightarrow>
      power c (s \<union> t) + power c (s \<inter> t) = power c s + power c t"
    and power_mono: "ok c \<Longrightarrow> finite t \<Longrightarrow> s \<subseteq> t \<Longrightarrow> power c s \<le> power c t"
    and power_total: "ok c \<Longrightarrow> finite s \<Longrightarrow> power c s \<le> total c"
    and quorum_iff: "ok c \<Longrightarrow> quorum c s \<longleftrightarrow> 2 * total c < 3 * power c s"
begin

lemma quorums_intersect:
  assumes "ok c" "finite s" "finite t" "quorum c s" "quorum c t"
  shows "total c < 3 * power c (s \<inter> t)"
  using power_Un_Int [OF assms(1-3)] power_total [of c "s \<union> t"] quorum_iff [OF assms(1)] assms by auto

lemma quorum_mono: "ok c \<Longrightarrow> finite t \<Longrightarrow> s \<subseteq> t \<Longrightarrow> quorum c s \<Longrightarrow> quorum c t"
  using power_mono [of c t s] by (simp add: quorum_iff)

lemma common_honest_member:
  assumes "ok c" "finite s" "finite t" "quorum c s" "quorum c t" "finite f" "3 * power c f \<le> total c"
  shows "\<exists>a \<in> s \<inter> t. a \<notin> f"
proof (rule ccontr)
  assume "\<not> ?thesis"
  then have "power c (s \<inter> t) \<le> power c f" using assms by (intro power_mono) auto
  then show False using quorums_intersect [OF assms(1-5)] assms(7) by linarith
qed

end

definition power_of :: "'k validatorSet \<Rightarrow> Address \<Rightarrow> int" where
  "power_of vs a = (case vs_votingPowerMap vs a of None \<Rightarrow> 0 | Some p \<Rightarrow> p)"

lemma aggregate_sum: "aggregateVotingPower vs s = sum (power_of vs) s"
  by (simp add: aggregateVotingPower_def power_of_def)

lemma votingPowerMap_eq:
  assumes "addresses_distinct as"
  shows "vs_votingPowerMap (NewValidatorSet as) = map_option vm_VotingPower \<circ> account_map as"
proof -
  have "foldl (\<lambda>m v. m(vm_Address v \<mapsto> vm_VotingPower v)) m as = m ++ (map_option vm_VotingPower \<circ> account_map as)"
    for m using assms
  proof (induction as arbitrary: m)
    case (Cons v as)
    then have "account_map as (vm_Address v) = None" by (simp add: account_map_None)
    then have "m(vm_Address v \<mapsto> vm_VotingPower v) ++ (map_option vm_VotingPower \<circ> account_map as) =
        m ++ (map_option vm_VotingPower \<circ> account_map (v # as))"
      by (intro ext) (auto simp: map_add_def split: option.splits)
    with Cons.IH [of "m(vm_Address v \<mapsto> vm_VotingPower v)"] Cons.prems show ?case
      by (simp only: foldl_Cons distinct.simps list.map)
  qed simp
  then show ?thesis by (simp add: NewValidatorSet_def)
qed

lemma power_of_member:
  assumes "addresses_distinct as" "v \<in> set as"
  shows "power_of (NewValidatorSet as) (vm_Address v) = vm_VotingPower v"
proof -
  have "account_map as (vm_Address v) = Some v" using assms by (simp add: account_map_Some)
  then show ?thesis by (simp add: power_of_def votingPowerMap_eq [OF assms(1)])
qed

lemma power_of_other:
  assumes "addresses_distinct as" "a \<notin> vm_Address ` set as"
  shows "power_of (NewValidatorSet as) a = 0"
proof -
  have "account_map as a = None" using assms by (simp add: account_map_None)
  then show ?thesis by (simp add: power_of_def votingPowerMap_eq [OF assms(1)])
qed

lemma total_power_sum:
  assumes "addresses_distinct as"
  shows "vs_totalVotingPower (NewValidatorSet as) = sum (power_of (NewValidatorSet as)) (vm_Address ` set as)"
proof -
  have "sum_list (map (power_of (NewValidatorSet as)) (map vm_Address as)) = sum_list (map vm_VotingPower as)"
    unfolding map_map comp_def by (intro arg_cong [where f = sum_list] map_cong power_of_member assms refl)
  with sum_list_distinct_conv_sum_set [OF assms, of "power_of (NewValidatorSet as)"]
  have "sum (power_of (NewValidatorSet as)) (set (map vm_Address as)) = sum_list (map vm_VotingPower as)"
    by (simp only:)
  then show ?thesis by (simp add: NewValidatorSet_def GetTotalVotingPower_sum_list)
qed

definition quorum_set :: "'k validatorSet \<Rightarrow> bool" where
  "quorum_set vs \<longleftrightarrow> vs = NewValidatorSet (vs_validators vs) \<and> addresses_distinct (vs_validators vs) \<and>
     (\<forall>v \<in> set (vs_validators vs). 0 \<le> vm_VotingPower v)"

lemma validators_NewValidatorSet [simp]: "vs_validators (NewValidatorSet as) = as"
  by (simp add: NewValidatorSet_def)

lemma quorum_set_New: "validators_ok as \<Longrightarrow> quorum_set (NewValidatorSet as)"
  by (auto simp: quorum_set_def validators_ok_def validator_ok_def list_all_iff less_imp_le)

lemma power_of_nonneg:
  assumes "quorum_set vs"
  shows "0 \<le> power_of vs a"
proof -
  let ?as = "vs_validators vs"
  have vs: "vs = NewValidatorSet ?as" "addresses_distinct ?as" "\<forall>v \<in> set ?as. 0 \<le> vm_VotingPower v"
    using assms unfolding quorum_set_def by blast+
  have "0 \<le> power_of (NewValidatorSet ?as) a"
  proof (cases "a \<in> vm_Address ` set ?as")
    case True
    then show ?thesis using power_of_member [OF vs(2)] vs(3) by auto
  qed (simp add: power_of_other [OF vs(2)])
  then show ?thesis by (simp only: vs(1) [symmetric])
qed

lemma power_le_total:
  assumes "quorum_set vs" "finite s"
  shows "sum (power_of vs) s \<le> vs_totalVotingPower vs"
proof -
  let ?A = "vm_Address ` set (vs_validators vs)"
  have vs: "vs = NewValidatorSet (vs_validators vs)" "addresses_distinct (vs_validators vs)"
    using assms(1) unfolding quorum_set_def by blast+
  have "power_of vs a = 0" if "a \<notin> ?A" for a
    using power_of_other [OF vs(2) that] by (simp only: vs(1) [symmetric])
  then have "sum (power_of vs) s = sum (power_of vs) (s \<inter> ?A)"
    by (intro sum.mono_neutral_right) (auto simp: assms(2))
  also have "\<dots> \<le> sum (power_of vs) ?A"
    using power_of_nonneg [OF assms(1)] by (intro sum_mono2) auto
  also have "\<dots> = vs_totalVotingPower vs" using total_power_sum [OF vs(2)] by (simp only: vs(1) [symmetric])
  finally show ?thesis .
qed

lemma getQuorumSize_le: "getQuorumSize t \<le> p \<longleftrightarrow> 2 * t < 3 * p"
  unfolding getQuorumSize_def by presburger

interpretation bft: quorum_system quorum_set aggregateVotingPower vs_totalVotingPower HasQuorum
proof
  fix vs :: "'k validatorSet" and s t :: "Address set"
  assume ok: "quorum_set vs"
  show "HasQuorum vs s \<longleftrightarrow> 2 * vs_totalVotingPower vs < 3 * aggregateVotingPower vs s"
    by (simp add: HasQuorum_def getQuorumSize_le)
  show "aggregateVotingPower vs s \<le> vs_totalVotingPower vs" if "finite s"
    using power_le_total [OF ok that] by (simp add: aggregate_sum)
  show "aggregateVotingPower vs s \<le> aggregateVotingPower vs t" if "finite t" "s \<subseteq> t"
    using that power_of_nonneg [OF ok] by (auto simp: aggregate_sum intro: sum_mono2)
  show "aggregateVotingPower vs (s \<union> t) + aggregateVotingPower vs (s \<inter> t) =
      aggregateVotingPower vs s + aggregateVotingPower vs t" if "finite s" "finite t"
    using that by (simp add: aggregate_sum sum.union_inter)
qed

end
