(* ===== verification/Stake.thy ===== *)
theory Stake
  imports Validators "HOL-Library.AList" "HOL-Library.Product_Lexorder" "HOL-Library.Multiset"
begin

text \<open>
  The stake manager of \<^verbatim>\<open>src/consensus/polybft/stake_manager.go\<close>: the stake map that follows the
  staking events and the validator set delta it yields at the end of an epoch.

  A Go map is an association list with distinct keys; the order of the list is the order in which
  a \<^verbatim>\<open>range\<close> loop meets the entries, which Go leaves open. The call of the staking contract that reads
  a BLS key is a parameter; the bolt database is the stored state itself.
\<close>

type_synonym 'k validatorStakeMap = "(Address \<times> 'k ValidatorMetadata) list"

record 'k validatorSetState =
  vss_BlockNumber :: u64
  vss_EpochID :: u64
  vss_UpdatedAtBlockNumber :: u64
  vss_Validators :: "'k validatorStakeMap"

primrec stake_map_loop :: "('k, 's) bn256 \<Rightarrow> 'k validatorStakeMap \<Rightarrow> 'k AccountSet \<Rightarrow> 'k validatorStakeMap option" where
  "stake_map_loop B stakeMap [] = Some stakeMap"
| "stake_map_loop B stakeMap (v # validatorSet) = do {
     copied \<leftarrow> VM_Copy B v;
     stake_map_loop B (AList.update (vm_Address v) copied stakeMap) validatorSet }"

definition newValidatorStakeMap :: "('k, 's) bn256 \<Rightarrow> 'k AccountSet \<Rightarrow> 'k validatorStakeMap option" where
  "newValidatorStakeMap B validatorSet = stake_map_loop B [] validatorSet"

definition addStake :: "'k validatorStakeMap \<Rightarrow> Address \<Rightarrow> int \<Rightarrow> 'k validatorStakeMap" where
  "addStake sc address amount = (case map_of sc address of
      Some metadata \<Rightarrow>
        let power = vm_VotingPower metadata + amount
        in AList.update address (metadata\<lparr>vm_VotingPower := power, vm_IsActive := power > 0\<rparr>) sc
    | None \<Rightarrow> AList.update address \<lparr>vm_Address = address, vm_BlsKey = None, vm_VotingPower = amount,
        vm_IsActive = amount > 0\<rparr> sc)"

definition removeStake :: "'k validatorStakeMap \<Rightarrow> Address \<Rightarrow> int \<Rightarrow> 'k validatorStakeMap option" where
  "removeStake sc address amount = (case map_of sc address of
      None \<Rightarrow> None
    | Some stakeData \<Rightarrow>
        let power = vm_VotingPower stakeData - amount
        in Some (AList.update address (stakeData\<lparr>vm_VotingPower := power, vm_IsActive := power > 0\<rparr>) sc))"

definition bytes_Compare :: "bytes \<Rightarrow> bytes \<Rightarrow> int" where
  "bytes_Compare a b = (if a < b then -1 else if a = b then 0 else 1)"

definition stake_less :: "'k ValidatorMetadata \<Rightarrow> 'k ValidatorMetadata \<Rightarrow> bool" where
  "stake_less v1 v2 =
     (if vm_VotingPower v1 > vm_VotingPower v2 then True
      else if vm_VotingPower v1 = vm_VotingPower v2 then bytes_Compare (vm_Address v1) (vm_Address v2) < 0
      else False)"

text \<open>\<^verbatim>\<open>sort.Slice\<close> of the standard library, for a comparison that is a strict total order on the
  elements: insertion sort.\<close>

primrec insert_by :: "('a \<Rightarrow> 'a \<Rightarrow> bool) \<Rightarrow> 'a \<Rightarrow> 'a list \<Rightarrow> 'a list" where
  "insert_by lt x [] = [x]"
| "insert_by lt x (y # ys) = (if lt y x then y # insert_by lt x ys else x # y # ys)"

definition sort_Slice :: "('a \<Rightarrow> 'a \<Rightarrow> bool) \<Rightarrow> 'a list \<Rightarrow> 'a list" where
  "sort_Slice lt xs = foldr (insert_by lt) xs []"

definition getSorted :: "'k validatorStakeMap \<Rightarrow> int \<Rightarrow> 'k AccountSet option" where
  "getSorted sc maxValidatorSetSize =
     (let activeValidators = filter (\<lambda>v. vm_VotingPower v > 0) (map snd sc);
          activeValidators = sort_Slice stake_less activeValidators
      in if int (length activeValidators) \<le> maxValidatorSetSize then Some activeValidators
         else if maxValidatorSetSize < 0 then None
         else Some (take (nat maxValidatorSetSize) activeValidators))"

datatype StakeEvent = StakeAdded Address int | StakeRemoved Address int

definition apply_stake_event :: "'k validatorStakeMap \<Rightarrow> StakeEvent \<Rightarrow> 'k validatorStakeMap option" where
  "apply_stake_event sc event = (case event of
      StakeAdded validator amount \<Rightarrow> Some (addStake sc validator amount)
    | StakeRemoved validator amount \<Rightarrow> removeStake sc validator amount)"

primrec apply_stake_events :: "'k validatorStakeMap \<Rightarrow> StakeEvent list \<Rightarrow> 'k validatorStakeMap option" where
  "apply_stake_events sc [] = Some sc"
| "apply_stake_events sc (e # es) = do { sc \<leftarrow> apply_stake_event sc e; apply_stake_events sc es }"

definition refresh_metadata ::
  "(Address \<Rightarrow> 'k option \<times> string option) \<Rightarrow> 'k ValidatorMetadata \<Rightarrow> 'k ValidatorMetadata" where
  "refresh_metadata getBlsKey data =
     (let data = (case vm_BlsKey data of
          None \<Rightarrow> data\<lparr>vm_BlsKey := fst (getBlsKey (vm_Address data))\<rparr>
        | Some _ \<Rightarrow> data)
      in data\<lparr>vm_IsActive := vm_VotingPower data > 0\<rparr>)"

definition updateWithReceipts :: "(Address \<Rightarrow> 'k option \<times> string option) \<Rightarrow> 'k validatorSetState \<Rightarrow>
    StakeEvent list \<Rightarrow> u64 \<Rightarrow> 'k validatorSetState option" where
  "updateWithReceipts getBlsKey full events blockNumber =
     (if events = [] then Some full
      else do {
        sc \<leftarrow> apply_stake_events (vss_Validators full) events;
        Some (full\<lparr>vss_Validators := map (\<lambda>(addr, data). (addr, refresh_metadata getBlsKey data)) sc,
          vss_UpdatedAtBlockNumber := blockNumber\<rparr>) })"

definition removed_bitmap :: "Address set \<Rightarrow> 'k AccountSet \<Rightarrow> Bitmap" where
  "removed_bitmap addressesSet old =
     foldl Bitmap_Set [] (map of_nat (filter (\<lambda>i. vm_Address (old ! i) \<notin> addressesSet) [0..<length old]))"

definition oldActiveMap :: "'k AccountSet \<Rightarrow> Address \<rightharpoonup> 'k ValidatorMetadata" where
  "oldActiveMap old = foldl (\<lambda>m v. m(vm_Address v \<mapsto> v)) Map.empty old"

primrec split_new :: "(Address \<Rightarrow> 'k option \<times> string option) \<Rightarrow> (Address \<rightharpoonup> 'k ValidatorMetadata) \<Rightarrow>
    'k AccountSet \<Rightarrow> string + 'k AccountSet \<times> 'k AccountSet" where
  "split_new getBlsKey om [] = Inr ([], [])"
| "split_new getBlsKey om (v # vs) = (case om (vm_Address v) of
      Some oldValidator \<Rightarrow>
        (case split_new getBlsKey om vs of Inl e \<Rightarrow> Inl e
         | Inr (added, updated) \<Rightarrow>
             Inr (added, if vm_VotingPower oldValidator \<noteq> vm_VotingPower v then v # updated else updated))
    | None \<Rightarrow>
        (case (if vm_BlsKey v = None then getBlsKey (vm_Address v) else (vm_BlsKey v, None)) of
           (_, Some e) \<Rightarrow> Inl e
         | (key, None) \<Rightarrow>
            (case split_new getBlsKey om vs of Inl e \<Rightarrow> Inl e
             | Inr (added, updated) \<Rightarrow> Inr (v\<lparr>vm_BlsKey := key\<rparr> # added, updated))))"

definition UpdateValidatorSet :: "(Address \<Rightarrow> 'k option \<times> string option) \<Rightarrow> 'k validatorSetState \<Rightarrow>
    u64 \<Rightarrow> 'k AccountSet \<Rightarrow> (string + 'k ValidatorSetDelta) option" where
  "UpdateValidatorSet getBlsKey full maxValidatorSetSize old = do {
     newValidatorSet \<leftarrow> getSorted (vss_Validators full) (sint maxValidatorSetSize);
     Some (case split_new getBlsKey (oldActiveMap old) newValidatorSet of
         Inl e \<Rightarrow> Inl e
       | Inr (added, updated) \<Rightarrow> Inr \<lparr>vd_Added = added, vd_Updated = updated,
           vd_Removed = removed_bitmap (set (map vm_Address newValidatorSet)) old\<rparr>)
   }"

definition getOrInitValidatorSet :: "('k, 's) bn256 \<Rightarrow> (string + 'k AccountSet) \<Rightarrow> 'k validatorSetState option \<Rightarrow>
    ((string + 'k validatorSetState) \<times> 'k validatorSetState option) option" where
  "getOrInitValidatorSet B genesisValidators db = (case db of
      Some validatorSet \<Rightarrow> Some (Inr validatorSet, db)
    | None \<Rightarrow> (case genesisValidators of
          Inl err \<Rightarrow> Some (Inl err, db)
        | Inr validators \<Rightarrow> do {
            stakeMap \<leftarrow> newValidatorStakeMap B validators;
            let validatorSet = \<lparr>vss_BlockNumber = 0, vss_EpochID = 0, vss_UpdatedAtBlockNumber = 0,
              vss_Validators = stakeMap\<rparr>;
            Some (Inr validatorSet, Some validatorSet) }))"

definition stake_PostBlock :: "('k, 's) bn256 \<Rightarrow> (string + 'k AccountSet) \<Rightarrow> u64 \<Rightarrow> u64 \<Rightarrow>
    'k validatorSetState option \<Rightarrow> (string option \<times> 'k validatorSetState option) option" where
  "stake_PostBlock B genesisValidators epoch blockNumber db = do {
     (r, db) \<leftarrow> getOrInitValidatorSet B genesisValidators db;
     Some (case r of Inl err \<Rightarrow> (Some err, db)
       | Inr full \<Rightarrow> (None, Some (full\<lparr>vss_EpochID := epoch, vss_BlockNumber := blockNumber\<rparr>))) }"

text \<open>The decoded event of a log is a parameter: \<^verbatim>\<open>Inl\<close> is a decoding error or an unknown event,
  \<^verbatim>\<open>Inr None\<close> a log that does not match.\<close>

definition stake_ProcessLog :: "('k, 's) bn256 \<Rightarrow> (Address \<Rightarrow> 'k option \<times> string option) \<Rightarrow>
    (string + 'k AccountSet) \<Rightarrow> (string + StakeEvent option) \<Rightarrow> u64 \<Rightarrow> 'k validatorSetState option \<Rightarrow>
    (string option \<times> 'k validatorSetState option) option" where
  "stake_ProcessLog B getBlsKey genesisValidators parsed number db = (case parsed of
      Inl err \<Rightarrow> Some (Some err, db)
    | Inr None \<Rightarrow> Some (None, db)
    | Inr (Some event) \<Rightarrow> do {
        (r, db) \<leftarrow> getOrInitValidatorSet B genesisValidators db;
        case r of Inl err \<Rightarrow> Some (Some err, db)
        | Inr full \<Rightarrow> do {
            full \<leftarrow> updateWithReceipts getBlsKey full [event] number;
            Some (None, Some full) } })"

section \<open>Sorting\<close>

definition stake_key :: "'k ValidatorMetadata \<Rightarrow> int \<times> bytes" where
  "stake_key v = (- vm_VotingPower v, vm_Address v)"

lemma stake_less_key: "stake_less a b \<longleftrightarrow> stake_key a < stake_key b"
  by (auto simp: stake_less_def stake_key_def bytes_Compare_def)

lemma insert_by_stake_less: "insert_by stake_less x xs = insort_key stake_key x xs"
  by (induction xs) (auto simp: stake_less_key not_less)

lemma sort_Slice_stake_less:
  fixes xs :: "'k AccountSet"
  shows "sort_Slice stake_less xs = sort_key stake_key xs"
proof -
  have "insert_by stake_less = insort_key (stake_key :: 'k ValidatorMetadata \<Rightarrow> _)"
    by (intro ext) (rule insert_by_stake_less)
  then show ?thesis by (simp add: sort_Slice_def sort_key_def)
qed

definition stake_map_ok :: "'k validatorStakeMap \<Rightarrow> bool" where
  "stake_map_ok sc \<longleftrightarrow> distinct (map fst sc) \<and>
     list_all (\<lambda>(a, v). vm_Address v = a \<and> vm_IsActive v = (vm_VotingPower v > 0)) sc"

definition active_validators :: "'k validatorStakeMap \<Rightarrow> 'k AccountSet" where
  "active_validators sc = filter (\<lambda>v. vm_VotingPower v > 0) (map snd sc)"

lemma stake_map_addresses: "stake_map_ok sc \<Longrightarrow> map vm_Address (map snd sc) = map fst sc"
  by (auto simp: stake_map_ok_def list_all_iff)

lemma active_distinct: "stake_map_ok sc \<Longrightarrow> addresses_distinct (active_validators sc)"
proof -
  assume ok: "stake_map_ok sc"
  then have "addresses_distinct (map snd sc)" unfolding stake_map_addresses [OF ok] by (simp add: stake_map_ok_def)
  then show ?thesis unfolding active_validators_def by (rule distinct_map_filter)
qed

lemma getSorted_eq:
  "getSorted sc n = (let s = sort_key stake_key (active_validators sc) in
     if int (length s) \<le> n then Some s else if n < 0 then None else Some (take (nat n) s))"
  by (simp add: getSorted_def active_validators_def sort_Slice_stake_less)

text \<open>The order in which the map is traversed does not matter.\<close>

lemma getSorted_any_order:
  assumes "stake_map_ok sc" "mset sc = mset sc'"
  shows "getSorted sc n = getSorted sc' n"
proof -
  have "inj_on stake_key (set (active_validators sc))"
    using active_distinct [OF assms(1)] by (auto simp: inj_on_def stake_key_def distinct_map)
  moreover have "mset (active_validators sc) = mset (active_validators sc')"
    using assms(2) by (simp add: active_validators_def)
  ultimately have "sort_key stake_key (active_validators sc) = sort_key stake_key (active_validators sc')"
    using sort_key_inj_key_eq sorted_sort_key by (metis mset_sort)
  then show ?thesis by (simp add: getSorted_eq)
qed

lemma take_of_sorted:
  assumes "sorted (map f xs)" "x \<in> set (take n xs)" "y \<in> set (drop n xs)"
  shows "f x \<le> f y"
proof -
  have "sorted (map f (take n xs) @ map f (drop n xs))"
    using assms(1) by (simp flip: map_append)
  then show ?thesis using assms(2,3) unfolding sorted_append by fastforce
qed

lemma getSorted_top:
  assumes "stake_map_ok sc" "getSorted sc n = Some r"
  shows "addresses_distinct r" and "set r \<subseteq> set (active_validators sc)"
    and "int (length r) = min n (int (length (active_validators sc)))"
    and "\<And>v w. v \<in> set r \<Longrightarrow> w \<in> set (active_validators sc) \<Longrightarrow> w \<notin> set r \<Longrightarrow> stake_less v w"
proof -
  let ?s = "sort_key stake_key (active_validators sc)"
  have r: "r = take (nat n) ?s" "0 \<le> n"
    using assms(2) by (auto simp: getSorted_eq Let_def split: if_splits)
  have "mset (map vm_Address ?s) = mset (map vm_Address (active_validators sc))" by simp
  then have d: "addresses_distinct ?s"
    using active_distinct [OF assms(1)] by (metis mset_eq_imp_distinct_iff)
  then show "addresses_distinct r" unfolding r by (simp flip: take_map)
  show sub: "set r \<subseteq> set (active_validators sc)" unfolding r using set_take_subset by fastforce
  show "int (length r) = min n (int (length (active_validators sc)))" using r(2) by (auto simp: r(1))
  fix v w assume v: "v \<in> set r" and w: "w \<in> set (active_validators sc)" "w \<notin> set r"
  have "set ?s = set (take (nat n) ?s) \<union> set (drop (nat n) ?s)" by (metis append_take_drop_id set_append)
  then have "w \<in> set (drop (nat n) ?s)" using w unfolding r(1) by auto
  then have "stake_key v \<le> stake_key w"
    using v take_of_sorted [of stake_key ?s v "nat n" w] unfolding r(1) by simp
  moreover have "vm_Address v \<noteq> vm_Address w"
    using active_distinct [OF assms(1)] v w sub by (auto simp: distinct_map inj_on_def)
  ultimately show "stake_less v w" by (auto simp: stake_less_key stake_key_def)
qed

section \<open>The stake map\<close>

lemma stake_map_okD: "stake_map_ok sc \<Longrightarrow> map_of sc a = Some v \<Longrightarrow> vm_Address v = a"
  by (auto simp: stake_map_ok_def list_all_iff dest: map_of_SomeD)

lemma stake_map_update:
  assumes "stake_map_ok sc" "vm_Address v = a" "vm_IsActive v = (vm_VotingPower v > 0)"
  shows "stake_map_ok (AList.update a v sc)"
proof -
  have "set (AList.update a v sc) \<subseteq> insert (a, v) (set sc)"
    by (induction sc) auto
  then show ?thesis using assms unfolding stake_map_ok_def list_all_iff
    by (auto simp: distinct_update)
qed

lemma addStake_ok: "stake_map_ok sc \<Longrightarrow> stake_map_ok (addStake sc a n)"
  by (auto simp: addStake_def Let_def split: option.split intro!: stake_map_update dest: stake_map_okD)

lemma removeStake_ok: "stake_map_ok sc \<Longrightarrow> removeStake sc a n = Some sc' \<Longrightarrow> stake_map_ok sc'"
  by (auto simp: removeStake_def Let_def split: option.splits intro!: stake_map_update dest: stake_map_okD)

text \<open>The stake a map records for an address, and its change by the events.\<close>

definition stake_of :: "'k validatorStakeMap \<Rightarrow> Address \<Rightarrow> int" where
  "stake_of sc a = (case map_of sc a of None \<Rightarrow> 0 | Some v \<Rightarrow> vm_VotingPower v)"

lemma stake_of_addStake: "stake_of (addStake sc a n) b = stake_of sc b + (if a = b then n else 0)"
  by (auto simp: stake_of_def addStake_def Let_def update_conv' split: option.split)

lemma stake_of_removeStake:
  "removeStake sc a n = Some sc' \<Longrightarrow> stake_of sc' b = stake_of sc b - (if a = b then n else 0)"
  by (auto simp: stake_of_def removeStake_def Let_def update_conv' split: option.splits)

definition stake_change :: "Address \<Rightarrow> StakeEvent \<Rightarrow> int" where
  "stake_change b e = (case e of StakeAdded a n \<Rightarrow> if a = b then n else 0
     | StakeRemoved a n \<Rightarrow> if a = b then - n else 0)"

lemma apply_stake_event_ok:
  "stake_map_ok sc \<Longrightarrow> apply_stake_event sc e = Some sc' \<Longrightarrow>
     stake_map_ok sc' \<and> (\<forall>b. stake_of sc' b = stake_of sc b + stake_change b e)"
  by (cases e) (auto simp: apply_stake_event_def stake_change_def addStake_ok removeStake_ok
      stake_of_addStake stake_of_removeStake)

lemma apply_stake_events_ok:
  "stake_map_ok sc \<Longrightarrow> apply_stake_events sc es = Some sc' \<Longrightarrow>
     stake_map_ok sc' \<and> (\<forall>b. stake_of sc' b = stake_of sc b + sum_list (map (stake_change b) es))"
proof (induction es arbitrary: sc)
  case (Cons e es)
  then obtain sc1 where "apply_stake_event sc e = Some sc1" "apply_stake_events sc1 es = Some sc'"
    by (auto simp: bind_Some_iff)
  with Cons.IH [of sc1] apply_stake_event_ok [OF Cons.prems(1)] show ?case by fastforce
qed simp

lemma map_of_refresh: "map_of (map (\<lambda>(a, d). (a, f d)) sc) a = map_option f (map_of sc a)"
  by (induction sc) auto

lemma refresh_power [simp]: "vm_VotingPower (refresh_metadata g d) = vm_VotingPower d"
  "vm_Address (refresh_metadata g d) = vm_Address d"
  "vm_IsActive (refresh_metadata g d) = (vm_VotingPower d > 0)"
  by (auto simp: refresh_metadata_def Let_def split: option.split)

lemma updateWithReceipts_ok:
  assumes "stake_map_ok (vss_Validators full)" "updateWithReceipts g full events n = Some full'"
  shows "stake_map_ok (vss_Validators full')"
    and "stake_of (vss_Validators full') b = stake_of (vss_Validators full) b + sum_list (map (stake_change b) events)"
proof -
  have "stake_map_ok (vss_Validators full') \<and> stake_of (vss_Validators full') b =
      stake_of (vss_Validators full) b + sum_list (map (stake_change b) events)"
  proof (cases "events = []")
    case False
    then obtain sc where sc: "apply_stake_events (vss_Validators full) events = Some sc"
      and f: "full' = full\<lparr>vss_Validators := map (\<lambda>(a, d). (a, refresh_metadata g d)) sc, vss_UpdatedAtBlockNumber := n\<rparr>"
      using assms(2) by (auto simp: updateWithReceipts_def bind_Some_iff)
    note ok = apply_stake_events_ok [OF assms(1) sc]
    have "stake_map_ok (map (\<lambda>(a, d). (a, refresh_metadata g d)) sc)"
      using ok by (auto simp: stake_map_ok_def list_all_iff comp_def case_prod_unfold)
    moreover have "stake_of (map (\<lambda>(a, d). (a, refresh_metadata g d)) sc) b = stake_of sc b"
      by (auto simp: stake_of_def map_of_refresh split: option.split)
    ultimately show ?thesis using ok f by simp
  qed (use assms in \<open>simp add: updateWithReceipts_def\<close>)
  then show "stake_map_ok (vss_Validators full')" "stake_of (vss_Validators full') b =
      stake_of (vss_Validators full) b + sum_list (map (stake_change b) events)" by auto
qed

section \<open>The delta leads from the old set to the new one\<close>

lemma oldActiveMap_eq:
  assumes "addresses_distinct old"
  shows "oldActiveMap old = account_map old"
proof -
  have "foldl (\<lambda>m v. m(vm_Address v \<mapsto> v)) m old = m ++ account_map old" for m :: "Address \<rightharpoonup> 'a ValidatorMetadata"
    using assms
  proof (induction old arbitrary: m)
    case (Cons v old)
    then have "account_map old (vm_Address v) = None" by (simp add: account_map_None)
    then have "m(vm_Address v \<mapsto> v) ++ account_map old = m ++ account_map (v # old)"
      by (intro ext) (auto simp: map_add_def split: option.splits)
    with Cons.IH [of "m(vm_Address v \<mapsto> v)"] Cons.prems show ?case
      by (simp only: foldl_Cons distinct.simps list.map)
  qed simp
  then show ?thesis by (simp add: oldActiveMap_def)
qed

lemma split_new_Inr:
  assumes "split_new g om vs = Inr (added, updated)"
  shows "map (\<lambda>v. (vm_Address v, vm_VotingPower v)) added =
      map (\<lambda>v. (vm_Address v, vm_VotingPower v)) (filter (\<lambda>v. om (vm_Address v) = None) vs)"
    and "updated = filter (\<lambda>v. case om (vm_Address v) of None \<Rightarrow> False
      | Some old \<Rightarrow> vm_VotingPower old \<noteq> vm_VotingPower v) vs"
proof -
  have "map (\<lambda>v. (vm_Address v, vm_VotingPower v)) added =
      map (\<lambda>v. (vm_Address v, vm_VotingPower v)) (filter (\<lambda>v. om (vm_Address v) = None) vs) \<and>
    updated = filter (\<lambda>v. case om (vm_Address v) of None \<Rightarrow> False
      | Some old \<Rightarrow> vm_VotingPower old \<noteq> vm_VotingPower v) vs"
    using assms
  proof (induction vs arbitrary: added updated)
    case (Cons v vs)
    then show ?case
      by (fastforce split: option.splits sum.splits prod.splits if_splits)
  qed simp
  then show "map (\<lambda>v. (vm_Address v, vm_VotingPower v)) added =
      map (\<lambda>v. (vm_Address v, vm_VotingPower v)) (filter (\<lambda>v. om (vm_Address v) = None) vs)"
    "updated = filter (\<lambda>v. case om (vm_Address v) of None \<Rightarrow> False
      | Some old \<Rightarrow> vm_VotingPower old \<noteq> vm_VotingPower v) vs" by auto
qed

lemma split_new_ok:
  "\<forall>v \<in> set vs. vm_BlsKey v = None \<longrightarrow> om (vm_Address v) = None \<longrightarrow> snd (g (vm_Address v)) = None \<Longrightarrow>
     \<exists>added updated. split_new g om vs = Inr (added, updated)"
proof (induction vs)
  case (Cons v vs)
  then show ?case by (cases "om (vm_Address v)"; cases "vm_BlsKey v"; cases "g (vm_Address v)") auto
qed simp

lemma IsSet_removed_bitmap:
  assumes "length old < 2 ^ 59" "i < length old"
  shows "Bitmap_IsSet (removed_bitmap A old) (of_nat i) \<longleftrightarrow> vm_Address (old ! i) \<notin> A"
proof -
  let ?is = "map of_nat (filter (\<lambda>i. vm_Address (old ! i) \<notin> A) [0..<length old]) :: u64 list"
  have u: "unat (of_nat j :: u64) = j" if "j < length old" for j
    using that assms(1) by (intro unat_of_nat_small) simp
  have "\<forall>w \<in> set ?is. unat w < 2 ^ 59" using u assms(1) by auto
  from IsSet_foldl_Set(1) [OF this, of "of_nat i"]
  have "Bitmap_IsSet (removed_bitmap A old) (of_nat i) \<longleftrightarrow> (of_nat i :: u64) \<in> set ?is"
    by (simp add: removed_bitmap_def)
  also have "\<dots> \<longleftrightarrow> vm_Address (old ! i) \<notin> A" using u assms(2) by (auto; metis)
  finally show ?thesis .
qed

lemma removed_bitmap_empty:
  assumes "length old < 2 ^ 59" "Bitmap_Len (removed_bitmap A old) = 0"
  shows "vm_Address ` set old \<subseteq> A"
proof -
  have "\<not> Bitmap_IsSet (removed_bitmap A old) (of_nat i)" for i
    using assms(2) by (simp add: Bitmap_IsSet_def)
  then show ?thesis using IsSet_removed_bitmap [OF assms(1), of _ A] by (fastforce simp: in_set_conv_nth)
qed

lemma filter_nth: "map ((!) xs) (filter (\<lambda>i. P (xs ! i)) [0..<length xs]) = filter P xs"
proof -
  have "filter P (map ((!) xs) [0..<length xs]) = map ((!) xs) (filter (\<lambda>i. P (xs ! i)) [0..<length xs])"
    by (simp add: filter_map comp_def)
  then show ?thesis by (simp add: map_nth)
qed

lemma kept_eq:
  assumes "length old < 2 ^ 59" "vd_Removed d = removed_bitmap A old"
    and "\<And>v. v \<in> set old \<Longrightarrow> vm_Address v \<in> vm_Address ` set (vd_Added d) \<Longrightarrow> vm_Address v \<in> A"
  shows "kept_validators old d = filter (\<lambda>v. vm_Address v \<in> A) old"
proof -
  have "\<not> Bitmap_IsSet (vd_Removed d) (of_nat i) \<or> AccountSet_ContainsAddress (vd_Added d) (vm_Address (old ! i)) \<longleftrightarrow>
      vm_Address (old ! i) \<in> A" if "i < length old" for i
    using IsSet_removed_bitmap [OF assms(1) that, of A] assms(2) assms(3) [OF nth_mem [OF that]] by auto
  then have "filter (\<lambda>i. \<not> Bitmap_IsSet (vd_Removed d) (of_nat i) \<or> AccountSet_ContainsAddress (vd_Added d) (vm_Address (old ! i)))
      [0..<length old] = filter (\<lambda>i. vm_Address (old ! i) \<in> A) [0..<length old]"
    by (intro filter_cong refl) simp
  then show ?thesis by (simp add: kept_validators_def filter_nth [where P = "\<lambda>v. vm_Address v \<in> A"])
qed

definition power_map :: "'k AccountSet \<Rightarrow> Address \<rightharpoonup> int" where
  "power_map as = map_of (map (\<lambda>v. (vm_Address v, vm_VotingPower v)) as)"

lemma power_map_account_map: "power_map as a = map_option vm_VotingPower (account_map as a)"
  by (induction as) (auto simp: power_map_def account_map_def)

text \<open>What the loops of \<^verbatim>\<open>UpdateValidatorSet\<close> collect, as filters of the new and of the old set.\<close>

definition added_from :: "'k AccountSet \<Rightarrow> 'k AccountSet \<Rightarrow> 'k AccountSet" where
  "added_from old new = filter (\<lambda>v. account_map old (vm_Address v) = None) new"

definition updated_from :: "'k AccountSet \<Rightarrow> 'k AccountSet \<Rightarrow> 'k AccountSet" where
  "updated_from old new = filter (\<lambda>v. case account_map old (vm_Address v) of None \<Rightarrow> False
      | Some ov \<Rightarrow> vm_VotingPower ov \<noteq> vm_VotingPower v) new"

definition kept_from :: "'k AccountSet \<Rightarrow> 'k AccountSet \<Rightarrow> 'k AccountSet" where
  "kept_from old new = filter (\<lambda>v. vm_Address v \<in> vm_Address ` set new) old"

lemma distinct_from:
  "addresses_distinct new \<Longrightarrow> addresses_distinct (added_from old new)"
  "addresses_distinct new \<Longrightarrow> addresses_distinct (rev (updated_from old new))"
  "addresses_distinct old \<Longrightarrow> addresses_distinct (kept_from old new)"
  by (simp_all add: added_from_def updated_from_def kept_from_def distinct_map_filter flip: rev_map)

lemma added_from_addresses:
  "vm_Address ` set (added_from old new) = vm_Address ` set new - vm_Address ` set old"
  by (auto simp: added_from_def account_map_None)

lemma updated_from_addresses:
  "vm_Address ` set (updated_from old new) \<subseteq> vm_Address ` set (kept_from old new)"
proof
  fix a assume "a \<in> vm_Address ` set (updated_from old new)"
  then obtain v where v: "v \<in> set new" "vm_Address v = a" "account_map old a \<noteq> None"
    by (auto simp: updated_from_def split: option.splits)
  then obtain ov where "ov \<in> set old" "vm_Address ov = a" by (auto simp: account_map_None)
  moreover have "a \<in> vm_Address ` set new" using v by blast
  ultimately have "ov \<in> set (kept_from old new)" "vm_Address ov = a" by (simp_all add: kept_from_def)
  then show "a \<in> vm_Address ` set (kept_from old new)" by blast
qed

lemma lookup_from:
  assumes nd: "addresses_distinct new" and od: "addresses_distinct old"
    and v: "v \<in> set new" "vm_Address v = a"
  shows "account_map (rev (updated_from old new)) a = (case account_map old a of None \<Rightarrow> None
      | Some ov \<Rightarrow> if vm_VotingPower ov = vm_VotingPower v then None else Some v)"
    and "account_map (kept_from old new) a = account_map old a"
    and "account_map old a = None \<Longrightarrow> account_map (added_from old new) a = Some v"
proof -
  have same: "w = v" if "w \<in> set new" "vm_Address w = a" for w
    using that v nd by (auto simp: distinct_map inj_on_def)
  show "account_map old a = None \<Longrightarrow> account_map (added_from old new) a = Some v"
    unfolding account_map_Some [OF distinct_from(1) [OF nd]] using v by (simp add: added_from_def)
  show "account_map (kept_from old new) a = account_map old a"
  proof (cases "account_map old a")
    case None
    then have "a \<notin> vm_Address ` set (kept_from old new)" by (auto simp: account_map_None kept_from_def)
    then have "account_map (kept_from old new) a = None" by (simp add: account_map_None)
    then show ?thesis unfolding None .
  next
    case (Some ov)
    then have "ov \<in> set old" "vm_Address ov = a" by (simp_all add: account_map_Some [OF od])
    moreover have "a \<in> vm_Address ` set new" using v by blast
    ultimately have "account_map (kept_from old new) a = Some ov"
      unfolding account_map_Some [OF distinct_from(3) [OF od]] by (simp add: kept_from_def)
    then show ?thesis using Some by simp
  qed
  show "account_map (rev (updated_from old new)) a = (case account_map old a of None \<Rightarrow> None
      | Some ov \<Rightarrow> if vm_VotingPower ov = vm_VotingPower v then None else Some v)" (is "_ = ?R")
  proof (cases ?R)
    case None
    then have "a \<notin> vm_Address ` set (rev (updated_from old new))"
      using same by (auto simp: updated_from_def split: option.splits if_splits)
    then have "account_map (rev (updated_from old new)) a = None" by (simp add: account_map_None)
    then show ?thesis unfolding None .
  next
    case (Some w)
    then have "account_map (rev (updated_from old new)) a = Some w"
      unfolding account_map_Some [OF distinct_from(2) [OF nd]] using v
      by (auto simp: updated_from_def split: option.splits if_splits)
    then show ?thesis unfolding Some .
  qed
qed

lemma power_map_from:
  assumes nd: "addresses_distinct new" and od: "addresses_distinct old"
    and added: "power_map added = power_map (added_from old new)"
      "vm_Address ` set added = vm_Address ` set new - vm_Address ` set old"
    and r: "vm_Address ` set r = vm_Address ` set (kept_from old new @ added)"
      "account_map r = account_map (kept_from old new @ added) ++ account_map (rev (updated_from old new))"
  shows "power_map r = power_map new"
proof
  fix a
  show "power_map r a = power_map new a"
  proof (cases "a \<in> vm_Address ` set new")
    case False
    then have "a \<notin> vm_Address ` set r" unfolding r(1) using added(2) by (auto simp: kept_from_def)
    then show ?thesis using False by (simp add: power_map_account_map account_map_None [THEN iffD2])
  next
    case True
    then obtain v where v: "v \<in> set new" "vm_Address v = a" by auto
    have n: "account_map new a = Some v" unfolding account_map_Some [OF nd] using v by simp
    note l = lookup_from [OF nd od v]
    show ?thesis
    proof (cases "account_map old a")
      case None
      then have "power_map r a = power_map added a"
        by (simp add: power_map_account_map r(2) l map_add_def)
      then show ?thesis unfolding added(1) using l(3) [OF None] by (simp add: power_map_account_map n)
    qed (simp add: power_map_account_map r(2) l map_add_def n)
  qed
qed

lemma UpdateValidatorSet_roundtrip:
  fixes old :: "'k AccountSet"
  assumes ok: "stake_map_ok (vss_Validators full)" "addresses_distinct old" "length old < 2 ^ 59"
    and upd: "UpdateValidatorSet g full n old = Some (Inr d)"
    and new: "getSorted (vss_Validators full) (sint n) = Some new"
  shows "\<exists>r. ApplyDelta old (Some d) = Inr r \<and> addresses_distinct r \<and> power_map r = power_map new"
proof -
  let ?kept = "kept_from old new" and ?updated = "updated_from old new"
  obtain added updated where sp: "split_new g (account_map old) new = Inr (added, updated)"
    and d: "vd_Added d = added" "vd_Updated d = updated" "vd_Removed d = removed_bitmap (vm_Address ` set new) old"
    using upd new by (auto simp: UpdateValidatorSet_def oldActiveMap_eq [OF ok(2)] split: sum.splits prod.splits)
  note nd = getSorted_top(1) [OF ok(1) new]
  note added = split_new_Inr(1) [OF sp, folded added_from_def]
  have upd: "updated = ?updated" using split_new_Inr(2) [OF sp] by (simp add: updated_from_def)
  have addr: "map vm_Address added = map vm_Address (added_from old new)"
    using arg_cong [OF added, of "map fst"] by (simp add: comp_def)
  then have addedS: "vm_Address ` set added = vm_Address ` set new - vm_Address ` set old"
    using added_from_addresses [of old new] by (simp flip: set_map)
  have kept: "kept_validators old d = ?kept"
    unfolding kept_from_def by (rule kept_eq) (use ok(3) d addedS in auto)
  have "addresses_distinct added" unfolding addr by (rule distinct_from(1) [OF nd])
  moreover have "vm_Address ` set ?kept \<inter> vm_Address ` set added = {}"
    unfolding addedS by (auto simp: kept_from_def)
  ultimately have dist: "addresses_distinct (?kept @ added)" using distinct_from(3) [OF ok(2)] by simp
  have "vm_Address ` set updated \<subseteq> vm_Address ` set (?kept @ added)"
    using updated_from_addresses [of old new] unfolding upd by auto
  from apply_updated_ok [OF dist this] obtain r where r: "apply_updated (?kept @ added) updated = Inr r"
    "map vm_Address r = map vm_Address (?kept @ added)"
    "account_map r = account_map (?kept @ added) ++ account_map (rev updated)" by blast
  have "ApplyDelta old (Some d) = Inr r"
  proof (cases "Delta_IsEmpty d")
    case True
    then have "added = []" "updated = []" "vm_Address ` set old \<subseteq> vm_Address ` set new"
      using removed_bitmap_empty [OF ok(3)] by (simp_all add: Delta_IsEmpty_def d)
    moreover from this(3) have "?kept = old" unfolding kept_from_def by (intro filter_True) auto
    ultimately show ?thesis using r(1) True by (simp add: ApplyDelta_Some)
  qed (use r(1) apply_added_ok [OF dist] in \<open>simp add: ApplyDelta_Some kept d\<close>)
  moreover have "power_map r = power_map new"
  proof (rule power_map_from [OF nd ok(2) _ addedS])
    show "power_map added = power_map (added_from old new)" by (simp only: power_map_def added)
    show "vm_Address ` set r = vm_Address ` set (?kept @ added)" using r(2) by (metis set_map)
    show "account_map r = account_map (?kept @ added) ++ account_map (rev ?updated)" using r(3) unfolding upd .
  qed
  ultimately show ?thesis using r(2) dist by metis
qed

end
