(* ===== verification/Extra.thy ===== *)
theory Extra
  imports Validators Block_Types
begin

text \<open>
  The consensus data in the extra field of a header: \<^verbatim>\<open>src/consensus/polybft/extra.go\<close>, with the RLP
  forms of validators and deltas of \<^verbatim>\<open>validator_metadata.go\<close> and \<^verbatim>\<open>validator_set_delta.go\<close>.

  The external packages are the fields of the record \<open>polybft_libs\<close>: the signature package, the RLP
  package \<^verbatim>\<open>fastrlp\<close> (an abstract type of values with constructors and readers), the two ABI encoders
  and the hash function. A nil byte slice is the empty list, a nil pointer is \<^term>\<open>None\<close>; a method call on a
  nil pointer that reads a field is a panic, \<^term>\<open>None\<close> of the outer option. \<^verbatim>\<open>NewBytes\<close> and \<^verbatim>\<open>NewCopyBytes\<close>, which
  differ only in whether the arena keeps the caller's slice, are one constructor.
\<close>

section \<open>External packages\<close>

record 'v fastrlp =
  rlp_NewArray :: "'v list \<Rightarrow> 'v"
  rlp_NewNullArray :: 'v
  rlp_NewNull :: 'v
  rlp_NewBytes :: "bytes \<Rightarrow> 'v"
  rlp_NewUint :: "u64 \<Rightarrow> 'v"
  rlp_NewBigInt :: "int \<Rightarrow> 'v"
  rlp_NewBool :: "bool \<Rightarrow> 'v"
  rlp_GetElems :: "'v \<Rightarrow> string + 'v list"
  rlp_Elems :: "'v \<Rightarrow> nat"
  rlp_GetBytes :: "'v \<Rightarrow> string + bytes"
  rlp_GetUint64 :: "'v \<Rightarrow> string + u64"
  rlp_GetBigInt :: "'v \<Rightarrow> string + int"
  rlp_GetBool :: "'v \<Rightarrow> string + bool"
  rlp_MarshalTo :: "'v \<Rightarrow> bytes \<Rightarrow> bytes"
  rlp_Parse :: "bytes \<Rightarrow> string + 'v"

text \<open>What is built is read back, a marshalled value parses to a value that reads the same.\<close>

definition fastrlp_doc :: "'v fastrlp \<Rightarrow> bool" where
  "fastrlp_doc R \<longleftrightarrow>
     (\<forall>vs. rlp_GetElems R (rlp_NewArray R vs) = Inr vs \<and> rlp_Elems R (rlp_NewArray R vs) = length vs) \<and>
     rlp_GetElems R (rlp_NewNullArray R) = Inr [] \<and> rlp_Elems R (rlp_NewNullArray R) = 0 \<and>
     rlp_GetBytes R (rlp_NewNull R) = Inr [] \<and>
     (\<forall>b. rlp_GetBytes R (rlp_NewBytes R b) = Inr b) \<and>
     (\<forall>n. rlp_GetUint64 R (rlp_NewUint R n) = Inr n) \<and>
     (\<forall>i\<ge>0. rlp_GetBigInt R (rlp_NewBigInt R i) = Inr i) \<and>
     (\<forall>b. rlp_GetBool R (rlp_NewBool R b) = Inr b) \<and>
     (\<forall>v. rlp_Parse R (rlp_MarshalTo R v []) = Inr v)"

record CheckpointData =
  cp_BlockRound :: u64
  cp_EpochNumber :: u64
  cp_CurrentValidatorsHash :: Hash
  cp_NextValidatorsHash :: Hash
  cp_EventRoot :: Hash

record ('k, 's, 'v) polybft_libs =
  pl_bls :: "('k, 's) bn256"
  pl_rlp :: "'v fastrlp"
  pl_ToBigInt :: "'k option \<Rightarrow> int list option"
  pl_encodeCheckpoint :: "u64 \<Rightarrow> u64 \<Rightarrow> Hash \<Rightarrow> CheckpointData \<Rightarrow> string + bytes"
  pl_encodeAccounts :: "(Address \<times> int list \<times> int) list \<Rightarrow> string + bytes"
  pl_keccak :: "bytes \<Rightarrow> bytes"

datatype ExtraError =
    RLPError string
  | KeyError string
  | IncorrectElements nat nat
  | WrongExtraSize nat
  | EncodeError string
  | BackendError string
  | BitmapError ValidatorError
  | QuorumNotReached
  | SignatureError string
  | AggregateNotVerified
  | CommittedNotPresent
  | CheckpointNotPresent
  | ParentNotPresent
  | InvalidEpoch
  | EmptyCurrentValidatorsHash
  | EmptyNextValidatorsHash
  | CurrentHashMismatch
  | NextHashMismatch
  | EpochChangedAtEnd
  | ExitRootMismatch

definition lift_rlp :: "string + 'a \<Rightarrow> ExtraError + 'a" where
  "lift_rlp r = (case r of Inl e \<Rightarrow> Inl (RLPError e) | Inr a \<Rightarrow> Inr a)"

definition ebind :: "'e + 'a \<Rightarrow> ('a \<Rightarrow> 'e + 'b) \<Rightarrow> 'e + 'b" where
  "ebind r f = (case r of Inl e \<Rightarrow> Inl e | Inr a \<Rightarrow> f a)"

lemma ebind_simps [simp]: "ebind (Inl e) f = Inl e" "ebind (Inr a) f = f a"
  by (simp_all add: ebind_def)

lemma ebind_Inr_iff: "ebind r f = Inr y \<longleftrightarrow> (\<exists>x. r = Inr x \<and> f x = Inr y)"
  by (cases r) auto

lemma lift_rlp_Inr [simp]: "lift_rlp (Inr a) = Inr a"
  by (simp add: lift_rlp_def)

section \<open>Validators and deltas in RLP\<close>

definition VM_MarshalRLPWith :: "('k, 's, 'v) polybft_libs \<Rightarrow> 'k ValidatorMetadata \<Rightarrow> 'v option" where
  "VM_MarshalRLPWith L v = do {
     let R = pl_rlp L;
     key \<leftarrow> bn256_Marshal (pl_bls L) (vm_BlsKey v);
     Some (rlp_NewArray R [rlp_NewBytes R (vm_Address v), rlp_NewBytes R key,
       rlp_NewBigInt R (vm_VotingPower v), rlp_NewBool R (vm_IsActive v)]) }"

definition VM_UnmarshalRLPWith :: "('k, 's, 'v) polybft_libs \<Rightarrow> 'v \<Rightarrow> ExtraError + 'k ValidatorMetadata" where
  "VM_UnmarshalRLPWith L val =
     (let R = pl_rlp L in
      ebind (lift_rlp (rlp_GetElems R val)) (\<lambda>elems.
      if length elems \<noteq> 4 then Inl (IncorrectElements 4 (length elems)) else
      ebind (lift_rlp (rlp_GetBytes R (elems ! 0))) (\<lambda>addressRaw.
      ebind (lift_rlp (rlp_GetBytes R (elems ! 1))) (\<lambda>blsKeyRaw.
      case bn256_UnmarshalPublicKey (pl_bls L) blsKeyRaw of (_, Some err) \<Rightarrow> Inl (KeyError err)
      | (blsKey, None) \<Rightarrow>
      ebind (lift_rlp (rlp_GetBigInt R (elems ! 2))) (\<lambda>votingPower.
      ebind (lift_rlp (rlp_GetBool R (elems ! 3))) (\<lambda>isActive.
      Inr \<lparr>vm_Address = BytesToAddress addressRaw, vm_BlsKey = blsKey,
        vm_VotingPower = votingPower, vm_IsActive = isActive\<rparr>))))))"

primrec marshal_validators :: "('k, 's, 'v) polybft_libs \<Rightarrow> 'k AccountSet \<Rightarrow> 'v list option" where
  "marshal_validators L [] = Some []"
| "marshal_validators L (v # vs) = do { r \<leftarrow> VM_MarshalRLPWith L v; rs \<leftarrow> marshal_validators L vs; Some (r # rs) }"

primrec unmarshalValidators :: "('k, 's, 'v) polybft_libs \<Rightarrow> 'v list \<Rightarrow> ExtraError + 'k AccountSet" where
  "unmarshalValidators L [] = Inr []"
| "unmarshalValidators L (r # rs) =
     ebind (VM_UnmarshalRLPWith L r) (\<lambda>v. ebind (unmarshalValidators L rs) (\<lambda>vs. Inr (v # vs)))"

definition Delta_MarshalRLPWith :: "('k, 's, 'v) polybft_libs \<Rightarrow> 'k ValidatorSetDelta \<Rightarrow> 'v option" where
  "Delta_MarshalRLPWith L d = do {
     let R = pl_rlp L;
     addedValidatorsRaw \<leftarrow> marshal_validators L (vd_Added d);
     updatedValidatorsRaw \<leftarrow> marshal_validators L (vd_Updated d);
     Some (rlp_NewArray R [rlp_NewArray R addedValidatorsRaw, rlp_NewArray R updatedValidatorsRaw,
       rlp_NewBytes R (vd_Removed d)]) }"

definition Delta_UnmarshalRLPWith :: "('k, 's, 'v) polybft_libs \<Rightarrow> 'v \<Rightarrow> ExtraError + 'k ValidatorSetDelta" where
  "Delta_UnmarshalRLPWith L v =
     (let R = pl_rlp L in
      ebind (lift_rlp (rlp_GetElems R v)) (\<lambda>elems.
      if length elems = 0 then Inr \<lparr>vd_Added = [], vd_Updated = [], vd_Removed = []\<rparr>
      else if length elems \<noteq> 3 then Inl (IncorrectElements 3 (length elems)) else
      ebind (lift_rlp (rlp_GetElems R (elems ! 0))) (\<lambda>validatorsRaw.
      ebind (unmarshalValidators L validatorsRaw) (\<lambda>added.
      ebind (lift_rlp (rlp_GetElems R (elems ! 1))) (\<lambda>validatorsRaw.
      ebind (unmarshalValidators L validatorsRaw) (\<lambda>updated.
      ebind (lift_rlp (rlp_GetBytes R (elems ! 2))) (\<lambda>dst.
      Inr \<lparr>vd_Added = added, vd_Updated = updated, vd_Removed = dst\<rparr>)))))))"

section \<open>Signatures\<close>

record Signature =
  sig_AggregatedSignature :: bytes
  sig_Bitmap :: Bitmap

definition Signature_MarshalRLPWith :: "'v fastrlp \<Rightarrow> Signature \<Rightarrow> 'v" where
  "Signature_MarshalRLPWith R s = rlp_NewArray R
     [if sig_AggregatedSignature s = [] then rlp_NewNull R else rlp_NewBytes R (sig_AggregatedSignature s),
      if sig_Bitmap s = [] then rlp_NewNull R else rlp_NewBytes R (sig_Bitmap s)]"

definition Signature_UnmarshalRLPWith :: "'v fastrlp \<Rightarrow> 'v \<Rightarrow> ExtraError + Signature" where
  "Signature_UnmarshalRLPWith R v =
     ebind (lift_rlp (rlp_GetElems R v)) (\<lambda>vals.
     if length vals \<noteq> 2 then Inl (IncorrectElements 2 (length vals)) else
     ebind (lift_rlp (rlp_GetBytes R (vals ! 0))) (\<lambda>agg.
     ebind (lift_rlp (rlp_GetBytes R (vals ! 1))) (\<lambda>bitmap.
     Inr \<lparr>sig_AggregatedSignature = agg, sig_Bitmap = bitmap\<rparr>)))"

definition Signature_Verify :: "('k, 's) bn256 \<Rightarrow> Signature \<Rightarrow> 'k AccountSet \<Rightarrow> Hash \<Rightarrow> bytes \<Rightarrow> ExtraError option" where
  "Signature_Verify B s validators hash domain =
     (case GetFilteredValidators validators (sig_Bitmap s) of
        Inl err \<Rightarrow> Some (BitmapError err)
      | Inr signers \<Rightarrow>
          if \<not> HasQuorum (NewValidatorSet validators) (GetAddressesAsSet signers) then Some QuorumNotReached
          else let blsPublicKeys = map vm_BlsKey signers in
            (case bn256_UnmarshalSignature B (sig_AggregatedSignature s) of
              (_, Some err) \<Rightarrow> Some (SignatureError err)
            | (aggs, None) \<Rightarrow>
                if \<not> bn256_VerifyAggregated B aggs blsPublicKeys hash domain then Some AggregateNotVerified
                else None))"

section \<open>Checkpoint data\<close>

definition Checkpoint_MarshalRLPWith :: "'v fastrlp \<Rightarrow> CheckpointData \<Rightarrow> 'v" where
  "Checkpoint_MarshalRLPWith R c = rlp_NewArray R
     [rlp_NewUint R (cp_BlockRound c), rlp_NewUint R (cp_EpochNumber c),
      rlp_NewBytes R (cp_CurrentValidatorsHash c), rlp_NewBytes R (cp_NextValidatorsHash c),
      rlp_NewBytes R (cp_EventRoot c)]"

definition Checkpoint_UnmarshalRLPWith :: "'v fastrlp \<Rightarrow> 'v \<Rightarrow> ExtraError + CheckpointData" where
  "Checkpoint_UnmarshalRLPWith R v =
     ebind (lift_rlp (rlp_GetElems R v)) (\<lambda>vals.
     if length vals \<noteq> 5 then Inl (IncorrectElements 5 (length vals)) else
     ebind (lift_rlp (rlp_GetUint64 R (vals ! 0))) (\<lambda>blockRound.
     ebind (lift_rlp (rlp_GetUint64 R (vals ! 1))) (\<lambda>epochNumber.
     ebind (lift_rlp (rlp_GetBytes R (vals ! 2))) (\<lambda>currentValidatorsHashRaw.
     ebind (lift_rlp (rlp_GetBytes R (vals ! 3))) (\<lambda>nextValidatorsHashRaw.
     ebind (lift_rlp (rlp_GetBytes R (vals ! 4))) (\<lambda>eventRootRaw.
     Inr \<lparr>cp_BlockRound = blockRound, cp_EpochNumber = epochNumber,
       cp_CurrentValidatorsHash = BytesToHash currentValidatorsHashRaw,
       cp_NextValidatorsHash = BytesToHash nextValidatorsHashRaw, cp_EventRoot = BytesToHash eventRootRaw\<rparr>))))))"

definition Checkpoint_Hash ::
  "('k, 's, 'v) polybft_libs \<Rightarrow> CheckpointData option \<Rightarrow> u64 \<Rightarrow> u64 \<Rightarrow> Hash \<Rightarrow> (ExtraError + Hash) option" where
  "Checkpoint_Hash L c chainID blockNumber blockHash = (case c of None \<Rightarrow> None
     | Some c \<Rightarrow> Some (case pl_encodeCheckpoint L chainID blockNumber blockHash c of
           Inl err \<Rightarrow> Inl (EncodeError err)
         | Inr abiEncoded \<Rightarrow> Inr (BytesToHash (pl_keccak L abiEncoded))))"

primrec ToAPIBinding :: "('k, 's, 'v) polybft_libs \<Rightarrow> 'k AccountSet \<Rightarrow> (Address \<times> int list \<times> int) list option" where
  "ToAPIBinding L [] = Some []"
| "ToAPIBinding L (v # as) = do {
     key \<leftarrow> pl_ToBigInt L (vm_BlsKey v);
     r \<leftarrow> ToAPIBinding L as;
     Some ((vm_Address v, key, vm_VotingPower v) # r) }"

definition AccountSet_Hash :: "('k, 's, 'v) polybft_libs \<Rightarrow> 'k AccountSet \<Rightarrow> (ExtraError + Hash) option" where
  "AccountSet_Hash L as = do {
     binding \<leftarrow> ToAPIBinding L as;
     Some (case pl_encodeAccounts L binding of
         Inl err \<Rightarrow> Inl (EncodeError err)
       | Inr abiEncoded \<Rightarrow> Inr (BytesToHash (pl_keccak L abiEncoded))) }"

definition ValidateBasic :: "CheckpointData \<Rightarrow> CheckpointData option \<Rightarrow> ExtraError option option" where
  "ValidateBasic c parentCheckpoint = (case parentCheckpoint of None \<Rightarrow> None
     | Some parent \<Rightarrow> Some (
         if cp_EpochNumber c \<noteq> cp_EpochNumber parent \<and> cp_EpochNumber c \<noteq> cp_EpochNumber parent + 1
         then Some InvalidEpoch
         else if cp_CurrentValidatorsHash c = ZeroHash then Some EmptyCurrentValidatorsHash
         else if cp_NextValidatorsHash c = ZeroHash then Some EmptyNextValidatorsHash
         else None))"

definition Checkpoint_Validate :: "('k, 's, 'v) polybft_libs \<Rightarrow> CheckpointData \<Rightarrow> CheckpointData option \<Rightarrow>
    'k AccountSet \<Rightarrow> 'k AccountSet \<Rightarrow> Hash \<Rightarrow> ExtraError option option" where
  "Checkpoint_Validate L c parentCheckpoint currentValidators nextValidators exitRootHash = do {
     basic \<leftarrow> ValidateBasic c parentCheckpoint;
     case basic of Some err \<Rightarrow> Some (Some err)
     | None \<Rightarrow> do {
         currentHash \<leftarrow> AccountSet_Hash L currentValidators;
         case currentHash of Inl err \<Rightarrow> Some (Some err)
         | Inr currentValidatorsHash \<Rightarrow>
           if currentValidatorsHash \<noteq> cp_CurrentValidatorsHash c then Some (Some CurrentHashMismatch)
           else do {
             nextHash \<leftarrow> AccountSet_Hash L nextValidators;
             case nextHash of Inl err \<Rightarrow> Some (Some err)
             | Inr nextValidatorsHash \<Rightarrow>
               if nextValidatorsHash \<noteq> cp_NextValidatorsHash c then Some (Some NextHashMismatch)
               else if \<not> AccountSet_Equals currentValidators nextValidators \<and>
                 cp_EpochNumber c \<noteq> cp_EpochNumber (the parentCheckpoint) then Some (Some EpochChangedAtEnd)
               else if exitRootHash \<noteq> cp_EventRoot c then Some (Some ExitRootMismatch)
               else Some None } } }"

section \<open>The extra field\<close>

record 'k Extra =
  ex_Validators :: "'k ValidatorSetDelta option"
  ex_Parent :: "Signature option"
  ex_Committed :: "Signature option"
  ex_Checkpoint :: "CheckpointData option"

definition ExtraVanity :: nat where "ExtraVanity = 32"

definition marshal_delta :: "('k, 's, 'v) polybft_libs \<Rightarrow> 'k ValidatorSetDelta option \<Rightarrow> 'v option" where
  "marshal_delta L d = (case d of None \<Rightarrow> Some (rlp_NewNullArray (pl_rlp L)) | Some d \<Rightarrow> Delta_MarshalRLPWith L d)"

definition Extra_MarshalRLPWith :: "('k, 's, 'v) polybft_libs \<Rightarrow> 'k Extra \<Rightarrow> 'v option" where
  "Extra_MarshalRLPWith L i = do {
     let R = pl_rlp L;
     validators \<leftarrow> marshal_delta L (ex_Validators i);
     Some (rlp_NewArray R [validators,
       case ex_Parent i of None \<Rightarrow> rlp_NewNullArray R | Some s \<Rightarrow> Signature_MarshalRLPWith R s,
       case ex_Committed i of None \<Rightarrow> rlp_NewNullArray R | Some s \<Rightarrow> Signature_MarshalRLPWith R s,
       case ex_Checkpoint i of None \<Rightarrow> rlp_NewNullArray R | Some c \<Rightarrow> Checkpoint_MarshalRLPWith R c]) }"

definition Extra_MarshalRLPTo :: "('k, 's, 'v) polybft_libs \<Rightarrow> 'k Extra \<Rightarrow> bytes \<Rightarrow> bytes option" where
  "Extra_MarshalRLPTo L i dst = do {
     v \<leftarrow> Extra_MarshalRLPWith L i;
     Some (replicate ExtraVanity 0 @ rlp_MarshalTo (pl_rlp L) v dst) }"

definition optional_field :: "'v fastrlp \<Rightarrow> ('v \<Rightarrow> ExtraError + 'a) \<Rightarrow> 'v \<Rightarrow> ExtraError + 'a option" where
  "optional_field R unmarshal elem =
     (if rlp_Elems R elem > 0 then ebind (unmarshal elem) (\<lambda>a. Inr (Some a)) else Inr None)"

definition Extra_UnmarshalRLPWith :: "('k, 's, 'v) polybft_libs \<Rightarrow> 'v \<Rightarrow> ExtraError + 'k Extra" where
  "Extra_UnmarshalRLPWith L v =
     (let R = pl_rlp L in
      ebind (lift_rlp (rlp_GetElems R v)) (\<lambda>elems.
      if length elems \<noteq> 4 then Inl (IncorrectElements 4 (length elems)) else
      ebind (optional_field R (Delta_UnmarshalRLPWith L) (elems ! 0)) (\<lambda>validators.
      ebind (optional_field R (Signature_UnmarshalRLPWith R) (elems ! 1)) (\<lambda>parent.
      ebind (optional_field R (Signature_UnmarshalRLPWith R) (elems ! 2)) (\<lambda>committed.
      ebind (optional_field R (Checkpoint_UnmarshalRLPWith R) (elems ! 3)) (\<lambda>checkpoint.
      Inr \<lparr>ex_Validators = validators, ex_Parent = parent, ex_Committed = committed,
        ex_Checkpoint = checkpoint\<rparr>))))))"

definition Extra_UnmarshalRLP :: "('k, 's, 'v) polybft_libs \<Rightarrow> bytes \<Rightarrow> ExtraError + 'k Extra" where
  "Extra_UnmarshalRLP L input =
     ebind (lift_rlp (rlp_Parse (pl_rlp L) (drop ExtraVanity input))) (Extra_UnmarshalRLPWith L)"

definition GetIbftExtra :: "('k, 's, 'v) polybft_libs \<Rightarrow> bytes \<Rightarrow> ExtraError + 'k Extra" where
  "GetIbftExtra L extraRaw =
     (if length extraRaw < ExtraVanity then Inl (WrongExtraSize (length extraRaw))
      else Extra_UnmarshalRLP L extraRaw)"

definition GetIbftExtraClean :: "('k, 's, 'v) polybft_libs \<Rightarrow> bytes \<Rightarrow> (ExtraError + bytes) option" where
  "GetIbftExtraClean L extraRaw = (case GetIbftExtra L extraRaw of
      Inl err \<Rightarrow> Some (Inl err)
    | Inr extra \<Rightarrow> do {
        raw \<leftarrow> Extra_MarshalRLPTo L (extra\<lparr>ex_Committed := Some \<lparr>sig_AggregatedSignature = [], sig_Bitmap = []\<rparr>\<rparr>) [];
        Some (Inr raw) })"

section \<open>Reading blocks\<close>

text \<open>\<^verbatim>\<open>src/consensus/polybft/runtime_helpers.go\<close>; the blockchain is the function that returns the header of
  a block number.\<close>

datatype BlockDataError = ErrNoBlock | BadExtra ExtraError

definition getBlockData :: "('k, 's, 'v) polybft_libs \<Rightarrow> (u64 \<Rightarrow> Header option) \<Rightarrow> u64 \<Rightarrow>
    BlockDataError + Header \<times> 'k Extra" where
  "getBlockData L GetHeaderByNumber blockNumber = (case GetHeaderByNumber blockNumber of
      None \<Rightarrow> Inl ErrNoBlock
    | Some blockHeader \<Rightarrow>
        (case GetIbftExtra L (hdr_ExtraData blockHeader) of
           Inl err \<Rightarrow> Inl (BadExtra err)
         | Inr blockExtra \<Rightarrow> Inr (blockHeader, blockExtra)))"

definition isEpochEndingBlock :: "('k, 's, 'v) polybft_libs \<Rightarrow> (u64 \<Rightarrow> Header option) \<Rightarrow> u64 \<Rightarrow> 'k Extra \<Rightarrow>
    (BlockDataError + bool) option" where
  "isEpochEndingBlock L GetHeaderByNumber blockNumber extra = (case ex_Validators extra of
      None \<Rightarrow> Some (Inr False)
    | Some validators \<Rightarrow>
        if \<not> Delta_IsEmpty validators then Some (Inr True)
        else (case getBlockData L GetHeaderByNumber (blockNumber + 1) of
            Inl err \<Rightarrow> Some (Inl err)
          | Inr (_, nextBlockExtra) \<Rightarrow>
              (case (ex_Checkpoint extra, ex_Checkpoint nextBlockExtra) of
                 (Some c, Some n) \<Rightarrow> Some (Inr (cp_EpochNumber c \<noteq> cp_EpochNumber n))
               | _ \<Rightarrow> None)))"

section \<open>Validation of finalized headers\<close>

definition ValidateParentSignatures :: "('k, 's, 'v) polybft_libs \<Rightarrow> (u64 \<Rightarrow> string + 'k AccountSet) \<Rightarrow> u64 \<Rightarrow> bytes \<Rightarrow>
    'k Extra \<Rightarrow> u64 \<Rightarrow> Header \<Rightarrow> 'k Extra \<Rightarrow> ExtraError option option" where
  "ValidateParentSignatures L GetValidators chainID domain i blockNumber parent parentExtra =
     (if blockNumber \<le> 1 then Some None
      else (case ex_Parent i of None \<Rightarrow> Some (Some ParentNotPresent)
      | Some sig \<Rightarrow>
        (case GetValidators (blockNumber - 2) of Inl err \<Rightarrow> Some (Some (BackendError err))
        | Inr parentValidators \<Rightarrow> do {
            hash \<leftarrow> Checkpoint_Hash L (ex_Checkpoint parentExtra) chainID (hdr_Number parent) (hdr_Hash parent);
            case hash of Inl err \<Rightarrow> Some (Some err)
            | Inr parentCheckpointHash \<Rightarrow>
                Some (Signature_Verify (pl_bls L) sig parentValidators parentCheckpointHash domain) })))"

definition ValidateFinalizedData :: "('k, 's, 'v) polybft_libs \<Rightarrow> (u64 \<Rightarrow> string + 'k AccountSet) \<Rightarrow> u64 \<Rightarrow> bytes \<Rightarrow>
    'k Extra \<Rightarrow> Header \<Rightarrow> Header \<Rightarrow> ExtraError option option" where
  "ValidateFinalizedData L GetValidators chainID domain i header parent =
     (let blockNumber = hdr_Number header in
      (case ex_Committed i of None \<Rightarrow> Some (Some CommittedNotPresent)
      | Some committed \<Rightarrow>
      (case ex_Checkpoint i of None \<Rightarrow> Some (Some CheckpointNotPresent)
      | Some checkpoint \<Rightarrow> do {
        hash \<leftarrow> Checkpoint_Hash L (Some checkpoint) chainID blockNumber (hdr_Hash header);
        (case hash of Inl err \<Rightarrow> Some (Some err)
        | Inr checkpointHash \<Rightarrow>
        (case GetValidators (blockNumber - 1) of Inl err \<Rightarrow> Some (Some (BackendError err))
        | Inr validators \<Rightarrow>
        (case Signature_Verify (pl_bls L) committed validators checkpointHash domain of Some err \<Rightarrow> Some (Some err)
        | None \<Rightarrow>
        (case GetIbftExtra L (hdr_ExtraData parent) of Inl err \<Rightarrow> Some (Some err)
        | Inr parentExtra \<Rightarrow> do {
          r \<leftarrow> ValidateParentSignatures L GetValidators chainID domain i blockNumber parent parentExtra;
          (case r of Some err \<Rightarrow> Some (Some err)
          | None \<Rightarrow> ValidateBasic checkpoint (ex_Checkpoint parentExtra)) })))) })))"

section \<open>The RLP form round-trips\<close>

lemma fastrlp_docD:
  assumes "fastrlp_doc R"
  shows "rlp_GetElems R (rlp_NewArray R vs) = Inr vs" "rlp_Elems R (rlp_NewArray R vs) = length vs"
    "rlp_GetElems R (rlp_NewNullArray R) = Inr []" "rlp_Elems R (rlp_NewNullArray R) = 0"
    "rlp_GetBytes R (rlp_NewNull R) = Inr []" "rlp_GetBytes R (rlp_NewBytes R b) = Inr b"
    "rlp_GetUint64 R (rlp_NewUint R n) = Inr n" "0 \<le> i \<Longrightarrow> rlp_GetBigInt R (rlp_NewBigInt R i) = Inr i"
    "rlp_GetBool R (rlp_NewBool R c) = Inr c" "rlp_Parse R (rlp_MarshalTo R v []) = Inr v"
  using assms unfolding fastrlp_doc_def by blast+

definition rlp_validator :: "'k ValidatorMetadata \<Rightarrow> bool" where
  "rlp_validator v \<longleftrightarrow> length (vm_Address v) = 20 \<and> 0 \<le> vm_VotingPower v \<and> vm_BlsKey v \<noteq> None"

definition rlp_delta :: "'k ValidatorSetDelta \<Rightarrow> bool" where
  "rlp_delta d \<longleftrightarrow> list_all rlp_validator (vd_Added d) \<and> list_all rlp_validator (vd_Updated d)"

definition rlp_checkpoint :: "CheckpointData \<Rightarrow> bool" where
  "rlp_checkpoint c \<longleftrightarrow> length (cp_CurrentValidatorsHash c) = 32 \<and> length (cp_NextValidatorsHash c) = 32 \<and>
     length (cp_EventRoot c) = 32"

definition rlp_extra :: "'k Extra \<Rightarrow> bool" where
  "rlp_extra i \<longleftrightarrow> pred_option rlp_delta (ex_Validators i) \<and> pred_option rlp_checkpoint (ex_Checkpoint i)"

definition libs_doc :: "('k, 's, 'v) polybft_libs \<Rightarrow> bool" where
  "libs_doc L \<longleftrightarrow> fastrlp_doc (pl_rlp L) \<and> bn256_doc (pl_bls L)"

lemma VM_roundtrip:
  assumes "libs_doc L" "rlp_validator v"
  shows "\<exists>r. VM_MarshalRLPWith L v = Some r \<and> VM_UnmarshalRLPWith L r = Inr v"
proof -
  have R: "fastrlp_doc (pl_rlp L)" and B: "bn256_doc (pl_bls L)" using assms(1) by (auto simp: libs_doc_def)
  have v: "length (vm_Address v) = 20" "0 \<le> vm_VotingPower v" and "vm_BlsKey v \<noteq> None"
    using assms(2) by (auto simp: rlp_validator_def)
  then obtain k where k: "vm_BlsKey v = Some k" by auto
  from bn256_docD [OF B, of k] obtain bs where "bn256_Marshal (pl_bls L) (vm_BlsKey v) = Some bs"
    "bn256_UnmarshalPublicKey (pl_bls L) bs = (vm_BlsKey v, None)" unfolding k by blast
  then show ?thesis
    by (simp add: VM_MarshalRLPWith_def VM_UnmarshalRLPWith_def Let_def fastrlp_docD [OF R] v BytesToAddress_id)
qed

lemma validators_roundtrip:
  "libs_doc L \<Longrightarrow> list_all rlp_validator vs \<Longrightarrow>
     \<exists>rs. marshal_validators L vs = Some rs \<and> unmarshalValidators L rs = Inr vs"
proof (induction vs)
  case (Cons v vs)
  with VM_roundtrip [of L v] show ?case by fastforce
qed simp

lemma Delta_roundtrip:
  assumes "libs_doc L" "rlp_delta d"
  shows "\<exists>r. Delta_MarshalRLPWith L d = Some r \<and> Delta_UnmarshalRLPWith L r = Inr d \<and> rlp_Elems (pl_rlp L) r = 3"
proof -
  have R: "fastrlp_doc (pl_rlp L)" using assms(1) by (auto simp: libs_doc_def)
  obtain ra ru where "marshal_validators L (vd_Added d) = Some ra" "unmarshalValidators L ra = Inr (vd_Added d)"
    "marshal_validators L (vd_Updated d) = Some ru" "unmarshalValidators L ru = Inr (vd_Updated d)"
    using assms validators_roundtrip by (metis rlp_delta_def)
  then show ?thesis
    by (simp add: Delta_MarshalRLPWith_def Delta_UnmarshalRLPWith_def Let_def fastrlp_docD [OF R])
qed

lemma Signature_roundtrip:
  assumes "fastrlp_doc R"
  shows "Signature_UnmarshalRLPWith R (Signature_MarshalRLPWith R s) = Inr s"
    and "rlp_Elems R (Signature_MarshalRLPWith R s) = 2"
  by (simp_all add: Signature_MarshalRLPWith_def Signature_UnmarshalRLPWith_def fastrlp_docD [OF assms])

lemma Checkpoint_roundtrip:
  assumes "fastrlp_doc R" "rlp_checkpoint c"
  shows "Checkpoint_UnmarshalRLPWith R (Checkpoint_MarshalRLPWith R c) = Inr c"
    and "rlp_Elems R (Checkpoint_MarshalRLPWith R c) = 5"
  using assms(2) by (simp_all add: Checkpoint_MarshalRLPWith_def Checkpoint_UnmarshalRLPWith_def
      fastrlp_docD [OF assms(1)] rlp_checkpoint_def BytesToHash_id)

lemma optional_Signature:
  assumes "fastrlp_doc R"
  shows "optional_field R (Signature_UnmarshalRLPWith R)
    (case s of None \<Rightarrow> rlp_NewNullArray R | Some s \<Rightarrow> Signature_MarshalRLPWith R s) = Inr s"
  by (cases s) (simp_all add: optional_field_def fastrlp_docD [OF assms] Signature_roundtrip [OF assms])

lemma optional_Checkpoint:
  assumes "fastrlp_doc R" "pred_option rlp_checkpoint c"
  shows "optional_field R (Checkpoint_UnmarshalRLPWith R)
    (case c of None \<Rightarrow> rlp_NewNullArray R | Some c \<Rightarrow> Checkpoint_MarshalRLPWith R c) = Inr c"
  using assms(2)
  by (cases c) (simp_all add: optional_field_def fastrlp_docD [OF assms(1)] Checkpoint_roundtrip [OF assms(1)])

lemma optional_Delta:
  assumes "libs_doc L" "pred_option rlp_delta d"
  shows "\<exists>r. marshal_delta L d = Some r \<and> optional_field (pl_rlp L) (Delta_UnmarshalRLPWith L) r = Inr d"
proof (cases d)
  case None
  then show ?thesis using assms(1) by (simp add: marshal_delta_def optional_field_def libs_doc_def fastrlp_docD)
next
  case (Some e)
  then show ?thesis using Delta_roundtrip [OF assms(1), of e] assms(2)
    by (auto simp: marshal_delta_def optional_field_def)
qed

lemma Extra_roundtrip:
  assumes "libs_doc L" "rlp_extra i"
  shows "\<exists>raw. Extra_MarshalRLPTo L i [] = Some raw \<and> GetIbftExtra L raw = Inr i"
proof -
  have R: "fastrlp_doc (pl_rlp L)" using assms(1) by (auto simp: libs_doc_def)
  have c: "pred_option rlp_checkpoint (ex_Checkpoint i)" using assms(2) by (simp add: rlp_extra_def)
  obtain r where "marshal_delta L (ex_Validators i) = Some r"
    "optional_field (pl_rlp L) (Delta_UnmarshalRLPWith L) r = Inr (ex_Validators i)"
    using optional_Delta [OF assms(1)] assms(2) by (auto simp: rlp_extra_def)
  then show ?thesis
    by (simp add: Extra_MarshalRLPTo_def Extra_MarshalRLPWith_def GetIbftExtra_def Extra_UnmarshalRLP_def
        Extra_UnmarshalRLPWith_def Let_def fastrlp_docD [OF R] optional_Signature [OF R]
        optional_Checkpoint [OF R c])
qed

section \<open>Accepted signatures\<close>

definition signed_power :: "('k option \<Rightarrow> bool) \<Rightarrow> 'k AccountSet \<Rightarrow> int" where
  "signed_power hasSigned validators = GetTotalVotingPower (filter (\<lambda>v. hasSigned (vm_BlsKey v)) validators)"

lemma Verify_accepts:
  assumes "Signature_Verify B s vs h d = None"
  obtains signers aggs where "GetFilteredValidators vs (sig_Bitmap s) = Inr signers"
    "HasQuorum (NewValidatorSet vs) (vm_Address ` set signers)"
    "bn256_VerifyAggregated B aggs (map vm_BlsKey signers) h d"
  using assms by (auto simp: Signature_Verify_def Let_def GetAddressesAsSet_def
      split: sum.splits if_splits prod.splits option.splits)

lemma aggregate_filter:
  assumes "addresses_distinct vs"
  shows "aggregateVotingPower (NewValidatorSet vs) (vm_Address ` set (filter P vs)) = GetTotalVotingPower (filter P vs)"
proof -
  let ?p = "power_of (NewValidatorSet vs)"
  have d: "addresses_distinct (filter P vs)" using assms by (rule distinct_map_filter)
  have "sum ?p (set (map vm_Address (filter P vs))) = sum_list (map ?p (map vm_Address (filter P vs)))"
    by (rule sum_list_distinct_conv_sum_set [OF d, symmetric])
  also have "\<dots> = sum_list (map vm_VotingPower (filter P vs))"
    unfolding map_map comp_def
    by (intro arg_cong [where f = sum_list] map_cong power_of_member [OF assms] refl) auto
  finally show ?thesis by (simp add: aggregate_sum GetTotalVotingPower_sum_list)
qed

lemma Verify_signers:
  assumes "\<And>a ks h. bn256_VerifyAggregated B a ks h d \<Longrightarrow> \<forall>k \<in> set ks. hasSigned k h"
    and "Signature_Verify B s vs h d = None"
  obtains S where "set S \<subseteq> set vs" "HasQuorum (NewValidatorSet vs) (vm_Address ` set S)"
    "\<forall>v \<in> set S. hasSigned (vm_BlsKey v) h"
proof -
  from assms(2) obtain S a where S: "GetFilteredValidators vs (sig_Bitmap s) = Inr S"
    "HasQuorum (NewValidatorSet vs) (vm_Address ` set S)" "bn256_VerifyAggregated B a (map vm_BlsKey S) h d"
    by (rule Verify_accepts)
  then show thesis using that [OF set_GetFilteredValidators [OF S(1)] S(2)] assms(1) [OF S(3)] by simp
qed

lemma accepted_signatures_overlap:
  assumes ok: "validators_ok vs"
    and sound: "\<And>a ks h. bn256_VerifyAggregated B a ks h d \<Longrightarrow> \<forall>k \<in> set ks. hasSigned k h"
    and v: "Signature_Verify B s1 vs h1 d = None" "Signature_Verify B s2 vs h2 d = None"
  shows "GetTotalVotingPower vs < 3 * signed_power (\<lambda>k. hasSigned k h1 \<and> hasSigned k h2) vs"
proof -
  let ?both = "filter (\<lambda>v. hasSigned (vm_BlsKey v) h1 \<and> hasSigned (vm_BlsKey v) h2) vs"
  let ?V = "NewValidatorSet vs"
  obtain S1 where S1: "set S1 \<subseteq> set vs" "HasQuorum ?V (vm_Address ` set S1)"
    "\<forall>v \<in> set S1. hasSigned (vm_BlsKey v) h1" by (rule Verify_signers [OF sound v(1)])
  obtain S2 where S2: "set S2 \<subseteq> set vs" "HasQuorum ?V (vm_Address ` set S2)"
    "\<forall>v \<in> set S2. hasSigned (vm_BlsKey v) h2" by (rule Verify_signers [OF sound v(2)])
  have q: "quorum_set ?V" using ok by (rule quorum_set_New)
  have inj: "inj_on vm_Address (set vs)" and dist: "addresses_distinct vs"
    using ok by (auto simp: validators_ok_def distinct_map)
  have "vm_Address ` set S1 \<inter> vm_Address ` set S2 = vm_Address ` (set S1 \<inter> set S2)"
    using inj_on_image_Int [OF inj S1(1) S2(1)] by simp
  also have "\<dots> \<subseteq> vm_Address ` set ?both" using S1 S2 by auto
  finally have "aggregateVotingPower ?V (vm_Address ` set S1 \<inter> vm_Address ` set S2) \<le>
      aggregateVotingPower ?V (vm_Address ` set ?both)" by (intro bft.power_mono [OF q]) auto
  with bft.quorums_intersect [OF q _ _ S1(2) S2(2)] aggregate_filter [OF dist] show ?thesis
    by (simp add: signed_power_def NewValidatorSet_def)
qed

section \<open>Accepted headers\<close>

lemma ValidateBasic_accepts:
  "ValidateBasic c p = Some None \<longleftrightarrow> (\<exists>parent. p = Some parent \<and>
     (cp_EpochNumber c = cp_EpochNumber parent \<or> cp_EpochNumber c = cp_EpochNumber parent + 1) \<and>
     cp_CurrentValidatorsHash c \<noteq> ZeroHash \<and> cp_NextValidatorsHash c \<noteq> ZeroHash)"
  by (auto simp: ValidateBasic_def split: option.splits)

lemma ValidateFinalizedData_accepts:
  assumes "ValidateFinalizedData L GV chainID domain i hdr par = Some None"
  obtains committed c h vs pe where "ex_Committed i = Some committed" "ex_Checkpoint i = Some c"
    "Checkpoint_Hash L (Some c) chainID (hdr_Number hdr) (hdr_Hash hdr) = Some (Inr h)"
    "GV (hdr_Number hdr - 1) = Inr vs" "Signature_Verify (pl_bls L) committed vs h domain = None"
    "GetIbftExtra L (hdr_ExtraData par) = Inr pe"
    "ValidateParentSignatures L GV chainID domain i (hdr_Number hdr) par pe = Some None"
    "ValidateBasic c (ex_Checkpoint pe) = Some None"
proof -
  note A = assms [unfolded ValidateFinalizedData_def Let_def]
  obtain committed c where 1: "ex_Committed i = Some committed" "ex_Checkpoint i = Some c"
    using A by (cases "ex_Committed i"; cases "ex_Checkpoint i") simp_all
  obtain z where z: "Checkpoint_Hash L (Some c) chainID (hdr_Number hdr) (hdr_Hash hdr) = Some z"
    using A unfolding 1 by (cases "Checkpoint_Hash L (Some c) chainID (hdr_Number hdr) (hdr_Hash hdr)") simp_all
  then obtain h where 2: "Checkpoint_Hash L (Some c) chainID (hdr_Number hdr) (hdr_Hash hdr) = Some (Inr h)"
    using A unfolding 1 by (cases z) simp_all
  obtain vs where 3: "GV (hdr_Number hdr - 1) = Inr vs"
    using A unfolding 1 by (cases "GV (hdr_Number hdr - 1)") (simp_all add: 2)
  have 4: "Signature_Verify (pl_bls L) committed vs h domain = None"
    using A unfolding 1 by (cases "Signature_Verify (pl_bls L) committed vs h domain") (simp_all add: 2 3)
  obtain pe where 5: "GetIbftExtra L (hdr_ExtraData par) = Inr pe"
    using A unfolding 1 by (cases "GetIbftExtra L (hdr_ExtraData par)") (simp_all add: 2 3 4)
  obtain r where 6: "ValidateParentSignatures L GV chainID domain i (hdr_Number hdr) par pe = Some r"
    using A unfolding 1
    by (cases "ValidateParentSignatures L GV chainID domain i (hdr_Number hdr) par pe") (simp_all add: 2 3 4 5)
  have "r = None \<and> ValidateBasic c (ex_Checkpoint pe) = Some None"
    using A unfolding 1 by (cases r) (simp_all add: 2 3 4 5 6)
  then show thesis using that [OF 1 2 3 4 5] 6 by simp
qed

lemma ValidateParentSignatures_accepts:
  assumes "ValidateParentSignatures L GV chainID domain i n par pe = Some None" "1 < n"
  obtains sig vs h where "ex_Parent i = Some sig" "GV (n - 2) = Inr vs"
    "Checkpoint_Hash L (ex_Checkpoint pe) chainID (hdr_Number par) (hdr_Hash par) = Some (Inr h)"
    "Signature_Verify (pl_bls L) sig vs h domain = None"
proof -
  have A: "\<not> n \<le> 1" using assms(2) by simp
  note A = assms(1) [unfolded ValidateParentSignatures_def if_not_P [OF A]]
  obtain sig where 1: "ex_Parent i = Some sig" using A by (cases "ex_Parent i") simp_all
  obtain vs where 2: "GV (n - 2) = Inr vs" using A by (cases "GV (n - 2)") (simp_all add: 1)
  obtain z where z: "Checkpoint_Hash L (ex_Checkpoint pe) chainID (hdr_Number par) (hdr_Hash par) = Some z"
    using A by (cases "Checkpoint_Hash L (ex_Checkpoint pe) chainID (hdr_Number par) (hdr_Hash par)") (simp_all add: 1 2)
  then obtain h where "Checkpoint_Hash L (ex_Checkpoint pe) chainID (hdr_Number par) (hdr_Hash par) = Some (Inr h)"
    using A by (cases z) (simp_all add: 1 2)
  then show thesis using that [OF 1 2] A by (simp add: 1 2)
qed

end
