(* ===== verification/Proposer.thy ===== *)
theory Proposer
  imports Stake Extra
begin

text \<open>
  The proposer calculator of \<^verbatim>\<open>src/consensus/polybft/proposer_calculator.go\<close>: a weighted round robin
  over the validators. Every validator has a priority; an increment adds the voting powers to the
  priorities, takes the validator of highest priority as proposer and subtracts the total power from it.

  The code keeps priorities behind \<^verbatim>\<open>*big.Int\<close> pointers, changes some of them in place and copies
  snapshots without copying the numbers. The model therefore has an explicit heap of numbers: a
  priority is a location of the heap, \<^verbatim>\<open>new(big.Int)\<close> appends to it, and two snapshots share a priority
  when they hold the same location.
\<close>

section \<open>Snapshots\<close>

type_synonym prio_heap = "int list"

record 'k PrioritizedValidator =
  pv_Metadata :: "'k ValidatorMetadata"
  pv_ProposerPriority :: nat

record 'k ProposerSnapshot =
  ps_Height :: u64
  ps_Round :: u64
  ps_Proposer :: "'k PrioritizedValidator option"
  ps_Validators :: "'k PrioritizedValidator list"

datatype ProposerError =
    InvalidHeight u64 u64
  | EmptyValidatorSet
  | NonPositiveTimes
  | ProposerNotFound
  | WrongBlock u64 u64
  | BlockError BlockDataError
  | GetValidatorsError string

definition priorityWindowSizeFactor :: int where "priorityWindowSizeFactor = 2"

definition NewProposerSnapshot ::
  "prio_heap \<Rightarrow> u64 \<Rightarrow> 'k ValidatorMetadata list \<Rightarrow> prio_heap \<times> 'k ProposerSnapshot" where
  "NewProposerSnapshot h height validators =
     (h @ replicate (length validators) 0,
      \<lparr>ps_Height = height, ps_Round = 0, ps_Proposer = None,
       ps_Validators = map (\<lambda>i. \<lparr>pv_Metadata = validators ! i, pv_ProposerPriority = length h + i\<rparr>)
         [0..<length validators]\<rparr>)"

definition snapshot_TotalVotingPower :: "'k ProposerSnapshot \<Rightarrow> int" where
  "snapshot_TotalVotingPower pcs = foldl (\<lambda>total v. total + vm_VotingPower (pv_Metadata v)) 0 (ps_Validators pcs)"

primrec copy_prioritized :: "('k, 's) bn256 \<Rightarrow> 'k PrioritizedValidator list \<Rightarrow> 'k PrioritizedValidator list option" where
  "copy_prioritized B [] = Some []"
| "copy_prioritized B (val # vals) = do {
     meta \<leftarrow> VM_Copy B (pv_Metadata val);
     rest \<leftarrow> copy_prioritized B vals;
     Some (\<lparr>pv_Metadata = meta, pv_ProposerPriority = pv_ProposerPriority val\<rparr> # rest) }"

definition copied_proposer :: "'k PrioritizedValidator option \<Rightarrow> 'k PrioritizedValidator list \<Rightarrow>
    'k PrioritizedValidator list \<Rightarrow> 'k PrioritizedValidator option" where
  "copied_proposer proposer vals valCopy = (case proposer of None \<Rightarrow> None
     | Some p \<Rightarrow> foldl (\<lambda>acc (val, c). if vm_Address (pv_Metadata p) = vm_Address (pv_Metadata val) then Some c else acc)
         None (zip vals valCopy))"

definition ProposerSnapshot_Copy :: "('k, 's) bn256 \<Rightarrow> 'k ProposerSnapshot \<Rightarrow> 'k ProposerSnapshot option" where
  "ProposerSnapshot_Copy B pcs = do {
     valCopy \<leftarrow> copy_prioritized B (ps_Validators pcs);
     Some \<lparr>ps_Height = ps_Height pcs, ps_Round = ps_Round pcs,
       ps_Proposer = copied_proposer (ps_Proposer pcs) (ps_Validators pcs) valCopy, ps_Validators = valCopy\<rparr> }"

definition toMap :: "'k PrioritizedValidator list \<Rightarrow> Address \<rightharpoonup> 'k PrioritizedValidator" where
  "toMap vals = foldl (\<lambda>m v. m(vm_Address (pv_Metadata v) \<mapsto> v)) Map.empty vals"

definition GetLatestProposer :: "'k ProposerSnapshot \<Rightarrow> u64 \<Rightarrow> u64 \<Rightarrow> ProposerError + Address" where
  "GetLatestProposer pcs round' height = (case ps_Proposer pcs of
      None \<Rightarrow> Inl ProposerNotFound
    | Some p \<Rightarrow> if ps_Round pcs \<noteq> round' \<or> ps_Height pcs \<noteq> height then Inl ProposerNotFound
                else Inr (vm_Address (pv_Metadata p)))"

section \<open>Priorities\<close>

abbreviation prio :: "prio_heap \<Rightarrow> 'k PrioritizedValidator \<Rightarrow> int" where
  "prio h v \<equiv> h ! pv_ProposerPriority v"

definition computeMaxMinPriorityDiff :: "prio_heap \<Rightarrow> 'k PrioritizedValidator list \<Rightarrow> int option" where
  "computeMaxMinPriorityDiff h validators = (case validators of [] \<Rightarrow> None
     | v # vs \<Rightarrow>
         let (minPriority, maxPriority) =
               foldl (\<lambda>(mn, mx) v. (if prio h v < mn then prio h v else mn, if prio h v > mx then prio h v else mx))
                 (prio h v, prio h v) vs;
             diff = maxPriority - minPriority
         in Some (if diff < 0 then - diff else diff))"

definition big_Quo :: "int \<Rightarrow> int \<Rightarrow> int option" where
  "big_Quo a b = (if b = 0 then None else Some (sgn a * sgn b * (\<bar>a\<bar> div \<bar>b\<bar>)))"

primrec quo_loop :: "int \<Rightarrow> prio_heap \<Rightarrow> 'k PrioritizedValidator list \<Rightarrow> prio_heap option" where
  "quo_loop ratio h [] = Some h"
| "quo_loop ratio h (v # vs) = do {
     q \<leftarrow> big_Quo (prio h v) ratio;
     quo_loop ratio (h[pv_ProposerPriority v := q]) vs }"

definition rescalePriorities ::
  "prio_heap \<Rightarrow> 'k PrioritizedValidator list \<Rightarrow> int \<Rightarrow> (ProposerError + prio_heap) option" where
  "rescalePriorities h validators totalVotingPower =
     (if validators = [] then Some (Inl EmptyValidatorSet)
      else do {
        let diffMax = priorityWindowSizeFactor * totalVotingPower;
        diff \<leftarrow> computeMaxMinPriorityDiff h validators;
        ratio \<leftarrow> BigIntDivCeil diff diffMax;
        if diff > diffMax then do { h \<leftarrow> quo_loop ratio h validators; Some (Inr h) }
        else Some (Inr h) })"

definition computeAvgProposerPriority ::
  "prio_heap \<Rightarrow> 'k PrioritizedValidator list \<Rightarrow> (ProposerError + int) option" where
  "computeAvgProposerPriority h validators =
     (if validators = [] then Some (Inl EmptyValidatorSet)
      else do {
        let validatorsCount = int (length validators);
        avg \<leftarrow> big_Div (foldl (\<lambda>sum v. sum + prio h v) 0 validators) validatorsCount;
        Some (Inr avg) })"

definition shiftByAvgProposerPriority ::
  "prio_heap \<Rightarrow> 'k PrioritizedValidator list \<Rightarrow> (ProposerError + prio_heap) option" where
  "shiftByAvgProposerPriority h validators = do {
     r \<leftarrow> computeAvgProposerPriority h validators;
     Some (case r of Inl err \<Rightarrow> Inl err
       | Inr avg \<Rightarrow> Inr (foldl (\<lambda>h v. h[pv_ProposerPriority v := prio h v - avg]) h validators)) }"

definition updateWithChangeSet ::
  "prio_heap \<Rightarrow> 'k PrioritizedValidator list \<Rightarrow> int \<Rightarrow> (ProposerError + prio_heap) option" where
  "updateWithChangeSet h validators totalVotingPower = do {
     r \<leftarrow> rescalePriorities h validators totalVotingPower;
     case r of Inl err \<Rightarrow> Some (Inl err) | Inr h \<Rightarrow> shiftByAvgProposerPriority h validators }"

definition isBetterProposer ::
  "prio_heap \<Rightarrow> 'k PrioritizedValidator \<Rightarrow> 'k PrioritizedValidator option \<Rightarrow> bool" where
  "isBetterProposer h a b = (case b of None \<Rightarrow> True
     | Some b \<Rightarrow>
         if prio h a > prio h b then True
         else if pv_ProposerPriority a = pv_ProposerPriority b
         then bytes_Compare (vm_Address (pv_Metadata a)) (vm_Address (pv_Metadata b)) \<le> 0
         else False)"

definition getValWithMostPriority ::
  "prio_heap \<Rightarrow> 'k PrioritizedValidator list \<Rightarrow> ProposerError + 'k PrioritizedValidator option" where
  "getValWithMostPriority h validators =
     (if validators = [] then Inl EmptyValidatorSet
      else Inr (foldl (\<lambda>result curr. if isBetterProposer h curr result then Some curr else result) None validators))"

definition add_powers ::
  "prio_heap \<Rightarrow> 'k PrioritizedValidator list \<Rightarrow> prio_heap \<times> 'k PrioritizedValidator list" where
  "add_powers h validators =
     (h @ map (\<lambda>v. prio h v + vm_VotingPower (pv_Metadata v)) validators,
      map (\<lambda>i. (validators ! i)\<lparr>pv_ProposerPriority := length h + i\<rparr>) [0..<length validators])"

definition incrementProposerPriority :: "prio_heap \<Rightarrow> 'k PrioritizedValidator list \<Rightarrow> int \<Rightarrow>
    ProposerError + 'k PrioritizedValidator option \<times> prio_heap \<times> 'k PrioritizedValidator list" where
  "incrementProposerPriority h validators totalVotingPower =
     (let (h, validators) = add_powers h validators in
      case getValWithMostPriority h validators of
        Inl err \<Rightarrow> Inl err
      | Inr None \<Rightarrow> Inr (None, h, validators)
      | Inr (Some mostest) \<Rightarrow>
          Inr (Some mostest, h[pv_ProposerPriority mostest := prio h mostest - totalVotingPower], validators))"

primrec increment_loop :: "nat \<Rightarrow> 'k PrioritizedValidator option \<Rightarrow> prio_heap \<Rightarrow> 'k PrioritizedValidator list \<Rightarrow> int \<Rightarrow>
    ProposerError + 'k PrioritizedValidator option \<times> prio_heap \<times> 'k PrioritizedValidator list" where
  "increment_loop 0 proposer h validators tvp = Inr (proposer, h, validators)"
| "increment_loop (Suc n) proposer h validators tvp =
     ebind (incrementProposerPriority h validators tvp) (\<lambda>(proposer, h, validators).
       increment_loop n proposer h validators tvp)"

definition incrementProposerPriorityNTimes :: "prio_heap \<Rightarrow> 'k ProposerSnapshot \<Rightarrow> u64 \<Rightarrow>
    (ProposerError + 'k PrioritizedValidator option \<times> prio_heap \<times> 'k ProposerSnapshot) option" where
  "incrementProposerPriorityNTimes h snapshot ntimes =
     (if ps_Validators snapshot = [] then Some (Inl EmptyValidatorSet)
      else if ntimes \<le> 0 then Some (Inl NonPositiveTimes)
      else do {
        let tvp = snapshot_TotalVotingPower snapshot;
        r \<leftarrow> updateWithChangeSet h (ps_Validators snapshot) tvp;
        Some (ebind r (\<lambda>h.
          ebind (increment_loop (unat ntimes) None h (ps_Validators snapshot) tvp) (\<lambda>(proposer, h, validators).
            Inr (proposer, h, snapshot\<lparr>ps_Validators := validators, ps_Proposer := proposer,
              ps_Round := ntimes - 1\<rparr>)))) })"

definition CalcProposer :: "('k, 's) bn256 \<Rightarrow> prio_heap \<Rightarrow> 'k ProposerSnapshot \<Rightarrow> u64 \<Rightarrow> u64 \<Rightarrow>
    (ProposerError + Address \<times> prio_heap \<times> 'k ProposerSnapshot) option" where
  "CalcProposer B h pcs round' height =
     (if height \<noteq> ps_Height pcs then Some (Inl (InvalidHeight (ps_Height pcs) height))
      else case (if ps_Round pcs = round' then ps_Proposer pcs else None) of
        Some p \<Rightarrow> Some (Inr (vm_Address (pv_Metadata p), h, pcs))
      | None \<Rightarrow> do {
          copied \<leftarrow> ProposerSnapshot_Copy B pcs;
          r \<leftarrow> incrementProposerPriorityNTimes h copied (round' + 1);
          (case r of Inl err \<Rightarrow> Some (Inl err)
           | Inr (None, _, _) \<Rightarrow> None
           | Inr (Some proposer, h, _) \<Rightarrow>
               Some (Inr (vm_Address (pv_Metadata proposer), h,
                 pcs\<lparr>ps_Proposer := Some proposer, ps_Round := round'\<rparr>))) })"

section \<open>Following the chain\<close>

definition removed_power :: "(Address \<Rightarrow> string) \<Rightarrow> 'k PrioritizedValidator list \<Rightarrow> 'k AccountSet \<Rightarrow> int" where
  "removed_power str vals newSet =
     (let m = toMap vals in
      sum_list (map (\<lambda>a. case m a of None \<Rightarrow> 0 | Some val \<Rightarrow> vm_VotingPower (pv_Metadata val))
        (filter (\<lambda>a. \<not> ContainsNodeID str newSet (str a)) (remdups (map (vm_Address \<circ> pv_Metadata) vals)))))"

primrec new_prioritized :: "(Address \<rightharpoonup> 'k PrioritizedValidator) \<Rightarrow> prio_heap \<Rightarrow> int \<Rightarrow> 'k AccountSet \<Rightarrow>
    prio_heap \<times> 'k PrioritizedValidator list" where
  "new_prioritized m h tvp [] = (h, [])"
| "new_prioritized m h tvp (v # vs) = (case m (vm_Address v) of
      Some val \<Rightarrow>
        (let (h, r) = new_prioritized m h tvp vs
         in (h, \<lparr>pv_Metadata = v, pv_ProposerPriority = pv_ProposerPriority val\<rparr> # r))
    | None \<Rightarrow>
        (let coefficient = tvp div 8;
             tvp = tvp + coefficient;
             l = length h;
             (h, r) = new_prioritized m (h @ [- tvp]) tvp vs
         in (h, \<lparr>pv_Metadata = v, pv_ProposerPriority = l\<rparr> # r)))"

definition updateValidators :: "(Address \<Rightarrow> string) \<Rightarrow> prio_heap \<Rightarrow> 'k ProposerSnapshot \<Rightarrow> 'k AccountSet \<Rightarrow>
    (ProposerError + prio_heap \<times> 'k ProposerSnapshot) option" where
  "updateValidators str h snapshot newValidatorSet =
     (if newValidatorSet = [] then Some (Inr (h, snapshot))
      else do {
        let vals = ps_Validators snapshot;
        let tvp = GetTotalVotingPower newValidatorSet + removed_power str vals newValidatorSet;
        let (h, newValidators) = new_prioritized (toMap vals) h tvp newValidatorSet;
        let snapshot = snapshot\<lparr>ps_Validators := newValidators\<rparr>;
        r \<leftarrow> updateWithChangeSet h newValidators (snapshot_TotalVotingPower snapshot);
        Some (ebind r (\<lambda>h. Inr (h, snapshot))) })"

definition updatePerBlock :: "('k, 's, 'v) polybft_libs \<Rightarrow> (Address \<Rightarrow> string) \<Rightarrow> (u64 \<Rightarrow> Header option) \<Rightarrow>
    (u64 \<Rightarrow> string + 'k AccountSet) \<Rightarrow> prio_heap \<Rightarrow> 'k ProposerSnapshot \<Rightarrow> u64 \<Rightarrow>
    (ProposerError + prio_heap \<times> 'k ProposerSnapshot) option" where
  "updatePerBlock L str GetHeaderByNumber GetValidators h snapshot blockNumber =
     (if ps_Height snapshot \<noteq> blockNumber then Some (Inl (WrongBlock blockNumber (ps_Height snapshot)))
      else (case getBlockData L GetHeaderByNumber blockNumber of
          Inl err \<Rightarrow> Some (Inl (BlockError err))
        | Inr (_, extra) \<Rightarrow>
            (case (case ex_Validators extra of None \<Rightarrow> Inr []
                   | Some d \<Rightarrow> if Delta_IsEmpty d then Inr [] else GetValidators blockNumber) of
               Inl err \<Rightarrow> Some (Inl (GetValidatorsError err))
             | Inr newValidatorSet \<Rightarrow> do {
                 checkpoint \<leftarrow> ex_Checkpoint extra;
                 r \<leftarrow> incrementProposerPriorityNTimes h snapshot (cp_BlockRound checkpoint + 1);
                 (case r of Inl err \<Rightarrow> Some (Inl err)
                  | Inr (_, h, snapshot) \<Rightarrow> do {
                      r \<leftarrow> updateValidators str h snapshot newValidatorSet;
                      Some (ebind r (\<lambda>(h, snapshot). Inr (h, snapshot\<lparr>ps_Height := blockNumber + 1, ps_Round := 0,
                        ps_Proposer := None\<rparr>))) }) })))"

text \<open>The loop of \<^verbatim>\<open>update\<close>: \<open>n\<close> is the number of heights from the snapshot's up to the target. The counter
  of the loop wraps after the largest 64-bit number, so this is the loop for every smaller target.\<close>

primrec update_loop :: "('k, 's, 'v) polybft_libs \<Rightarrow> (Address \<Rightarrow> string) \<Rightarrow> (u64 \<Rightarrow> Header option) \<Rightarrow>
    (u64 \<Rightarrow> string + 'k AccountSet) \<Rightarrow> nat \<Rightarrow> prio_heap \<Rightarrow> 'k ProposerSnapshot \<Rightarrow> u64 \<Rightarrow>
    (ProposerError + prio_heap \<times> 'k ProposerSnapshot) option" where
  "update_loop L str GH GV 0 h snapshot height = Some (Inr (h, snapshot))"
| "update_loop L str GH GV (Suc n) h snapshot height = do {
     r \<leftarrow> updatePerBlock L str GH GV h snapshot height;
     (case r of Inl err \<Rightarrow> Some (Inl err)
      | Inr (h, snapshot) \<Rightarrow> update_loop L str GH GV n h snapshot (height + 1)) }"

definition proposer_update :: "('k, 's, 'v) polybft_libs \<Rightarrow> (Address \<Rightarrow> string) \<Rightarrow> (u64 \<Rightarrow> Header option) \<Rightarrow>
    (u64 \<Rightarrow> string + 'k AccountSet) \<Rightarrow> prio_heap \<Rightarrow> 'k ProposerSnapshot \<Rightarrow> u64 \<Rightarrow>
    (ProposerError + prio_heap \<times> 'k ProposerSnapshot) option" where
  "proposer_update L str GH GV h snapshot blockNumber =
     update_loop L str GH GV (unat blockNumber + 1 - unat (ps_Height snapshot)) h snapshot (ps_Height snapshot)"

end
