(* ===== verification/Round_Robin.thy ===== *)
theory Round_Robin
  imports Main
begin

text \<open>
  Weighted round robin on lists of integers, the abstract specification of the proposer calculator:
  normalising the priorities of \<open>n\<close> members, one increment, and what follows for a sequence of
  increments. The total weight is \<open>T\<close>.
\<close>

section \<open>Normalisation\<close>

definition rr_quo :: "int \<Rightarrow> int \<Rightarrow> int" where
  "rr_quo a r = sgn a * (\<bar>a\<bar> div r)"

definition spread :: "int list \<Rightarrow> int" where
  "spread ps = Max (set ps) - Min (set ps)"

definition rr_scale :: "int \<Rightarrow> int list \<Rightarrow> int list" where
  "rr_scale T ps = (if spread ps > 2 * T then map (\<lambda>p. rr_quo p ((spread ps + 2 * T - 1) div (2 * T))) ps else ps)"

definition rr_center :: "int list \<Rightarrow> int list" where
  "rr_center ps = map (\<lambda>p. p - sum_list ps div int (length ps)) ps"

definition rr_norm :: "int \<Rightarrow> int list \<Rightarrow> int list" where
  "rr_norm T ps = rr_center (rr_scale T ps)"

lemma rr_quo_shift:
  fixes p D r :: int
  assumes "0 < r" "0 \<le> D"
  shows "rr_quo (p + D * r) r \<le> rr_quo p r + D"
proof -
  consider "0 \<le> p" | "p < 0" "p + D * r \<le> 0" | "p < 0" "0 < p + D * r" by linarith
  then show ?thesis
  proof cases
    case 1
    then have "rr_quo q r = q div r" if "0 \<le> q" for q using that by (cases "q = 0") (auto simp: rr_quo_def)
    then show ?thesis using 1 assms by simp
  next
    case 2
    have neg: "rr_quo q r = - (- q div r)" if "q \<le> 0" for q
      using that by (cases "q = 0") (auto simp: rr_quo_def)
    have "- (p + D * r) div r = - p div r - D" using assms(1) div_mult_self1 [of r "- p" "- D"] by simp
    then show ?thesis using 2 by (simp add: neg)
  next
    case 3
    then have "rr_quo (p + D * r) r = (p + D * r) div r" "rr_quo p r = - (- p div r)"
      by (auto simp: rr_quo_def)
    moreover have "(p + D * r) div r = p div r + D" using assms(1) by simp
    moreover have "p div r \<le> - (- p div r)"
      using assms(1) by (simp add: zdiv_zminus1_eq_if)
    ultimately show ?thesis by simp
  qed
qed

lemma rr_quo_mono:
  fixes p q r :: int
  assumes "0 < r" "p \<le> q"
  shows "rr_quo p r \<le> rr_quo q r"
proof -
  consider "0 \<le> p" | "p < 0" "0 \<le> q" | "q < 0" by linarith
  then show ?thesis
  proof cases
    case 1
    then show ?thesis using assms zdiv_mono1 [of p q r] by (auto simp: rr_quo_def sgn_if)
  next
    case 2
    moreover from this have "0 \<le> - p div r" "0 \<le> q div r" using assms by (simp_all add: pos_imp_zdiv_nonneg_iff)
    ultimately show ?thesis using assms by (auto simp: rr_quo_def sgn_if)
  next
    case 3
    then show ?thesis using assms zdiv_mono1 [of "- q" "- p" r] by (auto simp: rr_quo_def sgn_if)
  qed
qed

lemma Max_map_mono: "xs \<noteq> [] \<Longrightarrow> mono f \<Longrightarrow> Max (set (map f xs)) = f (Max (set xs))" for f :: "int \<Rightarrow> int"
  by (simp add: mono_Max_commute)

lemma Min_map_mono: "xs \<noteq> [] \<Longrightarrow> mono f \<Longrightarrow> Min (set (map f xs)) = f (Min (set xs))" for f :: "int \<Rightarrow> int"
  by (simp add: mono_Min_commute)

lemma spread_nonneg: "ps \<noteq> [] \<Longrightarrow> 0 \<le> spread ps"
  by (simp add: spread_def)

lemma spread_le_iff: "ps \<noteq> [] \<Longrightarrow> p \<in> set ps \<Longrightarrow> q \<in> set ps \<Longrightarrow> p - q \<le> spread ps"
proof -
  assume "p \<in> set ps" "q \<in> set ps"
  then have "p \<le> Max (set ps)" "Min (set ps) \<le> q" by auto
  then show ?thesis unfolding spread_def by linarith
qed

lemma spread_scale:
  assumes "ps \<noteq> []" "0 < T"
  shows "spread (rr_scale T ps) \<le> 2 * T"
proof (cases "spread ps > 2 * T")
  case True
  let ?r = "(spread ps + 2 * T - 1) div (2 * T)" and ?M = "Max (set ps)" and ?m = "Min (set ps)"
  have r: "0 < ?r" using True assms(2) by (simp add: pos_imp_zdiv_pos_iff)
  have "(spread ps + 2 * T - 1) mod (2 * T) < 2 * T" using assms(2) by simp
  then have "spread ps \<le> 2 * T * ?r" using mult_div_mod_eq [of "2 * T" "spread ps + 2 * T - 1"] by linarith
  then have le: "?M \<le> ?m + 2 * T * ?r" by (simp add: spread_def)
  have mono: "mono (\<lambda>p. rr_quo p ?r)" using rr_quo_mono [OF r] by (auto intro: monoI)
  have "rr_quo ?M ?r \<le> rr_quo (?m + 2 * T * ?r) ?r" by (rule rr_quo_mono [OF r le])
  also have "\<dots> \<le> rr_quo ?m ?r + 2 * T" using rr_quo_shift [OF r, of "2 * T" ?m] assms(2) by simp
  finally show ?thesis using True Max_map_mono [OF assms(1) mono] Min_map_mono [OF assms(1) mono]
    by (simp add: rr_scale_def spread_def)
qed (simp add: rr_scale_def)

lemma length_rr_norm [simp]: "length (rr_norm T ps) = length ps"
  by (simp add: rr_norm_def rr_center_def rr_scale_def)

lemma rr_scale_Nil [simp]: "rr_scale T ps = [] \<longleftrightarrow> ps = []"
  by (simp add: rr_scale_def)

lemma sum_list_center: "sum_list (rr_center ps) = sum_list ps mod int (length ps)"
proof -
  have "sum_list (map (\<lambda>p. p - c) xs) = sum_list xs - c * int (length xs)" for c and xs :: "int list"
    by (induction xs) (simp_all add: algebra_simps)
  then show ?thesis unfolding rr_center_def by (simp add: minus_div_mult_eq_mod)
qed

lemma spread_center: "ps \<noteq> [] \<Longrightarrow> spread (rr_center ps) = spread ps"
proof -
  assume ne: "ps \<noteq> []"
  have mono: "mono (\<lambda>p. p - sum_list ps div int (length ps))" by (auto intro: monoI)
  show ?thesis unfolding rr_center_def spread_def
    by (simp only: Max_map_mono [OF ne mono] Min_map_mono [OF ne mono] diff_diff_eq2 diff_add_cancel)
qed

lemma rr_norm_spread: "ps \<noteq> [] \<Longrightarrow> 0 < T \<Longrightarrow> spread (rr_norm T ps) \<le> 2 * T"
  using spread_center [of "rr_scale T ps"] spread_scale [of ps T] by (simp add: rr_norm_def)

lemma rr_norm_sum:
  assumes "ps \<noteq> []"
  shows "0 \<le> sum_list (rr_norm T ps)" "sum_list (rr_norm T ps) < int (length ps)"
proof -
  have "sum_list (rr_norm T ps) = sum_list (rr_scale T ps) mod int (length ps)"
    using sum_list_center [of "rr_scale T ps"] by (simp add: rr_norm_def rr_scale_def)
  then show "0 \<le> sum_list (rr_norm T ps)" "sum_list (rr_norm T ps) < int (length ps)" using assms by simp_all
qed

text \<open>Normalising twice is normalising once.\<close>

lemma rr_norm_fixpoint:
  assumes "spread ps \<le> 2 * T" "0 \<le> sum_list ps" "sum_list ps < int (length ps)"
  shows "rr_norm T ps = ps"
  using assms by (simp add: rr_norm_def rr_scale_def rr_center_def)

lemma rr_norm_idem: "ps \<noteq> [] \<Longrightarrow> 0 < T \<Longrightarrow> rr_norm T (rr_norm T ps) = rr_norm T ps"
  by (rule rr_norm_fixpoint) (simp_all add: rr_norm_spread rr_norm_sum)

text \<open>A normalised list has no entry below \<open>- 2 * T\<close>.\<close>

lemma sum_list_le_bound: "\<forall>x \<in> set xs. x \<le> c \<Longrightarrow> sum_list xs \<le> c * int (length xs)" for c :: int
  by (induction xs) (auto simp: algebra_simps)

lemma rr_norm_lower:
  assumes "ps \<noteq> []" "0 < T" "p \<in> set (rr_norm T ps)"
  shows "- 2 * T \<le> p"
proof (rule ccontr)
  let ?qs = "rr_norm T ps"
  assume p: "\<not> - 2 * T \<le> p"
  have ne: "?qs \<noteq> []" using assms(1) by (metis length_rr_norm length_0_conv)
  have "q \<le> -1" if "q \<in> set ?qs" for q
    using spread_le_iff [OF ne that assms(3)] rr_norm_spread [OF assms(1,2)] p by linarith
  then have "sum_list ?qs \<le> - 1 * int (length ?qs)" by (intro sum_list_le_bound) auto
  moreover have "0 < int (length ps)" using assms(1) by simp
  ultimately show False using rr_norm_sum(1) [OF assms(1), of T] by simp
qed

section \<open>Increments\<close>

definition first_max :: "int list \<Rightarrow> nat" where
  "first_max qs = length (takeWhile (\<lambda>q. q \<noteq> Max (set qs)) qs)"

definition rr_step :: "int list \<Rightarrow> int list \<Rightarrow> nat \<times> int list" where
  "rr_step ws ps =
     (let qs = map2 (+) ps ws; m = first_max qs in (m, qs[m := qs ! m - sum_list ws]))"

primrec rr_state :: "int list \<Rightarrow> int list \<Rightarrow> nat \<Rightarrow> int list" where
  "rr_state ws ps 0 = ps"
| "rr_state ws ps (Suc k) = snd (rr_step ws (rr_state ws ps k))"

definition rr_chosen :: "int list \<Rightarrow> int list \<Rightarrow> nat \<Rightarrow> nat" where
  "rr_chosen ws ps k = fst (rr_step ws (rr_state ws ps k))"

lemma rr_state_shift: "rr_state ws (snd (rr_step ws ps)) k = rr_state ws ps (Suc k)"
  by (induction k) simp_all

lemma rr_chosen_shift: "rr_chosen ws (snd (rr_step ws ps)) k = rr_chosen ws ps (Suc k)"
  by (simp add: rr_chosen_def rr_state_shift)

lemma first_max_less: "qs \<noteq> [] \<Longrightarrow> first_max qs < length qs"
proof -
  assume "qs \<noteq> []"
  then have "Max (set qs) \<in> set qs" by simp
  then have "takeWhile (\<lambda>q. q \<noteq> Max (set qs)) qs \<noteq> qs" by (auto simp: takeWhile_eq_all_conv)
  then show ?thesis unfolding first_max_def
    by (metis length_takeWhile_le nat_less_le takeWhile_eq_take take_all order_refl)
qed

lemma first_max_nth: "qs \<noteq> [] \<Longrightarrow> qs ! first_max qs = Max (set qs)"
  using first_max_less [of qs] nth_length_takeWhile [of "\<lambda>q. q \<noteq> Max (set qs)" qs]
  by (simp add: first_max_def)

lemma first_max_before: "i < first_max qs \<Longrightarrow> qs ! i < Max (set qs)"
proof -
  assume i: "i < first_max qs"
  then have "i < length qs" unfolding first_max_def using length_takeWhile_le le_trans less_le_trans by blast
  moreover have "qs ! i \<noteq> Max (set qs)"
    using i unfolding first_max_def by (metis (mono_tags, lifting) nth_mem set_takeWhileD takeWhile_nth)
  ultimately show ?thesis by (simp add: order.not_eq_order_implies_strict)
qed

lemma first_max_snoc:
  assumes "qs \<noteq> []"
  shows "first_max (qs @ [x]) = (if Max (set qs) < x then length qs else first_max qs)"
proof (cases "Max (set qs) < x")
  case True
  have "q < x" if "q \<in> set qs" for q using Max_ge [OF List.finite_set that] True by linarith
  then have "\<forall>q \<in> set qs. q \<noteq> x" by blast
  moreover have "Max (set (qs @ [x])) = x" by (rule Max_eqI) (use \<open>\<And>q. q \<in> set qs \<Longrightarrow> q < x\<close> in \<open>auto intro: less_imp_le\<close>)
  ultimately show ?thesis using True by (simp add: first_max_def)
next
  case False
  then have "x \<le> Max (set qs)" by (simp only: not_less)
  moreover have "Max (set (qs @ [x])) = max x (Max (set qs))" using assms by simp
  ultimately have M: "Max (set (qs @ [x])) = Max (set qs)" by (simp only: max_absorb2)
  have "Max (set qs) \<in> set qs" using assms by simp
  then have "takeWhile (\<lambda>q. q \<noteq> Max (set qs)) (qs @ [x]) = takeWhile (\<lambda>q. q \<noteq> Max (set qs)) qs"
    by (rule takeWhile_append1) simp
  then show ?thesis using False unfolding first_max_def M by simp
qed

lemma first_max_single: "first_max [x] = 0"
  by (simp add: first_max_def)

lemma sum_list_update_sub:
  "m < length xs \<Longrightarrow> sum_list (xs[m := xs ! m - c]) = sum_list xs - c" for c :: int
proof (induction xs arbitrary: m)
  case (Cons x xs)
  then show ?case by (cases m) auto
qed simp

lemma sum_list_map2_add: "length ps = length ws \<Longrightarrow> sum_list (map2 (+) ps ws) = sum_list ps + sum_list ws"
  for ps ws :: "int list"
  by (induction ps ws rule: list_induct2) simp_all

definition rr_inv :: "int list \<Rightarrow> int \<Rightarrow> int list \<Rightarrow> bool" where
  "rr_inv ws S ps \<longleftrightarrow> length ps = length ws \<and> sum_list ps = S \<and> (\<forall>p \<in> set ps. - 2 * sum_list ws \<le> p)"

lemma rr_step_inv:
  assumes inv: "rr_inv ws S ps" and S: "0 \<le> S" and w: "\<forall>w \<in> set ws. 0 \<le> w" "0 < sum_list ws"
  shows "rr_inv ws S (snd (rr_step ws ps))"
proof -
  let ?qs = "map2 (+) ps ws" and ?T = "sum_list ws"
  let ?m = "first_max ?qs"
  have len: "length ps = length ws" and sum: "sum_list ps = S" and low: "\<forall>p \<in> set ps. - 2 * ?T \<le> p"
    using inv by (auto simp: rr_inv_def)
  have ne: "?qs \<noteq> []" using w(2) len by (cases ws; cases ps) auto
  have qsum: "sum_list ?qs = S + ?T" using sum_list_map2_add [OF len] sum by simp
  have "0 < Max (set ?qs)"
  proof (rule ccontr)
    assume "\<not> ?thesis"
    then have "\<forall>q \<in> set ?qs. q \<le> 0" using Max_ge [of "set ?qs"] by (meson List.finite_set not_less order_trans)
    then have "sum_list ?qs \<le> 0 * int (length ?qs)" by (rule sum_list_le_bound)
    then show False using qsum S w(2) by simp
  qed
  then have m: "0 < ?qs ! ?m" "?m < length ?qs" using first_max_nth [OF ne] first_max_less [OF ne] by simp_all
  have qlow: "- 2 * ?T \<le> q" if "q \<in> set ?qs" for q
    using that low w(1) by (auto simp: set_zip) (metis add_mono add.right_neutral len nth_mem)
  have "- 2 * ?T \<le> q" if "q \<in> set (?qs[?m := ?qs ! ?m - ?T])" for q
  proof -
    have "q = ?qs ! ?m - ?T \<or> q \<in> set ?qs"
      using set_update_subset_insert [THEN subsetD, OF that] by blast
    then show ?thesis
    proof
      assume "q = ?qs ! ?m - ?T"
      then show ?thesis using m(1) w(2) by linarith
    qed (rule qlow)
  qed
  moreover have "sum_list (?qs[?m := ?qs ! ?m - ?T]) = S" using sum_list_update_sub [OF m(2)] qsum by simp
  ultimately show ?thesis using len by (simp add: rr_inv_def rr_step_def Let_def)
qed

lemma rr_state_inv:
  "rr_inv ws S ps \<Longrightarrow> 0 \<le> S \<Longrightarrow> \<forall>w \<in> set ws. 0 \<le> w \<Longrightarrow> 0 < sum_list ws \<Longrightarrow> rr_inv ws S (rr_state ws ps k)"
  by (induction k) (simp_all add: rr_step_inv)

section \<open>Every member gets its turn\<close>

lemma rr_step_other:
  assumes "length ps = length ws" "j < length ws" "fst (rr_step ws ps) \<noteq> j"
  shows "snd (rr_step ws ps) ! j = ps ! j + ws ! j"
  using assms by (simp add: rr_step_def Let_def)

lemma unchosen_grows:
  assumes inv: "rr_inv ws S ps" "0 \<le> S" "\<forall>w \<in> set ws. 0 \<le> w" "0 < sum_list ws" and j: "j < length ws"
  shows "\<forall>i<k. rr_chosen ws ps i \<noteq> j \<Longrightarrow> rr_state ws ps k ! j = ps ! j + int k * ws ! j"
proof (induction k)
  case (Suc k)
  have "length (rr_state ws ps k) = length ws" using rr_state_inv [OF inv] by (simp add: rr_inv_def)
  from rr_step_other [OF this j] Suc show ?case by (simp add: rr_chosen_def algebra_simps)
qed simp

lemma sum_list_lower_except:
  fixes c :: int
  assumes "\<forall>x \<in> set xs. c \<le> x" "j < length xs"
  shows "xs ! j + c * int (length xs - 1) \<le> sum_list xs"
  using assms
proof (induction xs arbitrary: j)
  case (Cons x xs)
  have len: "c * int (length xs) \<le> sum_list xs"
    using Cons.prems(1) by (induction xs) (auto simp: algebra_simps)
  show ?case
  proof (cases j)
    case (Suc i)
    then have "xs ! i + c * int (length xs - 1) \<le> sum_list xs" "xs \<noteq> []" using Cons by auto
    then show ?thesis using Suc Cons.prems(1) by (cases xs) (auto simp: algebra_simps)
  qed (use len in simp)
qed simp

lemma eventually_chosen:
  assumes inv: "rr_inv ws S ps" and S: "0 \<le> S" and w: "\<forall>w \<in> set ws. 0 \<le> w" "0 < sum_list ws"
    and j: "j < length ws" "0 < ws ! j"
  shows "\<exists>i. int i * ws ! j \<le> S + 2 * sum_list ws * int (length ws) \<and> rr_chosen ws ps i = j"
proof (rule ccontr)
  let ?T = "sum_list ws" and ?n = "int (length ws)"
  define K where "K = nat ((S + 2 * ?T * ?n) div ws ! j)"
  assume no: "\<not> ?thesis"
  have ge: "0 \<le> (S + 2 * ?T * ?n) div ws ! j" using S w(2) j(2) by (simp add: pos_imp_zdiv_nonneg_iff)
  have "rr_chosen ws ps i \<noteq> j" if "i < Suc K" for i
  proof -
    have "int i \<le> (S + 2 * ?T * ?n) div ws ! j" using that ge by (simp add: K_def)
    then have "int i * ws ! j \<le> (S + 2 * ?T * ?n) div ws ! j * ws ! j" using j(2) by simp
    also have "\<dots> \<le> S + 2 * ?T * ?n"
      using j(2) pos_mod_sign [of "ws ! j" "S + 2 * ?T * ?n"] div_mult_mod_eq [of "S + 2 * ?T * ?n" "ws ! j"] by linarith
    finally show ?thesis using no by blast
  qed
  then have grow: "rr_state ws ps (Suc K) ! j = ps ! j + int (Suc K) * ws ! j"
    using unchosen_grows [OF inv S w j(1)] by blast
  have "int (Suc K) = (S + 2 * ?T * ?n) div ws ! j + 1" using ge by (simp add: K_def)
  then have "int (Suc K) * ws ! j = (S + 2 * ?T * ?n) div ws ! j * ws ! j + ws ! j" by (simp only: distrib_right mult_1)
  then have "S + 2 * ?T * ?n < int (Suc K) * ws ! j"
    using pos_mod_bound [OF j(2), of "S + 2 * ?T * ?n"] div_mult_mod_eq [of "S + 2 * ?T * ?n" "ws ! j"] by linarith
  moreover have "- 2 * ?T \<le> ps ! j" using inv j(1) by (simp add: rr_inv_def)
  moreover have "rr_state ws ps (Suc K) ! j + - 2 * ?T * int (length ws - 1) \<le> S"
    using rr_state_inv [OF inv S w, of "Suc K"] sum_list_lower_except [of "rr_state ws ps (Suc K)" "- 2 * ?T" j] j(1)
    unfolding rr_inv_def by simp
  moreover have "int (length ws - 1) = ?n - 1" using j(1) by simp
  ultimately show False using grow by (simp add: algebra_simps)
qed

lemma sum_list_pos: "xs \<noteq> [] \<Longrightarrow> \<forall>x \<in> set xs. 0 < x \<Longrightarrow> 0 < sum_list xs" for xs :: "int list"
proof (induction xs)
  case (Cons x xs)
  then show ?case by (cases "xs = []") auto
qed simp

lemma rr_norm_inv:
  assumes "ps \<noteq> []" "length ps = length ws" "0 < sum_list ws"
  shows "rr_inv ws (sum_list (rr_norm (sum_list ws) ps)) (rr_norm (sum_list ws) ps)"
  using assms rr_norm_lower [OF assms(1,3)] by (simp add: rr_inv_def)

lemma rr_chosen_less:
  assumes "rr_inv ws S ps" "0 \<le> S" "\<forall>w \<in> set ws. 0 \<le> w" "0 < sum_list ws"
  shows "rr_chosen ws ps k < length ws"
proof -
  let ?qs = "map2 (+) (rr_state ws ps k) ws"
  have "length (rr_state ws ps k) = length ws" using rr_state_inv [OF assms] by (simp add: rr_inv_def)
  then have len: "length ?qs = length ws" by simp
  moreover have "ws \<noteq> []" using assms(4) by auto
  ultimately have "?qs \<noteq> []" by (metis length_0_conv)
  then show ?thesis using first_max_less [of ?qs] len by (simp add: rr_chosen_def rr_step_def Let_def)
qed

end
