(* ===== verification/Proposer_Refine.thy ===== *)
theory Proposer_Refine
  imports Proposer Round_Robin
begin

text \<open>
  The heap model of the proposer calculator refines weighted round robin: on a heap in which the
  validators of a snapshot have priorities of their own, every operation acts on the list of
  priorities as the abstract one does and leaves all other locations alone.
\<close>

section \<open>Priorities on the heap\<close>

abbreviation locs :: "'k PrioritizedValidator list \<Rightarrow> nat list" where
  "locs vs \<equiv> map pv_ProposerPriority vs"

abbreviation prios :: "prio_heap \<Rightarrow> 'k PrioritizedValidator list \<Rightarrow> int list" where
  "prios h vs \<equiv> map (prio h) vs"

abbreviation powers :: "'k PrioritizedValidator list \<Rightarrow> int list" where
  "powers vs \<equiv> map (\<lambda>v. vm_VotingPower (pv_Metadata v)) vs"

definition heap_ok :: "prio_heap \<Rightarrow> 'k PrioritizedValidator list \<Rightarrow> bool" where
  "heap_ok h vs \<longleftrightarrow> distinct (locs vs) \<and> (\<forall>l \<in> set (locs vs). l < length h)"

text \<open>A loop that replaces every priority in place.\<close>

definition map_in_place :: "(int \<Rightarrow> int) \<Rightarrow> prio_heap \<Rightarrow> 'k PrioritizedValidator list \<Rightarrow> prio_heap" where
  "map_in_place f h vs = foldl (\<lambda>h v. h[pv_ProposerPriority v := f (prio h v)]) h vs"

lemma map_in_place_simps [simp]:
  "map_in_place f h [] = h"
  "map_in_place f h (v # vs) = map_in_place f (h[pv_ProposerPriority v := f (prio h v)]) vs"
  by (simp_all add: map_in_place_def)

lemma length_map_in_place [simp]: "length (map_in_place f h vs) = length h"
  by (induction vs arbitrary: h) simp_all

lemma map_in_place_frame: "l \<notin> set (locs vs) \<Longrightarrow> map_in_place f h vs ! l = h ! l"
  by (induction vs arbitrary: h) simp_all

lemma prios_map_in_place: "heap_ok h vs \<Longrightarrow> prios (map_in_place f h vs) vs = map f (prios h vs)"
proof (induction vs arbitrary: h)
  case (Cons v vs)
  let ?h = "h[pv_ProposerPriority v := f (prio h v)]"
  have ok: "heap_ok ?h vs" and v: "pv_ProposerPriority v \<notin> set (locs vs)" "pv_ProposerPriority v < length h"
    using Cons.prems by (auto simp: heap_ok_def)
  have "prios ?h vs = prios h vs"
    by (intro map_cong refl nth_list_update_neq) (use v(1) in force)
  then show ?case using Cons.IH [OF ok] v map_in_place_frame [OF v(1), of f ?h] by simp
qed simp

section \<open>Normalisation\<close>

lemma min_max_foldl:
  "foldl (\<lambda>(mn, mx) v. (if prio h v < mn then prio h v else mn, if prio h v > mx then prio h v else mx)) (a, b) vs =
   (linorder_class.Min (insert a (set (prios h vs))), linorder_class.Max (insert b (set (prios h vs))))"
proof (induction vs arbitrary: a b)
  case (Cons v vs)
  have "linorder_class.Min (insert (if prio h v < a then prio h v else a) (set (prios h vs))) =
      linorder_class.Min (insert a (insert (prio h v) (set (prios h vs))))"
    by (cases "prios h vs") (auto simp: min_def)
  moreover have "linorder_class.Max (insert (if prio h v > b then prio h v else b) (set (prios h vs))) =
      linorder_class.Max (insert b (insert (prio h v) (set (prios h vs))))"
    by (cases "prios h vs") (auto simp: max_def)
  ultimately show ?case using Cons.IH by simp
qed simp

lemma computeMaxMinPriorityDiff_eq: "vs \<noteq> [] \<Longrightarrow> computeMaxMinPriorityDiff h vs = Some (spread (prios h vs))"
proof (cases vs)
  case (Cons v ws)
  have "0 \<le> spread (prios h vs)" using Cons by (intro spread_nonneg) simp
  then show ?thesis unfolding Cons computeMaxMinPriorityDiff_def by (simp add: min_max_foldl spread_def)
qed simp

lemma big_Quo_pos: "0 < r \<Longrightarrow> big_Quo a r = Some (rr_quo a r)"
  by (simp add: big_Quo_def rr_quo_def)

lemma quo_loop_eq: "0 < r \<Longrightarrow> quo_loop r h vs = Some (map_in_place (\<lambda>p. rr_quo p r) h vs)"
  by (induction vs arbitrary: h) (simp_all add: big_Quo_pos)

lemma BigIntDivCeil_pos: "0 < b \<Longrightarrow> BigIntDivCeil a b = Some ((a + b - 1) div b)"
  by (simp add: BigIntDivCeil_def big_Div_def)

lemma rescalePriorities_eq:
  assumes "vs \<noteq> []" "0 < T" "heap_ok h vs"
  shows "\<exists>h'. rescalePriorities h vs T = Some (Inr h') \<and> prios h' vs = rr_scale T (prios h vs) \<and>
    length h' = length h \<and> (\<forall>l. l \<notin> set (locs vs) \<longrightarrow> h' ! l = h ! l)"
proof -
  let ?s = "spread (prios h vs)"
  let ?r = "(?s + 2 * T - 1) div (2 * T)"
  have r: "0 < ?r" if "2 * T < ?s" using that assms(2) by (simp add: pos_imp_zdiv_pos_iff)
  then show ?thesis using assms prios_map_in_place [OF assms(3), of "\<lambda>p. rr_quo p ?r"]
    by (cases "2 * T < ?s") (auto simp: rescalePriorities_def Let_def priorityWindowSizeFactor_def
        computeMaxMinPriorityDiff_eq BigIntDivCeil_pos quo_loop_eq rr_scale_def map_in_place_frame)
qed

lemma sum_foldl: "foldl (\<lambda>s v. s + f v) (a::int) vs = a + sum_list (map f vs)"
  by (induction vs arbitrary: a) simp_all

lemma shiftByAvg_eq:
  assumes "vs \<noteq> []" "heap_ok h vs"
  shows "\<exists>h'. shiftByAvgProposerPriority h vs = Some (Inr h') \<and> prios h' vs = rr_center (prios h vs) \<and>
    length h' = length h \<and> (\<forall>l. l \<notin> set (locs vs) \<longrightarrow> h' ! l = h ! l)"
proof -
  let ?avg = "sum_list (prios h vs) div int (length vs)"
  have "shiftByAvgProposerPriority h vs = Some (Inr (map_in_place (\<lambda>p. p - ?avg) h vs))"
    using assms(1) by (simp add: shiftByAvgProposerPriority_def computeAvgProposerPriority_def Let_def big_Div_def
        sum_foldl map_in_place_def)
  then show ?thesis using prios_map_in_place [OF assms(2), of "\<lambda>p. p - ?avg"]
    by (simp add: rr_center_def map_in_place_frame)
qed

lemma heap_ok_length: "heap_ok h vs \<Longrightarrow> length h' = length h \<Longrightarrow> heap_ok h' vs"
  by (simp add: heap_ok_def)

lemma updateWithChangeSet_eq:
  assumes "vs \<noteq> []" "0 < T" "heap_ok h vs"
  obtains h' where "updateWithChangeSet h vs T = Some (Inr h')" "prios h' vs = rr_norm T (prios h vs)"
    "length h' = length h" "\<And>l. l \<notin> set (locs vs) \<Longrightarrow> h' ! l = h ! l"
proof -
  obtain h1 where 1: "rescalePriorities h vs T = Some (Inr h1)" "prios h1 vs = rr_scale T (prios h vs)"
    "length h1 = length h" "\<forall>l. l \<notin> set (locs vs) \<longrightarrow> h1 ! l = h ! l"
    using rescalePriorities_eq [OF assms] by blast
  obtain h2 where 2: "shiftByAvgProposerPriority h1 vs = Some (Inr h2)" "prios h2 vs = rr_center (prios h1 vs)"
    "length h2 = length h1" "\<forall>l. l \<notin> set (locs vs) \<longrightarrow> h2 ! l = h1 ! l"
    using shiftByAvg_eq [OF assms(1) heap_ok_length [OF assms(3) 1(3)]] by blast
  show thesis by (rule that [of h2]) (use 1 2 in \<open>simp_all add: updateWithChangeSet_def rr_norm_def\<close>)
qed

section \<open>Increments\<close>

text \<open>The comparison of the code never consults the addresses of validators with priorities of their
  own: the first validator of maximal priority wins.\<close>

lemma best_foldl:
  assumes "vs \<noteq> []" "distinct (locs vs)"
  shows "foldl (\<lambda>r c. if isBetterProposer h c r then Some c else r) None vs = Some (vs ! first_max (prios h vs))"
  using assms
proof (induction vs rule: rev_induct)
  case (snoc v vs)
  show ?case
  proof (cases "vs = []")
    case True
    then show ?thesis by (simp add: isBetterProposer_def first_max_single)
  next
    case False
    let ?m = "first_max (prios h vs)"
    have m: "?m < length vs" "prio h (vs ! ?m) = linorder_class.Max (set (prios h vs))"
      using first_max_less [of "prios h vs"] first_max_nth [of "prios h vs"] False by simp_all
    have "pv_ProposerPriority v \<noteq> pv_ProposerPriority (vs ! ?m)" using snoc.prems m(1) by auto
    then have "isBetterProposer h v (Some (vs ! ?m)) \<longleftrightarrow> linorder_class.Max (set (prios h vs)) < prio h v"
      by (simp add: isBetterProposer_def m(2))
    then show ?thesis using snoc False m(1) first_max_snoc [of "prios h vs" "prio h v"] by (simp add: nth_append)
  qed
qed simp

lemma add_powers_eq:
  assumes "add_powers h vs = (h1, vs1)"
  shows "map pv_Metadata vs1 = map pv_Metadata vs" "prios h1 vs1 = map2 (+) (prios h vs) (powers vs)"
    "locs vs1 = [length h..<length h + length vs]" "length h1 = length h + length vs"
    "\<And>l. l < length h \<Longrightarrow> h1 ! l = h ! l"
proof -
  have h1: "h1 = h @ map (\<lambda>v. prio h v + vm_VotingPower (pv_Metadata v)) vs"
    and vs1: "vs1 = map (\<lambda>i. (vs ! i)\<lparr>pv_ProposerPriority := length h + i\<rparr>) [0..<length vs]"
    using assms by (simp_all add: add_powers_def)
  show "map pv_Metadata vs1 = map pv_Metadata vs" unfolding vs1 by (intro nth_equalityI) simp_all
  show "prios h1 vs1 = map2 (+) (prios h vs) (powers vs)"
    unfolding vs1 h1 by (intro nth_equalityI) (simp_all add: nth_append)
  show "locs vs1 = [length h..<length h + length vs]" unfolding vs1 by (intro nth_equalityI) simp_all
  show "length h1 = length h + length vs" "\<And>l. l < length h \<Longrightarrow> h1 ! l = h ! l"
    unfolding h1 by (simp_all add: nth_append)
qed

lemma prios_update:
  assumes "heap_ok h vs" "m < length vs"
  shows "prios (h[pv_ProposerPriority (vs ! m) := x]) vs = (prios h vs)[m := x]"
proof (intro nth_equalityI)
  fix i assume "i < length (prios (h[pv_ProposerPriority (vs ! m) := x]) vs)"
  then have i: "i < length vs" by simp
  have "pv_ProposerPriority (vs ! m) = pv_ProposerPriority (vs ! i) \<longleftrightarrow> m = i"
    using assms i nth_eq_iff_index_eq [of "locs vs" m i] by (simp add: heap_ok_def)
  moreover have "pv_ProposerPriority (vs ! m) < length h" using assms by (simp add: heap_ok_def)
  ultimately show "prios (h[pv_ProposerPriority (vs ! m) := x]) vs ! i = (prios h vs)[m := x] ! i"
    using i assms(2) by (auto simp: nth_list_update)
qed simp

lemma incrementProposerPriority_eq:
  assumes "vs \<noteq> []"
  obtains h' vs' where
    "incrementProposerPriority h vs (sum_list (powers vs)) =
       Inr (Some (vs' ! fst (rr_step (powers vs) (prios h vs))), h', vs')"
    "prios h' vs' = snd (rr_step (powers vs) (prios h vs))" "map pv_Metadata vs' = map pv_Metadata vs"
    "heap_ok h' vs'" "length h \<le> length h'" "\<And>l. l < length h \<Longrightarrow> h' ! l = h ! l"
proof -
  obtain h1 vs1 where a: "add_powers h vs = (h1, vs1)" by fastforce
  note A = add_powers_eq [OF a]
  let ?m = "first_max (prios h1 vs1)"
  let ?h' = "h1[pv_ProposerPriority (vs1 ! ?m) := prio h1 (vs1 ! ?m) - sum_list (powers vs)]"
  have len: "length vs1 = length vs" using A(1) by (metis length_map)
  have ne: "vs1 \<noteq> []" using assms len by auto
  have ok: "heap_ok h1 vs1" unfolding heap_ok_def A(3,4) by simp
  have m: "?m < length vs1" using first_max_less [of "prios h1 vs1"] ne by simp
  have g: "getValWithMostPriority h1 vs1 = Inr (Some (vs1 ! ?m))"
    using best_foldl [OF ne] ok ne by (simp add: getValWithMostPriority_def heap_ok_def)
  have st: "rr_step (powers vs) (prios h vs) = (?m, prios ?h' vs1)"
    unfolding prios_update [OF ok m] rr_step_def Let_def A(2) [symmetric] using m by simp
  have loc: "length h \<le> pv_ProposerPriority (vs1 ! ?m)"
    using arg_cong [OF A(3), of "\<lambda>xs. xs ! ?m"] m len by simp
  show thesis
  proof (rule that)
    show "incrementProposerPriority h vs (sum_list (powers vs)) =
        Inr (Some (vs1 ! fst (rr_step (powers vs) (prios h vs))), ?h', vs1)"
      by (simp add: incrementProposerPriority_def a g st)
    show "prios ?h' vs1 = snd (rr_step (powers vs) (prios h vs))" unfolding st by simp
    show "map pv_Metadata vs1 = map pv_Metadata vs" by (rule A(1))
    show "heap_ok ?h' vs1" by (rule heap_ok_length [OF ok]) simp
    show "length h \<le> length ?h'" using A(4) by simp
    show "?h' ! l = h ! l" if "l < length h" for l using A(5) [OF that] loc that by simp
  qed
qed

lemma powers_metadata:
  assumes "map pv_Metadata vs' = map pv_Metadata vs"
  shows "powers vs' = powers vs"
proof -
  have "map vm_VotingPower (map pv_Metadata vs') = map vm_VotingPower (map pv_Metadata vs)" by (simp only: assms)
  then show ?thesis by (simp add: comp_def)
qed

lemma increment_loop_eq:
  assumes "vs \<noteq> []"
  shows "\<exists>h' vs'. increment_loop (Suc n) p h vs (sum_list (powers vs)) =
      Inr (Some (vs' ! rr_chosen (powers vs) (prios h vs) n), h', vs') \<and>
    prios h' vs' = rr_state (powers vs) (prios h vs) (Suc n) \<and> map pv_Metadata vs' = map pv_Metadata vs \<and>
    heap_ok h' vs' \<and> length h \<le> length h' \<and> (\<forall>l<length h. h' ! l = h ! l)"
  using assms
proof (induction n arbitrary: p h vs)
  case 0
  obtain h' vs' where "incrementProposerPriority h vs (sum_list (powers vs)) =
       Inr (Some (vs' ! fst (rr_step (powers vs) (prios h vs))), h', vs')"
    "prios h' vs' = snd (rr_step (powers vs) (prios h vs))" "map pv_Metadata vs' = map pv_Metadata vs"
    "heap_ok h' vs'" "length h \<le> length h'" "\<And>l. l < length h \<Longrightarrow> h' ! l = h ! l"
    by (rule incrementProposerPriority_eq [OF 0]) blast
  then show ?case by (intro exI [of _ h'] exI [of _ vs']) (simp add: rr_chosen_def)
next
  case (Suc n)
  obtain h1 vs1 where 1: "incrementProposerPriority h vs (sum_list (powers vs)) =
       Inr (Some (vs1 ! fst (rr_step (powers vs) (prios h vs))), h1, vs1)"
    "prios h1 vs1 = snd (rr_step (powers vs) (prios h vs))" "map pv_Metadata vs1 = map pv_Metadata vs"
    "heap_ok h1 vs1" "length h \<le> length h1" "\<And>l. l < length h \<Longrightarrow> h1 ! l = h ! l"
    by (rule incrementProposerPriority_eq [OF Suc.prems]) blast
  have "vs1 \<noteq> []" using 1(3) Suc.prems by auto
  from Suc.IH [OF this, of "Some (vs1 ! fst (rr_step (powers vs) (prios h vs)))" h1] obtain h2 vs2 where
    "increment_loop (Suc n) (Some (vs1 ! fst (rr_step (powers vs) (prios h vs)))) h1 vs1 (sum_list (powers vs)) =
      Inr (Some (vs2 ! rr_chosen (powers vs) (prios h1 vs1) n), h2, vs2)"
    "prios h2 vs2 = rr_state (powers vs) (prios h1 vs1) (Suc n)" "map pv_Metadata vs2 = map pv_Metadata vs1"
    "heap_ok h2 vs2" "length h1 \<le> length h2" "\<forall>l<length h1. h2 ! l = h1 ! l"
    unfolding powers_metadata [OF 1(3)] by blast
  then show ?case using 1 unfolding 1(2) rr_state_shift rr_chosen_shift
    by (intro exI [of _ h2] exI [of _ vs2]) (simp del: increment_loop.simps(2) add: increment_loop.simps(2) [of "Suc n" p])
qed

section \<open>Snapshots\<close>

text \<open>A snapshot the calculator works on: at least one validator, priorities of their own, well-formed
  metadata without repeated addresses.\<close>

definition proposer_ok :: "prio_heap \<Rightarrow> 'k ProposerSnapshot \<Rightarrow> bool" where
  "proposer_ok h pcs \<longleftrightarrow> ps_Validators pcs \<noteq> [] \<and> heap_ok h (ps_Validators pcs) \<and>
     validators_ok (map pv_Metadata (ps_Validators pcs))"

abbreviation weights :: "'k ProposerSnapshot \<Rightarrow> int list" where
  "weights pcs \<equiv> powers (ps_Validators pcs)"

abbreviation priorities :: "prio_heap \<Rightarrow> 'k ProposerSnapshot \<Rightarrow> int list" where
  "priorities h pcs \<equiv> prios h (ps_Validators pcs)"

abbreviation normal_priorities :: "prio_heap \<Rightarrow> 'k ProposerSnapshot \<Rightarrow> int list" where
  "normal_priorities h pcs \<equiv> rr_norm (sum_list (weights pcs)) (priorities h pcs)"

lemma snapshot_TotalVotingPower_eq: "snapshot_TotalVotingPower pcs = sum_list (weights pcs)"
  by (simp add: snapshot_TotalVotingPower_def sum_foldl)

lemma proposer_okD:
  assumes "proposer_ok h pcs"
  shows "ps_Validators pcs \<noteq> []" "heap_ok h (ps_Validators pcs)" "\<forall>w \<in> set (weights pcs). 0 < w"
    "0 < sum_list (weights pcs)"
    "\<forall>v \<in> set (ps_Validators pcs). length (vm_Address (pv_Metadata v)) = 20 \<and> vm_BlsKey (pv_Metadata v) \<noteq> None"
proof -
  show ne: "ps_Validators pcs \<noteq> []" and "heap_ok h (ps_Validators pcs)"
    using assms by (auto simp: proposer_ok_def)
  show w: "\<forall>w \<in> set (weights pcs). 0 < w"
    and "\<forall>v \<in> set (ps_Validators pcs). length (vm_Address (pv_Metadata v)) = 20 \<and> vm_BlsKey (pv_Metadata v) \<noteq> None"
    using assms by (auto simp: proposer_ok_def validators_ok_def list_all_iff validator_ok_def)
  show "0 < sum_list (weights pcs)" by (rule sum_list_pos) (use ne w in auto)
qed

lemma snapshot_rr_inv:
  assumes "proposer_ok h pcs"
  shows "rr_inv (weights pcs) (sum_list (normal_priorities h pcs)) (normal_priorities h pcs)"
    "0 \<le> sum_list (normal_priorities h pcs)" "\<forall>w \<in> set (weights pcs). 0 \<le> w"
  using proposer_okD [OF assms] rr_norm_inv [of "priorities h pcs" "weights pcs"] rr_norm_sum [of "priorities h pcs"]
  by (auto intro: less_imp_le)

lemma NTimes_eq:
  assumes ok: "proposer_ok h pcs" and t: "n \<noteq> 0"
  obtains h' vs where "incrementProposerPriorityNTimes h pcs n =
      Some (Inr (Some (vs ! rr_chosen (weights pcs) (normal_priorities h pcs) (unat n - 1)), h',
        pcs\<lparr>ps_Validators := vs, ps_Proposer := Some (vs ! rr_chosen (weights pcs) (normal_priorities h pcs) (unat n - 1)),
          ps_Round := n - 1\<rparr>))"
    "prios h' vs = rr_state (weights pcs) (normal_priorities h pcs) (unat n)"
    "map pv_Metadata vs = map pv_Metadata (ps_Validators pcs)" "heap_ok h' vs" "length h \<le> length h'"
    "priorities h' pcs = normal_priorities h pcs"
proof -
  let ?vs = "ps_Validators pcs" and ?T = "sum_list (weights pcs)"
  note D = proposer_okD [OF ok]
  obtain h1 where 1: "updateWithChangeSet h ?vs ?T = Some (Inr h1)" "prios h1 ?vs = rr_norm ?T (prios h ?vs)"
    "length h1 = length h" by (rule updateWithChangeSet_eq [OF D(1,4,2)]) blast
  obtain k where k: "unat n = Suc k" using t by (cases "unat n") (simp_all add: unat_eq_zero)
  obtain h2 vs where 2: "increment_loop (Suc k) None h1 ?vs ?T =
      Inr (Some (vs ! rr_chosen (weights pcs) (prios h1 ?vs) k), h2, vs)"
    "prios h2 vs = rr_state (weights pcs) (prios h1 ?vs) (Suc k)" "map pv_Metadata vs = map pv_Metadata ?vs"
    "heap_ok h2 vs" "length h1 \<le> length h2" "\<forall>l<length h1. h2 ! l = h1 ! l"
    using increment_loop_eq [OF D(1)] by blast
  have nz: "\<not> n \<le> 0" using t by simp
  show thesis
  proof (rule that)
    show "incrementProposerPriorityNTimes h pcs n =
      Some (Inr (Some (vs ! rr_chosen (weights pcs) (normal_priorities h pcs) (unat n - 1)), h2,
        pcs\<lparr>ps_Validators := vs, ps_Proposer := Some (vs ! rr_chosen (weights pcs) (normal_priorities h pcs) (unat n - 1)),
          ps_Round := n - 1\<rparr>))"
      unfolding incrementProposerPriorityNTimes_def if_not_P [OF D(1)] if_not_P [OF nz] Let_def
        snapshot_TotalVotingPower_eq k using 1 2(1)
      by (simp del: increment_loop.simps)
    show "prios h2 vs = rr_state (weights pcs) (normal_priorities h pcs) (unat n)" using 2(2) unfolding 1(2) k .
    show "map pv_Metadata vs = map pv_Metadata ?vs" "heap_ok h2 vs" by (fact 2)+
    show "length h \<le> length h2" using 1(3) 2(5) by simp
    have "prios h2 ?vs = prios h1 ?vs"
      using D(2) 1(3) 2(6) by (intro map_cong refl) (auto simp: heap_ok_def)
    then show "priorities h2 pcs = normal_priorities h pcs" by (simp only: 1(2))
  qed
qed

lemma copy_prioritized_eq:
  "bn256_doc B \<Longrightarrow> \<forall>v \<in> set vs. length (vm_Address (pv_Metadata v)) = 20 \<and> vm_BlsKey (pv_Metadata v) \<noteq> None \<Longrightarrow>
     copy_prioritized B vs = Some vs"
  by (induction vs) (simp_all add: VM_Copy_eq)

lemma CalcProposer_eq:
  assumes doc: "bn256_doc B" and ok: "proposer_ok h pcs" and new: "ps_Round pcs \<noteq> r \<or> ps_Proposer pcs = None"
    and r: "r \<noteq> - 1"
  obtains h' p where "CalcProposer B h pcs r (ps_Height pcs) =
      Some (Inr (vm_Address (pv_Metadata (ps_Validators pcs ! rr_chosen (weights pcs) (normal_priorities h pcs) (unat r))),
        h', pcs\<lparr>ps_Proposer := Some p, ps_Round := r\<rparr>))"
    "vm_Address (pv_Metadata p) =
      vm_Address (pv_Metadata (ps_Validators pcs ! rr_chosen (weights pcs) (normal_priorities h pcs) (unat r)))"
    "priorities h' pcs = normal_priorities h pcs" "heap_ok h' (ps_Validators pcs)"
proof -
  note D = proposer_okD [OF ok]
  let ?vs = "ps_Validators pcs" and ?j = "rr_chosen (weights pcs) (normal_priorities h pcs) (unat r)"
  have cp: "copy_prioritized B ?vs = Some ?vs" by (rule copy_prioritized_eq [OF doc D(5)])
  define q where "q = copied_proposer (ps_Proposer pcs) ?vs ?vs"
  have c: "ProposerSnapshot_Copy B pcs = Some (pcs\<lparr>ps_Proposer := q\<rparr>)"
    by (simp add: ProposerSnapshot_Copy_def cp q_def)
  have nz: "r + 1 \<noteq> 0" using r by (metis add.commute add_eq_0_iff)
  then have u: "unat (r + 1) - 1 = unat r" using unatSuc [of r] by (simp add: add.commute)
  have ok': "proposer_ok h (pcs\<lparr>ps_Proposer := q\<rparr>)" using ok by (simp add: proposer_ok_def)
  have ev: "ps_Validators (pcs\<lparr>ps_Proposer := q\<rparr>) = ?vs" by simp
  obtain h' vs s where N: "incrementProposerPriorityNTimes h (pcs\<lparr>ps_Proposer := q\<rparr>) (r + 1) =
      Some (Inr (Some (vs ! ?j), h', s))"
    "map pv_Metadata vs = map pv_Metadata ?vs" "length h \<le> length h'" "priorities h' pcs = normal_priorities h pcs"
    by (rule NTimes_eq [OF ok' nz, unfolded ev u]) blast
  have j: "?j < length ?vs"
    using rr_chosen_less [OF snapshot_rr_inv [OF ok] D(4), of "unat r"] by simp
  have meta: "pv_Metadata (vs ! ?j) = pv_Metadata (?vs ! ?j)"
    using arg_cong [OF N(2), of "\<lambda>xs. xs ! ?j"] arg_cong [OF N(2), of length] j by simp
  have cache: "(if ps_Round pcs = r then ps_Proposer pcs else None) = None" using new by auto
  show thesis
  proof (rule that)
    show "CalcProposer B h pcs r (ps_Height pcs) = Some (Inr (vm_Address (pv_Metadata (?vs ! ?j)), h',
        pcs\<lparr>ps_Proposer := Some (vs ! ?j), ps_Round := r\<rparr>))"
      unfolding CalcProposer_def cache by (simp add: c N(1) meta)
    show "heap_ok h' ?vs" using D(2) N(3) by (auto simp: heap_ok_def)
  qed (simp_all add: meta N(4))
qed

text \<open>Every validator proposes in some round of a height, within a bound that its share of the total
  voting power gives.\<close>

lemma CalcProposer_eventually:
  assumes doc: "bn256_doc B" and ok: "proposer_ok h pcs" and fresh: "ps_Proposer pcs = None"
    and v: "v \<in> set (ps_Validators pcs)"
    and K: "K = (int (length (ps_Validators pcs)) - 1 + 2 * sum_list (weights pcs) * int (length (ps_Validators pcs)))
        div vm_VotingPower (pv_Metadata v)" "K < 2 ^ 64 - 1"
  shows "\<exists>r h' pcs'. int (unat r) \<le> K \<and>
    CalcProposer B h pcs r (ps_Height pcs) = Some (Inr (vm_Address (pv_Metadata v), h', pcs'))"
proof -
  note D = proposer_okD [OF ok] and R = snapshot_rr_inv [OF ok]
  let ?n = "int (length (ps_Validators pcs))" and ?T = "sum_list (weights pcs)"
  let ?w = "vm_VotingPower (pv_Metadata v)"
  obtain j where j: "j < length (ps_Validators pcs)" "ps_Validators pcs ! j = v"
    using v by (auto simp: in_set_conv_nth)
  then have jw: "j < length (weights pcs)" "weights pcs ! j = ?w" by simp_all
  have w: "0 < ?w" using D(3) v by auto
  from eventually_chosen [OF R D(4) jw(1)] obtain i where
    i: "int i * ?w \<le> sum_list (normal_priorities h pcs) + 2 * ?T * ?n" "rr_chosen (weights pcs) (normal_priorities h pcs) i = j"
    using w jw(2) by auto
  have "sum_list (normal_priorities h pcs) \<le> ?n - 1" using rr_norm_sum(2) [of "priorities h pcs"] D(1) by simp
  with i(1) have "int i * ?w \<le> ?n - 1 + 2 * ?T * ?n" by linarith
  then have iK: "int i \<le> K" unfolding K(1) using w by (metis zdiv_mono1 nonzero_mult_div_cancel_right less_irrefl)
  then have small: "i < 2 ^ 64 - 1" using K(2) by simp
  have u: "unat (of_nat i :: u64) = i" using small by (intro unat_of_nat_small) simp
  have nm: "(of_nat i :: u64) \<noteq> - 1"
  proof
    assume "(of_nat i :: u64) = - 1"
    then have "unat (of_nat i :: u64) = 2 ^ 64 - 1" by (simp add: unsigned_minus_1_eq_mask mask_eq_exp_minus_1)
    then show False using u small by simp
  qed
  obtain h' p where "CalcProposer B h pcs (of_nat i) (ps_Height pcs) =
      Some (Inr (vm_Address (pv_Metadata v), h', pcs\<lparr>ps_Proposer := Some p, ps_Round := of_nat i\<rparr>))"
    by (rule CalcProposer_eq [OF doc ok _ nm]) (use fresh u i(2) j(2) in simp_all)
  then show ?thesis using iK u by (metis)
qed

text \<open>The copy that \<^verbatim>\<open>CalcProposer\<close> works on shares the numbers of the original snapshot, so the call
  normalises the original in place. No later calculation can tell: normalising again changes
  nothing.\<close>

definition proposer_of :: "(ProposerError + Address \<times> prio_heap \<times> 'k ProposerSnapshot) option \<Rightarrow>
    (ProposerError + Address) option" where
  "proposer_of = map_option (map_sum (\<lambda>e. e) fst)"

lemma CalcProposer_max_round:
  assumes "bn256_doc B" "proposer_ok h pcs" "ps_Round pcs \<noteq> - 1 \<or> ps_Proposer pcs = None"
  shows "CalcProposer B h pcs (- 1) (ps_Height pcs) = Some (Inl NonPositiveTimes)"
proof -
  note D = proposer_okD [OF assms(2)]
  have cp: "copy_prioritized B (ps_Validators pcs) = Some (ps_Validators pcs)"
    by (rule copy_prioritized_eq [OF assms(1) D(5)])
  have cache: "(if ps_Round pcs = - 1 then ps_Proposer pcs else None) = None" using assms(3) by auto
  show ?thesis unfolding CalcProposer_def cache
    by (simp add: ProposerSnapshot_Copy_def cp incrementProposerPriorityNTimes_def D(1))
qed

lemma CalcProposer_unaffected:
  assumes doc: "bn256_doc B" and ok: "proposer_ok h pcs" and fresh: "ps_Proposer pcs = None"
    and c: "CalcProposer B h pcs r (ps_Height pcs) = Some (Inr (a, h1, pcs1))"
  shows "proposer_of (CalcProposer B h1 pcs1 r' (ps_Height pcs)) = proposer_of (CalcProposer B h pcs r' (ps_Height pcs))"
    and "proposer_ok h1 pcs1" "priorities h1 pcs1 = normal_priorities h pcs"
proof -
  note D = proposer_okD [OF ok]
  have r: "r \<noteq> - 1" using c CalcProposer_max_round [OF doc ok] fresh by auto
  obtain p where p: "pcs1 = pcs\<lparr>ps_Proposer := Some p, ps_Round := r\<rparr>"
    "vm_Address (pv_Metadata p) = a" "priorities h1 pcs = normal_priorities h pcs" "heap_ok h1 (ps_Validators pcs)"
    by (rule CalcProposer_eq [OF doc ok _ r]) (use fresh c in auto)
  have ev: "ps_Validators pcs1 = ps_Validators pcs" "ps_Height pcs1 = ps_Height pcs" by (simp_all add: p(1))
  show ok1: "proposer_ok h1 pcs1" using ok p(4) by (simp add: proposer_ok_def ev)
  show pr: "priorities h1 pcs1 = normal_priorities h pcs" using p(3) by (simp only: ev)
  have nn: "normal_priorities h1 pcs1 = normal_priorities h pcs"
    unfolding pr using rr_norm_idem [of "priorities h pcs" "sum_list (weights pcs)"] D(1,4) by (simp add: ev)
  then have nn: "normal_priorities h1 pcs = normal_priorities h pcs" unfolding ev .
  show "proposer_of (CalcProposer B h1 pcs1 r' (ps_Height pcs)) = proposer_of (CalcProposer B h pcs r' (ps_Height pcs))"
  proof (cases "r' = r")
    case True
    then show ?thesis unfolding True c by (simp add: CalcProposer_def p(1) proposer_of_def p(2))
  next
    case False
    then have new: "ps_Round pcs1 \<noteq> r' \<or> ps_Proposer pcs1 = None" by (simp add: p(1))
    show ?thesis
    proof (cases "r' = - 1")
      case True
      then show ?thesis using CalcProposer_max_round [OF doc ok] CalcProposer_max_round [OF doc ok1] new fresh
        by (simp add: ev)
    next
      case r': False
      obtain h2 q where "CalcProposer B h pcs r' (ps_Height pcs) = Some (Inr (vm_Address (pv_Metadata
          (ps_Validators pcs ! rr_chosen (weights pcs) (normal_priorities h pcs) (unat r'))), h2, q))"
        by (rule CalcProposer_eq [OF doc ok _ r']) (use fresh in auto)
      moreover obtain h3 q' where "CalcProposer B h1 pcs1 r' (ps_Height pcs1) = Some (Inr (vm_Address (pv_Metadata
          (ps_Validators pcs1 ! rr_chosen (weights pcs1) (normal_priorities h1 pcs1) (unat r'))), h3, q'))"
        by (rule CalcProposer_eq [OF doc ok1 new r']) blast
      ultimately show ?thesis unfolding ev nn by (simp only: proposer_of_def option.map map_sum.simps fst_conv)
    qed
  qed
qed

lemma NewProposerSnapshot_ok:
  assumes "NewProposerSnapshot h n vs = (h', pcs)" "validators_ok vs" "vs \<noteq> []"
  shows "proposer_ok h' pcs" "ps_Proposer pcs = None" "priorities h' pcs = replicate (length vs) 0"
    "map pv_Metadata (ps_Validators pcs) = vs"
proof -
  have h': "h' = h @ replicate (length vs) 0" and v: "ps_Validators pcs =
      map (\<lambda>i. \<lparr>pv_Metadata = vs ! i, pv_ProposerPriority = length h + i\<rparr>) [0..<length vs]"
    using assms(1) by (auto simp: NewProposerSnapshot_def)
  show m: "map pv_Metadata (ps_Validators pcs) = vs" unfolding v by (simp add: comp_def map_nth)
  have "locs (ps_Validators pcs) = map (\<lambda>i. length h + i) [0..<length vs]" unfolding v by (simp add: comp_def)
  then have "heap_ok h' (ps_Validators pcs)" by (simp add: heap_ok_def h' distinct_map)
  moreover have "ps_Validators pcs \<noteq> []" unfolding v using assms(3) by simp
  ultimately show "proposer_ok h' pcs" using assms(2) by (simp add: proposer_ok_def m)
  show "priorities h' pcs = replicate (length vs) 0" unfolding v h' by (intro nth_equalityI) (simp_all add: nth_append)
  show "ps_Proposer pcs = None" using assms(1) by (auto simp: NewProposerSnapshot_def)
qed

section \<open>Following the chain\<close>

lemma toMap_eq:
  assumes "distinct (map (vm_Address \<circ> pv_Metadata) vs)"
  shows "toMap vs a = map_of (map (\<lambda>v. (vm_Address (pv_Metadata v), v)) vs) a"
proof -
  have "foldl (\<lambda>m v. m(vm_Address (pv_Metadata v) \<mapsto> v)) m vs =
      m ++ map_of (map (\<lambda>v. (vm_Address (pv_Metadata v), v)) vs)" for m :: "Address \<rightharpoonup> 'a PrioritizedValidator"
    using assms
  proof (induction vs arbitrary: m)
    case (Cons v vs)
    let ?f = "map_of (map (\<lambda>v. (vm_Address (pv_Metadata v), v)) vs)"
    have "?f (vm_Address (pv_Metadata v)) = None"
      using Cons.prems by (simp add: map_of_eq_None_iff image_image comp_def)
    then have "m(vm_Address (pv_Metadata v) \<mapsto> v) ++ ?f = m ++ map_of (map (\<lambda>v. (vm_Address (pv_Metadata v), v)) (v # vs))"
      by (intro ext) (auto simp: map_add_def split: option.splits)
    with Cons.IH [of "m(vm_Address (pv_Metadata v) \<mapsto> v)"] Cons.prems show ?case
      by (simp only: foldl_Cons distinct.simps list.map)
  qed simp
  then show ?thesis by (simp add: toMap_def)
qed

lemma toMap_SomeD:
  assumes "distinct (map (vm_Address \<circ> pv_Metadata) vs)" "toMap vs a = Some v"
  shows "v \<in> set vs" "vm_Address (pv_Metadata v) = a"
  using map_of_SomeD [of "map (\<lambda>v. (vm_Address (pv_Metadata v), v)) vs" a v] assms toMap_eq [OF assms(1), of a] by auto

text \<open>The validators of the new set: those that stay keep their location, the others get new ones.\<close>

lemma new_prioritized_ok:
  assumes "new_prioritized m h tvp vs = (h', r)" "addresses_distinct vs"
    and inj: "\<And>a b v w. m a = Some v \<Longrightarrow> m b = Some w \<Longrightarrow> pv_ProposerPriority v = pv_ProposerPriority w \<Longrightarrow> a = b"
    and bound: "\<And>a v. m a = Some v \<Longrightarrow> pv_ProposerPriority v < n" "n \<le> length h"
  shows "map pv_Metadata r = vs \<and> distinct (locs r) \<and> length h \<le> length h' \<and>
    (\<forall>v \<in> set r. case m (vm_Address (pv_Metadata v)) of
        None \<Rightarrow> length h \<le> pv_ProposerPriority v \<and> pv_ProposerPriority v < length h'
      | Some w \<Rightarrow> pv_ProposerPriority v = pv_ProposerPriority w)"
  using assms(1,2,5)
proof (induction vs arbitrary: h tvp h' r)
  case (Cons v vs)
  show ?case
  proof (cases "m (vm_Address v)")
    case None
    obtain h1 r1 where 1: "new_prioritized m (h @ [- (tvp + tvp div 8)]) (tvp + tvp div 8) vs = (h1, r1)" by fastforce
    then have r: "h' = h1" "r = \<lparr>pv_Metadata = v, pv_ProposerPriority = length h\<rparr> # r1"
      using Cons.prems(1) None by (simp_all add: Let_def)
    note IH = Cons.IH [OF 1]
    have IH: "map pv_Metadata r1 = vs" "distinct (locs r1)" "length h < length h1"
      "\<forall>w \<in> set r1. case m (vm_Address (pv_Metadata w)) of
        None \<Rightarrow> length h < pv_ProposerPriority w \<and> pv_ProposerPriority w < length h1
      | Some u \<Rightarrow> pv_ProposerPriority w = pv_ProposerPriority u"
      using IH Cons.prems(2,3) by (auto split: option.splits)
    have "pv_ProposerPriority w \<noteq> length h" if "w \<in> set r1" for w
      using IH(4) that bound(1) Cons.prems(3) by (fastforce split: option.splits)
    then show ?thesis using IH None unfolding r by (fastforce split: option.splits)
  next
    case (Some u)
    obtain h1 r1 where 1: "new_prioritized m h tvp vs = (h1, r1)" by fastforce
    then have r: "h' = h1" "r = \<lparr>pv_Metadata = v, pv_ProposerPriority = pv_ProposerPriority u\<rparr> # r1"
      using Cons.prems(1) Some by simp_all
    have IH: "map pv_Metadata r1 = vs" "distinct (locs r1)" "length h \<le> length h1"
      "\<forall>w \<in> set r1. case m (vm_Address (pv_Metadata w)) of
        None \<Rightarrow> length h \<le> pv_ProposerPriority w \<and> pv_ProposerPriority w < length h1
      | Some u \<Rightarrow> pv_ProposerPriority w = pv_ProposerPriority u"
      using Cons.IH [OF 1] Cons.prems(2,3) by auto
    have "pv_ProposerPriority w \<noteq> pv_ProposerPriority u" if w: "w \<in> set r1" for w
    proof -
      have "vm_Address (pv_Metadata w) \<in> vm_Address ` set vs" using w unfolding IH(1) [symmetric] by auto
      then have "vm_Address (pv_Metadata w) \<noteq> vm_Address v" using Cons.prems(2) by auto
      then show ?thesis using IH(4) w inj Some bound(1) [OF Some] Cons.prems(3)
        by (cases "m (vm_Address (pv_Metadata w))") fastforce+
    qed
    then have "pv_ProposerPriority u \<notin> set (locs r1)" by fastforce
    then show ?thesis using IH Some unfolding r by simp
  qed
qed simp

lemma snapshot_addresses: "proposer_ok h pcs \<Longrightarrow> distinct (map (vm_Address \<circ> pv_Metadata) (ps_Validators pcs))"
  by (simp add: proposer_ok_def validators_ok_def comp_def)

lemma new_prioritized_heap_ok:
  assumes ok: "proposer_ok h pcs" and new: "addresses_distinct vs"
    and n: "new_prioritized (toMap (ps_Validators pcs)) h tvp vs = (h', r)"
  shows "heap_ok h' r" "map pv_Metadata r = vs" "length h \<le> length h'"
proof -
  let ?m = "toMap (ps_Validators pcs)"
  note T = toMap_SomeD [OF snapshot_addresses [OF ok]] and D = proposer_okD [OF ok]
  have bound: "pv_ProposerPriority v < length h" if "?m a = Some v" for a v
    using T(1) [OF that] D(2) by (simp add: heap_ok_def)
  have inj: "a = b" if "?m a = Some v" "?m b = Some w" "pv_ProposerPriority v = pv_ProposerPriority w" for a b v w
  proof -
    have "v = w" using T(1) [OF that(1)] T(1) [OF that(2)] that(3) D(2) by (auto simp: heap_ok_def distinct_map inj_on_def)
    then show ?thesis using T(2) [OF that(1)] T(2) [OF that(2)] by simp
  qed
  have R: "map pv_Metadata r = vs \<and> distinct (locs r) \<and> length h \<le> length h' \<and>
    (\<forall>v \<in> set r. case ?m (vm_Address (pv_Metadata v)) of
        None \<Rightarrow> length h \<le> pv_ProposerPriority v \<and> pv_ProposerPriority v < length h'
      | Some w \<Rightarrow> pv_ProposerPriority v = pv_ProposerPriority w)"
    by (rule new_prioritized_ok [OF n new, where n = "length h"]) (use inj bound in auto)
  then show "map pv_Metadata r = vs" "length h \<le> length h'" by auto
  have "pv_ProposerPriority v < length h'" if v: "v \<in> set r" for v
  proof (cases "?m (vm_Address (pv_Metadata v))")
    case None
    then show ?thesis using R v by fastforce
  next
    case (Some w)
    then have "pv_ProposerPriority v = pv_ProposerPriority w" using R v by fastforce
    then show ?thesis using bound [OF Some] R by simp
  qed
  then show "heap_ok h' r" using R by (simp add: heap_ok_def)
qed

lemma updateValidators_ok:
  assumes ok: "proposer_ok h pcs" and new: "validators_ok newSet"
  obtains h' pcs' where "updateValidators str h pcs newSet = Some (Inr (h', pcs'))" "proposer_ok h' pcs'"
    "newSet \<noteq> [] \<Longrightarrow> map pv_Metadata (ps_Validators pcs') = newSet"
    "newSet = [] \<Longrightarrow> h' = h \<and> pcs' = pcs" "ps_Height pcs' = ps_Height pcs"
proof (cases "newSet = []")
  case True
  then show thesis using that [of h pcs] ok by (simp add: updateValidators_def)
next
  case False
  define tvp where "tvp = GetTotalVotingPower newSet + removed_power str (ps_Validators pcs) newSet"
  obtain h1 r where n: "new_prioritized (toMap (ps_Validators pcs)) h tvp newSet = (h1, r)" by fastforce
  note N = new_prioritized_heap_ok [OF ok _ n]
  have d: "addresses_distinct newSet" using new by (simp add: validators_ok_def)
  let ?pcs = "pcs\<lparr>ps_Validators := r\<rparr>"
  have ne: "r \<noteq> []" using N(2) [OF d] False by auto
  have ok1: "proposer_ok h1 ?pcs" using ne N(1,2) [OF d] new by (simp add: proposer_ok_def)
  have T: "snapshot_TotalVotingPower ?pcs = sum_list (powers r)" by (simp add: snapshot_TotalVotingPower_eq)
  have pos: "0 < sum_list (powers r)" using proposer_okD(4) [OF ok1] by simp
  obtain h' where "updateWithChangeSet h1 r (sum_list (powers r)) = Some (Inr h')" "length h' = length h1"
    by (rule updateWithChangeSet_eq [OF ne pos N(1) [OF d]]) blast
  moreover from this(2) have "proposer_ok h' ?pcs" using ok1 heap_ok_length by (auto simp: proposer_ok_def)
  ultimately show thesis using that [of h' ?pcs] False N(2) [OF d]
    by (simp add: updateValidators_def Let_def tvp_def [symmetric] n T)
qed

definition block_ok :: "('k, 's, 'v) polybft_libs \<Rightarrow> (u64 \<Rightarrow> Header option) \<Rightarrow> (u64 \<Rightarrow> string + 'k AccountSet) \<Rightarrow> u64 \<Rightarrow> bool" where
  "block_ok L GH GV n = (case getBlockData L GH n of Inl _ \<Rightarrow> False
     | Inr (_, extra) \<Rightarrow>
         (case ex_Checkpoint extra of None \<Rightarrow> False | Some c \<Rightarrow> cp_BlockRound c \<noteq> - 1) \<and>
         (case ex_Validators extra of None \<Rightarrow> True
          | Some d \<Rightarrow> Delta_IsEmpty d \<or> (case GV n of Inl _ \<Rightarrow> False | Inr vs \<Rightarrow> validators_ok vs)))"

lemma updatePerBlock_ok:
  assumes ok: "proposer_ok h pcs" and b: "block_ok L GH GV (ps_Height pcs)"
  shows "\<exists>h' pcs'. updatePerBlock L str GH GV h pcs (ps_Height pcs) = Some (Inr (h', pcs')) \<and> proposer_ok h' pcs' \<and>
    ps_Height pcs' = ps_Height pcs + 1 \<and> ps_Round pcs' = 0 \<and> ps_Proposer pcs' = None"
proof -
  obtain hd extra c where g: "getBlockData L GH (ps_Height pcs) = Inr (hd, extra)" "ex_Checkpoint extra = Some c"
    and r: "cp_BlockRound c \<noteq> - 1"
    using b by (auto simp: block_ok_def split: sum.splits prod.splits option.splits)
  obtain newSet where v: "(case ex_Validators extra of None \<Rightarrow> Inr []
      | Some d \<Rightarrow> if Delta_IsEmpty d then Inr [] else GV (ps_Height pcs)) = Inr newSet" "validators_ok newSet"
  proof (cases "ex_Validators extra")
    case None
    then show thesis using that [of "[]"] by (simp add: validators_ok_def)
  next
    case (Some d)
    then show thesis using that [of "[]"] that b
      by (cases "Delta_IsEmpty d") (auto simp: validators_ok_def block_ok_def g split: sum.splits)
  qed
  have nz: "cp_BlockRound c + 1 \<noteq> 0" using r by (metis add.commute add_eq_0_iff)
  obtain h1 vs p s where N: "incrementProposerPriorityNTimes h pcs (cp_BlockRound c + 1) = Some (Inr (p, h1, s))"
    "s = pcs\<lparr>ps_Validators := vs, ps_Proposer := p, ps_Round := cp_BlockRound c + 1 - 1\<rparr>"
    "map pv_Metadata vs = map pv_Metadata (ps_Validators pcs)" "heap_ok h1 vs"
    by (rule NTimes_eq [OF ok nz]) blast
  have "vs \<noteq> []" using N(3) proposer_okD(1) [OF ok] by auto
  then have ok1: "proposer_ok h1 s" using ok N(3,4) by (simp add: proposer_ok_def N(2))
  obtain h2 pcs2 where "updateValidators str h1 s newSet = Some (Inr (h2, pcs2))" "proposer_ok h2 pcs2"
    by (rule updateValidators_ok [OF ok1 v(2)]) blast
  then show ?thesis unfolding updatePerBlock_def using v(1) by (simp add: g N(1) proposer_ok_def)
qed

lemma update_loop_ok:
  "proposer_ok h pcs \<Longrightarrow> \<forall>i<n. block_ok L GH GV (ps_Height pcs + of_nat i) \<Longrightarrow> ps_Proposer pcs = None \<Longrightarrow>
   \<exists>h' pcs'. update_loop L str GH GV n h pcs (ps_Height pcs) = Some (Inr (h', pcs')) \<and> proposer_ok h' pcs' \<and>
     ps_Height pcs' = ps_Height pcs + of_nat n \<and> ps_Proposer pcs' = None"
proof (induction n arbitrary: h pcs)
  case (Suc n)
  have "block_ok L GH GV (ps_Height pcs)" using Suc.prems(2) [rule_format, of 0] by simp
  from updatePerBlock_ok [OF Suc.prems(1) this] obtain h1 pcs1 where
    1: "updatePerBlock L str GH GV h pcs (ps_Height pcs) = Some (Inr (h1, pcs1))" "proposer_ok h1 pcs1"
      "ps_Height pcs1 = ps_Height pcs + 1" "ps_Proposer pcs1 = None" by blast
  have "\<forall>i<n. block_ok L GH GV (ps_Height pcs1 + of_nat i)"
    using Suc.prems(2) by (auto simp: 1(3) add.assoc dest: spec [of _ "Suc _"])
  from Suc.IH [OF 1(2) this 1(4)] show ?case using 1(1,3) by (auto simp: add.assoc)
qed simp

end
