(* ===== verification/Blockchain.thy ===== *)
theory Blockchain
  imports Block_Types Chain_Params
begin

text \<open>
  The header chain of \<^verbatim>\<open>src/blockchain/blockchain.go\<close> and \<^verbatim>\<open>src/blockchain/storagev2/\<close>: the rules for the gas
  limit and the base fee of the next block, the tables of the block store, and the writing of headers
  with the choice of the canonical chain.

  The store is a record of its tables with decoded values; a \<^verbatim>\<open>Writer\<close> collects entries and
  \<^verbatim>\<open>WriteBatch\<close> applies them in order. The LRU caches in front of the store hold what the store holds
  and are left out, as are failures of the key-value database. The latest chain configuration that the
  consensus engine returns is a parameter.
\<close>

section \<open>Gas limit and base fee\<close>

definition blockGasTargetDivisor :: u64 where "blockGasTargetDivisor = 1024"

record ChainConfig =
  cc_Forks :: Forks
  cc_BlockGasTarget :: u64
  cc_BaseFeeEM :: u64
  cc_BaseFeeChangeDenom :: u64
  cc_GenesisBaseFee :: u64
  cc_DefaultBaseFee :: u64

definition calculateGasLimit :: "u64 \<Rightarrow> u64 \<Rightarrow> u64" where
  "calculateGasLimit blockGasTarget parentGasLimit =
     (if blockGasTarget = 0 then parentGasLimit
      else if parentGasLimit = blockGasTarget then blockGasTarget
      else let delta = parentGasLimit * 1 div blockGasTargetDivisor in
        if parentGasLimit < blockGasTarget then Min blockGasTarget (parentGasLimit + delta)
        else Max blockGasTarget (Max (parentGasLimit - delta) 0))"

datatype BlockchainError =
    GasUsedExceedsLimit
  | InvalidGasLimit
  | ErrParentNotFound
  | ErrInvalidParentHash
  | ErrParentHashMismatch
  | ErrInvalidBlockSequence
  | ErrInvalidReceiptsSize
  | ErrInvalidStateRoot
  | ErrInvalidGasUsed
  | ErrInvalidReceiptsRoot
  | DifficultyNotFound
  | EmptyHeaders
  | NumberSequence nat
  | ParentHashSequence

text \<open>\<^verbatim>\<open>int64\<close> arithmetic is arithmetic on the same 64 bits; only the comparison with zero reads them
  as a signed number.\<close>

definition verifyGasLimit :: "Header \<Rightarrow> Header \<Rightarrow> BlockchainError option" where
  "verifyGasLimit header parentHeader =
     (if hdr_GasUsed header > hdr_GasLimit header then Some GasUsedExceedsLimit
      else if hdr_Number header = 0 then None
      else let diff = hdr_GasLimit parentHeader - hdr_GasLimit header;
               diff = (if sint diff < 0 then diff * - 1 else diff);
               limit = hdr_GasLimit parentHeader div blockGasTargetDivisor
           in if diff > limit then Some InvalidGasLimit else None)"

text \<open>Division by zero is a panic.\<close>

definition u64_div :: "u64 \<Rightarrow> u64 \<Rightarrow> u64 option" where
  "u64_div a b = (if b = 0 then None else Some (a div b))"

definition calcBaseFeeDelta :: "ChainConfig \<Rightarrow> u64 \<Rightarrow> (string + u64 option) \<Rightarrow> u64 \<Rightarrow> u64 \<Rightarrow> u64 \<Rightarrow> u64 option" where
  "calcBaseFeeDelta cfg headNumber GetLatestChainConfig gasUsedDelta parentGasTarget baseFee =
     (case (if IsActive (cc_Forks cfg) ''governance'' headNumber then GetLatestChainConfig else Inr None) of
        Inl err \<Rightarrow> Some (cc_BaseFeeChangeDenom cfg)
      | Inr latest \<Rightarrow> do {
          let baseFeeChangeDenom = (case latest of None \<Rightarrow> cc_BaseFeeChangeDenom cfg | Some d \<Rightarrow> d);
          y \<leftarrow> u64_div (baseFee * gasUsedDelta) parentGasTarget;
          u64_div y baseFeeChangeDenom })"

definition CalculateBaseFee :: "ChainConfig \<Rightarrow> u64 \<Rightarrow> (string + u64 option) \<Rightarrow> Header \<Rightarrow> u64 option" where
  "CalculateBaseFee cfg headNumber GetLatestChainConfig parent =
     (if \<not> IsActive (cc_Forks cfg) ''london'' (hdr_Number parent) then Some 0
      else if hdr_BaseFee parent = 0 then
        Some (if cc_GenesisBaseFee cfg > 0 then cc_GenesisBaseFee cfg else cc_DefaultBaseFee cfg)
      else do {
        parentGasTarget \<leftarrow> u64_div (hdr_GasLimit parent) (cc_BaseFeeEM cfg);
        if hdr_GasUsed parent = parentGasTarget then Some (hdr_BaseFee parent)
        else if hdr_GasUsed parent > parentGasTarget then do {
          let gasUsedDelta = hdr_GasUsed parent - parentGasTarget;
          baseFeeDelta \<leftarrow> calcBaseFeeDelta cfg headNumber GetLatestChainConfig gasUsedDelta parentGasTarget (hdr_BaseFee parent);
          Some (hdr_BaseFee parent + Max baseFeeDelta 1) }
        else do {
          let gasUsedDelta = parentGasTarget - hdr_GasUsed parent;
          baseFeeDelta \<leftarrow> calcBaseFeeDelta cfg headNumber GetLatestChainConfig gasUsedDelta parentGasTarget (hdr_BaseFee parent);
          Some (Max (hdr_BaseFee parent - baseFeeDelta) 0) } })"

section \<open>The block store\<close>

record Tables =
  tb_HEADER :: "u64 \<times> Hash \<rightharpoonup> Header"
  tb_BLOCK_LOOKUP :: "Hash \<rightharpoonup> u64"
  tb_CANONICAL :: "u64 \<rightharpoonup> Hash"
  tb_DIFFICULTY :: "u64 \<times> Hash \<rightharpoonup> int"
  tb_FORK :: "Hash list option"
  tb_HEAD_HASH :: "Hash option"
  tb_HEAD_NUMBER :: "u64 option"

datatype Put =
    PutHeader Header
  | PutHeadHash Hash
  | PutHeadNumber u64
  | PutBlockLookup Hash u64
  | PutCanonicalHash u64 Hash
  | PutTotalDifficulty u64 Hash int
  | PutForks "Hash list"

type_synonym Writer = "Put list"

definition PutCanonicalHeader :: "Header \<Rightarrow> int \<Rightarrow> Writer" where
  "PutCanonicalHeader h diff =
     [PutHeader h, PutHeadHash (hdr_Hash h), PutHeadNumber (hdr_Number h),
      PutBlockLookup (hdr_Hash h) (hdr_Number h), PutCanonicalHash (hdr_Number h) (hdr_Hash h),
      PutTotalDifficulty (hdr_Number h) (hdr_Hash h) diff]"

primrec putIntoTable :: "Tables \<Rightarrow> Put \<Rightarrow> Tables" where
  "putIntoTable db (PutHeader h) = db\<lparr>tb_HEADER := (tb_HEADER db)((hdr_Number h, hdr_Hash h) \<mapsto> h)\<rparr>"
| "putIntoTable db (PutHeadHash h) = db\<lparr>tb_HEAD_HASH := Some h\<rparr>"
| "putIntoTable db (PutHeadNumber n) = db\<lparr>tb_HEAD_NUMBER := Some n\<rparr>"
| "putIntoTable db (PutBlockLookup h n) = db\<lparr>tb_BLOCK_LOOKUP := (tb_BLOCK_LOOKUP db)(h \<mapsto> n)\<rparr>"
| "putIntoTable db (PutCanonicalHash n h) = db\<lparr>tb_CANONICAL := (tb_CANONICAL db)(n \<mapsto> h)\<rparr>"
| "putIntoTable db (PutTotalDifficulty n h d) = db\<lparr>tb_DIFFICULTY := (tb_DIFFICULTY db)((n, h) \<mapsto> d)\<rparr>"
| "putIntoTable db (PutForks fs) = db\<lparr>tb_FORK := Some fs\<rparr>"

definition WriteBatch :: "Tables \<Rightarrow> Writer \<Rightarrow> Tables" where
  "WriteBatch db w = foldl putIntoTable db w"

record Blockchain =
  bc_db :: Tables
  bc_currentHeader :: Header
  bc_currentDifficulty :: int

definition readHeader :: "Tables \<Rightarrow> Hash \<Rightarrow> Header option" where
  "readHeader db hash = do { n \<leftarrow> tb_BLOCK_LOOKUP db hash; tb_HEADER db (n, hash) }"

definition readTotalDifficulty :: "Tables \<Rightarrow> Hash \<Rightarrow> int option" where
  "readTotalDifficulty db headerHash = do { n \<leftarrow> tb_BLOCK_LOOKUP db headerHash; tb_DIFFICULTY db (n, headerHash) }"

definition GetHeaderByNumber :: "Tables \<Rightarrow> u64 \<Rightarrow> Header option" where
  "GetHeaderByNumber db n = do { hash \<leftarrow> tb_CANONICAL db n; readHeader db hash }"

definition verifyBlockParent :: "Tables \<Rightarrow> Header \<Rightarrow> BlockchainError option" where
  "verifyBlockParent db child =
     (let parentHash = hdr_ParentHash child in
      case readHeader db parentHash of None \<Rightarrow> Some ErrParentNotFound
      | Some parent \<Rightarrow>
          if hdr_Hash parent = ZeroHash then Some ErrInvalidParentHash
          else if parentHash \<noteq> hdr_Hash parent then Some ErrParentHashMismatch
          else if hdr_Number child - 1 \<noteq> hdr_Number parent then Some ErrInvalidBlockSequence
          else verifyGasLimit child parent)"

record BlockResult =
  br_Root :: Hash
  br_Receipts :: "Receipt list"
  br_TotalGas :: u64

definition verifyBlockResult :: "(Receipt list \<Rightarrow> Hash) \<Rightarrow> BlockResult \<Rightarrow> Block \<Rightarrow> BlockchainError option" where
  "verifyBlockResult CalculateReceiptsRoot br b =
     (if length (br_Receipts br) \<noteq> length (bk_Transactions b) then Some ErrInvalidReceiptsSize
      else if br_Root br \<noteq> hdr_StateRoot (bk_Header b) then Some ErrInvalidStateRoot
      else if br_TotalGas br \<noteq> hdr_GasUsed (bk_Header b) then Some ErrInvalidGasUsed
      else if CalculateReceiptsRoot (br_Receipts br) \<noteq> hdr_ReceiptsRoot (bk_Header b) then Some ErrInvalidReceiptsRoot
      else None)"

section \<open>Writing headers\<close>

definition getForksToWrite :: "Tables \<Rightarrow> Header \<Rightarrow> Hash list" where
  "getForksToWrite db header =
     (let forks = (case tb_FORK db of None \<Rightarrow> [] | Some fs \<Rightarrow> fs)
      in filter (\<lambda>fork. fork \<noteq> hdr_ParentHash header) forks @ [hdr_Hash header])"

text \<open>The loops of \<^verbatim>\<open>handleReorg\<close>. A header that is not found is a nil pointer whose field the error
  message reads, so the error return is a panic: \<^term>\<open>None\<close> stands for it and for a loop that does
  not end.\<close>

partial_function (option) reorg_down :: "Tables \<Rightarrow> u64 \<Rightarrow> Header \<Rightarrow> Header list \<Rightarrow> (Header \<times> Header list) option" where
  "reorg_down db n h acc =
     (if hdr_Number h > n then do {
        h \<leftarrow> readHeader db (hdr_ParentHash h);
        reorg_down db n h (acc @ [h]) }
      else Some (h, acc))"

partial_function (option) reorg_join :: "Tables \<Rightarrow> Header \<Rightarrow> Header \<Rightarrow> Header list \<Rightarrow> Header list option" where
  "reorg_join db oldHeader newHeader oldChain =
     (if hdr_Hash oldHeader \<noteq> hdr_Hash newHeader then do {
        oldHeader \<leftarrow> readHeader db (hdr_ParentHash oldHeader);
        newHeader \<leftarrow> readHeader db (hdr_ParentHash newHeader);
        reorg_join db oldHeader newHeader (oldChain @ [oldHeader]) }
      else Some oldChain)"

declare reorg_down.simps [code] reorg_join.simps [code]

definition handleReorg :: "Tables \<Rightarrow> Header \<Rightarrow> Header \<Rightarrow> Writer option" where
  "handleReorg db oldHead newHead = do {
     (oldHeader, oldChain) \<leftarrow> reorg_down db (hdr_Number newHead) oldHead [];
     (newHeader, newChain) \<leftarrow> reorg_down db (hdr_Number oldHeader) newHead [];
     oldChain \<leftarrow> reorg_join db oldHeader newHeader oldChain;
     if oldChain = [] then None
     else Some (PutForks (getForksToWrite db oldHead) # map (\<lambda>h. PutCanonicalHash (hdr_Number h) (hdr_Hash h)) newChain) }"

definition writeHeaderImpl ::
  "Blockchain \<Rightarrow> Header \<Rightarrow> (BlockchainError + bool \<times> int option \<times> Writer) option" where
  "writeHeaderImpl b header =
     (let db = bc_db b in
      case readTotalDifficulty db (hdr_ParentHash header) of None \<Rightarrow> Some (Inl ErrParentNotFound)
      | Some parentTD \<Rightarrow>
          let currentHeader = bc_currentHeader b;
              incomingTD = parentTD + int (unat (hdr_Difficulty header)) in
          if hdr_ParentHash header = hdr_Hash currentHeader then
            Some (Inr (True, Some incomingTD, PutCanonicalHeader header incomingTD))
          else (case readTotalDifficulty db (hdr_Hash currentHeader) of None \<Rightarrow> Some (Inl DifficultyNotFound)
            | Some currentTD \<Rightarrow>
                if incomingTD > currentTD then do {
                  w \<leftarrow> handleReorg db currentHeader header;
                  Some (Inr (True, Some incomingTD, w @ PutCanonicalHeader header incomingTD)) }
                else Some (Inr (False, None,
                  [PutHeader header, PutTotalDifficulty (hdr_Number header) (hdr_Hash header) incomingTD,
                   PutForks (getForksToWrite db header), PutBlockLookup (hdr_Hash header) (hdr_Number header)]))))"

definition writeBatchAndUpdate :: "Blockchain \<Rightarrow> Writer \<Rightarrow> Header \<Rightarrow> int option \<Rightarrow> bool \<Rightarrow> Blockchain" where
  "writeBatchAndUpdate b w header newTD isCanonical =
     (let b = b\<lparr>bc_db := WriteBatch (bc_db b) w\<rparr> in
      if isCanonical then b\<lparr>bc_currentHeader := Header_Copy header, bc_currentDifficulty := (case newTD of None \<Rightarrow> 0 | Some d \<Rightarrow> d)\<rparr>
      else b)"

definition writeGenesisImpl :: "Blockchain \<Rightarrow> Header \<Rightarrow> Blockchain" where
  "writeGenesisImpl b header =
     (let newTD = int (unat (hdr_Difficulty header))
      in writeBatchAndUpdate b (PutCanonicalHeader header newTD) header (Some newTD) True)"

definition write_header :: "Blockchain \<Rightarrow> Header \<Rightarrow> (BlockchainError option \<times> Blockchain) option" where
  "write_header b header = do {
     r \<leftarrow> writeHeaderImpl b header;
     Some (case r of Inl err \<Rightarrow> (Some err, b)
       | Inr (isCanonical, newTD, w) \<Rightarrow> (None, writeBatchAndUpdate b w header newTD isCanonical)) }"

primrec write_headers :: "Blockchain \<Rightarrow> Header list \<Rightarrow> (BlockchainError option \<times> Blockchain) option" where
  "write_headers b [] = Some (None, b)"
| "write_headers b (h # hs) = do {
     (err, b) \<leftarrow> write_header b h;
     (case err of Some e \<Rightarrow> Some (Some e, b) | None \<Rightarrow> write_headers b hs) }"

fun check_sequence :: "nat \<Rightarrow> Header list \<Rightarrow> BlockchainError option" where
  "check_sequence i (a # b # hs) =
     (if hdr_Number b - 1 \<noteq> hdr_Number a then Some (NumberSequence i)
      else if hdr_ParentHash b \<noteq> hdr_Hash a then Some ParentHashSequence
      else check_sequence (i + 1) (b # hs))"
| "check_sequence i hs = None"

definition WriteHeadersWithBodies :: "Blockchain \<Rightarrow> Header list \<Rightarrow> (BlockchainError option \<times> Blockchain) option" where
  "WriteHeadersWithBodies b headers =
     (if length headers = 0 then Some (Some EmptyHeaders, b)
      else case check_sequence 1 headers of
        Some err \<Rightarrow> Some (Some err, b)
      | None \<Rightarrow> write_headers b headers)"

text \<open>The loop of \<^verbatim>\<open>GetHashHelper\<close>, which counts \<open>num\<close> down to zero.\<close>

primrec get_hash :: "Tables \<Rightarrow> u64 \<Rightarrow> nat \<Rightarrow> Hash \<Rightarrow> Hash" where
  "get_hash db i 0 hash = (if 0 = i then hash else ZeroHash)"
| "get_hash db i (Suc n) hash =
     (if of_nat (Suc n) = i then hash
      else case readHeader db hash of None \<Rightarrow> ZeroHash
        | Some h \<Rightarrow> get_hash db i n (hdr_ParentHash h))"

definition GetHashHelper :: "Tables \<Rightarrow> Header \<Rightarrow> u64 \<Rightarrow> Hash" where
  "GetHashHelper db header i = get_hash db i (unat (hdr_Number header - 1)) (hdr_ParentHash header)"

section \<open>The gas limit of the next block\<close>

lemma uint_less_unat: "unat x < 2 ^ 63 \<Longrightarrow> uint (x :: u64) < 2 ^ 63"
proof -
  assume "unat x < 2 ^ 63"
  then have "int (unat x) < int (2 ^ 63)" by (simp only: of_nat_less_iff)
  then show ?thesis by simp
qed

lemma sint_not_neg: "unat (x :: u64) < 2 ^ 63 \<Longrightarrow> \<not> sint x < 0"
proof -
  assume "unat x < 2 ^ 63"
  from uint_less_unat [OF this] have "signed_take_bit 63 (uint x) = uint x"
    using signed_take_bit_int_eq_self_iff [of 63 "uint x"] order_trans [OF _ uint_ge_0 [of x], of "- (2 ^ 63)"] by simp
  then show ?thesis by (simp add: sint_uint)
qed

lemma sint_minus_small:
  fixes x :: u64
  assumes "0 < unat x" "unat x < 2 ^ 63"
  shows "sint (- x) < 0"
proof -
  have "uint (- x) = take_bit 64 (- uint x)" by (simp add: uint_word_ariths take_bit_eq_mod)
  then have "sint (- x) = signed_take_bit 63 (- uint x)"
    by (simp add: sint_uint signed_take_bit_take_bit)
  also have "\<dots> = - uint x"
    using uint_less_unat [OF assms(2)] signed_take_bit_int_eq_self_iff [of 63 "- uint x"]
      uint_ge_0 [of x] by simp
  moreover have "0 < int (unat x)" using assms(1) by (simp only: of_nat_0_less_iff)
  ultimately show ?thesis by simp
qed

lemma abs_diff_word:
  fixes a b :: u64
  assumes "unat a - unat b < 2 ^ 63" "unat b - unat a < 2 ^ 63"
  shows "unat (if sint (a - b) < 0 then (a - b) * - 1 else a - b) = (unat a - unat b) + (unat b - unat a)"
proof (cases "b \<le> a")
  case True
  then have u: "unat (a - b) = unat a - unat b" by (rule unat_sub)
  then have "\<not> sint (a - b) < 0" using assms(1) by (intro sint_not_neg) simp
  then show ?thesis using True u by (simp add: word_le_nat_alt)
next
  case False
  then have u: "unat (b - a) = unat b - unat a" by (intro unat_sub) simp
  have lt: "unat a < unat b" using False by (simp add: word_le_nat_alt)
  have "sint (- (b - a)) < 0" by (rule sint_minus_small) (use assms(2) u lt in simp_all)
  then show ?thesis using u lt by simp
qed

lemma unat_gas_delta: "unat (p div blockGasTargetDivisor) = unat p div 1024"
  by (simp add: blockGasTargetDivisor_def unat_div)

lemma Max_0: "Max x 0 = x"
  by (auto simp: Max_def word_gt_0)

lemma unat_Min: "unat (Min a b) = min (unat a) (unat b)"
  by (cases "unat a < unat b") (simp_all add: Min_def word_less_nat_alt)

lemma unat_Max: "unat (Max a b) = max (unat a) (unat b)"
  by (cases "unat b < unat a") (simp_all add: Max_def word_less_nat_alt)

lemma unat_calculateGasLimit:
  assumes "unat p + unat p div 1024 < 2 ^ 64"
  shows "unat (calculateGasLimit t p) =
    (if t = 0 then unat p
     else if unat p < unat t then min (unat t) (unat p + unat p div 1024)
     else max (unat t) (unat p - unat p div 1024))"
proof -
  let ?d = "p div blockGasTargetDivisor"
  have up: "unat (p + ?d) = unat p + unat p div 1024"
    using assms unat_add_small [of p ?d] by (simp add: unat_gas_delta)
  have down: "unat (p - ?d) = unat p - unat p div 1024"
    using unat_sub [of ?d p] by (simp add: word_le_nat_alt unat_gas_delta)
  show ?thesis
    by (simp add: calculateGasLimit_def Let_def Max_0 unat_Min unat_Max up down word_less_nat_alt)
qed

lemma calculateGasLimit_range:
  assumes "unat p + unat p div 1024 < 2 ^ 64"
  shows "unat p - unat p div 1024 \<le> unat (calculateGasLimit t p)"
    and "unat (calculateGasLimit t p) \<le> unat p + unat p div 1024"
proof -
  define P T D Q where "P = unat p" "T = unat t" "D = unat p div 1024" "Q = unat (calculateGasLimit t p)"
  have "Q = (if t = 0 then P else if P < T then min T (P + D) else max T (P - D))"
    using unat_calculateGasLimit [OF assms, of t] unfolding P_T_D_Q_def .
  then have "P - D \<le> Q \<and> Q \<le> P + D" by (simp split: if_splits) linarith
  then show "unat p - unat p div 1024 \<le> unat (calculateGasLimit t p)"
    "unat (calculateGasLimit t p) \<le> unat p + unat p div 1024" unfolding P_T_D_Q_def by blast+
qed

lemma produced_gas_limit_accepted:
  assumes "unat (hdr_GasLimit parent) + unat (hdr_GasLimit parent) div 1024 < 2 ^ 64"
    "hdr_GasLimit header = calculateGasLimit t (hdr_GasLimit parent)" "hdr_GasUsed header \<le> hdr_GasLimit header"
  shows "verifyGasLimit header parent = None"
proof -
  let ?p = "hdr_GasLimit parent" and ?l = "hdr_GasLimit header"
  have r: "unat ?p - unat ?p div 1024 \<le> unat ?l" "unat ?l \<le> unat ?p + unat ?p div 1024"
    using calculateGasLimit_range [OF assms(1), of t] assms(2) by simp_all
  have b: "unat ?p div 1024 < 2 ^ 54" using u64_bound [of ?p] by simp
  let ?diff = "if sint (?p - ?l) < 0 then (?p - ?l) * - 1 else ?p - ?l"
  have "unat ?diff = (unat ?p - unat ?l) + (unat ?l - unat ?p)"
    by (rule abs_diff_word) (use r b in simp_all)
  also have "\<dots> \<le> unat (?p div blockGasTargetDivisor)" unfolding unat_gas_delta using r by linarith
  finally have "\<not> ?diff > ?p div blockGasTargetDivisor" by (simp only: word_less_nat_alt not_less)
  moreover have "\<not> hdr_GasUsed header > ?l" using assms(3) by simp
  ultimately show ?thesis unfolding verifyGasLimit_def Let_def by (simp only: if_False if_cancel simp_thms)
qed

text \<open>The distance to the target.\<close>

abbreviation gas_distance :: "u64 \<Rightarrow> u64 \<Rightarrow> nat" where
  "gas_distance p t \<equiv> (unat p - unat t) + (unat t - unat p)"

lemma gas_limit_step:
  assumes "1024 \<le> unat p" "1024 \<le> unat t" "unat p + unat p div 1024 < 2 ^ 64" "p \<noteq> t"
  shows "1024 \<le> unat (calculateGasLimit t p)" "gas_distance (calculateGasLimit t p) t < gas_distance p t"
    "unat (calculateGasLimit t p) \<le> max (unat p) (unat t)"
proof -
  let ?q = "calculateGasLimit t p"
  define P T D Q where "P = unat p" "T = unat t" "D = unat p div 1024" "Q = unat ?q"
  have d: "1 \<le> D" "D \<le> P" "1024 \<le> P" "1024 \<le> T" using assms(1,2) by (simp_all add: P_T_D_Q_def)
  have t: "t \<noteq> 0" using assms(2) by auto
  have ne: "P \<noteq> T" using assms(4) unsigned_word_eqI [of p t] unfolding P_T_D_Q_def by blast
  have "Q = (if P < T then min T (P + D) else max T (P - D))"
    using unat_calculateGasLimit [OF assms(3), of t] t unfolding P_T_D_Q_def by (simp only: if_False)
  with d ne have "1024 \<le> Q \<and> (Q - T) + (T - Q) < (P - T) + (T - P) \<and> Q \<le> max P T"
    by (cases "P < T") (simp_all, linarith+)
  then show "1024 \<le> unat ?q" "gas_distance ?q t < gas_distance p t" "unat ?q \<le> max (unat p) (unat t)"
    unfolding P_T_D_Q_def by blast+
qed

lemma gas_limit_reaches:
  assumes "1024 \<le> unat p" "unat p < 2 ^ 63" "1024 \<le> unat t" "unat t < 2 ^ 63"
  shows "\<exists>k. (calculateGasLimit t ^^ k) p = t"
  using assms(1,2)
proof (induction "gas_distance p t" arbitrary: p rule: less_induct)
  case less
  show ?case
  proof (cases "p = t")
    case True
    then show ?thesis by (intro exI [of _ 0]) simp
  next
    case False
    let ?q = "calculateGasLimit t p"
    have "unat p + unat p div 1024 < 2 ^ 64" using less.prems(2) by simp
    note q = gas_limit_step [OF less.prems(1) assms(3) this False]
    have "unat ?q < 2 ^ 63" using q(3) less.prems(2) assms(4) by linarith
    then obtain k where "(calculateGasLimit t ^^ k) ?q = t" using less.hyps [OF q(2) q(1)] by blast
    then show ?thesis by (intro exI [of _ "Suc k"]) (simp add: funpow_swap1)
  qed
qed

section \<open>The base fee of the next block\<close>

text \<open>The rule of EIP-1559 over the natural numbers.\<close>

definition next_base_fee :: "nat \<Rightarrow> nat \<Rightarrow> nat \<Rightarrow> nat \<Rightarrow> nat" where
  "next_base_fee baseFee used target denom =
     (if used = target then baseFee
      else if used > target then baseFee + max (baseFee * (used - target) div target div denom) 1
      else baseFee - baseFee * (target - used) div target div denom)"

definition fee_denominator :: "ChainConfig \<Rightarrow> u64 \<Rightarrow> (string + u64 option) \<Rightarrow> u64 option" where
  "fee_denominator cfg n latest =
     (case (if IsActive (cc_Forks cfg) ''governance'' n then latest else Inr None) of
        Inl _ \<Rightarrow> None | Inr None \<Rightarrow> Some (cc_BaseFeeChangeDenom cfg) | Inr (Some d) \<Rightarrow> Some d)"

lemma unat_mult_small: "unat a * unat b < 2 ^ 64 \<Longrightarrow> unat (a * b :: u64) = unat a * unat b"
  by (simp add: unat_word_ariths)

lemma calcBaseFeeDelta_eq:
  assumes "fee_denominator cfg n latest = Some denom" "denom \<noteq> 0" "target \<noteq> 0" "unat baseFee * unat delta < 2 ^ 64"
  shows "\<exists>d. calcBaseFeeDelta cfg n latest delta target baseFee = Some d \<and>
    unat d = unat baseFee * unat delta div unat target div unat denom"
proof -
  have "calcBaseFeeDelta cfg n latest delta target baseFee = Some (baseFee * delta div target div denom)"
    using assms(1-3) by (auto simp: calcBaseFeeDelta_def fee_denominator_def u64_div_def Let_def
        split: sum.splits option.splits if_splits)
  then show ?thesis using unat_mult_small [OF assms(4)] by (simp add: unat_div)
qed

lemma fee_delta_le: "d \<le> t \<Longrightarrow> b * d div t div n \<le> (b::nat)"
proof -
  assume "d \<le> t"
  then have "b * d \<le> b * t" by simp
  then have "b * d div t \<le> b * t div t" by (rule div_le_mono)
  also have "\<dots> \<le> b" by simp
  finally show ?thesis using div_le_dividend le_trans by blast
qed

lemma CalculateBaseFee_reference:
  assumes active: "IsActive (cc_Forks cfg) ''london'' (hdr_Number parent)" and b: "hdr_BaseFee parent \<noteq> 0"
    and em: "cc_BaseFeeEM cfg \<noteq> 0" and target: "target = hdr_GasLimit parent div cc_BaseFeeEM cfg" "target \<noteq> 0"
    and denom: "fee_denominator cfg n latest = Some denom" "denom \<noteq> 0"
    and small: "unat (hdr_BaseFee parent) * gas_distance (hdr_GasUsed parent) target < 2 ^ 64"
      "next_base_fee (unat (hdr_BaseFee parent)) (unat (hdr_GasUsed parent)) (unat target) (unat denom) < 2 ^ 64"
  shows "\<exists>fee. CalculateBaseFee cfg n latest parent = Some fee \<and>
    unat fee = next_base_fee (unat (hdr_BaseFee parent)) (unat (hdr_GasUsed parent)) (unat target) (unat denom)"
proof -
  let ?b = "hdr_BaseFee parent" and ?u = "hdr_GasUsed parent"
  have t: "u64_div (hdr_GasLimit parent) (cc_BaseFeeEM cfg) = Some target"
    using em by (simp add: u64_div_def target(1))
  consider "?u = target" | "?u > target" | "?u < target" by force
  then show ?thesis
  proof cases
    case 1
    then show ?thesis using active b t by (simp add: CalculateBaseFee_def next_base_fee_def)
  next
    case 2
    then have u: "unat (?u - target) = unat ?u - unat target" "unat target < unat ?u"
      by (auto simp: word_less_nat_alt unat_sub word_le_nat_alt)
    obtain d where d: "calcBaseFeeDelta cfg n latest (?u - target) target ?b = Some d"
      "unat d = unat ?b * unat (?u - target) div unat target div unat denom"
      using calcBaseFeeDelta_eq [OF denom target(2), of ?b "?u - target"] small(1) u by auto
    have "unat (?b + Max d 1) = unat ?b + unat (Max d 1)"
      using small(2) d(2) u by (intro unat_add_small) (simp add: unat_Max next_base_fee_def)
    then show ?thesis using 2 active b t d u by (auto simp: CalculateBaseFee_def next_base_fee_def unat_Max)
  next
    case 3
    then have u: "unat (target - ?u) = unat target - unat ?u" "unat ?u < unat target"
      by (auto simp: word_less_nat_alt unat_sub word_le_nat_alt)
    obtain d where d: "calcBaseFeeDelta cfg n latest (target - ?u) target ?b = Some d"
      "unat d = unat ?b * unat (target - ?u) div unat target div unat denom"
      using calcBaseFeeDelta_eq [OF denom target(2), of ?b "target - ?u"] small(1) u by auto
    have "unat d \<le> unat ?b" unfolding d(2) by (rule fee_delta_le) (use u in simp)
    then have "unat (?b - d) = unat ?b - unat d" by (intro unat_sub) (simp add: word_le_nat_alt)
    moreover have "\<not> ?u > target" "?u \<noteq> target" using 3 by auto
    ultimately show ?thesis using active b t d u by (auto simp: CalculateBaseFee_def next_base_fee_def Max_0)
  qed
qed

section \<open>The canonical chain\<close>

text \<open>\<open>canonical_chain db n hash\<close>: the headers from \<open>hash\<close> down to the genesis block have the numbers
  \<open>n\<close> to \<open>0\<close>, each is the canonical one of its number, and each names the next as its parent.\<close>

primrec canonical_chain :: "Tables \<Rightarrow> nat \<Rightarrow> Hash \<Rightarrow> bool" where
  "canonical_chain db 0 hash \<longleftrightarrow> (case readHeader db hash of None \<Rightarrow> False
     | Some h \<Rightarrow> hdr_Number h = 0 \<and> hdr_Hash h = hash \<and> tb_CANONICAL db 0 = Some hash)"
| "canonical_chain db (Suc n) hash \<longleftrightarrow> (case readHeader db hash of None \<Rightarrow> False
     | Some h \<Rightarrow> hdr_Number h = of_nat (Suc n) \<and> hdr_Hash h = hash \<and> tb_CANONICAL db (of_nat (Suc n)) = Some hash \<and>
         canonical_chain db n (hdr_ParentHash h))"

definition chain_ok :: "Blockchain \<Rightarrow> bool" where
  "chain_ok b \<longleftrightarrow> canonical_chain (bc_db b) (unat (hdr_Number (bc_currentHeader b))) (hdr_Hash (bc_currentHeader b)) \<and>
     readTotalDifficulty (bc_db b) (hdr_Hash (bc_currentHeader b)) = Some (bc_currentDifficulty b)"

text \<open>Tables that agree on the stored headers, and on the canonical hashes up to \<open>n\<close>.\<close>

lemma canonical_chain_frame:
  assumes "canonical_chain db n hash" "\<And>hs h. readHeader db hs = Some h \<Longrightarrow> readHeader db' hs = Some h"
    "\<And>i. i \<le> n \<Longrightarrow> tb_CANONICAL db' (of_nat i) = tb_CANONICAL db (of_nat i)"
  shows "canonical_chain db' n hash"
  using assms(1,3)
proof (induction n arbitrary: hash)
  case 0
  then obtain h where "readHeader db hash = Some h" "hdr_Number h = 0" "hdr_Hash h = hash" "tb_CANONICAL db 0 = Some hash"
    by (auto split: option.splits)
  then show ?case using assms(2) 0(2) [of 0] by simp
next
  case (Suc n)
  then obtain h where h: "readHeader db hash = Some h" "hdr_Number h = of_nat (Suc n)" "hdr_Hash h = hash"
    "tb_CANONICAL db (of_nat (Suc n)) = Some hash" "canonical_chain db n (hdr_ParentHash h)"
    by (auto split: option.splits)
  then have "canonical_chain db' n (hdr_ParentHash h)" using Suc.IH Suc.prems(2) by simp
  then show ?case using h assms(2) Suc.prems(2) [of "Suc n"] by simp
qed

lemma canonical_chain_readHeader:
  "canonical_chain db n hash \<Longrightarrow> \<exists>h. readHeader db hash = Some h \<and> hdr_Hash h = hash \<and> hdr_Number h = of_nat n"
  by (cases n) (auto split: option.splits)

text \<open>The block hashes that the virtual machine sees are the canonical ones.\<close>

lemma get_hash_canonical:
  "canonical_chain db n hash \<Longrightarrow> i \<le> n \<Longrightarrow> n < 2 ^ 64 \<Longrightarrow> tb_CANONICAL db (of_nat i) = Some (get_hash db (of_nat i) n hash)"
proof (induction n arbitrary: hash)
  case 0
  then show ?case by (auto split: option.splits)
next
  case (Suc n)
  show ?case
  proof (cases "i = Suc n")
    case True
    then show ?thesis using Suc.prems by (auto split: option.splits)
  next
    case False
    have "unat (of_nat (Suc n) :: u64) = Suc n" by (rule unat_of_nat_small) (use Suc.prems(3) in simp)
    moreover have "unat (of_nat i :: u64) = i" by (rule unat_of_nat_small) (use Suc.prems in simp)
    ultimately have "of_nat (Suc n) \<noteq> (of_nat i :: u64)" using False by metis
    then show ?thesis using Suc False by (auto split: option.splits)
  qed
qed

lemma readHeader_PutCanonical:
  "readHeader (WriteBatch db (PutCanonicalHeader h td)) hs = (if hs = hdr_Hash h then Some h else readHeader db hs)"
  by (auto simp: readHeader_def WriteBatch_def PutCanonicalHeader_def bind_Some_iff split: option.splits
      intro!: option.expand)

lemma canonical_chain_stored:
  "canonical_chain db n hash \<Longrightarrow> i \<le> n \<Longrightarrow>
     \<exists>h. tb_CANONICAL db (of_nat i) = Some (hdr_Hash h) \<and> readHeader db (hdr_Hash h) = Some h \<and> hdr_Number h = of_nat i"
proof (induction n arbitrary: hash)
  case (Suc n)
  then show ?case by (cases "i = Suc n") (auto split: option.splits)
qed (auto split: option.splits)

lemma write_child:
  assumes ok: "chain_ok b" and p: "hdr_ParentHash h = hdr_Hash (bc_currentHeader b)"
    and n: "hdr_Number h = hdr_Number (bc_currentHeader b) + 1" "hdr_Number h \<noteq> 0"
    and fresh: "tb_BLOCK_LOOKUP (bc_db b) (hdr_Hash h) = None"
  shows "\<exists>b'. write_header b h = Some (None, b') \<and> chain_ok b' \<and> bc_currentHeader b' = h \<and>
    readHeader (bc_db b') (hdr_Hash h) = Some h \<and>
    bc_currentDifficulty b' = bc_currentDifficulty b + int (unat (hdr_Difficulty h)) \<and>
    (\<forall>i < hdr_Number h. GetHeaderByNumber (bc_db b') i = GetHeaderByNumber (bc_db b) i)"
proof -
  let ?cur = "bc_currentHeader b" and ?td = "bc_currentDifficulty b + int (unat (hdr_Difficulty h))"
  let ?db = "bc_db b"
  let ?db' = "WriteBatch ?db (PutCanonicalHeader h ?td)"
  let ?b' = "b\<lparr>bc_db := ?db', bc_currentHeader := h, bc_currentDifficulty := ?td\<rparr>"
  have c: "canonical_chain ?db (unat (hdr_Number ?cur)) (hdr_Hash ?cur)"
    and td: "readTotalDifficulty ?db (hdr_Hash ?cur) = Some (bc_currentDifficulty b)"
    using ok by (simp_all add: chain_ok_def)
  have u: "unat (hdr_Number h) = Suc (unat (hdr_Number ?cur))"
    using n unatSuc [of "hdr_Number ?cur"] by (simp add: add.commute)
  have w: "write_header b h = Some (None, ?b')"
    by (simp add: write_header_def writeHeaderImpl_def Let_def p td writeBatchAndUpdate_def Header_Copy_id)
  have rh: "readHeader ?db (hdr_Hash h) = None" using fresh by (simp add: readHeader_def)
  have can: "tb_CANONICAL ?db' i = tb_CANONICAL ?db i" if "i \<noteq> hdr_Number h" for i
    using that by (simp add: WriteBatch_def PutCanonicalHeader_def)
  have lo: "of_nat i \<noteq> hdr_Number h" if "i \<le> unat (hdr_Number ?cur)" for i
    using that u u64_bound [of "hdr_Number h"] unat_of_nat_small [of i, where 'a = 64] by auto
  have "canonical_chain ?db' (unat (hdr_Number ?cur)) (hdr_Hash ?cur)"
    by (rule canonical_chain_frame [OF c]) (use rh lo can in \<open>auto simp: readHeader_PutCanonical\<close>)
  moreover have "of_nat (Suc (unat (hdr_Number ?cur))) = hdr_Number h" unfolding u [symmetric] by simp
  moreover have "tb_CANONICAL ?db' (hdr_Number h) = Some (hdr_Hash h)"
    by (simp add: WriteBatch_def PutCanonicalHeader_def)
  ultimately have "canonical_chain ?db' (unat (hdr_Number h)) (hdr_Hash h)"
    unfolding u canonical_chain.simps by (simp add: readHeader_PutCanonical p)
  moreover have "readTotalDifficulty ?db' (hdr_Hash h) = Some ?td"
    by (simp add: readTotalDifficulty_def WriteBatch_def PutCanonicalHeader_def)
  ultimately have "chain_ok ?b'" by (simp add: chain_ok_def)
  moreover have "GetHeaderByNumber ?db' i = GetHeaderByNumber ?db i" if i: "i < hdr_Number h" for i
  proof -
    let ?m = "unat i"
    have m: "?m \<le> unat (hdr_Number ?cur)" using i u by (simp add: word_less_nat_alt)
    have "tb_CANONICAL ?db i \<noteq> Some (hdr_Hash h)"
      using canonical_chain_stored [OF c m] rh by auto
    then show ?thesis using can [of i] i
      by (cases "tb_CANONICAL ?db i") (auto simp: GetHeaderByNumber_def readHeader_PutCanonical)
  qed
  ultimately show ?thesis using w by (auto simp: readHeader_PutCanonical)
qed

text \<open>What \<^verbatim>\<open>BLOCKHASH\<close> finds from the head is what the store has for the number.\<close>

lemma GetHashHelper_canonical:
  assumes ok: "chain_ok b" and h: "readHeader (bc_db b) (hdr_Hash (bc_currentHeader b)) = Some (bc_currentHeader b)"
    and i: "i < hdr_Number (bc_currentHeader b)"
  shows "tb_CANONICAL (bc_db b) i = Some (GetHashHelper (bc_db b) (bc_currentHeader b) i)"
proof -
  let ?h = "bc_currentHeader b"
  let ?m = "unat (hdr_Number ?h - 1)"
  have "hdr_Number ?h \<noteq> 0" using i by auto
  then have m: "unat (hdr_Number ?h) = Suc ?m" by (simp add: unat_minus_one word_neq_0_conv unat_gt_0)
  have c: "canonical_chain (bc_db b) ?m (hdr_ParentHash ?h)" using ok h unfolding chain_ok_def m by simp
  have "unat i \<le> ?m" using i m by (simp add: word_less_nat_alt)
  then show ?thesis using get_hash_canonical [OF c, of "unat i"] u64_bound [of "hdr_Number ?h - 1"]
    by (simp add: GetHashHelper_def)
qed

text \<open>A header that does not win leaves the canonical chain as it is.\<close>

lemma readHeader_fork:
  assumes "db' = WriteBatch db [PutHeader h, PutTotalDifficulty (hdr_Number h) (hdr_Hash h) td, PutForks fs,
      PutBlockLookup (hdr_Hash h) (hdr_Number h)]"
  shows "readHeader db' hs = (if hs = hdr_Hash h then Some h else readHeader db hs)" "tb_CANONICAL db' = tb_CANONICAL db"
    "readTotalDifficulty db' hs = (if hs = hdr_Hash h then Some td else readTotalDifficulty db hs)"
  unfolding assms by (auto simp: readHeader_def readTotalDifficulty_def WriteBatch_def split: option.splits
      intro!: option.expand)

lemma write_fork:
  assumes ok: "chain_ok b" and p: "hdr_ParentHash h \<noteq> hdr_Hash (bc_currentHeader b)"
    and td: "readTotalDifficulty (bc_db b) (hdr_ParentHash h) = Some ptd"
      "ptd + int (unat (hdr_Difficulty h)) \<le> bc_currentDifficulty b"
    and fresh: "tb_BLOCK_LOOKUP (bc_db b) (hdr_Hash h) = None"
  shows "\<exists>b'. write_header b h = Some (None, b') \<and> chain_ok b' \<and> bc_currentHeader b' = bc_currentHeader b \<and>
    tb_CANONICAL (bc_db b') = tb_CANONICAL (bc_db b) \<and> readHeader (bc_db b') (hdr_Hash h) = Some h"
proof -
  let ?cur = "bc_currentHeader b" and ?td = "ptd + int (unat (hdr_Difficulty h))"
  define db' where "db' = WriteBatch (bc_db b) [PutHeader h, PutTotalDifficulty (hdr_Number h) (hdr_Hash h) ?td,
    PutForks (getForksToWrite (bc_db b) h), PutBlockLookup (hdr_Hash h) (hdr_Number h)]"
  note R = readHeader_fork [OF db'_def]
  have c: "canonical_chain (bc_db b) (unat (hdr_Number ?cur)) (hdr_Hash ?cur)"
    and ctd: "readTotalDifficulty (bc_db b) (hdr_Hash ?cur) = Some (bc_currentDifficulty b)"
    using ok by (simp_all add: chain_ok_def)
  have rh: "readHeader (bc_db b) (hdr_Hash h) = None" using fresh by (simp add: readHeader_def)
  have "hdr_Hash ?cur \<noteq> hdr_Hash h" using fresh ctd by (auto simp: readTotalDifficulty_def)
  moreover have "canonical_chain db' (unat (hdr_Number ?cur)) (hdr_Hash ?cur)"
    by (rule canonical_chain_frame [OF c]) (use rh in \<open>auto simp: R\<close>)
  ultimately have "chain_ok (b\<lparr>bc_db := db'\<rparr>)" using ctd by (simp add: chain_ok_def R)
  moreover have "write_header b h = Some (None, b\<lparr>bc_db := db'\<rparr>)"
    using p td ctd by (simp add: write_header_def writeHeaderImpl_def Let_def writeBatchAndUpdate_def db'_def)
  ultimately show ?thesis using R(1,2) by auto
qed

section \<open>A reorganisation\<close>

text \<open>Two branches of two blocks over a genesis block: \<open>a\<close> is written first, \<open>b\<close> has the greater total
  difficulty.\<close>

definition fork_header :: "Hash \<Rightarrow> Hash \<Rightarrow> u64 \<Rightarrow> u64 \<Rightarrow> Header" where
  "fork_header hash parent number difficulty = \<lparr>hdr_ParentHash = parent, hdr_Sha3Uncles = ZeroHash, hdr_Miner = [],
     hdr_StateRoot = ZeroHash, hdr_TxRoot = ZeroHash, hdr_ReceiptsRoot = ZeroHash, hdr_LogsBloom = [],
     hdr_Difficulty = difficulty, hdr_Number = number, hdr_GasLimit = 0, hdr_GasUsed = 0, hdr_Timestamp = 0,
     hdr_ExtraData = [], hdr_MixHash = ZeroHash, hdr_Nonce = [], hdr_Hash = hash, hdr_BaseFee = 0\<rparr>"

definition fork_tables :: Tables where
  "fork_tables = \<lparr>tb_HEADER = Map.empty, tb_BLOCK_LOOKUP = Map.empty, tb_CANONICAL = Map.empty,
     tb_DIFFICULTY = Map.empty, tb_FORK = None, tb_HEAD_HASH = None, tb_HEAD_NUMBER = None\<rparr>"

abbreviation "fork_genesis \<equiv> fork_header [1] [] 0 0"
abbreviation "fork_a1 \<equiv> fork_header [2] [1] 1 1"
abbreviation "fork_a2 \<equiv> fork_header [3] [2] 2 1"
abbreviation "fork_b1 \<equiv> fork_header [4] [1] 1 1"
abbreviation "fork_b2 \<equiv> fork_header [5] [4] 2 5"

definition fork_start :: Blockchain where
  "fork_start = writeGenesisImpl \<lparr>bc_db = fork_tables, bc_currentHeader = fork_genesis, bc_currentDifficulty = 0\<rparr> fork_genesis"

definition fork_run :: "Blockchain option" where
  "fork_run = do {
     (_, b) \<leftarrow> WriteHeadersWithBodies fork_start [fork_a1, fork_a2];
     (_, b) \<leftarrow> WriteHeadersWithBodies b [fork_b1, fork_b2];
     Some b }"

lemma fork_run_example:
  "map_option (\<lambda>b. (hdr_Hash (bc_currentHeader b), hdr_ParentHash (bc_currentHeader b),
     map (tb_CANONICAL (bc_db b)) [0, 1, 2])) fork_run = Some ([5], [4], [Some [1], Some [2], Some [5]])"
  by code_simp

end
