(* ===== verification/Example_PolyBFT.thy ===== *)
theory Example_PolyBFT
  imports Proposer_Refine Blockchain BigInt
begin

text \<open>
  Concrete libraries for the consensus theories, which satisfy the documented laws: items with a
  self-delimiting byte form for RLP, and a signature scheme in which a signature lists the
  message and verifies for the registered keys. Four validators and the headers of a short chain are
  the sample data of the properties.
\<close>

section \<open>Items and their byte form\<close>

datatype item = IBytes bytes | IArray "item list"

fun enc_bytes :: "bytes \<Rightarrow> bytes" where
  "enc_bytes [] = [0]"
| "enc_bytes (b # bs) = 1 # b # enc_bytes bs"

fun enc_item :: "item \<Rightarrow> bytes" and enc_items :: "item list \<Rightarrow> bytes" where
  "enc_item (IBytes b) = 0 # enc_bytes b"
| "enc_item (IArray vs) = 1 # enc_items vs"
| "enc_items [] = [0]"
| "enc_items (v # vs) = 1 # enc_item v @ enc_items vs"

fun dec_bytes :: "bytes \<Rightarrow> (bytes \<times> bytes) option" where
  "dec_bytes (x # rest) =
     (if x = 0 then Some ([], rest)
      else case rest of [] \<Rightarrow> None
        | b # rest' \<Rightarrow> map_option (\<lambda>(bs, r). (b # bs, r)) (dec_bytes rest'))"
| "dec_bytes [] = None"

fun dec_item :: "nat \<Rightarrow> bytes \<Rightarrow> (item \<times> bytes) option"
  and dec_items :: "nat \<Rightarrow> bytes \<Rightarrow> (item list \<times> bytes) option" where
  "dec_item (Suc n) (x # rest) =
     (if x = 0 then map_option (\<lambda>(b, r). (IBytes b, r)) (dec_bytes rest)
      else map_option (\<lambda>(vs, r). (IArray vs, r)) (dec_items n rest))"
| "dec_item n bs = None"
| "dec_items (Suc n) (x # rest) =
     (if x = 0 then Some ([], rest)
      else case dec_item n rest of None \<Rightarrow> None
        | Some (v, r) \<Rightarrow> map_option (\<lambda>(vs, r). (v # vs, r)) (dec_items n r))"
| "dec_items n bs = None"

lemma dec_enc_bytes [simp]: "dec_bytes (enc_bytes b @ r) = Some (b, r)"
  by (induction b) simp_all

lemma dec_enc_item:
  "length (enc_item v) \<le> n \<Longrightarrow> dec_item n (enc_item v @ r) = Some (v, r)"
  "length (enc_items vs) \<le> n \<Longrightarrow> dec_items n (enc_items vs @ r) = Some (vs, r)"
proof (induction v and vs arbitrary: n r and n r rule: enc_item_enc_items.induct)
  case (1 b) then show ?case by (cases n) simp_all
next
  case (2 vs) then show ?case by (cases n) simp_all
next
  case 3 then show ?case by (cases n) simp_all
next
  case (4 v vs) then show ?case by (cases n) simp_all
qed

section \<open>The libraries\<close>

definition item_rlp :: "item fastrlp" where
  "item_rlp = \<lparr>rlp_NewArray = IArray, rlp_NewNullArray = IArray [], rlp_NewNull = IBytes [], rlp_NewBytes = IBytes,
     rlp_NewUint = (\<lambda>n. IBytes (be_bytes 8 n)), rlp_NewBigInt = (\<lambda>i. IBytes (big_Bytes i)),
     rlp_NewBool = (\<lambda>b. IBytes (if b then [1] else [])),
     rlp_GetElems = (\<lambda>v. case v of IArray vs \<Rightarrow> Inr vs | IBytes _ \<Rightarrow> Inl ''not an array''),
     rlp_Elems = (\<lambda>v. case v of IArray vs \<Rightarrow> length vs | IBytes _ \<Rightarrow> 0),
     rlp_GetBytes = (\<lambda>v. case v of IBytes b \<Rightarrow> Inr b | IArray _ \<Rightarrow> Inl ''not bytes''),
     rlp_GetUint64 = (\<lambda>v. case v of IBytes b \<Rightarrow> Inr (of_be_bytes b) | IArray _ \<Rightarrow> Inl ''not bytes''),
     rlp_GetBigInt = (\<lambda>v. case v of IBytes b \<Rightarrow> Inr (big_SetBytes b) | IArray _ \<Rightarrow> Inl ''not bytes''),
     rlp_GetBool = (\<lambda>v. case v of IBytes b \<Rightarrow> Inr (b = [1]) | IArray _ \<Rightarrow> Inl ''not bytes''),
     rlp_MarshalTo = (\<lambda>v dst. dst @ enc_item v),
     rlp_Parse = (\<lambda>bs. case dec_item (length bs) bs of Some (v, []) \<Rightarrow> Inr v | _ \<Rightarrow> Inl ''malformed'')\<rparr>"

lemma fastrlp_doc_item: "fastrlp_doc item_rlp"
  using dec_enc_item(1) [of _ _ "[]"]
  by (simp add: fastrlp_doc_def item_rlp_def of_be_bytes_be_bytes big_SetBytes_Bytes)

definition registered_keys :: "bytes list" where
  "registered_keys = [[1], [2], [3], [4]]"

definition sample_bls :: "(bytes, bytes) bn256" where
  "sample_bls = \<lparr>bn256_Marshal = (\<lambda>k. k), bn256_UnmarshalPublicKey = (\<lambda>b. (Some b, None)),
     bn256_UnmarshalSignature = (\<lambda>b. (Some b, None)),
     bn256_VerifyAggregated = (\<lambda>s ks h d. s = Some h \<and> list_all (\<lambda>k. k \<in> Some ` set registered_keys) ks)\<rparr>"

lemma bn256_doc_sample: "bn256_doc sample_bls"
  by (simp add: bn256_doc_def sample_bls_def)

definition sample_libs :: "(bytes, bytes, item) polybft_libs" where
  "sample_libs = \<lparr>pl_bls = sample_bls, pl_rlp = item_rlp, pl_ToBigInt = map_option (\<lambda>k. [big_SetBytes k]),
     pl_encodeCheckpoint = (\<lambda>chain n hash c. Inr (hash @ cp_EventRoot c)),
     pl_encodeAccounts = (\<lambda>as. Inr (concat (map fst as))), pl_keccak = take 32\<rparr>"

lemma libs_doc_sample: "libs_doc sample_libs"
  by (simp add: libs_doc_def sample_libs_def fastrlp_doc_item bn256_doc_sample)

section \<open>Validators\<close>

definition sample_validator :: "byte \<Rightarrow> int \<Rightarrow> bytes ValidatorMetadata" where
  "sample_validator i votes = \<lparr>vm_Address = replicate 19 0 @ [i], vm_BlsKey = Some [i], vm_VotingPower = votes,
     vm_IsActive = True\<rparr>"

definition sample_validators :: "bytes AccountSet" where
  "sample_validators = map (\<lambda>i. sample_validator i 10) [1, 2, 3, 4]"

lemma validators_ok_sample: "validators_ok sample_validators"
  by code_simp

definition sample_stakes :: "bytes validatorSetState" where
  "sample_stakes = \<lparr>vss_BlockNumber = 7, vss_EpochID = 1, vss_UpdatedAtBlockNumber = 7, vss_Validators =
     map (\<lambda>v. (vm_Address v, v)) [sample_validator 1 10, sample_validator 2 25, sample_validator 4 5, sample_validator 5 30]\<rparr>"

definition sample_snapshot :: "bytes ProposerSnapshot" where
  "sample_snapshot = snd (NewProposerSnapshot [] 1 sample_validators)"

lemma proposer_ok_sample: "proposer_ok [0, 0, 0, 0] sample_snapshot" "ps_Proposer sample_snapshot = None"
  "ps_Height sample_snapshot = 1"
  by code_simp+

section \<open>Headers\<close>

definition sample_checkpoint :: CheckpointData where
  "sample_checkpoint = \<lparr>cp_BlockRound = 0, cp_EpochNumber = 1, cp_CurrentValidatorsHash = replicate 32 1,
     cp_NextValidatorsHash = replicate 32 1, cp_EventRoot = replicate 32 0\<rparr>"

definition sample_extra :: "bytes \<Rightarrow> Hash \<Rightarrow> bytes Extra" where
  "sample_extra bitmap hash = \<lparr>ex_Validators = Some \<lparr>vd_Added = [], vd_Updated = [], vd_Removed = []\<rparr>, ex_Parent = None,
     ex_Committed = Some \<lparr>sig_AggregatedSignature = hash, sig_Bitmap = bitmap\<rparr>, ex_Checkpoint = Some sample_checkpoint\<rparr>"

definition sample_header :: "Hash \<Rightarrow> Hash \<Rightarrow> u64 \<Rightarrow> bytes Extra \<Rightarrow> Header" where
  "sample_header hash parent n extra = (fork_header hash parent n 1)
     \<lparr>hdr_ExtraData := (case Extra_MarshalRLPTo sample_libs extra [] of None \<Rightarrow> [] | Some raw \<Rightarrow> raw)\<rparr>"

abbreviation "hash_a \<equiv> replicate 31 0 @ [10 :: byte]"
abbreviation "hash_b \<equiv> replicate 31 0 @ [11 :: byte]"

definition sample_parent :: Header where
  "sample_parent = sample_header (replicate 32 7) ZeroHash 0 (sample_extra [] [])"

text \<open>Two headers of height one, the first signed by the validators 0, 1, 2 and the second by 1, 2, 3.\<close>

lemma sample_finalized:
  "ValidateFinalizedData sample_libs (\<lambda>n. Inr sample_validators) 100 [] (sample_extra [7] hash_a)
     (sample_header hash_a (replicate 32 7) 1 (sample_extra [7] hash_a)) sample_parent = Some None"
  "ValidateFinalizedData sample_libs (\<lambda>n. Inr sample_validators) 100 [] (sample_extra [14] hash_b)
     (sample_header hash_b (replicate 32 7) 1 (sample_extra [14] hash_b)) sample_parent = Some None"
  by code_simp+

section \<open>Fees\<close>

definition sample_chain :: ChainConfig where
  "sample_chain = \<lparr>cc_Forks = [''london'' \<mapsto> \<lparr>f_Block = 0\<rparr>], cc_BlockGasTarget = 30000000, cc_BaseFeeEM = 2,
     cc_BaseFeeChangeDenom = 8, cc_GenesisBaseFee = 1000000000, cc_DefaultBaseFee = 1000000000\<rparr>"

text \<open>The header of a full block.\<close>

definition sample_fees :: "u64 \<Rightarrow> Header" where
  "sample_fees baseFee = (fork_header [1] [] 0 1)\<lparr>hdr_BaseFee := baseFee, hdr_GasLimit := 40000000, hdr_GasUsed := 40000000\<rparr>"

end
