(* ===== verification/Spec2Isabelle.thy ===== *)
theory Spec2Isabelle
  imports Example_Block Example_PolyBFT
begin

text \<open>
  Verification development of the blade-apex-bridge node, an Ethereum-compatible chain written in Go: its execution core (the EVM
  interpreter, the precompiled contracts, the transactional state, the executor that turns the transactions of a block into state
  changes and receipts), the block store, and of its PolyBFT consensus the validator sets, the extra field of headers with its
  signatures, and the choice of proposers.

  \<^bold>\<open>The parts and how they interact.\<close> A block is processed by the executor (\<^verbatim>\<open>state/executor.go\<close>): \<^verbatim>\<open>BeginTxn\<close> builds a
  \<^verbatim>\<open>Transition\<close> on the state of the parent block, \<^verbatim>\<open>Write\<close> applies each transaction through \<^verbatim>\<open>Apply\<close> and \<^verbatim>\<open>apply\<close>, which check nonce,
  fees and gas pool, buy the gas, run the message and pay the fees. A message is a call or a creation; \<^verbatim>\<open>run\<close> dispatches it to an
  address list (\<^verbatim>\<open>state/runtime/addresslist\<close>), a precompiled contract (\<^verbatim>\<open>state/runtime/precompiled\<close>) or the interpreter
  (\<^verbatim>\<open>state/runtime/evm\<close>). The interpreter calls back into the transition through the \<^verbatim>\<open>Host\<close> interface, nested calls included. All state
  lives in a \<^verbatim>\<open>Txn\<close> (\<^verbatim>\<open>state/txn.go\<close>), an immutable radix tree of modified accounts over a snapshot of the trie.

  Blocks are kept by \<^verbatim>\<open>blockchain/blockchain.go\<close>, which checks gas limits, computes base fees and decides which branch is canonical. The
  consensus packages (\<^verbatim>\<open>consensus/polybft\<close>) decide who proposes the next block and whether a header is final: the stake manager
  derives the validator set of an epoch from stake events, the header carries the change as a delta, and two thirds of the voting
  power sign its checkpoint hash.

  \<^bold>\<open>The theories.\<close>
  \<^item> \<open>Prelude\<close>, \<open>Helpers\<close>, \<open>Uint256\<close>, \<open>BigInt\<close>: Go slices, copies and panics; \<^verbatim>\<open>helper/common\<close> and \<^verbatim>\<open>types/types.go\<close>; the documented
    behaviour of the 256-bit integer library; \<^verbatim>\<open>math/big\<close>.
  \<^item> \<open>Chain_Params\<close>, \<open>Runtime\<close>, \<open>AccessList\<close>, \<open>Transaction\<close>, \<open>Block_Types\<close>, \<open>Bitmap\<close>: fork activation and burn contracts
    (\<^verbatim>\<open>chain/params.go\<close>), contracts, results and the host interface (\<^verbatim>\<open>state/runtime/runtime.go\<close>), the access list and its journal, the four
    transaction types with their fee rules, headers, receipts and the Bloom filter, signer bitmaps.
  \<^item> \<open>Evm_State\<close>, \<open>Evm_Instructions\<close>, \<open>Evm_Run\<close>, \<open>Evm_Opcodes\<close>: the machine state, every instruction, the dispatch table and the loop, the
    mnemonics. \<open>Evm_Frame\<close>, \<open>Evm_Data\<close>, \<open>Evm_Bitmap\<close>, \<open>Evm_Dispatch\<close>, \<open>Evm_Safety\<close> hold what is proved of them; the locale \<open>evm_host\<close> of
    \<open>Evm_Safety\<close> is the contract that the interpreter asks of its host.
  \<^item> \<open>Sha256\<close>, \<open>Blake2f\<close>, \<open>Precompiled\<close>, \<open>AddressList\<close>: the precompiled contracts and the allow and block lists, with the locale \<open>state_ref\<close>
    for the storage that the lists use.
  \<^item> \<open>StateTxn\<close>, \<open>Txn_Inv\<close>: the transactional state over the locale \<open>state_library\<close> (radix tree, code cache, hash), and its invariant:
    bounded code, and a bound on the sum of all balances.
  \<^item> \<open>Transition\<close>, \<open>Transition_Safety\<close>, \<open>Transition_Messages\<close>: the executor; that a transition is a host in the sense of \<open>evm_host\<close> at every depth;
    messages, transactions and blocks. \<open>Example_Block\<close> has the concrete inputs.
  \<^item> \<open>Validators\<close>, \<open>Stake\<close>, \<open>Extra\<close>: account sets, deltas and the quorum rule (\<^verbatim>\<open>consensus/polybft/validator\<close>) with the locale
    \<open>quorum_system\<close>; stakes and the validator set of the next epoch (\<^verbatim>\<open>stake_manager.go\<close>); the extra field, its RLP form, signatures and checkpoints
    (\<^verbatim>\<open>extra.go\<close>, \<^verbatim>\<open>runtime_helpers.go\<close>).
  \<^item> \<open>Proposer\<close>, \<open>Round_Robin\<close>, \<open>Proposer_Refine\<close>: the proposer calculator (\<^verbatim>\<open>proposer_calculator.go\<close>) with priorities as cells of a heap, because
    snapshots share them; weighted round robin on lists of numbers as its specification; the refinement.
  \<^item> \<open>Blockchain\<close>: gas limit, base fee, block verification, the tables of the store, writing headers and reorganisations
    (\<^verbatim>\<open>blockchain/blockchain.go\<close>, \<^verbatim>\<open>blockchain/storagev2\<close>). \<open>Example_PolyBFT\<close> has concrete libraries, validators and headers for these parts.

  \<^bold>\<open>Conventions.\<close> A Go panic is \<^term>\<open>None\<close>; an error value is a constructor of a sum. \<^verbatim>\<open>uint64\<close> is a 64-bit word and wraps, \<^verbatim>\<open>uint256.Int\<close>
  a 256-bit word, \<^verbatim>\<open>big.Int\<close> an integer, an address or a hash a list of bytes. Pointers to nil are \<^term>\<open>None\<close>. Code that is not part of the
  repository (radix tree, LRU cache, Keccak, elliptic curves, ABI decoding, the trie's storage backend, the signer) is an argument, and the
  predicates \<open>statelib_doc\<close>, \<open>crypto_doc\<close>, \<open>uint256_doc\<close>, \<open>bn256_doc\<close> and \<open>fastrlp_doc\<close> state what is documented of it; \<open>exec_std\<close> and \<open>sample_libs\<close> are
  concrete instances. Every locale is interpreted on the model's own definitions.

  \<^bold>\<open>Bounds and fuel.\<close> The interpreter loop runs with fuel \<^verbatim>\<open>gas + 2\<close>, which suffices because every instruction but the last consumes gas;
  nested calls run with fuel 1025, which suffices because a frame at depth 1026 returns at once. Both facts are part of what C2 and C7 prove: the
  model returns a value. The loops of a reorganisation follow stored parent hashes and are partial functions. The bound \<open>MaxGas\<close> on the gas of a frame is $2^{60}$, far above any block gas limit; it keeps the 64-bit memory cost and the
  gas of the modular exponentiation from wrapping.

  \<^bold>\<open>What is shown.\<close> C1 to C4, C6 and C7: a block creates no coins and stays within its gas limit, its processing returns, rejected
  transactions and failed calls leave no trace, nonces are enforced, the interpreter returns. C5, C8, C9, C19, C20, C22 and C24: conflicting final
  headers need a third of the power to sign twice, validator set changes arrive as computed, every validator gets to propose, the extra field survives
  its encoding. C10, C21, C30 and C31: the canonical chain, base fees and gas limits. C11 to C13, C16 and C29: gas metering, snapshots, commit,
  transfers and slots. C14, C15, C17 and C18: memory, call gas, jump table and static frames of the interpreter. C23 and C25 to C28: precompiled
  contracts and address lists. C32: the Bloom filter. C33 to C40 are behaviours that the code has and that its authors hardly intend. Further facts, on the
  journal, fees, encodings and helpers, follow the numbered properties.

  \<^bold>\<open>Not modelled.\<close> The message exchange of the consensus engine and its state machine, checkpoints to the parent chain, bridge and governance events;
  networking, synchronisation, the transaction pool, JSON-RPC, the command line and the contract bindings; the Merkle trie and its storage, which the executor
  reaches through \<^verbatim>\<open>Snapshot\<close>; signature recovery; RLP of transactions and receipts; JSON; the caches in front of the block store, whose entries are those
  of the store; tracing hooks of the interpreter; metrics and logs. \<open>C1\<close> excludes state transactions and dynamic-fee transactions without fees, for which
  the fee rules do create or destroy coins (C35).
\<close>

section \<open>Properties\<close>





text \<open>C3. A transaction that is rejected changes nothing: when \<^verbatim>\<open>Apply\<close> returns an error, the tree of modified accounts, the logs
  and the refund counter are those before the transaction.\<close>

theorem Apply_error_restores:
  assumes "statelib_doc (ex_L P)" "crypto_doc (ex_C P)" "uint256_doc (ex_U P)" "ex_PostHook P = None"
    and "trans_inv P K t t" "fee_ctx t" "tx_wf msg" "trans_Apply P t msg = Some (Inl e, t')"
  shows "txn_txn (tn_state t') = txn_txn (tn_state t) \<and> txn_snapshot (tn_state t') = txn_snapshot (tn_state t)"
proof -
  have "transition_libs P" using assms(1-3) by unfold_locales
  from transition_libs.trans_Apply_ok [OF this assms(5,7,6,4)] assms(8)
  show ?thesis by (auto simp: msg_inv_def trans_inv_def fixedPart_def)
qed

theorem Apply_error_restores_witness:
  "\<exists>e t'. trans_Apply (exec_std demo_accounts) demo_transition (demo_transfer 3) = Some (Inl e, t') \<and>
     txn_txn (tn_state t') = txn_txn (tn_state demo_transition)"
proof -
  obtain x t' where x: "trans_Apply (exec_std demo_accounts) demo_transition (demo_transfer 3) = Some (x, t')"
    using stdtrans.trans_Apply_ok [OF demo_inv demo_transfer_wf [of 3] demo_block_inv(2)] demo_no_panic by auto
  have "nonceCheck (exec_std demo_accounts) demo_transition (demo_transfer 3) = Some ErrNonceTooHigh"
    using demo_nonce by (simp add: nonceCheck_def demo_transfer_def Tx_Nonce_def Tx_From_def Tx_Base_def)
  moreover have "Tx_Type (demo_transfer 3) \<noteq> StateTxType" by (simp add: demo_transfer_def Tx_Type_def)
  ultimately obtain e where "x = Inl e" using Apply_nonce x by (cases x) fastforce+
  with x show ?thesis using Apply_error_restores [OF _ _ _ _ demo_inv demo_block_inv(2) demo_transfer_wf] by auto
qed



text \<open>C5. Finality: when two headers pass \<^verbatim>\<open>ValidateFinalizedData\<close> under one validator set, validators that hold more than a third of
  the voting power have signed the checkpoint hashes of both. So two different blocks are finalized at one height only if more
  than a third of the power signs twice. The hypothesis on the signature library is its soundness: an aggregate that verifies
  was made by the listed keys.\<close>

theorem conflicting_finality:
  assumes "validators_ok vs"
    and sound: "\<And>a ks h. bn256_VerifyAggregated (pl_bls L) a ks h dom' \<Longrightarrow> \<forall>k \<in> set ks. hasSigned k h"
    and acc: "ValidateFinalizedData L GV chainID dom' i1 hdr1 par1 = Some None"
      "ValidateFinalizedData L GV chainID dom' i2 hdr2 par2 = Some None"
    and vals: "GV (hdr_Number hdr1 - 1) = Inr vs" "GV (hdr_Number hdr2 - 1) = Inr vs"
  shows "\<exists>h1 h2. Checkpoint_Hash L (ex_Checkpoint i1) chainID (hdr_Number hdr1) (hdr_Hash hdr1) = Some (Inr h1) \<and>
    Checkpoint_Hash L (ex_Checkpoint i2) chainID (hdr_Number hdr2) (hdr_Hash hdr2) = Some (Inr h2) \<and>
    GetTotalVotingPower vs < 3 * signed_power (\<lambda>k. hasSigned k h1 \<and> hasSigned k h2) vs"
proof -
  from acc(1) obtain s1 c1 h1 v1 where 1: "ex_Checkpoint i1 = Some c1" "Signature_Verify (pl_bls L) s1 v1 h1 dom' = None"
    "Checkpoint_Hash L (Some c1) chainID (hdr_Number hdr1) (hdr_Hash hdr1) = Some (Inr h1)" "GV (hdr_Number hdr1 - 1) = Inr v1"
    by (rule ValidateFinalizedData_accepts)
  from acc(2) obtain s2 c2 h2 v2 where 2: "ex_Checkpoint i2 = Some c2" "Signature_Verify (pl_bls L) s2 v2 h2 dom' = None"
    "Checkpoint_Hash L (Some c2) chainID (hdr_Number hdr2) (hdr_Hash hdr2) = Some (Inr h2)" "GV (hdr_Number hdr2 - 1) = Inr v2"
    by (rule ValidateFinalizedData_accepts)
  have v: "v1 = vs" "v2 = vs" using vals 1(4) 2(4) by simp_all
  have "GetTotalVotingPower vs < 3 * signed_power (\<lambda>k. hasSigned k h1 \<and> hasSigned k h2) vs"
    by (rule accepted_signatures_overlap [OF assms(1) _ 1(2) [unfolded v] 2(2) [unfolded v]]) (rule sound)
  then show ?thesis using 1(1,3) 2(1,3) by simp
qed

theorem conflicting_finality_witness:
  "hash_a \<noteq> hash_b \<and>
   ValidateFinalizedData sample_libs (\<lambda>n. Inr sample_validators) 100 [] (sample_extra [7] hash_a)
     (sample_header hash_a (replicate 32 7) 1 (sample_extra [7] hash_a)) sample_parent = Some None \<and>
   ValidateFinalizedData sample_libs (\<lambda>n. Inr sample_validators) 100 [] (sample_extra [14] hash_b)
     (sample_header hash_b (replicate 32 7) 1 (sample_extra [14] hash_b)) sample_parent = Some None \<and>
   GetTotalVotingPower sample_validators < 3 * signed_power (\<lambda>k. k \<in> Some ` set registered_keys) sample_validators"
proof -
  have "\<forall>k \<in> set ks. k \<in> Some ` set registered_keys" if "bn256_VerifyAggregated (pl_bls sample_libs) a ks h []" for a ks h
    using that by (simp add: sample_libs_def sample_bls_def list_all_iff)
  from conflicting_finality [where hasSigned = "\<lambda>k h. k \<in> Some ` set registered_keys",
      OF validators_ok_sample this sample_finalized refl refl]
  have "GetTotalVotingPower sample_validators < 3 * signed_power (\<lambda>k. k \<in> Some ` set registered_keys) sample_validators"
    by simp
  then show ?thesis using sample_finalized by simp
qed







text \<open>C9. Proposer rotation is live: from a fresh snapshot, every validator is the proposer of some round, and the first such
  round is bounded by the number of validators, the total voting power and the validator's own.\<close>

theorem proposer_every_validator:
  assumes "bn256_doc B" "proposer_ok h pcs" "ps_Proposer pcs = None" "v \<in> set (ps_Validators pcs)"
    "K = (int (length (ps_Validators pcs)) - 1 + 2 * sum_list (weights pcs) * int (length (ps_Validators pcs)))
        div vm_VotingPower (pv_Metadata v)" "K < 2 ^ 64 - 1"
  shows "\<exists>r h' pcs'. int (unat r) \<le> K \<and>
    CalcProposer B h pcs r (ps_Height pcs) = Some (Inr (vm_Address (pv_Metadata v), h', pcs'))"
  by (rule CalcProposer_eventually [OF assms])

theorem proposer_every_validator_witness:
  "\<exists>r h' pcs'. int (unat r) \<le> 32 \<and>
    CalcProposer sample_bls [0, 0, 0, 0] sample_snapshot r 1 = Some (Inr (replicate 19 0 @ [4], h', pcs'))"
proof -
  have v: "ps_Validators sample_snapshot ! 3 \<in> set (ps_Validators sample_snapshot)" by code_simp
  have K: "32 = (int (length (ps_Validators sample_snapshot)) - 1 +
      2 * sum_list (weights sample_snapshot) * int (length (ps_Validators sample_snapshot)))
      div vm_VotingPower (pv_Metadata (ps_Validators sample_snapshot ! 3))" by code_simp
  have "vm_Address (pv_Metadata (ps_Validators sample_snapshot ! 3)) = replicate 19 0 @ [4]" by code_simp
  then show ?thesis
    using proposer_every_validator [OF bn256_doc_sample proposer_ok_sample(1,2) v K] by (simp add: proposer_ok_sample)
qed

text \<open>C10. Extending the head: a header over the current one becomes the head, its total difficulty is that of the parent plus its own, the
  headers below are those before, and the hash that \<^verbatim>\<open>BLOCKHASH\<close> finds through the parent hashes is the canonical one.\<close>

theorem head_extended:
  assumes "chain_ok b" "hdr_ParentHash h = hdr_Hash (bc_currentHeader b)"
    "hdr_Number h = hdr_Number (bc_currentHeader b) + 1" "hdr_Number h \<noteq> 0"
    "tb_BLOCK_LOOKUP (bc_db b) (hdr_Hash h) = None"
  shows "\<exists>b'. write_header b h = Some (None, b') \<and> chain_ok b' \<and> bc_currentHeader b' = h \<and>
    bc_currentDifficulty b' = bc_currentDifficulty b + int (unat (hdr_Difficulty h)) \<and>
    (\<forall>i < hdr_Number h. GetHeaderByNumber (bc_db b') i = GetHeaderByNumber (bc_db b) i \<and>
       tb_CANONICAL (bc_db b') i = Some (GetHashHelper (bc_db b') h i))"
  using write_child [OF assms] GetHashHelper_canonical by blast

theorem head_extended_witness:
  "\<exists>b'. write_header fork_start fork_a1 = Some (None, b') \<and> chain_ok b' \<and> bc_currentHeader b' = fork_a1 \<and>
     tb_CANONICAL (bc_db b') 0 = Some (GetHashHelper (bc_db b') fork_a1 0)"
proof -
  have "chain_ok fork_start" by code_simp
  moreover have "hdr_ParentHash fork_a1 = hdr_Hash (bc_currentHeader fork_start)"
    "hdr_Number fork_a1 = hdr_Number (bc_currentHeader fork_start) + 1" "hdr_Number fork_a1 \<noteq> 0"
    "tb_BLOCK_LOOKUP (bc_db fork_start) (hdr_Hash fork_a1) = None" by code_simp+
  moreover have "0 < hdr_Number fork_a1" by code_simp
  ultimately show ?thesis using head_extended [of fork_start fork_a1] by blast
qed







text \<open>C14. Memory: a successful allocation leaves the memory a whole number of words that covers the requested region, keeps the
  old contents, and charges exactly the difference of the quadratic cost function between the new size and the old one.\<close>

theorem allocateMemory_covers:
  assumes "uint256_doc (env_U E)" "mem_ok c" "allocateMemory E c off sz = (True, c')"
  shows "mem_ok c' \<and> (sz \<noteq> 0 \<longrightarrow> unat off + unat sz \<le> length (st_memory c')) \<and>
    take (length (st_memory c)) (st_memory c') = st_memory c \<and>
    st_gas c' = st_gas c - (memCost (of_nat (length (st_memory c') div 32)) - memCost (of_nat (length (st_memory c) div 32)))"
proof -
  have ok: "fst (allocateMemory E c off sz)" "snd (allocateMemory E c off sz) = c'" using assms(3) by simp_all
  note A = allocateMemory_ok [OF assms(1) ok(1), unfolded ok(2)]
  have g: "st_gas c' = st_gas c - (st_lastGasCost c' - st_lastGasCost c)"
    using assms(3) by (auto simp: allocateMemory_def consumeGas_def Let_def split: if_splits)
  have m: "take (length (st_memory c)) (st_memory c') = st_memory c"
  proof (cases "st_memory c' = st_memory c")
    case False
    then obtain n where n: "st_memory c' = ExtendByteSlice (st_memory c) n"
      and l: "of_nat (length (st_memory c)) < u_Uint64 (env_U E) off + u_Uint64 (env_U E) sz" "sz \<noteq> 0"
      using assms(3) uint256_Sign_zero [OF assms(1)] by (auto simp: allocateMemory_def consumeGas_def Let_def split: if_splits)
    have "unat (u_Uint64 (env_U E) off) = unat off" "unat (u_Uint64 (env_U E) sz) = unat sz"
      by (rule Uint64_small [OF assms(1) A(3)], rule Uint64_small [OF assms(1) A(4)])
    then have "unat (u_Uint64 (env_U E) off + u_Uint64 (env_U E) sz) \<le> unat off + unat sz"
      using unat_add_le [of "u_Uint64 (env_U E) off" "u_Uint64 (env_U E) sz"] by simp
    then have "length (st_memory c) < length (st_memory c')"
      using l A(6) assms(2) by (simp add: word_less_nat_alt unat_of_nat_small mem_ok_def)
    then show ?thesis by (simp add: n ExtendByteSlice_def)
  qed simp
  show ?thesis using A(5,6) assms(2) g m by (simp add: mem_ok_def)
qed

theorem allocateMemory_covers_witness:
  "\<exists>c'. allocateMemory demo_env (demo_state [] False) 5 32 = (True, c') \<and> 37 \<le> length (st_memory c') \<and> mem_ok c'"
proof -
  have "fst (allocateMemory demo_env (demo_state [] False) 5 32)"
    by (rule demo_alloc) (simp_all add: demo_state_def zeroState_def)
  then obtain c' where a: "allocateMemory demo_env (demo_state [] False) 5 32 = (True, c')"
    by (cases "allocateMemory demo_env (demo_state [] False) 5 32") simp
  from allocateMemory_covers [OF demo_env_doc demo_mem_ok a] a show ?thesis by simp
qed

text \<open>C15. The 63/64 rule: after EIP-150 a call passes on at most all but a 64th of the gas that is left after its own cost, and
  exactly the requested amount when that is available.\<close>

theorem callGas_63_64:
  assumes "uint256_doc (env_U E)" "EIP150 (st_config c)" "gasCost \<le> st_gas c"
    and "avail = unat (st_gas c) - unat gasCost"
  shows "\<exists>x. callGas E c gasCost g = Some x \<and> unat x = min (unat g) (avail - avail div 64)"
proof -
  let ?a = "st_gas c - gasCost"
  have a: "unat ?a = avail" using assms(3,4) by (simp add: unat_sub)
  have "?a div 64 \<le> ?a" by (simp add: word_le_nat_alt unat_div)
  then have x: "unat (?a - ?a div 64) = avail - avail div 64" using a by (simp add: unat_sub unat_div)
  have l: "avail < 2 ^ 64" using u64_bound [of ?a] a by simp
  show ?thesis
  proof (cases "u_IsUint64 (env_U E) g")
    case True
    then have "unat (u_Uint64 (env_U E) g) = unat g" by (rule uint256_Uint64_small [OF assms(1)])
    then show ?thesis using True x assms(2) by (auto simp: callGas_def Let_def word_less_nat_alt min_def)
  next
    case False
    then have "2 ^ 64 \<le> unat g" by (simp add: uint256_docD [OF assms(1)] not_less)
    then show ?thesis using False x l assms(2) by (simp add: callGas_def Let_def min_def)
  qed
qed

theorem callGas_63_64_witness:
  "\<exists>x. callGas demo_env (demo_state [] False) 40 5000 = Some x \<and> unat x = 945"
proof -
  have "EIP150 (st_config (demo_state [] False))"
    by (simp add: demo_state_def zeroState_def demo_transition_def NewTransition_def Forks_At_def IsActive_def AllForksEnabled_def Fork_Active_def)
  moreover have "st_gas (demo_state [] False) = 1000" by (simp add: demo_state_def)
  ultimately show ?thesis using callGas_63_64 [OF demo_env_doc, of "demo_state [] False" 40 960 5000] by simp
qed

text \<open>C16. A transfer moves exactly the amount: it comes off the payer's balance and onto the payee's, nobody else changes, and a
  payer without the funds makes it fail with the state unchanged.\<close>

theorem Transfer_moves:
  assumes "statelib_doc (ex_L P)" "0 \<le> v" "trans_Transfer P t from to (Some v) = (r, u)"
  shows "if v \<le> Txn_GetBalance (ex_L P) (tn_state t) from
    then r = None \<and> Txn_GetBalance (ex_L P) (tn_state u) =
      (let b = (Txn_GetBalance (ex_L P) (tn_state t))(from := Txn_GetBalance (ex_L P) (tn_state t) from - v)
       in b(to := b to + v))
    else r = Some ErrInsufficientBalance \<and> u = t"
proof -
  note L = state_library.intro [OF assms(1)]
  let ?s = "SubBalance (ex_L P) (tn_state t) from v"
  show ?thesis
  proof (cases "v \<le> Txn_GetBalance (ex_L P) (tn_state t) from")
    case True
    then have "fst ?s = None" using state_library.SubBalance_ok_iff [OF L assms(2)] by blast
    then have "r = None \<and> u = t\<lparr>tn_state := AddBalance (ex_L P) (snd ?s) to v\<rparr>"
      using assms(3) by (auto simp: trans_Transfer_def on_state_eq set_state_def)
    then show ?thesis
      using True state_library.bal_add [OF L assms(2), of "snd ?s" to] state_library.bal_sub [OF L True] by (simp add: Let_def)
  next
    case False
    then have "?s = (Some ErrNotEnoughFunds, tn_state t)"
      using state_library.SubBalance_ok_iff [OF L assms(2)] state_library.SubBalance_fail [OF L] by blast
    then show ?thesis using False assms(3) by (auto simp: trans_Transfer_def on_state_eq)
  qed
qed

theorem Transfer_moves_witness:
  "\<exists>u. trans_Transfer (exec_std demo_accounts) demo_transition (addr_of 0xa) (addr_of 1) (Some 5) = (None, u) \<and>
     Txn_GetBalance demo_lib (tn_state u) (addr_of 1) = 5 \<and> Txn_GetBalance demo_lib (tn_state u) (addr_of 0xa) = 999995"
proof -
  obtain r u where "trans_Transfer (exec_std demo_accounts) demo_transition (addr_of 0xa) (addr_of 1) (Some 5) = (r, u)" by fastforce
  moreover have "Txn_GetBalance (ex_L (exec_std demo_accounts)) (tn_state demo_transition) a = (if a = addr_of 0xa then 1000000 else 0)" for a
    using demo_balance [of a] by (simp add: demo_transition_def NewTransition_def)
  ultimately show ?thesis
    using Transfer_moves [of "exec_std demo_accounts" 5 demo_transition "addr_of 0xa" "addr_of 1" r u] by (simp add: demo_lib_def Let_def)
qed

text \<open>C17. The jump-destination bitmap that \<^verbatim>\<open>bitmap.setCode\<close> computes from a cleared buffer marks
  exactly the \<^verbatim>\<open>JUMPDEST\<close> bytes at which an instruction starts: a \<^verbatim>\<open>0x5b\<close> byte inside the
  immediate data of a \<^verbatim>\<open>PUSH\<close> is not a jump destination.\<close>

theorem setCode_marks_jumpdests:
  assumes "bitmap_setCode (bitmap_reset buf) code = Some b" and "j < length code"
  shows "bitmap_isSet b j = Some (instr_start code j \<and> unat (code ! j) = JUMPDEST)"
proof -
  have "\<And>x. x \<in> set (bitmap_reset buf) \<Longrightarrow> x = 0" by (simp add: bitmap_reset_def)
  then obtain b' where "bitmap_setCode (bitmap_reset buf) code = Some b'"
    and "\<And>j. j < length code \<Longrightarrow>
      bitmap_isSet b' j = Some (instr_start code j \<and> unat (code ! j) = JUMPDEST)"
    using bitmap_setCode_spec by blast
  with assms show ?thesis by simp
qed

theorem setCode_marks_jumpdests_witness:
  "bitmap_isSet [4] 2 = Some (instr_start [0x60, 0x5b, 0x5b] 2 \<and> unat ([0x60, 0x5b, 0x5b :: byte] ! 2) = JUMPDEST) \<and>
   bitmap_isSet [4] 1 = Some (instr_start [0x60, 0x5b, 0x5b] 1 \<and> unat ([0x60, 0x5b, 0x5b :: byte] ! 1) = JUMPDEST)"
proof -
  have e: "bitmap_setCode (bitmap_reset []) [0x60, 0x5b, 0x5b] = Some [4]" by code_simp
  show ?thesis
    using setCode_marks_jumpdests [OF e, of 1] setCode_marks_jumpdests [OF e, of 2] by simp
qed

text \<open>C18. A static frame is protected: the instructions that write storage, emit a log, destroy the account or create a contract,
  and a call that carries value, stop with a write-protection error and leave the host as it was; the frames that a static
  frame opens are static.\<close>

theorem static_frame_protected:
  assumes "inStaticCall c" "uint256_doc (env_U E)"
  shows "opSStore E c = Some (exit c (Some errWriteProtection)) \<and>
    opLog n E c = Some (exit c (Some errWriteProtection)) \<and>
    opSelfDestruct E c = Some (exit c (Some errWriteProtection)) \<and>
    opCreate cop E c = Some (exit c (Some errWriteProtection)) \<and>
    (\<forall>s v addr g. st_stack c = s @ [v, addr, g] \<and> v \<noteq> 0 \<longrightarrow>
       opCall CALL E c = Some (exit (resetReturnData c) (Some errWriteProtection))) \<and>
    c_Static (fst (callFrame op E c a w gas args))"
  using assms static_protection [OF assms(1)] static_call_value [OF assms] callFrame_static [of op E c a w gas args]
  by (simp add: inStaticCall_def)

theorem static_frame_protected_witness:
  "opCall CALL demo_env (demo_state [0, 0, 0, 0, 7, 1, 100] True) =
   Some (exit (resetReturnData (demo_state [0, 0, 0, 0, 7, 1, 100] True)) (Some errWriteProtection))"
proof -
  let ?c = "demo_state [0, 0, 0, 0, 7, 1, 100] True"
  have s: "inStaticCall ?c" by (simp add: demo_state_def inStaticCall_def zeroState_def)
  have t: "st_stack ?c = [0, 0, 0, 0] @ [7, 1, 100] \<and> (7 :: u256) \<noteq> 0" by (simp add: demo_state_def)
  from static_frame_protected [OF s demo_env_doc]
  have "\<forall>s v addr g. st_stack ?c = s @ [v, addr, g] \<and> v \<noteq> 0 \<longrightarrow>
      opCall CALL demo_env ?c = Some (exit (resetReturnData ?c) (Some errWriteProtection))" by blast
  then show ?thesis using t by blast
qed

text \<open>C19. Following the chain keeps the proposer snapshot well-formed: after the blocks up to \<open>n\<close>, whose extra fields are readable,
  the snapshot is at height \<open>n + 1\<close>, has a positive power and a priority of its own for every validator, and no proposer.\<close>

theorem proposer_update_ready:
  assumes "proposer_ok h pcs" "ps_Proposer pcs = None" "ps_Height pcs \<le> n" "n \<noteq> - 1"
    "\<And>i. ps_Height pcs \<le> i \<Longrightarrow> i \<le> n \<Longrightarrow> block_ok L GH GV i"
  shows "\<exists>h' pcs'. proposer_update L str GH GV h pcs n = Some (Inr (h', pcs')) \<and> proposer_ok h' pcs' \<and>
    ps_Height pcs' = n + 1 \<and> ps_Proposer pcs' = None"
proof -
  define k where "k = unat n + 1 - unat (ps_Height pcs)"
  have le: "unat (ps_Height pcs) \<le> unat n" using assms(3) by (simp add: word_le_nat_alt)
  have b: "block_ok L GH GV (ps_Height pcs + of_nat i)" if "i < k" for i
  proof -
    have "unat (ps_Height pcs) + i \<le> unat n" using that le by (simp add: k_def)
    moreover have "unat n < 2 ^ 64" using u64_bound [of n] by simp
    ultimately have "unat (ps_Height pcs + of_nat i) = unat (ps_Height pcs) + i"
      by (simp add: unat_word_ariths unat_of_nat)
    then show ?thesis using \<open>unat (ps_Height pcs) + i \<le> unat n\<close> by (intro assms(5)) (simp_all add: word_le_nat_alt)
  qed
  have "of_nat k = n + 1 - ps_Height pcs" using le by (simp add: k_def of_nat_diff)
  then show ?thesis using update_loop_ok [OF assms(1) _ assms(2), of k L GH GV str] b
    unfolding proposer_update_def k_def [symmetric] by auto
qed

theorem proposer_update_ready_witness:
  "\<exists>h' pcs'. proposer_update sample_libs (\<lambda>a. map (char_of \<circ> unat) a)
      (\<lambda>n. Some (sample_header hash_a hash_b n (sample_extra [7] hash_a))) (\<lambda>n. Inr sample_validators)
      [0, 0, 0, 0] sample_snapshot 3 = Some (Inr (h', pcs')) \<and> proposer_ok h' pcs' \<and> ps_Height pcs' = 4"
proof -
  have b: "block_ok sample_libs (\<lambda>n. Some (sample_header hash_a hash_b n (sample_extra [7] hash_a)))
    (\<lambda>n. Inr sample_validators) i" for i
  proof -
    have "GetIbftExtra sample_libs (hdr_ExtraData (sample_header hash_a hash_b i (sample_extra [7] hash_a))) =
      GetIbftExtra sample_libs (hdr_ExtraData (sample_header hash_a hash_b 0 (sample_extra [7] hash_a)))"
      by (simp add: sample_header_def)
    also have "\<dots> = Inr (sample_extra [7] hash_a)" by code_simp
    finally show ?thesis
      by (simp add: block_ok_def getBlockData_def sample_extra_def sample_checkpoint_def Delta_IsEmpty_def validators_ok_sample)
  qed
  have "ps_Height sample_snapshot \<le> 3" "(3 :: u64) \<noteq> - 1" by (simp_all add: proposer_ok_sample)
  from proposer_update_ready [OF proposer_ok_sample(1,2) this b, of "\<lambda>a. map (char_of \<circ> unat) a"] show ?thesis by force
qed

text \<open>C20. Asking for a proposer has no influence on later answers: although the priorities that \<^verbatim>\<open>CalcProposer\<close> normalises are shared
  with the stored snapshot, every round has the same proposer before and after the call.\<close>

theorem CalcProposer_repeatable:
  assumes "bn256_doc B" "proposer_ok h pcs" "ps_Proposer pcs = None"
    "CalcProposer B h pcs r (ps_Height pcs) = Some (Inr (a, h1, pcs1))"
  shows "proposer_ok h1 pcs1 \<and>
    proposer_of (CalcProposer B h1 pcs1 r' (ps_Height pcs)) = proposer_of (CalcProposer B h pcs r' (ps_Height pcs))"
  using CalcProposer_unaffected [OF assms] by blast

theorem CalcProposer_repeatable_witness:
  "\<exists>a h1 pcs1. CalcProposer sample_bls [0, 0, 0, 0] sample_snapshot 2 1 = Some (Inr (a, h1, pcs1)) \<and>
     proposer_ok h1 pcs1 \<and>
     proposer_of (CalcProposer sample_bls h1 pcs1 5 1) = proposer_of (CalcProposer sample_bls [0, 0, 0, 0] sample_snapshot 5 1)"
proof -
  have "(2 :: u64) \<noteq> - 1" "ps_Round sample_snapshot \<noteq> 2" by code_simp+
  then obtain a h1 pcs1 where c: "CalcProposer sample_bls [0, 0, 0, 0] sample_snapshot 2 (ps_Height sample_snapshot) =
      Some (Inr (a, h1, pcs1))"
    using CalcProposer_eq [OF bn256_doc_sample proposer_ok_sample(1)] by metis
  show ?thesis
    using CalcProposer_repeatable [OF bn256_doc_sample proposer_ok_sample(1,2) c] c
    unfolding proposer_ok_sample(3) by blast
qed

text \<open>C21. The base fee of the next block is that of EIP-1559, with the configured elasticity and denominator, as long as the 64-bit
  product of fee and gas distance does not wrap.\<close>

theorem base_fee_is_eip1559:
  assumes "IsActive (cc_Forks cfg) ''london'' (hdr_Number parent)" "hdr_BaseFee parent \<noteq> 0" "cc_BaseFeeEM cfg \<noteq> 0"
    "target = hdr_GasLimit parent div cc_BaseFeeEM cfg" "target \<noteq> 0"
    "fee_denominator cfg n latest = Some denom" "denom \<noteq> 0"
    "unat (hdr_BaseFee parent) * gas_distance (hdr_GasUsed parent) target < 2 ^ 64"
    "next_base_fee (unat (hdr_BaseFee parent)) (unat (hdr_GasUsed parent)) (unat target) (unat denom) < 2 ^ 64"
  shows "\<exists>fee. CalculateBaseFee cfg n latest parent = Some fee \<and>
    unat fee = next_base_fee (unat (hdr_BaseFee parent)) (unat (hdr_GasUsed parent)) (unat target) (unat denom)"
  by (rule CalculateBaseFee_reference [OF assms])

theorem base_fee_is_eip1559_witness:
  "\<exists>fee. CalculateBaseFee sample_chain 1 (Inr None) (sample_fees 1000000000) = Some fee \<and> unat fee = 1125000000"
proof -
  let ?p = "sample_fees 1000000000"
  have h: "IsActive (cc_Forks sample_chain) ''london'' (hdr_Number ?p)" "hdr_BaseFee ?p \<noteq> 0" "cc_BaseFeeEM sample_chain \<noteq> 0"
    "20000000 = hdr_GasLimit ?p div cc_BaseFeeEM sample_chain" "(20000000 :: u64) \<noteq> 0"
    "fee_denominator sample_chain 1 (Inr None) = Some 8" "(8 :: u64) \<noteq> 0"
    by code_simp+
  have n: "next_base_fee (unat (hdr_BaseFee ?p)) (unat (hdr_GasUsed ?p)) (unat (20000000 :: u64)) (unat (8 :: u64)) = 1125000000"
    by (simp add: sample_fees_def fork_header_def next_base_fee_def)
  have d: "unat (hdr_BaseFee ?p) * gas_distance (hdr_GasUsed ?p) 20000000 < 2 ^ 64"
    by (simp add: sample_fees_def fork_header_def)
  from base_fee_is_eip1559 [OF h d] show ?thesis unfolding n by simp
qed

text \<open>C22. The extra field of a header survives its encoding: what \<^verbatim>\<open>GetIbftExtra\<close> reads from the bytes of \<^verbatim>\<open>MarshalRLPTo\<close> is the
  validator set delta, the signatures and the checkpoint that were written.\<close>

theorem extra_field_roundtrip:
  assumes "libs_doc L" "rlp_extra i"
  shows "\<exists>raw. Extra_MarshalRLPTo L i [] = Some raw \<and> GetIbftExtra L raw = Inr i"
  by (rule Extra_roundtrip [OF assms])

theorem extra_field_roundtrip_witness:
  "\<exists>raw. Extra_MarshalRLPTo sample_libs (sample_extra [7] hash_a) [] = Some raw \<and>
     GetIbftExtra sample_libs raw = Inr (sample_extra [7] hash_a)"
  by (rule extra_field_roundtrip [OF libs_doc_sample])
    (simp add: rlp_extra_def sample_extra_def rlp_delta_def rlp_checkpoint_def sample_checkpoint_def)

text \<open>C23. The bridge's aggregated signature check accepts only with a quorum: more than two thirds of the listed keys have their bit
  set in the bitmap, every one of them is a valid key, and the aggregated signature verifies under them.\<close>

theorem apex_accepts_quorum:
  assumes "apexBLSSignatureVerification_run C domain (b # rest) = (cr_abiBoolTrue C, None)" "b \<noteq> 0" "cr_abiBoolTrue C \<noteq> cr_abiBoolFalse C"
  shows "\<exists>msg sig keys bm g pks. abi_apexMulti C rest = Inr (msg, sig, keys, bm) \<and>
    3 * length (signerKeys (big_Bytes bm) 0 keys) > 2 * length keys \<and> bls_UnmarshalSignature C sig = Inr g \<and>
    unmarshalAll (bls_UnmarshalPublicKeyFromBigInt C) (signerKeys (big_Bytes bm) 0 keys) = Inr pks \<and>
    bls_VerifyAggregated C g pks msg domain"
  using apex_quorum [OF assms(1,2)] assms(3) by blast

theorem apex_accepts_quorum_witness:
  "\<exists>keys bm. abi_apexMulti crypto_std [7] = Inr ([], [], keys, bm) \<and> 3 * length (signerKeys (big_Bytes bm) 0 keys) > 2 * length keys"
proof -
  have "apexBLSSignatureVerification_run crypto_std [] [1, 7] = (cr_abiBoolTrue crypto_std, None)" by code_simp
  moreover have "cr_abiBoolTrue crypto_std \<noteq> cr_abiBoolFalse crypto_std" by code_simp
  ultimately show ?thesis using apex_accepts_quorum [of crypto_std "[]" 1 "[7]"] by (auto simp: crypto_std_def)
qed

text \<open>C24. Applying a delta keeps the validator set well-typed: 20-byte addresses without duplicates, positive voting powers, a BLS key for
  everyone.\<close>

theorem delta_keeps_validators:
  assumes "validators_ok as" "list_all validator_ok (vd_Added d)" "list_all validator_ok (vd_Updated d)"
    "ApplyDelta as (Some d) = Inr r"
  shows "validators_ok r"
  by (rule ApplyDelta_well_formed [OF assms])

theorem delta_keeps_validators_witness:
  "\<exists>r. ApplyDelta sample_validators (Some \<lparr>vd_Added = [sample_validator 5 30], vd_Updated = [sample_validator 2 25],
      vd_Removed = [12]\<rparr>) = Inr r \<and> validators_ok r \<and> length r = 3"
proof -
  let ?d = "\<lparr>vd_Added = [sample_validator 5 30], vd_Updated = [sample_validator 2 25], vd_Removed = [12]\<rparr>"
  let ?r = "[sample_validator 1 10, sample_validator 2 25, sample_validator 5 30]"
  have ok: "list_all validator_ok (vd_Added ?d)" "list_all validator_ok (vd_Updated ?d)" by code_simp+
  have r: "ApplyDelta sample_validators (Some ?d) = Inr ?r" by code_simp
  from delta_keeps_validators [OF validators_ok_sample ok r] r show ?thesis by simp
qed

text \<open>C25. Modular exponentiation: whatever the input, when the price of the call is at most $2^{60}$ gas the contract returns the
  power modulo the modulus, left-padded to the length of the modulus.\<close>

theorem modExp_computes:
  assumes "unat (modExp_gas buf input config) \<le> 2 ^ 60" "lens input = (b, e, m)"
    and "B = big_SetBytes (fst (pc_get [] (drop 96 input) (nat b)))"
    and "X = big_SetBytes (fst (pc_get [] (drop (96 + nat b) input) (nat e)))"
    and "M = big_SetBytes (fst (pc_get [] (drop (96 + nat b + nat e) input) (nat m)))"
  shows "modExp_run buf input = Some (if b = 0 \<and> m = 0 then [] else
      let res = (if M = 0 then [] else big_Bytes (B ^ nat X mod M)) in
      replicate (nat m - length res) 0 @ res, None)"
  using modExp_run_spec(1) [OF assms] .

theorem modExp_computes_witness: "modExp_run [] modExp_demo = Some ([5], None)"
proof -
  have l: "lens modExp_demo = (1, 1, 1)"
    by (simp add: lens_def modExp_demo_def pc_get_eq big_SetBytes_zeros [of _ "[]", simplified])
  have x: "big_SetBytes (fst (pc_get [] (drop 96 modExp_demo) 1)) = 3" "big_SetBytes (fst (pc_get [] (drop 97 modExp_demo) 1)) = 5"
    "big_SetBytes (fst (pc_get [] (drop 98 modExp_demo) 1)) = 7"
    by (simp_all add: modExp_demo_def pc_get_eq big_SetBytes_def)
  then have "modExp_head [] modExp_demo 1 1 = 5" by (simp add: modExp_head_def Let_def big_Uint64_def modExp_demo_def)
  with l have "modExp_gas [] modExp_demo c = modExp_price c 1 (adjustedExponentLength 1 5)" for c
    by (simp add: modExp_gas_def lens_def pc_get_eq Let_def split_def)
  moreover have "adjustedExponentLength 1 5 = 2"
    using nat_bitlen_Suc [of 5] nat_bitlen_Suc [of 2] nat_bitlen_Suc [of 1] by (simp add: adjustedExponentLength_def big_BitLen_def)
  moreover have "Berlin (Forks_At AllForksEnabled 1)" by (simp add: Forks_At_def IsActive_def AllForksEnabled_def Fork_Active_def)
  ultimately have g: "unat (modExp_gas [] modExp_demo (Forks_At AllForksEnabled 1)) \<le> 2 ^ 60"
    by (simp add: modExp_price_def big_IsUint64_def big_Uint64_def)
  have "big_Bytes 5 = [5]" using nat_bytes_Suc [of 5] by (simp add: big_Bytes_def)
  with x show ?thesis using modExp_computes [OF g l refl refl refl] by (simp add: Let_def)
qed

text \<open>C26. The compression function of the BLAKE2 precompile, with its unrolled rounds, is the function F of RFC 7693.\<close>

theorem blake2_F_is_rfc7693:
  assumes "length h = 8"
  shows "F h m c f rounds = rfc_F h m c f (unat rounds)"
  using F_eq_rfc [OF assms] .

theorem blake2_F_is_rfc7693_witness:
  "F (replicate 8 1) (replicate 16 2) [3, 0] True 12 = rfc_F (replicate 8 1) (replicate 16 2) [3, 0] True 12"
  using blake2_F_is_rfc7693 [of "replicate 8 1" "replicate 16 2" "[3, 0]" True 12] by simp

text \<open>C27. The precompiled contracts of the node return on every input and gas limit, except for the console: they give back no more
  gas than they were given, and change the state by at most one transfer.\<close>

theorem Precompiled_returns:
  assumes "crypto_doc C" "Precompiled_CanRun (NewPrecompiled C) c config" "c_CodeAddress c \<noteq> ConsolePrecompile"
    and "unat (c_Gas c) \<le> 2 ^ 60" "length (c_Input c) < 2 ^ 63"
  shows "\<exists>r h'. Precompiled_Run C H (NewPrecompiled C) c h config = Some (r, h') \<and> r_GasLeft r \<le> c_Gas c \<and>
    (Failed r \<longrightarrow> r_GasLeft r = 0 \<and> r_ReturnValue r = []) \<and>
    (h' = h \<or> (\<exists>f t a. 0 \<le> a \<and> h' = snd (Transfer H h f t (Some a))))"
  using Precompiled_Run_total [OF assms(1,2) _ assms(4,5), of H h] console_only [of C "c_CodeAddress c"] assms(3)
    Precompiled_Run_failed [of C H "NewPrecompiled C" c h config] by fastforce

theorem Precompiled_returns_witness:
  "\<exists>r h'. Precompiled_Run crypto_std (transHost (exec_std demo_accounts) (\<lambda>_ _. None)) (NewPrecompiled crypto_std) demo_frame
     demo_transition (tn_config demo_transition) = Some (r, h') \<and> r_GasLeft r \<le> 1000"
proof -
  have "Istanbul (tn_config demo_transition)"
    by (simp add: demo_transition_def NewTransition_def Forks_At_def IsActive_def AllForksEnabled_def Fork_Active_def)
  then have "Precompiled_CanRun (NewPrecompiled crypto_std) demo_frame (tn_config demo_transition)"
    by (simp add: Precompiled_CanRun_def NewPrecompiled_contracts demo_frame_def NewContractCall_def NewContract_def system_addresses)
  from Precompiled_returns [OF crypto_doc_std this] show ?thesis
    by (fastforce simp: demo_frame_def NewContractCall_def NewContract_def system_addresses)
qed

text \<open>C28. Address lists: a call to a list changes the role of an account only if its caller is an administrator of the list, in a frame
  that is not static, with the gas paid; it changes the role of the account named in the input only, and never the caller's own.\<close>

theorem AddressList_authorised:
  assumes "statelib_doc (ex_L P)" "snapshot_ok (txn_snapshot (tn_state t))" "length (c_Caller c) = 20" "length y = 20"
    and "AddressList_Run sel (transRef P) l c t = (r, t')" "GetRole (transRef P) l t' y \<noteq> GetRole (transRef P) l t y"
  shows "GetRole (transRef P) l t (c_Caller c) = AdminRole \<and> \<not> c_Static c \<and> r_Err r = None \<and>
    y \<noteq> c_Caller c \<and> y = BytesToAddress (drop 4 (c_Input c)) \<and>
    writeAddressListCost \<le> c_Gas c \<and> r_GasUsed r = writeAddressListCost"
  using state_ref.run_roles [OF transition_state_ref [OF assms(1)] assms(2-6)] .

theorem AddressList_authorised_witness:
  "\<exists>r t'. AddressList_Run (ex_F (exec_std demo_accounts)) (transRef (exec_std demo_accounts)) demo_list demo_list_call demo_listed = (r, t') \<and>
     GetRole (transRef (exec_std demo_accounts)) demo_list t' (addr_of 0xc) = EnabledRole \<and> r_GasUsed r = writeAddressListCost"
proof -
  let ?S = "transRef (exec_std demo_accounts)"
  have ok: "snapshot_ok (txn_snapshot (tn_state demo_transition))" by (simp add: demo_transition_def NewTransition_def newTxn_def)
  have ok': "snapshot_ok (txn_snapshot (tn_state demo_listed))" unfolding demo_listed_def SetRole_def by (rule stdlist.J_set [OF ok])
  have role: "GetRole ?S demo_list demo_listed y = (if y = addr_of 0xa then AdminRole else GetRole ?S demo_list demo_transition y)" if "length y = 20" for y
    unfolding demo_listed_def by (rule stdlist.GetRole_SetRole [OF ok]) (simp_all add: that)
  have "BytesToAddress (BytesToHash (addr_of 0xc)) = addr_of 0xc" by (simp add: BytesToAddress_def BytesToHash_def Less_def HashLength_def AddressLength_def)
  then have run: "\<exists>r. AddressList_Run (ex_F (exec_std demo_accounts)) ?S demo_list demo_list_call demo_listed =
      (r, SetRole ?S demo_list demo_listed (addr_of 0xc) EnabledRole)"
    using role [of "addr_of 0xa"] role [of "addr_of 0xc"] by (simp add: AddressList_Run_def runInputCall_def demo_list_call_def NewContractCall_def NewContract_def
      SignatureSize_def exec_std_def writeAddressListCost_def Let_def)
  have e: "GetRole ?S demo_list (SetRole ?S demo_list demo_listed (addr_of 0xc) EnabledRole) (addr_of 0xc) = EnabledRole"
    using stdlist.GetRole_SetRole [OF ok', of EnabledRole "addr_of 0xc" "addr_of 0xc"] by simp
  have z: "ZeroHash = NoRole" by code_simp
  have "GetRole ?S demo_list demo_transition (addr_of 0xc) = ZeroHash"
    by (simp add: GetRole_def transRef_def GetState_def getStateObject_def demo_transition_def NewTransition_def newTxn_def exec_std_def
      statelib_std_def iradix_std_def snap_std_def demo_accounts_def)
  then have n: "GetRole ?S demo_list demo_listed (addr_of 0xc) \<noteq> EnabledRole" using role [of "addr_of 0xc"] by (simp add: z)
  from run obtain r where r: "AddressList_Run (ex_F (exec_std demo_accounts)) ?S demo_list demo_list_call demo_listed =
      (r, SetRole ?S demo_list demo_listed (addr_of 0xc) EnabledRole)" ..
  have "length (c_Caller demo_list_call) = 20" by (simp add: demo_list_call_def NewContractCall_def NewContract_def)
  from AddressList_authorised [OF exec_std_simps(1) ok' this _ r, of "addr_of 0xc"] e n have "r_GasUsed r = writeAddressListCost" by simp
  with r e show ?thesis by blast
qed

text \<open>C29. Storage round trip: a slot reads back the last value written to it, and no other slot of any account changes.\<close>

theorem SetState_GetState:
  assumes "statelib_doc L" "snapshot_ok (txn_snapshot txn)" "length v = 32"
  shows "GetState L (SetState L txn a k v) b j = (if b = a \<and> j = k then v else GetState L txn b j)"
  using state_library.SetState_get [OF state_library.intro [OF assms(1)] assms(3,2)] .

theorem SetState_GetState_witness:
  "GetState demo_lib (SetState demo_lib demo_txn (addr_of 1) ZeroHash (replicate 32 7)) (addr_of 1) ZeroHash = replicate 32 7"
  using SetState_GetState [of demo_lib demo_txn "replicate 32 7" "addr_of 1" ZeroHash "addr_of 1" ZeroHash] by simp

text \<open>C30. A node accepts the gas limits it builds: a header with the limit of \<^verbatim>\<open>calculateGasLimit\<close> passes \<^verbatim>\<open>verifyGasLimit\<close>.\<close>

theorem built_gas_limit_accepted:
  assumes "unat (hdr_GasLimit parent) + unat (hdr_GasLimit parent) div 1024 < 2 ^ 64"
    "hdr_GasLimit header = calculateGasLimit t (hdr_GasLimit parent)" "hdr_GasUsed header \<le> hdr_GasLimit header"
  shows "verifyGasLimit header parent = None"
  by (rule produced_gas_limit_accepted [OF assms])

theorem built_gas_limit_accepted_witness:
  "verifyGasLimit ((fork_header [2] [1] 1 1)\<lparr>hdr_GasLimit := 5004882\<rparr>) ((fork_header [1] [] 0 1)\<lparr>hdr_GasLimit := 5000000\<rparr>) = None"
  by (rule built_gas_limit_accepted [where t = 30000000])
    (simp_all add: fork_header_def calculateGasLimit_def blockGasTargetDivisor_def Min_def)

text \<open>C31. The gas limit reaches its target: block by block, \<^verbatim>\<open>calculateGasLimit\<close> moves the limit to the configured target and stays
  there.\<close>

theorem gas_limit_converges:
  assumes "1024 \<le> unat p" "unat p < 2 ^ 63" "1024 \<le> unat t" "unat t < 2 ^ 63"
  shows "\<exists>k. (calculateGasLimit t ^^ k) p = t"
  by (rule gas_limit_reaches [OF assms])

theorem gas_limit_converges_witness: "\<exists>k. (calculateGasLimit 30000000 ^^ k) 5000000 = 30000000"
  by (rule gas_limit_converges) simp_all

text \<open>C32. The Bloom filter of a block has no false negatives: every log of every receipt is found in it.\<close>

theorem Bloom_complete:
  assumes "r \<in> set rs" "l \<in> set (rc_Logs r)"
  shows "IsLogInBloom K (CreateBloom K rs) l"
  using CreateBloom_sound [OF assms] .

theorem Bloom_complete_witness:
  "IsLogInBloom (take 6) (CreateBloom (take 6) [demo_receipt]) \<lparr>log_Address = addr_of 1, log_Topics = [ZeroHash], log_Data = []\<rparr>"
  by (rule Bloom_complete [of demo_receipt]) (simp_all add: demo_receipt_def)






text \<open>C36. The code cache is keyed by address only: the code of a self-destructed account is still returned for the account that is
  later created at the same address, although its code hash is that of empty code.\<close>

theorem stale_code_returned:
  assumes "statelib_doc L" "cached (lib_lru L) (txn_codeCache txn) a v"
    and "ir_Get (lib_objs L) (tr_objs (txn_txn txn)) a = Some obj" "so_Suicide obj" "CleanDeleteObjects L txn d = Inr txn'"
  shows "fst (Txn_GetCode L (AddBalance L txn' a x) a) = v \<and> Txn_GetCodeHash L (AddBalance L txn' a x) a = BytesToHash EmptyCodeHash"
  using state_library.stale_code [OF state_library.intro [OF assms(1)] assms(2-5)] .

theorem stale_code_returned_witness:
  "\<exists>txn'. CleanDeleteObjects demo_lib demo_destroyed True = Inr txn' \<and>
     fst (Txn_GetCode demo_lib (AddBalance demo_lib txn' (addr_of 1) 5) (addr_of 1)) = [0x60]"
proof -
  have "cached (lib_lru demo_lib) (txn_codeCache demo_destroyed) (addr_of 1) [0x60]"
    by (simp add: cached_def demo_destroyed_def demo_lib_def exec_std_def statelib_std_def lru_std_def)
  moreover have "ir_Get (lib_objs demo_lib) (tr_objs (txn_txn demo_destroyed)) (addr_of 1) = Some (newStateObject\<lparr>so_Suicide := True\<rparr>)"
    by (simp add: demo_destroyed_def demo_lib_def exec_std_def statelib_std_def iradix_std_def)
  moreover obtain txn' where "CleanDeleteObjects demo_lib demo_destroyed True = Inr txn'"
    using state_library.CleanDelete_spec [OF state_library.intro [OF demo_lib_doc]] by blast
  ultimately show ?thesis using stale_code_returned [OF demo_lib_doc, of demo_destroyed "addr_of 1" "[0x60]"] by fastforce
qed



text \<open>C39. A copy of a validator set delta loses the updated validators.\<close>

theorem delta_copy_drops_updates:
  assumes "bn256_doc B" "list_all validator_ok (vd_Added d)"
  shows "Delta_Copy B d = Some (d\<lparr>vd_Updated := []\<rparr>)"
  using assms by (intro Delta_Copy_eq) (auto simp: list_all_iff validator_ok_def)

theorem delta_copy_drops_updates_witness:
  "Delta_Copy sample_bls \<lparr>vd_Added = [], vd_Updated = sample_validators, vd_Removed = []\<rparr> =
     Some \<lparr>vd_Added = [], vd_Updated = [], vd_Removed = []\<rparr> \<and> sample_validators \<noteq> []"
  using delta_copy_drops_updates [OF bn256_doc_sample, of "\<lparr>vd_Added = [], vd_Updated = sample_validators, vd_Removed = []\<rparr>"]
  by (simp add: sample_validators_def)

text \<open>C40. Among validators with the greatest priority the first one in the list proposes: the comparison of addresses that should break
  the tie looks at the identity of the priorities, which no two validators share.\<close>

theorem proposer_ties_by_position:
  assumes "vs \<noteq> []" "heap_ok h vs"
  shows "getValWithMostPriority h vs = Inr (Some (vs ! first_max (prios h vs)))"
  using best_foldl [OF assms(1), of h] assms by (simp add: getValWithMostPriority_def heap_ok_def)

theorem proposer_ties_by_position_witness:
  "getValWithMostPriority [7, 7] [\<lparr>pv_Metadata = sample_validator 4 10, pv_ProposerPriority = 0\<rparr>,
      \<lparr>pv_Metadata = sample_validator 1 10, pv_ProposerPriority = 1\<rparr>] =
     Inr (Some \<lparr>pv_Metadata = sample_validator 4 10, pv_ProposerPriority = 0\<rparr>)"
  using proposer_ties_by_position [of "[\<lparr>pv_Metadata = sample_validator 4 10, pv_ProposerPriority = 0\<rparr>,
      \<lparr>pv_Metadata = sample_validator 1 10, pv_ProposerPriority = 1\<rparr>]" "[7, 7]"]
  by (simp add: heap_ok_def first_max_def)

section \<open>Further facts\<close>

text \<open>A word stored with \<^verbatim>\<open>MSTORE\<close> is the word that \<^verbatim>\<open>MLOAD\<close> reads back at the same offset, and the load costs no
  further memory.\<close>

lemma MStore_then_MLoad:
  assumes "uint256_doc (env_U E)" "mem_ok c" "st_stack c = s @ [v, off]" "opMStore E c = Some c1" "st_err c1 = None"
  shows "\<exists>c2. opMLoad E (push c1 off) = Some c2 \<and> st_stack c2 = s @ [v] \<and> st_gas c2 = st_gas c1 \<and> st_memory c2 = st_memory c1"
  using MStore_MLoad [OF assms] .

lemma MStore_then_MLoad_witness:
  "\<exists>c1 c2. opMStore demo_env (demo_state [42, 0] False) = Some c1 \<and>
     opMLoad demo_env (push c1 0) = Some c2 \<and> st_stack c2 = [42]"
proof -
  have s: "st_stack (demo_state [42, 0] False) = [] @ [42, 0]" by (simp add: demo_state_def)
  have ok: "fst (allocateMemory demo_env (snd (pop (snd (pop (demo_state [42, 0] False))))) 0 32)"
    by (rule demo_alloc) (simp_all add: demo_state_def zeroState_def)
  obtain c1 where "opMStore demo_env (demo_state [42, 0] False) = Some c1" "st_err c1 = None"
    using MStore_eq(1) [OF demo_env_doc demo_mem_ok s] ok allocateMemory_ok(1) [OF demo_env_doc ok]
    by (auto simp: demo_state_def zeroState_def)
  with MStore_then_MLoad [OF demo_env_doc demo_mem_ok s this] show ?thesis by auto
qed

text \<open>Preparing a call never panics and creates no gas: the gas that stays with the caller and the gas of the new frame, stipend
  included, are together less than what the caller had. The new frame is one level deeper.\<close>

lemma buildCallContract_gas:
  assumes "statelib_doc (ex_L P)" "crypto_doc (ex_C P)" "uint256_doc (ex_U P)" "trans_inv P K B (st_host c)" "mem_ok c"
  shows "\<exists>k off sz e c'. buildCallContract op (transEnv P (trans_Callx P callFuel)) c = Some ((k, off, sz, e), c') \<and>
    (\<forall>f. k = Some f \<longrightarrow> unat (st_gas c') + unat (c_Gas f) < unat (st_gas c) \<and> c_Depth f = c_Depth (st_msg c) + 1)"
proof -
  have "transition_libs P" using assms(1-3) by unfold_locales
  note h = transition_libs.message_host [OF this]
  from evm_host.buildCall_total [OF h assms(5,4), of op]
  show ?thesis by (force simp: evm_host.call_post_def [OF h])
qed

lemma buildCallContract_gas_witness:
  "\<exists>k off sz e c'. buildCallContract CALL demo_env (demo_state [0, 0, 0, 0, 0, 1, 100] False) = Some ((k, off, sz, e), c') \<and>
    (case k of None \<Rightarrow> True | Some f \<Rightarrow> unat (st_gas c') + unat (c_Gas f) < 1000 \<and> c_Depth f = Suc 1)"
proof -
  have i: "trans_inv (exec_std demo_accounts) 1000000 demo_transition (st_host (demo_state [0, 0, 0, 0, 0, 1, 100] False))"
    using demo_inv by (simp add: demo_state_def zeroState_def)
  have "st_gas (demo_state [0, 0, 0, 0, 0, 1, 100] False) = 1000" "c_Depth (st_msg (demo_state [0, 0, 0, 0, 0, 1, 100] False)) = 1"
    by (simp_all add: demo_state_def demo_frame_def NewContractCall_def NewContract_def)
  moreover obtain k off sz e c' where "buildCallContract CALL demo_env (demo_state [0, 0, 0, 0, 0, 1, 100] False) = Some ((k, off, sz, e), c')"
    and "\<forall>f. k = Some f \<longrightarrow> unat (st_gas c') + unat (c_Gas f) < unat (st_gas (demo_state [0, 0, 0, 0, 0, 1, 100] False)) \<and>
      c_Depth f = c_Depth (st_msg (demo_state [0, 0, 0, 0, 0, 1, 100] False)) + 1"
    using buildCallContract_gas [OF _ _ _ i demo_mem_ok, of CALL] by (auto simp: demo_env_def)
  ultimately show ?thesis by (cases k) auto
qed

text \<open>Between transactions, self-destructed accounts and, from EIP-158 on, empty ones disappear; every other account is untouched,
  and the refund counter is zero again.\<close>

lemma CleanDelete_removes:
  assumes "statelib_doc L"
  shows "\<exists>txn'. CleanDeleteObjects L txn d = Inr txn' \<and> Txn_GetRefund txn' = 0 \<and>
    (\<forall>b. getStateObject L txn' b =
       (case ir_Get (lib_objs L) (tr_objs (txn_txn txn)) b of
          Some obj \<Rightarrow> if so_Suicide obj \<or> StateObject_Empty obj \<and> d then None else getStateObject L txn b
        | None \<Rightarrow> getStateObject L txn b))"
  using state_library.CleanDelete_spec [OF state_library.intro [OF assms], of txn d] by blast

lemma CleanDelete_removes_witness:
  "\<exists>txn'. CleanDeleteObjects demo_lib demo_txn True = Inr txn' \<and> getStateObject demo_lib txn' (addr_of 0xa) = getStateObject demo_lib demo_txn (addr_of 0xa)"
proof -
  have "ir_Get (lib_objs demo_lib) (tr_objs (txn_txn demo_txn)) b = None" for b
    by (simp add: demo_txn_def newTxn_def demo_lib_def exec_std_def statelib_std_def iradix_std_def)
  then show ?thesis using CleanDelete_removes [OF demo_lib_doc, of demo_txn True] by auto
qed

text \<open>The access list of a message contains exactly the sender, the recipient, the precompiled contracts and the accounts of
  the transaction's own list, with exactly the slots that list names.\<close>

lemma PrepareAccessList_contents:
  "ContainsAddress (PrepareAccessList NewAccessList sender to pre ts) a = (a = sender \<or> to = Some a \<or> a \<in> set pre \<or> a \<in> at_Address ` set ts) \<and>
   snd (Contains (PrepareAccessList NewAccessList sender to pre ts) a s) = (\<exists>t \<in> set ts. at_Address t = a \<and> s \<in> set (at_StorageKeys t))"
  using PrepareAccessList_address [of NewAccessList sender to pre ts a] PrepareAccessList_slot [of NewAccessList sender to pre ts a s]
  by (simp add: ContainsAddress_def Contains_def NewAccessList_def)

text \<open>The journal undoes the additions to the access list: reverting to a revision restores the list exactly, provided that
  every entry after it was new when it was made.\<close>

lemma Journal_undo:
  assumes "fresh_entries es al"
  shows "Journal_Revert (j @ es) (length j) (fold applyEntry es al) = Some (j, al)"
  using Journal_Revert_restores [OF assms] .

lemma Journal_undo_witness:
  "Journal_Revert [AccessListAddAccountChange (addr_of 1), AccessListAddSlotChange (addr_of 1) ZeroHash] 0
     (AddSlot (AddAddress NewAccessList [addr_of 1]) (addr_of 1) [ZeroHash]) = Some ([], NewAccessList)"
  using Journal_undo [of "[AccessListAddAccountChange (addr_of 1), AccessListAddSlotChange (addr_of 1) ZeroHash]" NewAccessList "[]"]
  by (simp add: NewAccessList_def AddAddress_apply)

text \<open>Genesis: the roles written for an address list are those of the configuration, an administrator first.\<close>

lemma Genesis_roles:
  assumes "length a = 20" "\<forall>x \<in> set enabled. length x = 20" "\<forall>x \<in> set admins. length x = 20" "g l = None"
  shows "(case ApplyGenesisAllocs g l enabled admins l of None \<Rightarrow> None | Some acc \<Rightarrow> ga_Storage acc (BytesToHash a)) =
    (if a \<in> set admins then Some AdminRole else if a \<in> set enabled then Some EnabledRole else None)"
  by (rule ApplyGenesisAllocs_roles) fact+

lemma Genesis_roles_witness:
  "(case ApplyGenesisAllocs Map.empty (addr_of 0xff) [addr_of 1] [addr_of 2] (addr_of 0xff) of
      None \<Rightarrow> None | Some acc \<Rightarrow> ga_Storage acc (BytesToHash (addr_of 1))) = Some EnabledRole"
  using Genesis_roles [of "addr_of 1" "[addr_of 1]" "[addr_of 2]" Map.empty "addr_of 0xff"] by simp

text \<open>Signer bitmaps: a bitmap built by setting indices contains exactly those indices.\<close>

lemma Bitmap_is_set:
  assumes "\<forall>i \<in> set is'. unat i < 2 ^ 59"
  shows "Bitmap_IsSet (foldl Bitmap_Set [] is') j \<longleftrightarrow> j \<in> set is'"
  using IsSet_foldl_Set(1) [OF assms] .

lemma Bitmap_is_set_witness: "Bitmap_IsSet (foldl Bitmap_Set [] [3, 17]) 17 \<and> \<not> Bitmap_IsSet (foldl Bitmap_Set [] [3, 17]) 4"
  using Bitmap_is_set [of "[3, 17]" 17] Bitmap_is_set [of "[3, 17]" 4] by simp

text \<open>Gas accounting of a transaction: the gas used and the gas left add up to the gas limit after the refund, and the refund is at
  most the given fraction of what was used.\<close>

lemma UpdateGasUsed_accounts:
  assumes "r_GasLeft r \<le> gasLimit" "0 < q"
  shows "unat (r_GasUsed (UpdateGasUsed r gasLimit refund q)) + unat (r_GasLeft (UpdateGasUsed r gasLimit refund q)) = unat gasLimit \<and>
    unat (gasLimit - r_GasLeft r) - unat (gasLimit - r_GasLeft r) div unat q \<le> unat (r_GasUsed (UpdateGasUsed r gasLimit refund q))"
  using UpdateGasUsed_balance [OF assms] by blast

lemma UpdateGasUsed_accounts_witness:
  "unat (r_GasUsed (UpdateGasUsed (ErrResult 400 ErrOutOfGas) 1000 500 5)) + unat (r_GasLeft (UpdateGasUsed (ErrResult 400 ErrOutOfGas) 1000 500 5)) = 1000"
  using UpdateGasUsed_accounts [of "ErrResult 400 ErrOutOfGas" 1000 5 500] by (simp add: ErrResult_def)

text \<open>Fees: with a base fee, the price a sender pays per unit of gas is the tip of the coinbase plus the base fee, and it is the
  effective price of EIP-1559.\<close>

lemma GasPrice_is_tip_plus_base:
  assumes "b \<noteq> 0" "t = DynamicFeeTx bs (Some tip) (Some cap) c l"
  shows "\<exists>e. EffectiveGasTip t (Some (uint b)) = Some e \<and> e + uint b = GetGasPrice t b \<and> effectiveGasPrice t (Some (uint b)) = Some (GetGasPrice t b)"
proof -
  have "GetGasTipCap t = Some tip" "GetGasFeeCap t = Some cap"
    by (simp_all add: assms(2) GetGasTipCap_def GetGasFeeCap_def Tx_Type_def Tx_GasTipCap_def Tx_GasFeeCap_def)
  from EffectiveGasTip_split [OF assms(1) this] GetGasPrice_effective [OF assms] show ?thesis by blast
qed

lemma GasPrice_is_tip_plus_base_witness:
  "EffectiveGasTip (demo_transfer 0) (Some 7) = Some 3 \<and> GetGasPrice (demo_transfer 0) 7 = 10"
  using GasPrice_is_tip_plus_base [of 7 "demo_transfer 0" _ 3 10, OF _ demo_transfer_def]
  by (auto simp: EffectiveGasTip_def demo_transfer_def GetGasTipCap_def GetGasFeeCap_def Tx_Type_def Tx_GasTipCap_def Tx_GasFeeCap_def BigMin_def)

text \<open>The burn contract of a block is the one whose start block is the latest not after it.\<close>

lemma BurnContract_latest:
  assumes "distinct (map fst bc)" "(s, a0) \<in> set bc" "s \<le> block"
  shows "\<exists>b a. CalculateBurnContract bc block = Inr a \<and> (b, a) \<in> set bc \<and> b \<le> block \<and> (\<forall>(x, y) \<in> set bc. x \<le> block \<longrightarrow> x \<le> b)"
  using CalculateBurnContract_latest [OF assms] .

lemma BurnContract_latest_witness:
  "\<exists>(b :: u64) a. CalculateBurnContract [(0, addr_of 1), (100, addr_of 2)] 150 = Inr a \<and> (b, a) \<in> {(0, addr_of 1), (100, addr_of 2)} \<and> 100 \<le> b"
  using BurnContract_latest [of "[(0, addr_of 1), (100, addr_of 2)]" 0 "addr_of 1" 150] by auto

text \<open>Transaction types survive their encoding as a byte, and no other byte is a type.\<close>

lemma TxType_roundtrip:
  "txTypeFromByte (TxType_byte t) = Some t \<and> (txTypeFromByte b = Some t \<longleftrightarrow> b = TxType_byte t)"
  using txType_roundtrip [of t] txTypeFromByte_inv [of b t] by auto

text \<open>Checked addition of 64-bit numbers reports an overflow exactly when the sum does not fit, and returns the sum otherwise.\<close>

lemma SafeAddUint64_exact:
  "snd (SafeAddUint64 a b) = (2 ^ 64 \<le> unat a + unat b) \<and>
   unat (fst (SafeAddUint64 a b)) = (if 2 ^ 64 \<le> unat a + unat b then 0 else unat a + unat b)"
  using SafeAddUint64_overflow [of a b] SafeAddUint64_ok [of a b "a + b"] by (auto simp: SafeAddUint64_def Let_def split: if_splits)

end
